(* ===== verification/Prelude.thy ===== *)
theory Prelude
  imports Main "HOL-Library.AList"
begin

text \<open>
  Shared vocabulary of the development: the collections the component proofs feed to the
  simplifier, generic facts on lists and options, and the model of Go maps.

  A Go map with string keys is an association list (\<open>'v gomap\<close>). It is observed only
  through lookup, assignment and iteration; the order of iteration, which Go leaves open, is the
  order of the list, so a statement about an arbitrary list covers every order. Reading a missing
  key gives the zero value of the element type (\<open>gget\<close>), as \<open>m[k]\<close> does in Go.
\<close>

named_theorems tag_simps \<open>reading and writing tags of an event\<close>
named_theorems frame_intros \<open>operations that keep the evidential fields of an event\<close>
named_theorems eval_simps \<open>unfolding rules that evaluate closed terms\<close>

section \<open>Lists and options\<close>

lemma bind_Some_iff: "Option.bind x f = Some y \<longleftrightarrow> (\<exists>z. x = Some z \<and> f z = Some y)"
  by (cases x) auto

lemma find_Some_split:
  assumes "find P xs = Some x"
  obtains ys zs where "xs = ys @ x # zs" and "P x" and "\<forall>y \<in> set ys. \<not> P y"
  using assms
proof (induction xs arbitrary: thesis)
  case Nil
  then show ?case by simp
next
  case (Cons a xs)
  show ?case
  proof (cases "P a")
    case True
    with Cons.prems(2) have "x = a" by simp
    with True Cons.prems(1) [of "[]" xs] show ?thesis by simp
  next
    case False
    with Cons.prems(2) have "find P xs = Some x" by simp
    then obtain ys zs where "xs = ys @ x # zs" "P x" "\<forall>y \<in> set ys. \<not> P y"
      using Cons.IH by blast
    with False Cons.prems(1) [of "a # ys" zs] show ?thesis by simp
  qed
qed

lemma find_append: "find P (xs @ ys) = (case find P xs of None \<Rightarrow> find P ys | Some x \<Rightarrow> Some x)"
  by (induction xs) auto

text \<open>The last \<open>n\<close> elements of a list: what a bounded sliding buffer retains.\<close>

definition take_last :: "nat \<Rightarrow> 'a list \<Rightarrow> 'a list" where
  "take_last n xs = drop (length xs - n) xs"

lemma length_take_last [simp]: "length (take_last n xs) = min n (length xs)"
  by (simp add: take_last_def)

lemma take_last_snoc:
  "take_last n (xs @ [x]) = (let ys = take_last n xs @ [x] in if n < length ys then tl ys else ys)"
proof (cases "n \<le> length xs")
  case True
  then show ?thesis
    by (cases n) (auto simp: take_last_def Let_def Suc_diff_le Suc_diff_Suc tl_drop
        simp flip: drop_Suc)
next
  case False
  then show ?thesis by (simp add: take_last_def Let_def)
qed

text \<open>Filtering with an optional result.\<close>

lemma map_filter_Cons:
  "List.map_filter f (x # xs) =
     (case f x of None \<Rightarrow> List.map_filter f xs | Some y \<Rightarrow> y # List.map_filter f xs)"
  by (simp add: List.map_filter_simps split: option.split)

lemma map_filter_fixed: "(\<forall>x \<in> set xs. f x = Some x) \<Longrightarrow> List.map_filter f xs = xs"
  by (induction xs) (auto simp: List.map_filter_simps)

lemma set_map_filter: "set (List.map_filter f xs) = {y. \<exists>x \<in> set xs. f x = Some y}"
  by (induction xs) (auto simp: List.map_filter_simps split: option.splits)

lemma map_filter_append: "List.map_filter f (xs @ ys) = List.map_filter f xs @ List.map_filter f ys"
  by (induction xs) (auto simp: List.map_filter_simps split: option.splits)

section \<open>Go maps\<close>

type_synonym 'v gomap = "(string \<times> 'v) list"

definition gget :: "'v \<Rightarrow> 'v gomap \<Rightarrow> string \<Rightarrow> 'v" where
  "gget zero m k = (case map_of m k of None \<Rightarrow> zero | Some v \<Rightarrow> v)"

definition gput :: "string \<Rightarrow> 'v \<Rightarrow> 'v gomap \<Rightarrow> 'v gomap" where
  "gput k v m = AList.update k v m"

definition gdelete :: "string \<Rightarrow> 'v gomap \<Rightarrow> 'v gomap" where
  "gdelete k m = filter (\<lambda>(j, _). j \<noteq> k) m"

definition gmap_ok :: "'v gomap \<Rightarrow> bool" where
  "gmap_ok m \<longleftrightarrow> distinct (map fst m)"

lemma map_of_gput [simp, tag_simps]: "map_of (gput k v m) = (map_of m)(k \<mapsto> v)"
  by (simp add: gput_def update_conv')

lemma gget_gput [simp, tag_simps]: "gget z (gput k v m) j = (if j = k then v else gget z m j)"
  by (simp add: gget_def)

lemma gget_Nil [simp, tag_simps]: "gget z [] k = z"
  by (simp add: gget_def)

lemma gget_Cons [eval_simps]: "gget z ((j, v) # m) k = (if k = j then v else gget z m k)"
  by (simp add: gget_def)

lemma gput_Nil [eval_simps]: "gput k v [] = [(k, v)]"
  by (simp add: gput_def)

lemma gput_Cons [eval_simps]:
  "gput k v ((j, w) # m) = (if j = k then (k, v) # m else (j, w) # gput k v m)"
  by (simp add: gput_def)

lemma gput_not_Nil [simp]: "gput k v m \<noteq> []"
  by (cases m) (auto simp: gput_def)

lemma fst_set_gput: "fst ` set (gput k v m) = insert k (fst ` set m)"
  by (simp add: gput_def dom_update [symmetric] dom_map_of_conv_image_fst [symmetric]
      update_conv')

lemma gmap_ok_gput [simp, intro]: "gmap_ok m \<Longrightarrow> gmap_ok (gput k v m)"
  by (simp add: gmap_ok_def gput_def distinct_update)

lemma map_of_fold_gput: "map_of (fold (\<lambda>(k, v). gput k v) xs m) = map_of m ++ map_of (rev xs)"
  by (induction xs arbitrary: m) (auto simp: map_add_def fun_eq_iff split: option.splits)

lemma gmap_ok_fold_gput: "gmap_ok m \<Longrightarrow> gmap_ok (fold (\<lambda>(k, v). gput k v) xs m)"
  by (induction xs arbitrary: m) auto

lemma gmap_ok_Nil [simp, intro]: "gmap_ok []"
  by (simp add: gmap_ok_def)

lemma gmap_ok_gdelete [simp, intro]: "gmap_ok m \<Longrightarrow> gmap_ok (gdelete k m)"
  by (induction m) (auto simp: gmap_ok_def gdelete_def)

lemma map_of_gdelete [simp]: "map_of (gdelete k m) j = (if j = k then None else map_of m j)"
  by (induction m) (auto simp: gdelete_def)

text \<open>
  What a client of a Go map relies on, as an interface: assignment and deletion change the
  lookup of their key only. The components use it through the interpretation \<open>go\<close> below.
\<close>

locale map_store =
  fixes lookup :: "'m \<Rightarrow> string \<Rightarrow> 'v option"
    and put :: "string \<Rightarrow> 'v \<Rightarrow> 'm \<Rightarrow> 'm"
    and delete :: "string \<Rightarrow> 'm \<Rightarrow> 'm"
  assumes lookup_put: "lookup (put k v m) j = (if j = k then Some v else lookup m j)"
    and lookup_delete: "lookup (delete k m) j = (if j = k then None else lookup m j)"
begin

lemma put_other: "j \<noteq> k \<Longrightarrow> lookup (put k v m) j = lookup m j"
  by (simp add: lookup_put)

lemma put_put: "lookup (put k v (put k w m)) = lookup (put k v m)"
  by (rule ext) (simp add: lookup_put)

lemma put_delete: "lookup m k = None \<Longrightarrow> lookup (delete k (put k v m)) = lookup m"
  by (rule ext) (simp add: lookup_put lookup_delete)

text \<open>A fold of assignments is determined, at each key, by the last assignment to that key.\<close>

lemma lookup_fold_put:
  "lookup (fold (\<lambda>(k, v). put k v) kvs m) j =
     (case map_of (rev kvs) j of None \<Rightarrow> lookup m j | Some v \<Rightarrow> Some v)"
  by (induction kvs arbitrary: m)
    (auto simp: lookup_put map_add_def split: option.splits prod.splits)

end

interpretation go: map_store map_of gput gdelete
  by unfold_locales auto

end
