(* ===== verification/Go_Strings.thy ===== *)
theory Go_Strings
  imports Prelude
begin

text \<open>
  The functions of Go's packages \<open>strings\<close> and \<open>strconv\<close> that the collector calls, on byte
  strings (\<open>string\<close> is a list of 8-bit characters). Letter case, case folding and white space
  are those of ASCII, on which the Go functions and these agree; bytes of 128 and above are left
  as they are. A Go index of -1 is \<open>None\<close>.
\<close>

section \<open>Letter case\<close>

fun lower_char :: "char \<Rightarrow> char" where
  "lower_char (Char b0 b1 b2 b3 b4 b5 b6 b7) =
     Char b0 b1 b2 b3 b4
       (b5 \<or> (\<not> b7 \<and> b6 \<and> (b0 \<or> b1 \<or> b2 \<or> b3 \<or> b4) \<and> \<not> (b4 \<and> b3 \<and> (b2 \<or> (b1 \<and> b0))))) b6 b7"

fun upper_char :: "char \<Rightarrow> char" where
  "upper_char (Char b0 b1 b2 b3 b4 b5 b6 b7) =
     Char b0 b1 b2 b3 b4
       (b5 \<and> \<not> (\<not> b7 \<and> b6 \<and> (b0 \<or> b1 \<or> b2 \<or> b3 \<or> b4) \<and> \<not> (b4 \<and> b3 \<and> (b2 \<or> (b1 \<and> b0))))) b6 b7"

definition ToLower :: "string \<Rightarrow> string" where
  "ToLower s = map lower_char s"

definition ToUpper :: "string \<Rightarrow> string" where
  "ToUpper s = map upper_char s"

definition EqualFold :: "string \<Rightarrow> string \<Rightarrow> bool" where
  "EqualFold s t \<longleftrightarrow> ToLower s = ToLower t"

lemma lower_char_idem [simp]: "lower_char (lower_char c) = lower_char c"
  by (cases c) auto

lemma lower_upper_char [simp]: "lower_char (upper_char c) = lower_char c"
  by (cases c) auto

lemma upper_lower_char [simp]: "upper_char (lower_char c) = upper_char c"
  by (cases c) auto

lemma upper_char_idem [simp]: "upper_char (upper_char c) = upper_char c"
  by (cases c) auto

lemma ToLower_idem [simp]: "ToLower (ToLower s) = ToLower s"
  by (simp add: ToLower_def)

lemma ToLower_Nil [simp]: "ToLower [] = []"
  by (simp add: ToLower_def)

lemma ToLower_Cons [eval_simps]: "ToLower (c # s) = lower_char c # ToLower s"
  by (simp add: ToLower_def)

lemma ToUpper_Nil [simp]: "ToUpper [] = []"
  by (simp add: ToUpper_def)

lemma ToUpper_Cons [eval_simps]: "ToUpper (c # s) = upper_char c # ToUpper s"
  by (simp add: ToUpper_def)

lemma ToLower_append [simp]: "ToLower (s @ t) = ToLower s @ ToLower t"
  by (simp add: ToLower_def)

lemma ToUpper_append [simp]: "ToUpper (s @ t) = ToUpper s @ ToUpper t"
  by (simp add: ToUpper_def)

lemma ToLower_eq_Nil [simp]: "ToLower s = [] \<longleftrightarrow> s = []"
  by (simp add: ToLower_def)

lemma length_ToLower [simp]: "length (ToLower s) = length s"
  by (simp add: ToLower_def)

lemma EqualFold_refl [simp]: "EqualFold s s"
  by (simp add: EqualFold_def)

text \<open>
  The bit-level definition of the letter case is the usual one: the upper case letters are the
  codes 65 to 90, and their lower case counterparts are 32 above.
\<close>

definition is_upper :: "char \<Rightarrow> bool" where
  "is_upper c \<longleftrightarrow> 65 \<le> (of_char c :: nat) \<and> (of_char c :: nat) \<le> 90"

lemma is_upper_bits [code]:
  "is_upper (Char b0 b1 b2 b3 b4 b5 b6 b7) \<longleftrightarrow>
     \<not> b7 \<and> b6 \<and> \<not> b5 \<and> (b0 \<or> b1 \<or> b2 \<or> b3 \<or> b4) \<and> \<not> (b4 \<and> b3 \<and> (b2 \<or> (b1 \<and> b0)))"
  by (auto simp: is_upper_def of_char_def)

lemma of_char_lower_char:
  "(of_char (lower_char c) :: nat) = (if is_upper c then of_char c + 32 else of_char c)"
  by (cases c) (auto simp: is_upper_def of_char_def)

lemma lower_char_not_upper: "\<not> is_upper (lower_char c)"
  by (cases c) (auto simp: is_upper_def of_char_def)

section \<open>White space and trimming\<close>

definition is_space :: "char \<Rightarrow> bool" where
  "is_space c \<longleftrightarrow> c = CHR '' '' \<or> c = CHR 0x09 \<or> c = CHR 0x0A \<or> c = CHR 0x0B \<or> c = CHR 0x0C \<or> c = CHR 0x0D"

definition trim_with :: "(char \<Rightarrow> bool) \<Rightarrow> string \<Rightarrow> string" where
  "trim_with P s = rev (dropWhile P (rev (dropWhile P s)))"

definition TrimSpace :: "string \<Rightarrow> string" where
  "TrimSpace s = trim_with is_space s"

definition Trim :: "string \<Rightarrow> string \<Rightarrow> string" where
  "Trim s cutset = trim_with (\<lambda>c. List.member cutset c) s"

lemma dropWhile_trim_with: "\<exists>zs. dropWhile P s = trim_with P s @ zs"
proof -
  let ?t = "dropWhile P s"
  have "?t = rev (takeWhile P (rev ?t) @ dropWhile P (rev ?t))" by simp
  then have "?t = trim_with P s @ rev (takeWhile P (rev ?t))"
    by (simp only: rev_append trim_with_def)
  then show ?thesis by blast
qed

lemma hd_trim_with:
  assumes ne: "trim_with P s \<noteq> []" shows "\<not> P (hd (trim_with P s))"
proof -
  obtain zs where zs: "dropWhile P s = trim_with P s @ zs" using dropWhile_trim_with by blast
  have "hd (dropWhile P s) = hd (trim_with P s)" by (simp only: zs hd_append2 [OF ne])
  moreover have "dropWhile P s \<noteq> []" by (simp only: zs append_is_Nil_conv ne simp_thms)
  ultimately show ?thesis using hd_dropWhile by metis
qed

lemma last_trim_with: "trim_with P s \<noteq> [] \<Longrightarrow> \<not> P (last (trim_with P s))"
  unfolding trim_with_def by (simp add: last_rev hd_dropWhile)

lemma trim_with_id: "s = [] \<or> (\<not> P (hd s) \<and> \<not> P (last s)) \<Longrightarrow> trim_with P s = s"
proof -
  assume a: "s = [] \<or> (\<not> P (hd s) \<and> \<not> P (last s))"
  have l: "dropWhile P s = s" using a by (cases s) auto
  have r: "dropWhile P (rev s) = rev s" using a by (cases s rule: rev_cases) auto
  show ?thesis by (simp add: trim_with_def l r)
qed

lemma trim_with_idem [simp]: "trim_with P (trim_with P s) = trim_with P s"
  using hd_trim_with last_trim_with by (intro trim_with_id) blast

lemma TrimSpace_idem [simp]: "TrimSpace (TrimSpace s) = TrimSpace s"
  by (simp add: TrimSpace_def)

lemma TrimSpace_Nil [simp]: "TrimSpace [] = []"
  by (simp add: TrimSpace_def trim_with_def)

lemma dropWhile_map_same:
  assumes "\<And>x. P (f x) = P x" shows "dropWhile P (map f xs) = map f (dropWhile P xs)"
  using assms by (induction xs) auto

lemma is_space_lower_char [simp]: "is_space (lower_char c) = is_space c"
  by (cases c) (auto simp: is_space_def)

lemma TrimSpace_ToLower: "TrimSpace (ToLower s) = ToLower (TrimSpace s)"
  by (simp add: TrimSpace_def trim_with_def ToLower_def dropWhile_map_same rev_map)

section \<open>Searching and replacing\<close>

fun HasPrefix :: "string \<Rightarrow> string \<Rightarrow> bool" where
  "HasPrefix s [] = True"
| "HasPrefix [] (p # ps) = False"
| "HasPrefix (c # s) (p # ps) = (c = p \<and> HasPrefix s ps)"

fun Contains :: "string \<Rightarrow> string \<Rightarrow> bool" where
  "Contains [] sub = (sub = [])"
| "Contains (c # s) sub = (HasPrefix (c # s) sub \<or> Contains s sub)"

fun Index :: "string \<Rightarrow> string \<Rightarrow> nat option" where
  "Index [] sub = (if sub = [] then Some 0 else None)"
| "Index (c # s) sub = (if HasPrefix (c # s) sub then Some 0 else map_option Suc (Index s sub))"

fun LastIndex :: "string \<Rightarrow> string \<Rightarrow> nat option" where
  "LastIndex [] sub = (if sub = [] then Some 0 else None)"
| "LastIndex (c # s) sub =
     (case LastIndex s sub of Some i \<Rightarrow> Some (Suc i)
      | None \<Rightarrow> if HasPrefix (c # s) sub then Some 0 else None)"

definition TrimPrefix :: "string \<Rightarrow> string \<Rightarrow> string" where
  "TrimPrefix s p = (if HasPrefix s p then drop (length p) s else s)"

text \<open>\<open>ReplaceAll\<close> with a non-empty old string, the only use the collector makes of it.\<close>

function ReplaceAll :: "string \<Rightarrow> string \<Rightarrow> string \<Rightarrow> string" where
  "ReplaceAll [] old new = []"
| "ReplaceAll (c # s) old new =
     (if HasPrefix (c # s) old \<and> old \<noteq> [] then new @ ReplaceAll (drop (length old) (c # s)) old new
      else c # ReplaceAll s old new)"
  by pat_completeness auto
termination
  by (relation "measure (\<lambda>(s, old, new). length s)") (auto simp: length_greater_0_conv [symmetric] simp del: length_greater_0_conv)

fun Join :: "string list \<Rightarrow> string \<Rightarrow> string" where
  "Join [] sep = []"
| "Join [x] sep = x"
| "Join (x # y # zs) sep = x @ sep @ Join (y # zs) sep"

text \<open>Joining is injective in a first component that does not contain the separator.\<close>

lemma append_sep_eq:
  "c \<notin> set xs \<Longrightarrow> c \<notin> set ys \<Longrightarrow> xs @ c # us = ys @ c # vs \<longleftrightarrow> xs = ys \<and> us = vs"
proof (induction xs arbitrary: ys)
  case Nil
  then show ?case by (cases ys) auto
next
  case (Cons x xs)
  then show ?case by (cases ys) auto
qed

lemma HasPrefix_append [simp]: "HasPrefix (p @ s) p"
  by (induction p) auto

lemma HasPrefix_iff: "HasPrefix s p \<longleftrightarrow> (\<exists>t. s = p @ t)"
  by (induction s p rule: HasPrefix.induct) auto

lemma Contains_iff: "Contains s sub \<longleftrightarrow> (\<exists>u v. s = u @ sub @ v)"
proof (induction s)
  case Nil
  then show ?case by auto
next
  case (Cons c s)
  show ?case
  proof
    assume "Contains (c # s) sub"
    then consider "HasPrefix (c # s) sub" | "Contains s sub" by auto
    then show "\<exists>u v. c # s = u @ sub @ v"
    proof cases
      case 1
      then obtain t where "c # s = [] @ sub @ t" by (auto simp: HasPrefix_iff)
      then show ?thesis by blast
    next
      case 2
      then obtain u v where "s = u @ sub @ v" using Cons.IH by blast
      then have "c # s = (c # u) @ sub @ v" by simp
      then show ?thesis by blast
    qed
  next
    assume "\<exists>u v. c # s = u @ sub @ v"
    then obtain u v where uv: "c # s = u @ sub @ v" by blast
    show "Contains (c # s) sub"
    proof (cases u)
      case Nil
      with uv have "HasPrefix (c # s) sub" by (auto simp: HasPrefix_iff)
      then show ?thesis by simp
    next
      case (Cons d u')
      with uv have "s = u' @ sub @ v" by simp
      then show ?thesis using Cons.IH by auto
    qed
  qed
qed

lemma Contains_Nil_right [simp]: "Contains s []"
  by (cases s) auto

lemma Contains_append: "Contains s sub \<Longrightarrow> Contains (u @ s @ v) sub"
  by (auto simp: Contains_iff) (metis append.assoc)

lemma Contains_trans: "Contains s t \<Longrightarrow> Contains t u \<Longrightarrow> Contains s u"
  by (auto simp: Contains_iff) (metis append.assoc)

lemma Contains_length: "Contains s sub \<Longrightarrow> length sub \<le> length s"
  by (auto simp: Contains_iff)

lemma Contains_mem: "Contains s sub \<Longrightarrow> c \<in> set sub \<Longrightarrow> c \<in> set s"
  by (auto simp: Contains_iff)

lemma Index_Some_iff: "Index s sub \<noteq> None \<longleftrightarrow> Contains s sub"
  by (induction s) (auto split: if_splits)

lemma Index_Some_split: "Index s sub = Some i \<Longrightarrow> take (length sub) (drop i s) = sub \<and> i \<le> length s"
  by (induction s arbitrary: i) (auto simp: HasPrefix_iff split: if_splits)

lemma ReplaceAll_char:
  "ReplaceAll s [a] [b] = map (\<lambda>c. if c = a then b else c) s"
  by (induction s) auto

definition containsAny :: "string \<Rightarrow> string list \<Rightarrow> bool" where
  "containsAny s needles = list_ex (Contains s) needles"

section \<open>Numbers\<close>

definition isDigit :: "char \<Rightarrow> bool" where
  "isDigit b \<longleftrightarrow> CHR ''0'' = b \<or> CHR ''1'' = b \<or> CHR ''2'' = b \<or> CHR ''3'' = b \<or> CHR ''4'' = b \<or>
     CHR ''5'' = b \<or> CHR ''6'' = b \<or> CHR ''7'' = b \<or> CHR ''8'' = b \<or> CHR ''9'' = b"

definition digit_val :: "char \<Rightarrow> nat" where
  "digit_val c = of_char c - 48"

fun digits_val :: "nat \<Rightarrow> string \<Rightarrow> nat" where
  "digits_val acc [] = acc"
| "digits_val acc (c # cs) = digits_val (10 * acc + digit_val c) cs"

text \<open>\<open>strconv.Atoi\<close>: an optional sign and decimal digits, in the range of a 64-bit int.\<close>

definition Atoi :: "string \<Rightarrow> int option" where
  "Atoi s =
     (let neg = (case s of c # _ \<Rightarrow> c = CHR ''-'' | [] \<Rightarrow> False);
          ds = (case s of c # t \<Rightarrow> if c = CHR ''-'' \<or> c = CHR ''+'' then t else s | [] \<Rightarrow> []);
          v = (if neg then - int (digits_val 0 ds) else int (digits_val 0 ds))
      in if ds = [] \<or> \<not> list_all isDigit ds then None
         else if v < - (2 ^ 63) \<or> 2 ^ 63 \<le> v then None else Some v)"

fun Itoa :: "nat \<Rightarrow> string" where
  "Itoa n = (if n < 10 then [char_of (48 + n)] else Itoa (n div 10) @ [char_of (48 + n mod 10)])"

declare Itoa.simps [simp del]

lemma isDigit_iff: "isDigit c \<longleftrightarrow> 48 \<le> (of_char c :: nat) \<and> (of_char c :: nat) \<le> 57"
  by (cases c) (auto simp: isDigit_def of_char_def)

lemma digits_val_append: "digits_val acc (xs @ ys) = digits_val (digits_val acc xs) ys"
  by (induction xs arbitrary: acc) auto

lemma digits_val_less:
  "list_all isDigit cs \<Longrightarrow> digits_val acc cs < (acc + 1) * 10 ^ length cs"
proof (induction cs arbitrary: acc)
  case Nil
  then show ?case by simp
next
  case (Cons c cs)
  then have d: "digit_val c \<le> 9" by (auto simp: isDigit_iff digit_val_def)
  from Cons have "digits_val (10 * acc + digit_val c) cs < (10 * acc + digit_val c + 1) * 10 ^ length cs"
    by simp
  also have "\<dots> \<le> (10 * (acc + 1)) * 10 ^ length cs" using d by (intro mult_right_mono) auto
  finally show ?case by (simp add: algebra_simps)
qed

lemma digit_char:
  assumes "d < 10"
  shows "isDigit (char_of (48 + d))" and "digit_val (char_of (48 + d)) = d"
proof -
  have "(of_char (char_of (48 + d) :: char) :: nat) = 48 + d" using assms by simp
  then show "isDigit (char_of (48 + d))" and "digit_val (char_of (48 + d)) = d"
    using assms by (auto simp: isDigit_iff digit_val_def)
qed

lemma Itoa_digits: "list_all isDigit (Itoa n) \<and> Itoa n \<noteq> [] \<and> digits_val 0 (Itoa n) = n"
proof (induction n rule: Itoa.induct)
  case (1 n)
  show ?case
  proof (cases "n < 10")
    case True
    then show ?thesis by (subst Itoa.simps, subst Itoa.simps, subst Itoa.simps) (simp add: digit_char)
  next
    case False
    then show ?thesis using 1
      by (simp add: Itoa.simps [of n] digits_val_append digit_char)
  qed
qed

end
