(* ===== verification/Event.thy ===== *)
theory Event
  imports Go_Strings
begin

text \<open>
  The event of the collector (\<open>internal/event/model.go\<close>). \<open>Tags\<close> is a Go map that may be
  nil: \<open>None\<close> is the nil map, which reads as empty and panics on a write. An operation that writes
  tags therefore returns an option, and \<open>None\<close> is the panic. Identifiers come from
  \<open>crypto/rand\<close>; the operations take the fresh identifier as an argument.
\<close>

record event =
  ID :: string
  Timestamp :: string
  ReceivedAt :: string
  Zone :: string
  SourceType :: string
  AssetName :: string
  AssetIP :: string
  Severity :: string
  Protocol :: string
  EventCategory :: string
  Message :: string
  Raw :: string
  Tags :: "string gomap option"

definition zero_event :: event where
  "zero_event = \<lparr>ID = '''', Timestamp = '''', ReceivedAt = '''', Zone = '''', SourceType = '''',
     AssetName = '''', AssetIP = '''', Severity = '''', Protocol = '''', EventCategory = '''',
     Message = '''', Raw = '''', Tags = None\<rparr>"

text \<open>\<open>evt.Tags[k]\<close> as an expression: the empty string for a missing key or a nil map.\<close>

definition tag :: "event \<Rightarrow> string \<Rightarrow> string" where
  "tag e k = (case Tags e of None \<Rightarrow> '''' | Some m \<Rightarrow> gget '''' m k)"

text \<open>The comma-ok form \<open>v, ok := evt.Tags[k]\<close>.\<close>

definition tag_lookup :: "event \<Rightarrow> string \<Rightarrow> string option" where
  "tag_lookup e k = (case Tags e of None \<Rightarrow> None | Some m \<Rightarrow> map_of m k)"

text \<open>\<open>evt.Tags[k] = v\<close>: a panic on a nil map.\<close>

definition put_tag :: "string \<Rightarrow> string \<Rightarrow> event \<Rightarrow> event option" where
  "put_tag k v e = (case Tags e of None \<Rightarrow> None | Some m \<Rightarrow> Some (e\<lparr>Tags := Some (gput k v m)\<rparr>))"

lemma put_tag_Some [simp, tag_simps]:
  "Tags e = Some m \<Longrightarrow> put_tag k v e = Some (e\<lparr>Tags := Some (gput k v m)\<rparr>)"
  by (simp add: put_tag_def)

lemma put_tag_None [simp, tag_simps]: "Tags e = None \<Longrightarrow> put_tag k v e = None"
  by (simp add: put_tag_def)

lemma tag_Some [tag_simps]: "Tags e = Some m \<Longrightarrow> tag e k = gget '''' m k"
  by (simp add: tag_def)

lemma tag_lookup_tag: "tag_lookup e k = Some v \<Longrightarrow> tag e k = v"
  by (auto simp: tag_lookup_def tag_def gget_def split: option.splits)

lemma put_tag_eq_Some:
  "put_tag k v e = Some e' \<longleftrightarrow> (\<exists>m. Tags e = Some m \<and> e' = e\<lparr>Tags := Some (gput k v m)\<rparr>)"
  by (auto simp: put_tag_def split: option.splits)

section \<open>Evidence\<close>

text \<open>
  The fields that identify an event and its raw evidence. \<open>same_evidence e e'\<close> says that an
  operation left them alone. \<open>keeps K e r\<close> lifts it to operations that may panic: the operation
  returns, with its tags allocated, the evidence and the source type are those of the argument, and
  so is every tag whose key is not in \<open>K\<close>.
\<close>

definition same_evidence :: "event \<Rightarrow> event \<Rightarrow> bool" where
  "same_evidence e e' \<longleftrightarrow>
     ID e' = ID e \<and> Timestamp e' = Timestamp e \<and> ReceivedAt e' = ReceivedAt e \<and>
     Zone e' = Zone e \<and> Protocol e' = Protocol e \<and> Raw e' = Raw e"

definition same_except :: "string set \<Rightarrow> event \<Rightarrow> event \<Rightarrow> bool" where
  "same_except K e e' \<longleftrightarrow> Tags e' \<noteq> None \<and> same_evidence e e' \<and> SourceType e' = SourceType e \<and>
     tag_lookup e' |` (- K) = tag_lookup e |` (- K)"

definition keeps :: "string set \<Rightarrow> event \<Rightarrow> event option \<Rightarrow> bool" where
  "keeps K e r \<longleftrightarrow> (\<exists>e'. r = Some e' \<and> same_except K e e')"

lemma same_evidence_refl [simp, intro]: "same_evidence e e"
  by (simp add: same_evidence_def)

lemma same_evidence_trans: "same_evidence a b \<Longrightarrow> same_evidence b c \<Longrightarrow> same_evidence a c"
  by (simp add: same_evidence_def)

lemma same_evidence_updates [simp]:
  "same_evidence e (e'\<lparr>SourceType := x\<rparr>) = same_evidence e e'"
  "same_evidence e (e'\<lparr>AssetName := x\<rparr>) = same_evidence e e'"
  "same_evidence e (e'\<lparr>AssetIP := x\<rparr>) = same_evidence e e'"
  "same_evidence e (e'\<lparr>Severity := x\<rparr>) = same_evidence e e'"
  "same_evidence e (e'\<lparr>EventCategory := x\<rparr>) = same_evidence e e'"
  "same_evidence e (e'\<lparr>Message := x\<rparr>) = same_evidence e e'"
  "same_evidence e (e'\<lparr>Tags := t\<rparr>) = same_evidence e e'"
  by (simp_all add: same_evidence_def)

lemma tag_lookup_updates [simp]:
  "tag_lookup (e\<lparr>ID := x\<rparr>) = tag_lookup e"
  "tag_lookup (e\<lparr>SourceType := x\<rparr>) = tag_lookup e"
  "tag_lookup (e\<lparr>AssetName := x\<rparr>) = tag_lookup e"
  "tag_lookup (e\<lparr>AssetIP := x\<rparr>) = tag_lookup e"
  "tag_lookup (e\<lparr>Severity := x\<rparr>) = tag_lookup e"
  "tag_lookup (e\<lparr>EventCategory := x\<rparr>) = tag_lookup e"
  "tag_lookup (e\<lparr>Message := x\<rparr>) = tag_lookup e"
  by (simp_all add: tag_lookup_def fun_eq_iff)

lemma same_except_updates [simp]:
  "same_except K e (e'\<lparr>AssetName := x\<rparr>) = same_except K e e'"
  "same_except K e (e'\<lparr>AssetIP := x\<rparr>) = same_except K e e'"
  "same_except K e (e'\<lparr>Severity := x\<rparr>) = same_except K e e'"
  "same_except K e (e'\<lparr>EventCategory := x\<rparr>) = same_except K e e'"
  "same_except K e (e'\<lparr>Message := x\<rparr>) = same_except K e e'"
  by (simp_all add: same_except_def)

lemma tag_lookup_put: "Tags e = Some m \<Longrightarrow> tag_lookup (e\<lparr>Tags := Some (gput k v m)\<rparr>) = (tag_lookup e)(k \<mapsto> v)"
  by (simp add: tag_lookup_def fun_eq_iff)

lemma same_except_refl: "Tags e \<noteq> None \<Longrightarrow> same_except K e e"
  by (simp add: same_except_def)

lemma same_except_trans: "same_except K a b \<Longrightarrow> same_except K b c \<Longrightarrow> same_except K a c"
  by (auto simp: same_except_def intro: same_evidence_trans)

lemma keeps_Some [frame_intros]: "same_except K e e' \<Longrightarrow> keeps K e (Some e')"
  by (simp add: keeps_def)

lemma keeps_if [frame_intros]: "(b \<Longrightarrow> keeps K e r) \<Longrightarrow> (\<not> b \<Longrightarrow> keeps K e s) \<Longrightarrow> keeps K e (if b then r else s)"
  by simp

lemma keeps_bind [frame_intros]:
  assumes "keeps K e r" and "\<And>e'. same_except K e e' \<Longrightarrow> keeps K e (f e')"
  shows "keeps K e (Option.bind r f)"
  using assms by (auto simp: keeps_def)

lemma keeps_map_option [frame_intros]:
  assumes "keeps K e r" and "\<And>e'. same_except K e e' \<Longrightarrow> same_except K e (f e')"
  shows "keeps K e (map_option f r)"
  using assms by (auto simp: keeps_def)

lemma keeps_trans: "keeps K e' r \<Longrightarrow> same_except K e e' \<Longrightarrow> keeps K e r"
  by (auto simp: keeps_def intro: same_except_trans)

lemma keeps_put_tag [frame_intros]: "same_except K e e' \<Longrightarrow> k \<in> K \<Longrightarrow> keeps K e (put_tag k v e')"
  by (auto simp: keeps_def same_except_def put_tag_eq_Some tag_lookup_put)

end
