(* ===== verification/Config_Store.thy ===== *)
theory Config_Store
  imports Event
begin

text \<open>
  What the stores of \<open>internal/config\<close> share: a value held in memory under a lock and written to
  a JSON file after every change. The file system is an input: each operation takes the outcome of
  its \<open>os.WriteFile\<close> (\<open>WriteFailed msg d\<close>: the error and what the file holds afterwards),
  and loading takes the outcome of the read and of \<open>json.Unmarshal\<close>. A store is its memory and
  the decoded contents of its file, \<open>None\<close> when the file is absent or does not decode;
  \<open>Config_Json\<close> says which bytes stand for them.
\<close>

record 'a store =
  st_data :: 'a
  st_disk :: "'a option"

datatype 'a write_result = Written | WriteFailed string "'a option"

datatype 'a file_read =
    FileNotExist
  | FileReadError string
  | FileEmpty
  | FileBadJSON string
  | FileDecoded 'a

definition persist :: "'a store \<Rightarrow> 'a write_result \<Rightarrow> 'a store \<times> string option" where
  "persist s w =
     (case w of
        Written \<Rightarrow> (s\<lparr>st_disk := Some (st_data s)\<rparr>, None)
      | WriteFailed e d \<Rightarrow> (s\<lparr>st_disk := d\<rparr>, Some e))"

lemma persist_data [simp]: "st_data (fst (persist s w)) = st_data s"
  by (simp add: persist_def split: write_result.splits)

lemma persist_ok: "snd (persist s w) = None \<Longrightarrow> st_disk (fst (persist s w)) = Some (st_data s)"
  by (auto simp: persist_def split: write_result.splits)

text \<open>The loop of \<open>Upsert\<close>: overwrite the first element with the identifier, if there is one.\<close>

fun replace_first :: "('a \<Rightarrow> bool) \<Rightarrow> 'a \<Rightarrow> 'a list \<Rightarrow> 'a list option" where
  "replace_first P y [] = None"
| "replace_first P y (x # xs) = (if P x then Some (y # xs) else map_option (Cons x) (replace_first P y xs))"

lemma replace_first_None: "replace_first P y xs = None \<longleftrightarrow> find P xs = None"
  by (induction xs) auto

lemma replace_first_find:
  "replace_first P y xs = Some zs \<Longrightarrow> (\<And>x. Q x \<Longrightarrow> \<not> P x) \<Longrightarrow> \<not> Q y \<Longrightarrow> find Q zs = find Q xs"
  by (induction xs arbitrary: zs) (auto split: if_splits)

lemma replace_first_find_same:
  "replace_first P y xs = Some zs \<Longrightarrow> P y \<Longrightarrow> find P zs = Some y"
  by (induction xs arbitrary: zs) (auto split: if_splits)

lemma replace_first_set: "replace_first P y xs = Some zs \<Longrightarrow> set zs \<subseteq> insert y (set xs)"
  by (induction xs arbitrary: zs) (auto split: if_splits)

lemma replace_first_map:
  "replace_first P y xs = Some zs \<Longrightarrow> (\<And>x. P x \<Longrightarrow> f x = f y) \<Longrightarrow> map f zs = map f xs"
  by (induction xs arbitrary: zs) (auto split: if_splits)

section \<open>A store of records with identifiers\<close>

text \<open>
  The contract \<open>SourceStore\<close> and \<open>RuleStore\<close> share. \<open>clean\<close> is the sanitiser on one
  record (\<open>None\<close> drops it), \<open>upsert\<close>, \<open>delete\<close> and \<open>replace\<close> are the
  operations on the list held in memory. The laws are what the providers promise: the sanitiser
  drops exactly the records without an identifier, keeps the identifier of the others and is
  idempotent. What follows is proved once for both.
\<close>

locale config_store =
  fixes ident :: "'a \<Rightarrow> string"
    and clean :: "'a \<Rightarrow> 'a option"
    and replace :: "'a list \<Rightarrow> 'a list"
    and upsert :: "'a \<Rightarrow> 'a list \<Rightarrow> 'a list"
    and delete :: "string \<Rightarrow> 'a list \<Rightarrow> 'a list"
  assumes clean_None: "clean x = None \<longleftrightarrow> ident x = ''''"
    and clean_ident: "clean x = Some y \<Longrightarrow> ident y = ident x"
    and clean_idem: "clean x = Some y \<Longrightarrow> clean y = Some y"
    and replace_eq: "replace xs = List.map_filter clean xs"
    and upsert_eq: "upsert one xs = List.map_filter clean
        (case replace_first (\<lambda>x. ident x = ident one) one xs of None \<Rightarrow> xs @ [one] | Some ys \<Rightarrow> ys)"
    and delete_eq: "delete i xs = filter (\<lambda>x. ident x \<noteq> i) xs"
begin

definition well_formed :: "'a list \<Rightarrow> bool" where
  "well_formed xs \<longleftrightarrow> (\<forall>x \<in> set xs. clean x = Some x)"

definition view :: "'a list \<Rightarrow> string \<Rightarrow> 'a option" where
  "view xs i = find (\<lambda>x. ident x = i) xs"

lemma clean_well_formed: "well_formed (List.map_filter clean xs)"
  by (auto simp: well_formed_def set_map_filter intro: clean_idem)

lemma well_formed_ident: "well_formed xs \<Longrightarrow> x \<in> set xs \<Longrightarrow> ident x \<noteq> ''''"
  by (metis well_formed_def clean_None option.distinct(1))

lemma replace_well_formed: "well_formed (replace xs)"
  by (simp add: replace_eq clean_well_formed)

lemma upsert_well_formed: "well_formed (upsert one xs)"
  by (simp add: upsert_eq clean_well_formed)

lemma delete_well_formed: "well_formed xs \<Longrightarrow> well_formed (delete i xs)"
  by (simp add: well_formed_def delete_eq)

lemma replace_fixed: "well_formed xs \<Longrightarrow> replace xs = xs"
  by (simp add: replace_eq well_formed_def map_filter_fixed)

lemma view_map_filter:
  "i \<noteq> '''' \<Longrightarrow> view (List.map_filter clean xs) i = Option.bind (view xs i) clean"
proof (induction xs)
  case Nil
  then show ?case by (simp add: view_def List.map_filter_simps)
next
  case (Cons x xs)
  then show ?case
    using clean_None [of x] clean_ident [of x]
    by (auto simp: view_def map_filter_Cons split: option.splits)
qed

lemma view_well_formed: "well_formed xs \<Longrightarrow> view xs i = Some x \<Longrightarrow> clean x = Some x \<and> ident x = i"
  by (auto simp: well_formed_def view_def find_Some_iff)

lemma upsert_view:
  assumes well_formed: "well_formed xs" and one: "ident one \<noteq> ''''" and i: "i \<noteq> ''''"
  shows "view (upsert one xs) i = (if i = ident one then clean one else view xs i)"
proof -
  define ys where "ys = (case replace_first (\<lambda>x. ident x = ident one) one xs of
    None \<Rightarrow> xs @ [one] | Some ys \<Rightarrow> ys)"
  have same: "view ys (ident one) = Some one"
    by (auto simp: ys_def view_def replace_first_None find_append
        dest: replace_first_find_same split: option.splits)
  have other: "view ys i = view xs i" if "i \<noteq> ident one"
    using that replace_first_find [of "\<lambda>x. ident x = ident one" one xs _ "\<lambda>x. ident x = i"]
    by (auto simp: ys_def view_def find_append split: option.splits)
  have "Option.bind (view xs i) clean = view xs i"
    using view_well_formed [OF well_formed, of i] by (cases "view xs i") auto
  with same other i one show ?thesis
    by (simp add: upsert_eq ys_def [symmetric] view_map_filter)
qed

lemma delete_view: "view (delete i xs) j = (if j = i then None else view xs j)"
  by (induction xs) (auto simp: view_def delete_eq)

lemma delete_upsert:
  assumes "well_formed xs" "ident one \<noteq> ''''" "j \<noteq> ''''"
  shows "view (delete (ident one) (upsert one xs)) j = (if j = ident one then None else view xs j)"
  using assms by (simp add: delete_view upsert_view)

lemma map_ident_clean: "map ident (List.map_filter clean xs) = filter (\<lambda>i. i \<noteq> '''') (map ident xs)"
proof (induction xs)
  case Nil
  then show ?case by (simp add: List.map_filter_simps)
next
  case (Cons x xs)
  then show ?case
    using clean_None [of x] clean_ident [of x]
    by (auto simp: map_filter_Cons split: option.splits)
qed

lemma upsert_distinct:
  assumes "distinct (map ident xs)" shows "distinct (map ident (upsert one xs))"
proof (cases "replace_first (\<lambda>x. ident x = ident one) one xs")
  case None
  then have "ident one \<notin> ident ` set xs" by (auto simp: replace_first_None find_None_iff)
  with None assms show ?thesis by (simp add: upsert_eq map_ident_clean)
next
  case (Some ys)
  then have "map ident ys = map ident xs" by (rule replace_first_map) simp
  with Some assms show ?thesis by (simp add: upsert_eq map_ident_clean)
qed

lemma delete_distinct: "distinct (map ident xs) \<Longrightarrow> distinct (map ident (delete i xs))"
  by (induction xs) (auto simp: delete_eq)

end

end
