(* ===== verification/Go_Float.thy ===== *)
theory Go_Float
  imports Complex_Main Prelude
begin

text \<open>
  The little floating-point arithmetic the collector does: the sampling interval \<open>int(1 / rate)\<close>.
  A finite float64 is represented by its exact value, a rational. \<open>f64 q\<close> is the float64 nearest to
  a positive rational \<open>q\<close> (ties to even, subnormals included), \<open>None\<close> for the overflow to
  \<open>+Inf\<close>. The conversion of a float to \<open>int\<close> truncates; when the value is out of range the Go
  specification leaves the result to the implementation, so it is a parameter \<open>oob\<close> (amd64 gives
  the least int64, arm64 the greatest).
\<close>

fun bit_length :: "nat \<Rightarrow> nat" where
  "bit_length n = (if n = 0 then 0 else Suc (bit_length (n div 2)))"

declare bit_length.simps [simp del]

definition pow2 :: "int \<Rightarrow> rat" where
  "pow2 e = (if 0 \<le> e then 2 ^ nat e else 1 / 2 ^ nat (- e))"

text \<open>The binary exponent: \<open>2\<^sup>k \<le> q < 2\<^sup>k\<^sup>+\<^sup>1\<close>.\<close>

definition f64_exponent :: "rat \<Rightarrow> int" where
  "f64_exponent q =
     (if 1 \<le> q then int (bit_length (nat \<lfloor>q\<rfloor>)) - 1
      else - int (bit_length (nat (\<lceil>1 / q\<rceil> - 1))))"

definition round_half_even :: "rat \<Rightarrow> int" where
  "round_half_even x =
     (let n = \<lfloor>x\<rfloor>; r = x - of_int n
      in if r < 1 / 2 then n else if 1 / 2 < r then n + 1 else if even n then n else n + 1)"

definition f64 :: "rat \<Rightarrow> rat option" where
  "f64 q =
     (let u = pow2 (max (f64_exponent q - 52) (- 1074));
          v = of_int (round_half_even (q / u)) * u
      in if 2 ^ 1024 \<le> v then None else Some v)"

definition f64_to_int :: "int \<Rightarrow> rat option \<Rightarrow> int" where
  "f64_to_int oob v =
     (case v of None \<Rightarrow> oob | Some x \<Rightarrow> if 2 ^ 63 \<le> x then oob else \<lfloor>x\<rfloor>)"

text \<open>A decimal constant of the source as a float64.\<close>

definition go_float :: "rat \<Rightarrow> rat" where
  "go_float q = (case f64 q of None \<Rightarrow> 0 | Some v \<Rightarrow> v)"

lemma round_half_even_bounds:
  "of_int (round_half_even x) \<le> x + 1 / 2" "x - 1 / 2 \<le> of_int (round_half_even x)"
proof -
  have f: "of_int \<lfloor>x\<rfloor> \<le> x" "x < of_int \<lfloor>x\<rfloor> + 1" by linarith+
  show "of_int (round_half_even x) \<le> x + 1 / 2" "x - 1 / 2 \<le> of_int (round_half_even x)"
    unfolding round_half_even_def Let_def by (use f in \<open>simp split: if_split; linarith\<close>)+
qed

lemma round_half_even_of_int [simp]: "round_half_even (of_int n) = n"
  by (simp add: round_half_even_def)

lemma round_half_even_mono: "x \<le> y \<Longrightarrow> round_half_even x \<le> round_half_even y"
proof (rule ccontr)
  assume xy: "x \<le> y" and "\<not> round_half_even x \<le> round_half_even y"
  then have gt: "round_half_even y < round_half_even x" by simp
  have fl: "\<lfloor>x\<rfloor> \<le> \<lfloor>y\<rfloor>" using xy by (rule floor_mono)
  have 1: "round_half_even x \<le> \<lfloor>x\<rfloor> + 1" "\<lfloor>y\<rfloor> \<le> round_half_even y"
    by (auto simp: round_half_even_def Let_def)
  with gt fl have eq: "\<lfloor>y\<rfloor> = \<lfloor>x\<rfloor>" by linarith
  with gt xy show False
    by (auto simp: round_half_even_def Let_def split: if_splits)
qed

lemma bit_length_bounds: "n \<noteq> 0 \<Longrightarrow> 2 ^ (bit_length n - 1) \<le> n \<and> n < 2 ^ bit_length n"
proof (induction n rule: bit_length.induct)
  case (1 n)
  show ?case
  proof (cases "n div 2 = 0")
    case True
    with 1 have "n = 1" by simp
    moreover have "bit_length 1 = 1"
      by (subst bit_length.simps) (simp add: bit_length.simps)
    ultimately show ?thesis by simp
  next
    case False
    with 1 have IH: "2 ^ (bit_length (n div 2) - 1) \<le> n div 2 \<and> n div 2 < 2 ^ bit_length (n div 2)"
      by simp
    have b: "bit_length n = Suc (bit_length (n div 2))" using 1(2) by (subst bit_length.simps) simp
    have p: "bit_length (n div 2) \<noteq> 0" using False by (subst bit_length.simps) simp
    obtain m where m: "bit_length (n div 2) = Suc m" using p by (cases "bit_length (n div 2)") auto
    have "(2::nat) ^ bit_length (n div 2) = 2 * 2 ^ (bit_length (n div 2) - 1)"
      by (simp add: m)
    then have "2 ^ bit_length (n div 2) \<le> 2 * (n div 2)" using IH by linarith
    moreover have "n < 2 * 2 ^ bit_length (n div 2)" using IH by linarith
    ultimately show ?thesis unfolding b by simp
  qed
qed

text \<open>A value between 1 and 2 has exponent 0, so its float is a multiple of \<open>2\<^sup>-\<^sup>5\<^sup>2\<close>.\<close>

lemma f64_exponent_1_2: "1 \<le> q \<Longrightarrow> q < 2 \<Longrightarrow> f64_exponent q = 0"
proof -
  assume "1 \<le> q" "q < 2"
  then have "\<lfloor>q\<rfloor> = 1" by (simp add: floor_eq_iff)
  moreover have "bit_length (Suc 0) = 1"
    by (subst bit_length.simps) (simp add: bit_length.simps)
  ultimately show "f64_exponent q = 0" using \<open>1 \<le> q\<close> by (simp add: f64_exponent_def)
qed

lemma pow2_pos: "0 < pow2 e"
  by (simp add: pow2_def)

text \<open>A positive integer power of two at or below \<open>q\<close> stays at or below its float.\<close>

lemma f64_ge_1: "1 \<le> q \<Longrightarrow> f64 q = Some v \<Longrightarrow> 1 \<le> v"
proof -
  assume q: "1 \<le> q" and v: "f64 q = Some v"
  define e where "e = max (f64_exponent q - 52) (- 1074)"
  define u where "u = pow2 e"
  have u0: "0 < u" by (simp add: u_def pow2_pos)
  have "v = of_int (round_half_even (q / u)) * u"
    using v by (auto simp: f64_def Let_def u_def e_def split: if_splits)
  have fl: "(1::int) \<le> \<lfloor>q\<rfloor>" using q by (simp add: le_floor_iff)
  show "1 \<le> v"
  proof (cases "e \<le> 0")
    case True
    then have iu: "1 / u = of_int (2 ^ nat (- e))" by (cases "e = 0") (auto simp: u_def pow2_def)
    have "1 / u \<le> q / u" using q u0 by (intro divide_right_mono) auto
    then have "of_int (2 ^ nat (- e)) \<le> q / u" by (simp only: iu)
    from round_half_even_mono [OF this] have "2 ^ nat (- e) \<le> round_half_even (q / u)"
      by (simp only: round_half_even_of_int)
    then have "1 / u \<le> of_int (round_half_even (q / u))"
      unfolding iu by (simp only: of_int_le_iff)
    then have "1 \<le> of_int (round_half_even (q / u)) * u"
      using u0 by (simp add: field_simps)
    then show ?thesis using \<open>v = _\<close> by simp
  next
    case False
    then have "e = f64_exponent q - 52" by (auto simp: e_def max_def split: if_splits)
    with q have ee: "e = int (bit_length (nat \<lfloor>q\<rfloor>)) - 53" by (simp add: f64_exponent_def)
    have "2 ^ (bit_length (nat \<lfloor>q\<rfloor>) - 1) \<le> nat \<lfloor>q\<rfloor>"
      using bit_length_bounds [of "nat \<lfloor>q\<rfloor>"] fl by simp
    moreover have "nat e \<le> bit_length (nat \<lfloor>q\<rfloor>) - 1" using ee False by linarith
    then have "(2::nat) ^ nat e \<le> 2 ^ (bit_length (nat \<lfloor>q\<rfloor>) - 1)"
      by (rule power_increasing) simp
    ultimately have "(2::nat) ^ nat e \<le> nat \<lfloor>q\<rfloor>" by linarith
    then have "int (2 ^ nat e) \<le> \<lfloor>q\<rfloor>" using fl by linarith
    then have "u \<le> q" using False by (simp add: u_def pow2_def le_floor_iff)
    then have "of_int 1 \<le> q / u" using u0 by (simp add: field_simps)
    from round_half_even_mono [OF this] have "1 \<le> round_half_even (q / u)"
      by (simp only: round_half_even_of_int)
    then have "1 * u \<le> of_int (round_half_even (q / u)) * u"
      using u0 by (intro mult_right_mono) (auto simp: of_int_1_le_iff)
    moreover have "1 \<le> u" using False by (simp add: u_def pow2_def)
    ultimately show ?thesis using \<open>v = _\<close> by linarith
  qed
qed

lemma f64_to_int_pos:
  assumes "1 \<le> q" shows "f64_to_int oob (f64 q) = oob \<or> 1 \<le> f64_to_int oob (f64 q)"
  using f64_ge_1 [OF assms] by (auto simp: f64_to_int_def le_floor_iff split: option.splits)

section \<open>Evaluating closed terms\<close>

lemma floor_numeral_div_rat [eval_simps]:
  "\<lfloor>(numeral a / numeral b :: rat)\<rfloor> = numeral a div numeral b"
  "\<lfloor>(1 / numeral b :: rat)\<rfloor> = 1 div numeral b"
  using floor_divide_of_int_eq [of "numeral a" "numeral b", where 'a = rat]
    floor_divide_of_int_eq [of 1 "numeral b", where 'a = rat] by simp_all

lemma ceiling_numeral_div_rat [eval_simps]:
  "\<lceil>(numeral a / numeral b :: rat)\<rceil> = - (- numeral a div numeral b)"
  "\<lceil>(1 / numeral b :: rat)\<rceil> = - (- 1 div numeral b)"
  using floor_divide_of_int_eq [of "- numeral a" "numeral b", where 'a = rat]
    floor_divide_of_int_eq [of "- 1" "numeral b", where 'a = rat]
  by (simp_all add: ceiling_def)

lemmas f64_eval = go_float_def f64_def f64_exponent_def pow2_def round_half_even_def
  bit_length.simps f64_to_int_def Let_def eval_simps

text \<open>The decimal constants of the default matrix, as the floats they denote.\<close>

lemma default_rate_floats:
  "go_float (2 / 100) = 5764607523034235 / 288230376151711744"
  "go_float (5 / 100) = 3602879701896397 / 72057594037927936"
  "go_float (1 / 10) = 3602879701896397 / 36028797018963968"
  "go_float (2 / 10) = 3602879701896397 / 18014398509481984"
  "go_float (25 / 100) = 1 / 4"
  "go_float (3 / 10) = 5404319552844595 / 18014398509481984"
  by (simp_all add: f64_eval)

lemma default_rate_floats_reduced:
  "go_float (1 / 50) = 5764607523034235 / 288230376151711744"
  "go_float (1 / 20) = 3602879701896397 / 72057594037927936"
  "go_float (1 / 5) = 3602879701896397 / 18014398509481984"
  "go_float (1 / 4) = 1 / 4"
  using default_rate_floats by simp_all

end
