(* ===== verification/Rules_Config.thy ===== *)
theory Rules_Config
  imports Config_Store Go_Float
begin

text \<open>
  The rule matrix and its store (\<open>internal/config/rules_config.go\<close>): \<open>RuleConfig\<close>, the sanitiser
  the store applies to every rule it keeps, the default matrix, and the operations of \<open>RuleStore\<close>.
  The sampling rate is the exact value of the float64, \<open>ShowInUI\<close> a pointer that may be nil.
\<close>

record RuleConfig =
  r_ID :: string
  r_Enabled :: bool
  r_SourceType :: string
  r_Asset :: string
  r_Category :: string
  r_Severity :: string
  r_Operation :: string
  r_EventType :: string
  r_MessageContains :: string
  r_TagKey :: string
  r_TagValue :: string
  r_Action :: string
  r_SampleRate :: rat
  r_ForwardToDMZ :: bool
  r_StoreLocally :: bool
  r_ShowInUI :: "bool option"
  r_DedupWindowSeconds :: int
  r_RateLimitPerSecond :: int
  r_Notes :: string

section \<open>Sanitising\<close>

text \<open>The single-field steps of the sanitiser.\<close>

definition if_empty :: "string \<Rightarrow> string \<Rightarrow> string" where
  "if_empty d s = (if s = '''' then d else s)"

definition sanitize_tag_key :: "string \<Rightarrow> string \<Rightarrow> string" where
  "sanitize_tag_key key val = (if key = '''' \<and> val \<noteq> '''' then ''*'' else key)"

definition sanitize_rate :: "rat \<Rightarrow> rat" where
  "sanitize_rate x = (if x \<le> 0 then 1 else x)"

definition sanitize_show :: "bool option \<Rightarrow> bool option" where
  "sanitize_show b = (case b of None \<Rightarrow> Some True | Some v \<Rightarrow> Some v)"

text \<open>The body of the loop of \<open>sanitizeRules\<close>: \<open>None\<close> is its \<open>continue\<close>.\<close>

definition sanitizeRule :: "RuleConfig \<Rightarrow> RuleConfig option" where
  "sanitizeRule r =
     (if r_ID r = '''' then None
      else Some (r\<lparr>
        r_SourceType := if_empty ''*'' (r_SourceType r),
        r_Asset := if_empty ''*'' (r_Asset r),
        r_Category := if_empty ''*'' (r_Category r),
        r_Severity := if_empty ''*'' (r_Severity r),
        r_Operation := if_empty ''*'' (r_Operation r),
        r_EventType := if_empty ''*'' (r_EventType r),
        r_TagKey := sanitize_tag_key (r_TagKey r) (r_TagValue r),
        r_Action := if_empty ''keep'' (r_Action r),
        r_SampleRate := sanitize_rate (r_SampleRate r),
        r_ShowInUI := sanitize_show (r_ShowInUI r)\<rparr>))"

definition sanitizeRules :: "RuleConfig list \<Rightarrow> RuleConfig list" where
  "sanitizeRules rs = List.map_filter sanitizeRule rs"

section \<open>The default matrix\<close>

text \<open>The fields the entries of the default matrix have in common; each entry then sets its own.\<close>

definition base_rule :: RuleConfig where
  "base_rule = \<lparr>r_ID = '''', r_Enabled = True, r_SourceType = ''*'', r_Asset = ''*'',
     r_Category = ''*'', r_Severity = ''*'', r_Operation = ''*'', r_EventType = ''*'',
     r_MessageContains = '''', r_TagKey = '''', r_TagValue = '''', r_Action = '''',
     r_SampleRate = 1, r_ForwardToDMZ = False, r_StoreLocally = True, r_ShowInUI = Some True,
     r_DedupWindowSeconds = 0, r_RateLimitPerSecond = 0, r_Notes = ''''\<rparr>"

definition defaultRules :: "RuleConfig list" where
  "defaultRules = [
    base_rule\<lparr>r_ID := ''rule-firewall-block-forward'', r_SourceType := ''firewall'',
      r_MessageContains := ''firewall_block'', r_Action := ''store_and_forward'',
      r_ForwardToDMZ := True,
      r_Notes := ''Forward firewall blocks before generic noise controls''\<rparr>,
    base_rule\<lparr>r_ID := ''rule-firewall-reject-forward'', r_SourceType := ''firewall'',
      r_MessageContains := ''firewall_reject'', r_Action := ''store_and_forward'',
      r_ForwardToDMZ := True,
      r_Notes := ''Forward firewall rejects before generic noise controls''\<rparr>,
    base_rule\<lparr>r_ID := ''rule-security-forward'', r_Category := ''security'',
      r_Action := ''store_and_forward'', r_ForwardToDMZ := True,
      r_Notes := ''Forward all security events''\<rparr>,
    base_rule\<lparr>r_ID := ''rule-critical-forward'', r_Severity := ''critical'',
      r_Action := ''store_and_forward'', r_ForwardToDMZ := True,
      r_Notes := ''Forward all critical events''\<rparr>,
    base_rule\<lparr>r_ID := ''rule-firewall-pass-sample'', r_SourceType := ''firewall'',
      r_MessageContains := ''firewall_pass'', r_Action := ''sample'',
      r_SampleRate := go_float (2 / 100), r_DedupWindowSeconds := 10,
      r_RateLimitPerSecond := 25,
      r_Notes := ''Aggressively sample OPNsense pass logs before generic error forwarding''\<rparr>,
    base_rule\<lparr>r_ID := ''rule-firewall-filterlog-noise-sample'', r_SourceType := ''firewall'',
      r_MessageContains := ''filterlog'', r_Action := ''sample'',
      r_SampleRate := go_float (2 / 100), r_DedupWindowSeconds := 10,
      r_RateLimitPerSecond := 25,
      r_Notes := ''Sample raw OPNsense filterlog noise even when parser category/severity is imperfect''\<rparr>,
    base_rule\<lparr>r_ID := ''rule-error-forward'', r_Severity := ''error'',
      r_Action := ''store_and_forward'', r_ForwardToDMZ := True,
      r_Notes := ''Forward non-firewall errors''\<rparr>,
    base_rule\<lparr>r_ID := ''rule-opcua-sensitive-forward'', r_SourceType := ''opcua'',
      r_TagKey := ''sensitive_action'', r_TagValue := ''true'',
      r_Action := ''store_and_forward'', r_ForwardToDMZ := True,
      r_Notes := ''Forward sensitive OPC UA actions''\<rparr>,
    base_rule\<lparr>r_ID := ''rule-opcua-write-forward'', r_SourceType := ''opcua'',
      r_Category := ''operator_action'', r_Operation := ''WRITE'',
      r_Action := ''store_and_forward'', r_ForwardToDMZ := True,
      r_Notes := ''Forward OPC UA writes''\<rparr>,
    base_rule\<lparr>r_ID := ''rule-opcua-read-sample'', r_SourceType := ''opcua'',
      r_Category := ''operator_action'', r_Operation := ''READ'', r_Action := ''sample'',
      r_SampleRate := go_float (5 / 100), r_DedupWindowSeconds := 10,
      r_Notes := ''Sample OPC UA reads to reduce noise''\<rparr>,
    base_rule\<lparr>r_ID := ''rule-ews-heartbeat-sample'', r_SourceType := ''ews'',
      r_Category := ''system_health'', r_Severity := ''info'',
      r_MessageContains := ''ews_heartbeat'', r_Action := ''sample'',
      r_SampleRate := go_float (2 / 10), r_Notes := ''Sample EWS heartbeat''\<rparr>,
    base_rule\<lparr>r_ID := ''rule-scada-heartbeat-sample'', r_SourceType := ''scada'',
      r_Category := ''system_health'', r_Severity := ''info'',
      r_MessageContains := ''heartbeat'', r_Action := ''sample'',
      r_SampleRate := go_float (1 / 10), r_Notes := ''Sample SCADA heartbeat''\<rparr>,
    base_rule\<lparr>r_ID := ''rule-gds-sync-success-sample'', r_SourceType := ''gds_agent'',
      r_Severity := ''info'', r_MessageContains := ''sync_cycle_success'',
      r_Action := ''sample'', r_SampleRate := go_float (25 / 100),
      r_Notes := ''Sample GDS sync success''\<rparr>,
    base_rule\<lparr>r_ID := ''rule-firewall-catchall-sample'', r_SourceType := ''firewall'',
      r_Action := ''sample'', r_SampleRate := go_float (5 / 100), r_DedupWindowSeconds := 10,
      r_RateLimitPerSecond := 50,
      r_Notes := ''Final firewall safety valve: sample/store only unmatched firewall chatter''\<rparr>,
    base_rule\<lparr>r_ID := ''rule-plc-network-sample'', r_SourceType := ''plc'', r_Category := ''network'',
      r_Action := ''sample'', r_SampleRate := go_float (3 / 10),
      r_Notes := ''Sample PLC network chatter''\<rparr>,
    base_rule\<lparr>r_ID := ''default-store-only'', r_Action := ''store_only'',
      r_Notes := ''Default catch-all: store locally only''\<rparr>]"

section \<open>The store\<close>

type_synonym RuleStore = "RuleConfig list store"

definition RuleStore_All :: "RuleStore \<Rightarrow> RuleConfig list" where
  "RuleStore_All s = st_data s"

definition RuleStore_persistLocked ::
  "RuleStore \<Rightarrow> RuleConfig list write_result \<Rightarrow> RuleStore \<times> string option" where
  "RuleStore_persistLocked s w = persist s w"

definition RuleStore_Replace ::
  "RuleConfig list \<Rightarrow> RuleStore \<Rightarrow> RuleConfig list write_result \<Rightarrow> RuleStore \<times> string option" where
  "RuleStore_Replace all s w = RuleStore_persistLocked (s\<lparr>st_data := sanitizeRules all\<rparr>) w"

text \<open>What \<open>Upsert\<close> and \<open>Delete\<close> do to the list in memory.\<close>

definition rules_upsert :: "RuleConfig \<Rightarrow> RuleConfig list \<Rightarrow> RuleConfig list" where
  "rules_upsert one rs =
     sanitizeRules
       (case replace_first (\<lambda>r. r_ID r = r_ID one) one rs of
          None \<Rightarrow> rs @ [one] | Some rs' \<Rightarrow> rs')"

definition RuleStore_Upsert ::
  "RuleConfig \<Rightarrow> RuleStore \<Rightarrow> RuleConfig list write_result \<Rightarrow> RuleStore \<times> string option" where
  "RuleStore_Upsert one s w = RuleStore_persistLocked (s\<lparr>st_data := rules_upsert one (st_data s)\<rparr>) w"

definition rules_delete :: "string \<Rightarrow> RuleConfig list \<Rightarrow> RuleConfig list" where
  "rules_delete i rs = filter (\<lambda>r. r_ID r \<noteq> i) rs"

definition RuleStore_Delete ::
  "string \<Rightarrow> RuleStore \<Rightarrow> RuleConfig list write_result \<Rightarrow> RuleStore \<times> string option" where
  "RuleStore_Delete i s w = RuleStore_persistLocked (s\<lparr>st_data := rules_delete i (st_data s)\<rparr>) w"

text \<open>
  Loading: the outcome of \<open>MkdirAll\<close> (an error, if any), of the read and of the write that
  ends it. A null or empty array, like an empty file, gives the defaults.
\<close>

definition RuleStore_loadOrInit ::
  "string option \<Rightarrow> RuleConfig list file_read \<Rightarrow> RuleConfig list write_result \<Rightarrow> RuleStore \<Rightarrow>
     RuleStore \<times> string option" where
  "RuleStore_loadOrInit mk rd w s =
     (case mk of
        Some e \<Rightarrow> (s, Some e)
      | None \<Rightarrow>
          (let finish = (\<lambda>arr. RuleStore_persistLocked
                 (s\<lparr>st_data := sanitizeRules (if arr = [] then defaultRules else arr)\<rparr>) w)
           in case rd of
                FileNotExist \<Rightarrow> RuleStore_persistLocked (s\<lparr>st_data := defaultRules\<rparr>) w
              | FileReadError e \<Rightarrow> (s, Some e)
              | FileBadJSON e \<Rightarrow> (s, Some e)
              | FileEmpty \<Rightarrow> finish []
              | FileDecoded arr \<Rightarrow> finish arr))"

text \<open>\<open>NewRuleStore\<close> starts from an empty store; an error leaves no store.\<close>

definition NewRuleStore ::
  "string option \<Rightarrow> RuleConfig list file_read \<Rightarrow> RuleConfig list write_result \<Rightarrow> string + RuleStore" where
  "NewRuleStore mk rd w =
     (case RuleStore_loadOrInit mk rd w
         \<lparr>st_data = [], st_disk = (case rd of FileDecoded arr \<Rightarrow> Some arr | _ \<Rightarrow> None)\<rparr> of
        (s, None) \<Rightarrow> Inr s | (s, Some e) \<Rightarrow> Inl e)"

section \<open>Facts\<close>

lemma if_empty_idem [simp]: "if_empty d (if_empty d s) = if_empty d s"
  by (simp add: if_empty_def)

lemma if_empty_not_Nil [simp]: "d \<noteq> '''' \<Longrightarrow> if_empty d s \<noteq> ''''"
  by (simp add: if_empty_def)

lemma sanitize_tag_key_idem [simp]: "sanitize_tag_key (sanitize_tag_key k v) v = sanitize_tag_key k v"
  by (simp add: sanitize_tag_key_def)

lemma sanitize_rate_idem [simp]: "sanitize_rate (sanitize_rate x) = sanitize_rate x"
  by (simp add: sanitize_rate_def)

lemma sanitize_rate_pos [simp]: "0 < sanitize_rate x"
  by (simp add: sanitize_rate_def)

lemma sanitize_show_idem [simp]: "sanitize_show (sanitize_show b) = sanitize_show b"
  by (cases b) (simp_all add: sanitize_show_def)

lemma sanitize_show_eq: "sanitize_show b = Some (b \<noteq> Some False)"
  by (cases b) (simp_all add: sanitize_show_def)

lemma sanitizeRule_Some: "sanitizeRule r = Some y \<Longrightarrow> r_ID r \<noteq> '''' \<and> r_ID y = r_ID r"
  by (auto simp: sanitizeRule_def split: if_splits)

lemma sanitizeRule_idem: "sanitizeRule r = Some y \<Longrightarrow> sanitizeRule y = Some y"
  by (cases "r_ID r = ''''") (auto simp: sanitizeRule_def)

interpretation rules: config_store r_ID sanitizeRule sanitizeRules rules_upsert rules_delete
proof
  show "\<And>r. sanitizeRule r = None \<longleftrightarrow> r_ID r = ''''" by (simp add: sanitizeRule_def)
  show "\<And>r y. sanitizeRule r = Some y \<Longrightarrow> r_ID y = r_ID r" by (simp add: sanitizeRule_Some)
qed (simp_all add: sanitizeRule_idem sanitizeRules_def rules_upsert_def rules_delete_def)

lemma sanitizeRule_fields:
  assumes "sanitizeRule r = Some y"
  shows "r_ID y \<noteq> ''''" "r_SourceType y \<noteq> ''''" "r_Action y \<noteq> ''''" "0 < r_SampleRate y"
    "r_ShowInUI y \<noteq> None"
  using assms by (auto simp: sanitizeRule_def sanitize_show_eq split: if_splits)

end
