(* ===== verification/Filter_Engine.thy ===== *)
theory Filter_Engine
  imports Rules_Config
begin

text \<open>
  The rule engine (\<open>internal/filter/engine.go\<close>). The engine holds the rule matrix and three maps:
  when a key was last seen, how many events a source sent in the current second, and how many
  events a sampling key has counted. \<open>Evaluate\<close> applies the first enabled rule that matches; that
  rule then rate-limits, suppresses duplicates and acts. Time is the wall clock in nanoseconds since
  the Unix epoch, an argument of the operation (\<open>time.Now().UTC()\<close> has no monotonic reading, so it
  may step back). \<open>oob\<close> is the implementation's result of an out-of-range float conversion.
\<close>

record Decision =
  d_Store :: bool
  d_Forward :: bool
  d_Show :: bool
  d_Drop :: bool
  d_Sampled :: bool
  d_MatchedRuleID :: string
  d_Reason :: string

record Engine =
  eng_rules :: "RuleConfig list"
  dedupCache :: "int gomap"
  rateBySource :: "(int \<times> int) gomap"
  sampleCounts :: "int gomap"

definition New :: Engine where
  "New = \<lparr>eng_rules = [], dedupCache = [], rateBySource = [], sampleCounts = []\<rparr>"

text \<open>Kept for older callers; it does nothing.\<close>

definition ConfigureRuntime :: "int \<Rightarrow> int \<Rightarrow> bool \<Rightarrow> Engine \<Rightarrow> Engine" where
  "ConfigureRuntime maxEventsPerSec dedupWindowSec debugStoreDrop e = e"

definition SetRules :: "RuleConfig list \<Rightarrow> Engine \<Rightarrow> Engine" where
  "SetRules rs e = e\<lparr>eng_rules := rs\<rparr>"

definition Rules :: "Engine \<Rightarrow> RuleConfig list" where
  "Rules e = eng_rules e"

section \<open>Matching\<close>

definition comparableValue :: "string \<Rightarrow> string" where
  "comparableValue v0 =
     (let v = ReplaceAll (TrimSpace (ToLower v0)) ''-'' ''_''
      in if v = ''warn'' then ''warning'' else v)"

definition matchField :: "string \<Rightarrow> string \<Rightarrow> bool" where
  "matchField ruleValue eventValue =
     (let rv = comparableValue ruleValue; ev = comparableValue eventValue
      in rv = ''*'' \<or> rv = '''' \<or> rv = ev)"

definition operationFor :: "event \<Rightarrow> string" where
  "operationFor evt =
     (case Tags evt of
        None \<Rightarrow> ''''
      | Some m \<Rightarrow>
          (let op = gget '''' m ''opcua_operation''
           in if op \<noteq> '''' then ToUpper op else ToUpper (gget '''' m ''operation'')))"

definition messageContains :: "event \<Rightarrow> string \<Rightarrow> bool" where
  "messageContains evt needle0 =
     (let needle = ToLower (TrimSpace needle0)
      in if needle = '''' \<or> needle = ''*'' then True
         else Contains (ToLower (Join [Message evt, Raw evt] '' '')) needle)"

definition matchTag :: "RuleConfig \<Rightarrow> event \<Rightarrow> bool" where
  "matchTag rule evt =
     (let key = TrimSpace (r_TagKey rule)
      in if key = '''' \<or> key = ''*'' then True
         else (case tag_lookup evt key of
                 None \<Rightarrow> False
               | Some value \<Rightarrow> matchField (r_TagValue rule) value))"

text \<open>The guards of the loop of \<open>applyRules\<close>, in its order.\<close>

definition rule_matches :: "event \<Rightarrow> string \<Rightarrow> RuleConfig \<Rightarrow> bool" where
  "rule_matches evt operation rule =
     (if \<not> r_Enabled rule then False
      else if \<not> matchField (r_SourceType rule) (SourceType evt) then False
      else if \<not> matchField (r_Asset rule) (AssetName evt) \<and> \<not> matchField (r_Asset rule) (AssetIP evt)
        then False
      else if \<not> matchField (r_Category rule) (EventCategory evt) then False
      else if \<not> matchField (r_Severity rule) (Severity evt) then False
      else if \<not> matchField (r_Operation rule) operation then False
      else if \<not> matchField (r_EventType rule) (tag evt ''event_type'') then False
      else if r_MessageContains rule \<noteq> '''' \<and> \<not> messageContains evt (r_MessageContains rule) then False
      else if \<not> matchTag rule evt then False
      else True)"

definition ruleShowInUI :: "RuleConfig \<Rightarrow> bool" where
  "ruleShowInUI rule = (case r_ShowInUI rule of None \<Rightarrow> True | Some b \<Rightarrow> b)"

section \<open>The three gates\<close>

definition rateKey :: "RuleConfig \<Rightarrow> event \<Rightarrow> string" where
  "rateKey rule evt =
     (let source = AssetIP evt;
          source = (if source = '''' then AssetName evt else source);
          source = (if source = '''' then SourceType evt else source)
      in Join [r_ID rule, source] ''|'')"

definition dedupKey :: "RuleConfig \<Rightarrow> event \<Rightarrow> string \<Rightarrow> string" where
  "dedupKey rule evt operation =
     Join [r_ID rule, AssetIP evt, AssetName evt, SourceType evt, EventCategory evt, Severity evt,
       operation, tag evt ''event_type'', Message evt] ''|''"

definition sampleKey :: "RuleConfig \<Rightarrow> event \<Rightarrow> string" where
  "sampleKey rule evt =
     Join [r_ID rule, AssetIP evt, AssetName evt, EventCategory evt, Message evt] ''|''"

text \<open>
  The rate limiter: the counter of the key restarts when the second changes; the event is over the
  limit when the counter, this event included, exceeds it.
\<close>

definition rate_step :: "string \<Rightarrow> int \<times> int \<Rightarrow> (int \<times> int) gomap \<Rightarrow> (int \<times> int) gomap \<times> bool" where
  "rate_step key = (\<lambda>(limit, sec) m.
     (let (second, count) = gget (0, 0) m key;
          count = (if second \<noteq> sec then 0 else count);
          count = count + 1
      in (gput key (sec, count) m, limit < count)))"

text \<open>
  \<open>time.Duration(w) * time.Second\<close> is a product of int64 values and wraps;
  \<open>now.Sub(t)\<close> saturates.
\<close>

definition seconds_duration :: "int \<Rightarrow> int" where
  "seconds_duration w = signed_take_bit 63 (w * 1000000000)"

definition time_Sub :: "int \<Rightarrow> int \<Rightarrow> int" where
  "time_Sub t u = max (- (2 ^ 63)) (min (2 ^ 63 - 1) (t - u))"

definition dedup_step :: "string \<Rightarrow> int \<times> int \<Rightarrow> int gomap \<Rightarrow> int gomap \<times> bool" where
  "dedup_step key = (\<lambda>(window, now) m.
     (case map_of m key of
        Some lastSeen \<Rightarrow>
          if time_Sub now lastSeen \<le> seconds_duration window then (gput key now m, True)
          else (gput key now m, False)
      | None \<Rightarrow> (gput key now m, False)))"

definition sampleToKeepEvery :: "int \<Rightarrow> rat \<Rightarrow> int" where
  "sampleToKeepEvery oob sampleRate =
     (if sampleRate \<le> 0 then 10
      else if 1 \<le> sampleRate then 1
      else f64_to_int oob (f64 (1 / sampleRate)))"

definition sample_step :: "string \<Rightarrow> int \<Rightarrow> int gomap \<Rightarrow> int gomap \<times> bool" where
  "sample_step key keepEvery m =
     (let count = gget 0 m key + 1
      in (gput key count m, keepEvery \<le> 1 \<or> count mod keepEvery = 1))"

section \<open>Decisions\<close>

definition dropDecision :: "string \<Rightarrow> string \<Rightarrow> Decision" where
  "dropDecision reason ruleID =
     \<lparr>d_Store = False, d_Forward = False, d_Show = False, d_Drop = True,
      d_Sampled = Contains reason ''sample'', d_MatchedRuleID = ruleID, d_Reason = reason\<rparr>"

definition default_decision :: "string \<Rightarrow> Decision" where
  "default_decision reason =
     \<lparr>d_Store = True, d_Forward = False, d_Show = True, d_Drop = False, d_Sampled = False,
      d_MatchedRuleID = ''default-store-only'', d_Reason = reason\<rparr>"

text \<open>The switch on the action of the matched rule.\<close>

definition rule_action :: "int \<Rightarrow> RuleConfig \<Rightarrow> event \<Rightarrow> Engine \<Rightarrow> Engine \<times> Decision" where
  "rule_action oob rule evt e =
     (let show = ruleShowInUI rule; action = ToLower (r_Action rule)
      in if action = ''drop'' then
           (e, \<lparr>d_Store = r_StoreLocally rule, d_Forward = False, d_Show = show \<and> r_StoreLocally rule,
                d_Drop = True, d_Sampled = False, d_MatchedRuleID = r_ID rule, d_Reason = ''rule_drop''\<rparr>)
         else if action = ''forward_only'' then
           (e, \<lparr>d_Store = False, d_Forward = True, d_Show = show, d_Drop = False, d_Sampled = False,
                d_MatchedRuleID = r_ID rule, d_Reason = ''rule_forward_only''\<rparr>)
         else if action = ''store_only'' then
           (e, \<lparr>d_Store = True, d_Forward = False, d_Show = show, d_Drop = False, d_Sampled = False,
                d_MatchedRuleID = r_ID rule, d_Reason = ''rule_store_only''\<rparr>)
         else if action = ''store_and_forward'' then
           (e, \<lparr>d_Store = True, d_Forward = True, d_Show = show, d_Drop = False, d_Sampled = False,
                d_MatchedRuleID = r_ID rule, d_Reason = ''rule_store_and_forward''\<rparr>)
         else if action = ''sample'' then
           (let rate = (if r_SampleRate rule \<le> 0 then go_float (1 / 10) else r_SampleRate rule);
                keepEvery = sampleToKeepEvery oob rate;
                (counts, kept) = sample_step (sampleKey rule evt) keepEvery (sampleCounts e);
                e' = e\<lparr>sampleCounts := counts\<rparr>
            in if kept then
                 (e', \<lparr>d_Store = r_StoreLocally rule, d_Forward = r_ForwardToDMZ rule, d_Show = show,
                       d_Drop = False, d_Sampled = True, d_MatchedRuleID = r_ID rule,
                       d_Reason = ''rule_sample_keep''\<rparr>)
               else (e', dropDecision ''rule_sample_drop'' (r_ID rule)))
         else
           (e, \<lparr>d_Store = r_StoreLocally rule, d_Forward = r_ForwardToDMZ rule, d_Show = show,
                d_Drop = False, d_Sampled = False, d_MatchedRuleID = r_ID rule,
                d_Reason = ''rule_keep''\<rparr>))"

text \<open>Duplicate suppression, then the action.\<close>

definition rule_dedup :: "int \<Rightarrow> int \<Rightarrow> RuleConfig \<Rightarrow> event \<Rightarrow> string \<Rightarrow> Engine \<Rightarrow> Engine \<times> Decision" where
  "rule_dedup oob now rule evt operation e =
     (if 0 < r_DedupWindowSeconds rule then
        (let (cache, dup) =
               dedup_step (dedupKey rule evt operation) (r_DedupWindowSeconds rule, now) (dedupCache e);
             e' = e\<lparr>dedupCache := cache\<rparr>
         in if dup then (e', dropDecision ''rule_duplicate_window'' (r_ID rule))
            else rule_action oob rule evt e')
      else rule_action oob rule evt e)"

text \<open>The body of the loop of \<open>applyRules\<close> once a rule matches.\<close>

definition fire_rule :: "int \<Rightarrow> int \<Rightarrow> RuleConfig \<Rightarrow> event \<Rightarrow> string \<Rightarrow> Engine \<Rightarrow> Engine \<times> Decision" where
  "fire_rule oob now rule evt operation e =
     (if 0 < r_RateLimitPerSecond rule then
        (let (rates, over) =
               rate_step (rateKey rule evt) (r_RateLimitPerSecond rule, now div 1000000000) (rateBySource e);
             e' = e\<lparr>rateBySource := rates\<rparr>
         in if over then (e', dropDecision ''rule_rate_limit'' (r_ID rule))
            else rule_dedup oob now rule evt operation e')
      else rule_dedup oob now rule evt operation e)"

fun applyRules :: "int \<Rightarrow> event \<Rightarrow> RuleConfig list \<Rightarrow> int \<Rightarrow> Engine \<Rightarrow> Engine \<times> Decision" where
  "applyRules oob evt [] now e = (e, default_decision ''default_store_only'')"
| "applyRules oob evt (rule # rules) now e =
     (if \<not> rule_matches evt (operationFor evt) rule then applyRules oob evt rules now e
      else fire_rule oob now rule evt (operationFor evt) e)"

definition Evaluate :: "int \<Rightarrow> int \<Rightarrow> event option \<Rightarrow> Engine \<Rightarrow> Engine \<times> Decision" where
  "Evaluate oob now evt e =
     (case evt of
        None \<Rightarrow> (e, default_decision ''nil_event_default'')
      | Some ev \<Rightarrow> applyRules oob ev (eng_rules e) now e)"

definition EvaluateRulesOnly :: "int \<Rightarrow> int \<Rightarrow> event option \<Rightarrow> Engine \<Rightarrow> Engine \<times> Decision" where
  "EvaluateRulesOnly oob now evt e = Evaluate oob now evt e"

end
