(* ===== verification/Engine_Facts.thy ===== *)
theory Engine_Facts
  imports Filter_Engine
begin

text \<open>
  Facts about the rule engine: the first-match semantics, what each gate does over a run of
  events, and the decisions. \<open>keyed_gate\<close> is the contract the three gates of the engine share.
\<close>

section \<open>Gates with one cell per key\<close>

text \<open>
  A gate keeps a map of cells. An operation with key \<open>k\<close> reads and writes the cell of \<open>k\<close> only,
  and its verdict depends on that cell only. Then the verdicts a key receives in a run are those it
  receives when the operations of all other keys are left out.
\<close>

fun gate_run :: "('k \<Rightarrow> 'c \<Rightarrow> 'm \<Rightarrow> 'm \<times> bool) \<Rightarrow> ('k \<times> 'c) list \<Rightarrow> 'm \<Rightarrow> 'm \<times> ('k \<times> bool) list" where
  "gate_run step [] m = (m, [])"
| "gate_run step ((k, c) # ops) m =
     (let (m', b) = step k c m; (m'', bs) = gate_run step ops m' in (m'', (k, b) # bs))"

locale keyed_gate =
  fixes step :: "string \<Rightarrow> 'c \<Rightarrow> 'm \<Rightarrow> 'm \<times> bool"
    and look :: "'m \<Rightarrow> string \<Rightarrow> 's"
    and cell :: "'c \<Rightarrow> 's \<Rightarrow> 's \<times> bool"
  assumes look_step: "look (fst (step k c m)) j = (if j = k then fst (cell c (look m k)) else look m j)"
    and verdict: "snd (step k c m) = snd (cell c (look m k))"
begin

lemma other_key: "j \<noteq> k \<Longrightarrow> look (fst (step k c m)) j = look m j"
  by (simp add: look_step)

lemma run_cong:
  "look m k = look m' k \<Longrightarrow>
     filter (\<lambda>(j, b). j = k) (snd (gate_run step ops m)) =
     snd (gate_run step (filter (\<lambda>(j, c). j = k) ops) m') \<and>
     look (fst (gate_run step ops m)) k =
     look (fst (gate_run step (filter (\<lambda>(j, c). j = k) ops) m')) k"
proof (induction ops arbitrary: m m')
  case Nil
  then show ?case by simp
next
  case (Cons op ops)
  obtain j c where op: "op = (j, c)" by (cases op)
  show ?case
  proof (cases "j = k")
    case True
    have "look (fst (step k c m)) k = look (fst (step k c m')) k"
      and b: "snd (step k c m) = snd (step k c m')"
      using Cons.prems by (simp_all add: look_step verdict)
    from Cons.IH [OF this(1)] b show ?thesis
      by (simp add: op True split_beta Let_def)
  next
    case False
    have "look (fst (step j c m)) k = look m' k"
      using Cons.prems False by (simp add: look_step)
    from Cons.IH [OF this] show ?thesis
      by (simp add: op False split_beta Let_def)
  qed
qed

lemma isolation:
  "filter (\<lambda>(j, b). j = k) (snd (gate_run step ops m)) =
   snd (gate_run step (filter (\<lambda>(j, c). j = k) ops) m)"
  using run_cong [of m k m] by simp

end

interpretation rate: keyed_gate rate_step "gget (0, 0)"
  "\<lambda>(limit, sec) (second, count).
     let count = (if second \<noteq> sec then 0 else count) + 1 in ((sec, count), limit < count)"
  by unfold_locales (auto simp: rate_step_def Let_def split_beta)

interpretation dedup: keyed_gate dedup_step map_of
  "\<lambda>(window, now) seen.
     (Some now, case seen of None \<Rightarrow> False | Some t \<Rightarrow> time_Sub now t \<le> seconds_duration window)"
  by unfold_locales (auto simp: dedup_step_def Let_def split_beta split: option.splits)

interpretation sample: keyed_gate sample_step "gget 0"
  "\<lambda>keepEvery n. (n + 1, keepEvery \<le> 1 \<or> (n + 1) mod keepEvery = 1)"
  by unfold_locales (auto simp: sample_step_def Let_def)

section \<open>First match\<close>

definition first_match :: "event \<Rightarrow> RuleConfig list \<Rightarrow> RuleConfig option" where
  "first_match evt rs = find (rule_matches evt (operationFor evt)) rs"

lemma applyRules_first_match:
  "applyRules oob evt rs now e =
     (case first_match evt rs of
        None \<Rightarrow> (e, default_decision ''default_store_only'')
      | Some r \<Rightarrow> fire_rule oob now r evt (operationFor evt) e)"
  by (induction rs) (auto simp: first_match_def)

lemma first_match_SomeD:
  assumes "first_match evt rs = Some r"
  shows "r \<in> set rs" and "rule_matches evt (operationFor evt) r"
  using assms by (auto simp: first_match_def find_Some_iff)

lemma first_match_append:
  "first_match evt (rs @ ss) = (case first_match evt rs of None \<Rightarrow> first_match evt ss | Some r \<Rightarrow> Some r)"
  by (simp add: first_match_def find_append split: option.split)

lemma Evaluate_Some:
  "Evaluate oob now (Some evt) e =
     (case first_match evt (eng_rules e) of
        None \<Rightarrow> (e, default_decision ''default_store_only'')
      | Some r \<Rightarrow> fire_rule oob now r evt (operationFor evt) e)"
  by (simp add: Evaluate_def applyRules_first_match)

section \<open>One rule\<close>

definition over_rate :: "int \<Rightarrow> RuleConfig \<Rightarrow> event \<Rightarrow> Engine \<Rightarrow> bool" where
  "over_rate now r evt e \<longleftrightarrow> 0 < r_RateLimitPerSecond r \<and>
     snd (rate_step (rateKey r evt) (r_RateLimitPerSecond r, now div 1000000000) (rateBySource e))"

definition is_duplicate :: "int \<Rightarrow> RuleConfig \<Rightarrow> event \<Rightarrow> Engine \<Rightarrow> bool" where
  "is_duplicate now r evt e \<longleftrightarrow> 0 < r_DedupWindowSeconds r \<and>
     snd (dedup_step (dedupKey r evt (operationFor evt)) (r_DedupWindowSeconds r, now) (dedupCache e))"

lemma rule_action_frame [simp]:
  "eng_rules (fst (rule_action oob r evt e)) = eng_rules e"
  "rateBySource (fst (rule_action oob r evt e)) = rateBySource e"
  "dedupCache (fst (rule_action oob r evt e)) = dedupCache e"
  by (simp_all add: rule_action_def Let_def split_beta)

text \<open>Which decisions an action can give; the reasons of the two gates are not among them.\<close>

lemma rule_action_reason:
  "d_Reason (snd (rule_action oob r evt e)) \<in>
     {''rule_drop'', ''rule_forward_only'', ''rule_store_only'', ''rule_store_and_forward'',
      ''rule_sample_keep'', ''rule_sample_drop'', ''rule_keep''}"
  by (simp add: rule_action_def Let_def split_beta dropDecision_def)

lemma rule_dedup_frame [simp]:
  "eng_rules (fst (rule_dedup oob now r evt opn e)) = eng_rules e"
  "rateBySource (fst (rule_dedup oob now r evt opn e)) = rateBySource e"
  by (simp_all add: rule_dedup_def Let_def split_beta)

lemma fire_rule_rules [simp]: "eng_rules (fst (fire_rule oob now r evt opn e)) = eng_rules e"
  by (simp add: fire_rule_def Let_def split_beta)

lemma Evaluate_rules [simp]: "eng_rules (fst (Evaluate oob now evt e)) = eng_rules e"
  by (cases evt) (auto simp: Evaluate_def applyRules_first_match split: option.splits)

lemma fire_rule_rates:
  "rateBySource (fst (fire_rule oob now r evt opn e)) =
     (if 0 < r_RateLimitPerSecond r
      then fst (rate_step (rateKey r evt) (r_RateLimitPerSecond r, now div 1000000000) (rateBySource e))
      else rateBySource e)"
  by (simp add: fire_rule_def Let_def split_beta)

lemma fire_rule_cache:
  "dedupCache (fst (fire_rule oob now r evt (operationFor evt) e)) =
     (if over_rate now r evt e \<or> \<not> 0 < r_DedupWindowSeconds r then dedupCache e
      else fst (dedup_step (dedupKey r evt (operationFor evt)) (r_DedupWindowSeconds r, now) (dedupCache e)))"
  by (auto simp: fire_rule_def rule_dedup_def over_rate_def Let_def split_beta)

lemma fire_rule_decision:
  "d_Reason (snd (fire_rule oob now r evt (operationFor evt) e)) = ''rule_rate_limit'' \<longleftrightarrow> over_rate now r evt e"
  "d_Reason (snd (fire_rule oob now r evt (operationFor evt) e)) = ''rule_duplicate_window'' \<longleftrightarrow>
     \<not> over_rate now r evt e \<and> is_duplicate now r evt e"
proof -
  have a: "d_Reason (snd (rule_action oob r evt e')) \<noteq> ''rule_rate_limit''"
    "d_Reason (snd (rule_action oob r evt e')) \<noteq> ''rule_duplicate_window''" for e'
    using rule_action_reason [of oob r evt e'] by auto
  show "d_Reason (snd (fire_rule oob now r evt (operationFor evt) e)) = ''rule_rate_limit'' \<longleftrightarrow>
      over_rate now r evt e"
    by (auto simp: fire_rule_def rule_dedup_def over_rate_def Let_def split_beta a dropDecision_def)
  show "d_Reason (snd (fire_rule oob now r evt (operationFor evt) e)) = ''rule_duplicate_window'' \<longleftrightarrow>
      \<not> over_rate now r evt e \<and> is_duplicate now r evt e"
    by (auto simp: fire_rule_def rule_dedup_def over_rate_def is_duplicate_def Let_def split_beta a
        dropDecision_def)
qed

lemma fire_rule_id: "d_MatchedRuleID (snd (fire_rule oob now r evt opn e)) = r_ID r"
  by (simp add: fire_rule_def rule_dedup_def rule_action_def dropDecision_def Let_def split_beta)

section \<open>Runs\<close>

text \<open>A run of events, each with the time of its evaluation, while the matrix stays the same.\<close>

fun eval_run :: "int \<Rightarrow> (int \<times> event) list \<Rightarrow> Engine \<Rightarrow> Engine \<times> Decision list" where
  "eval_run oob [] e = (e, [])"
| "eval_run oob ((now, evt) # xs) e =
     (let (e', d) = Evaluate oob now (Some evt) e; (e'', ds) = eval_run oob xs e' in (e'', d # ds))"

lemma eval_run_Cons [simp]:
  "eval_run oob (x # xs) e =
     (let r = Evaluate oob (fst x) (Some (snd x)) e
      in (fst (eval_run oob xs (fst r)), snd r # snd (eval_run oob xs (fst r))))"
  by (cases x) (simp add: split_beta Let_def)

declare eval_run.simps(2) [simp del]

lemma length_eval_run [simp]: "length (snd (eval_run oob xs e)) = length xs"
  by (induction xs arbitrary: e) (simp_all add: Let_def)

lemma eval_run_rules [simp]: "eng_rules (fst (eval_run oob xs e)) = eng_rules e"
  by (induction xs arbitrary: e) (simp_all add: Let_def)

lemma eval_run_append:
  "eval_run oob (xs @ ys) e =
     (let (e', ds) = eval_run oob xs e; (e'', ds') = eval_run oob ys e' in (e'', ds @ ds'))"
  by (induction xs arbitrary: e) (simp_all add: split_beta Let_def)

subsection \<open>Rate limiting\<close>

text \<open>How much of the budget of a key is used in a second.\<close>

definition rate_used :: "Engine \<Rightarrow> string \<Rightarrow> int \<Rightarrow> int" where
  "rate_used e k sec = (let (second, count) = gget (0, 0) (rateBySource e) k in if second = sec then count else 0)"

definition rate_hit :: "RuleConfig list \<Rightarrow> string \<Rightarrow> event \<Rightarrow> bool" where
  "rate_hit rs k evt \<longleftrightarrow>
     (case first_match evt rs of None \<Rightarrow> False
      | Some r \<Rightarrow> 0 < r_RateLimitPerSecond r \<and> rateKey r evt = k)"

lemma rate_used_Evaluate:
  assumes "now div 1000000000 = sec"
  shows "rate_used (fst (Evaluate oob now (Some evt) e)) k sec =
     rate_used e k sec + (if rate_hit (eng_rules e) k evt then 1 else 0)"
  using assms
  by (auto simp: Evaluate_Some rate_used_def rate_hit_def fire_rule_rates rate_step_def Let_def split_beta
      split: option.splits)

lemma rate_used_run:
  assumes "\<forall>(now, evt) \<in> set xs. now div 1000000000 = sec"
  shows "rate_used (fst (eval_run oob xs e)) k sec =
     rate_used e k sec + int (length (filter (\<lambda>(now, evt). rate_hit (eng_rules e) k evt) xs))"
  using assms
  by (induction xs arbitrary: e) (auto simp: split_beta Let_def rate_used_Evaluate)

lemma over_rate_used:
  "over_rate now r evt e \<longleftrightarrow> 0 < r_RateLimitPerSecond r \<and>
     r_RateLimitPerSecond r < rate_used e (rateKey r evt) (now div 1000000000) + 1"
  by (auto simp: over_rate_def rate_used_def rate_step_def Let_def split_beta)

lemma Evaluate_rate_limited:
  "d_Reason (snd (Evaluate oob now (Some evt) e)) = ''rule_rate_limit'' \<longleftrightarrow>
     (\<exists>r. first_match evt (eng_rules e) = Some r \<and> over_rate now r evt e)"
  by (auto simp: Evaluate_Some fire_rule_decision default_decision_def split: option.splits)

text \<open>The events one rule admits for one key within a second.\<close>

definition admitted :: "RuleConfig list \<Rightarrow> RuleConfig \<Rightarrow> string \<Rightarrow> (int \<times> event) \<times> Decision \<Rightarrow> bool" where
  "admitted rs r k = (\<lambda>((now, evt), d).
     first_match evt rs = Some r \<and> rateKey r evt = k \<and> d_Reason d \<noteq> ''rule_rate_limit'')"

lemma admitted_bound:
  assumes "0 < r_RateLimitPerSecond r"
    and "\<forall>(now, evt) \<in> set xs. now div 1000000000 = sec"
  shows "int (length (filter (admitted (eng_rules e) r k) (zip xs (snd (eval_run oob xs e))))) \<le>
     max 0 (r_RateLimitPerSecond r - rate_used e k sec)"
  using assms(2)
proof (induction xs arbitrary: e)
  case (Cons x xs)
  obtain now evt where x: "x = (now, evt)" by (cases x)
  define e' where "e' = fst (Evaluate oob now (Some evt) e)"
  have sec: "now div 1000000000 = sec" using Cons.prems x by simp
  have IH: "int (length (filter (admitted (eng_rules e) r k) (zip xs (snd (eval_run oob xs e'))))) \<le>
      max 0 (r_RateLimitPerSecond r - rate_used e' k sec)"
    using Cons.IH [of e'] Cons.prems by (simp add: e'_def)
  have u: "rate_used e' k sec = rate_used e k sec + (if rate_hit (eng_rules e) k evt then 1 else 0)"
    unfolding e'_def by (rule rate_used_Evaluate [OF sec])
  show ?case
  proof (cases "admitted (eng_rules e) r k ((now, evt), snd (Evaluate oob now (Some evt) e))")
    case True
    then have m: "first_match evt (eng_rules e) = Some r" and k: "rateKey r evt = k"
      and "\<not> over_rate now r evt e"
      by (auto simp: admitted_def Evaluate_rate_limited)
    then have "rate_used e k sec + 1 \<le> r_RateLimitPerSecond r"
      using assms(1) sec by (simp add: over_rate_used)
    moreover have "rate_hit (eng_rules e) k evt" using m k assms(1) by (simp add: rate_hit_def)
    ultimately show ?thesis using True IH u by (simp add: x Let_def e'_def)
  next
    case False
    with IH u show ?thesis by (auto simp: x Let_def e'_def split: if_splits)
  qed
qed simp

subsection \<open>Duplicate suppression\<close>

text \<open>The window in nanoseconds, for windows the multiplication does not wrap.\<close>

lemma seconds_duration_exact:
  "- 9223372036 \<le> w \<Longrightarrow> w \<le> 9223372036 \<Longrightarrow> seconds_duration w = w * 1000000000"
  unfolding seconds_duration_def by (rule signed_take_bit_int_eq_self) auto

lemma time_Sub_le:
  "t - u \<le> d \<Longrightarrow> - (2 ^ 63) \<le> d \<Longrightarrow> time_Sub t u \<le> d"
  by (auto simp: time_Sub_def)

lemma is_duplicate_iff:
  "is_duplicate now r evt e \<longleftrightarrow> 0 < r_DedupWindowSeconds r \<and>
     (\<exists>t. map_of (dedupCache e) (dedupKey r evt (operationFor evt)) = Some t \<and>
        time_Sub now t \<le> seconds_duration (r_DedupWindowSeconds r))"
  by (auto simp: is_duplicate_def dedup_step_def split: option.splits)

definition passed :: "RuleConfig list \<Rightarrow> RuleConfig \<Rightarrow> string \<Rightarrow> (int \<times> event) \<times> Decision \<Rightarrow> bool" where
  "passed rs r k = (\<lambda>((now, evt), d).
     first_match evt rs = Some r \<and> dedupKey r evt (operationFor evt) = k \<and>
     d_Reason d \<noteq> ''rule_rate_limit'' \<and> d_Reason d \<noteq> ''rule_duplicate_window'')"

lemma cache_Evaluate:
  "map_of (dedupCache (fst (Evaluate oob now (Some evt) e))) k \<in> {map_of (dedupCache e) k, Some now}"
  by (auto simp: Evaluate_Some fire_rule_cache dedup_step_def split: option.splits)

lemma cache_Evaluate_hit:
  assumes "first_match evt (eng_rules e) = Some r" and "0 < r_DedupWindowSeconds r"
    and "\<not> over_rate now r evt e"
  shows "map_of (dedupCache (fst (Evaluate oob now (Some evt) e))) (dedupKey r evt (operationFor evt)) = Some now"
  using assms by (auto simp: Evaluate_Some fire_rule_cache dedup_step_def split: option.splits)

lemma not_passed:
  assumes "map_of (dedupCache e) k = Some t" and "0 < r_DedupWindowSeconds r"
    and "r_DedupWindowSeconds r \<le> 9223372036" and "now - t \<le> r_DedupWindowSeconds r * 1000000000"
  shows "\<not> passed (eng_rules e) r k ((now, evt), snd (Evaluate oob now (Some evt) e))"
proof
  assume p: "passed (eng_rules e) r k ((now, evt), snd (Evaluate oob now (Some evt) e))"
  then have m: "first_match evt (eng_rules e) = Some r" and k: "dedupKey r evt (operationFor evt) = k"
    by (auto simp: passed_def)
  have "is_duplicate now r evt e"
    using assms k by (auto simp: is_duplicate_iff seconds_duration_exact intro!: time_Sub_le)
  with p m show False by (simp add: passed_def Evaluate_Some fire_rule_decision)
qed

lemma none_passed:
  assumes "0 < r_DedupWindowSeconds r" and "r_DedupWindowSeconds r \<le> 9223372036"
    and "\<forall>(now, evt) \<in> set xs. t0 \<le> now \<and> now \<le> t0 + r_DedupWindowSeconds r * 1000000000"
    and "map_of (dedupCache e) k = Some t" and "t0 \<le> t"
  shows "filter (passed (eng_rules e) r k) (zip xs (snd (eval_run oob xs e))) = []"
  using assms(3-5)
proof (induction xs arbitrary: e t)
  case (Cons x xs)
  obtain now evt where x: "x = (now, evt)" by (cases x)
  define e' where "e' = fst (Evaluate oob now (Some evt) e)"
  have np: "\<not> passed (eng_rules e) r k ((now, evt), snd (Evaluate oob now (Some evt) e))"
    using Cons.prems x by (intro not_passed [OF _ assms(1,2)]) auto
  obtain t' where t': "map_of (dedupCache e') k = Some t'" "t0 \<le> t'"
    using cache_Evaluate [of oob now evt e k] Cons.prems x by (auto simp: e'_def)
  have "filter (passed (eng_rules e') r k) (zip xs (snd (eval_run oob xs e'))) = []"
    using Cons.prems by (intro Cons.IH [OF _ t']) auto
  with np show ?case by (simp add: x Let_def e'_def)
qed simp

lemma passed_at_most_one:
  assumes "0 < r_DedupWindowSeconds r" and "r_DedupWindowSeconds r \<le> 9223372036"
    and "\<forall>(now, evt) \<in> set xs. t0 \<le> now \<and> now \<le> t0 + r_DedupWindowSeconds r * 1000000000"
  shows "length (filter (passed (eng_rules e) r k) (zip xs (snd (eval_run oob xs e)))) \<le> 1"
  using assms(3)
proof (induction xs arbitrary: e)
  case (Cons x xs)
  obtain now evt where x: "x = (now, evt)" by (cases x)
  define e' where "e' = fst (Evaluate oob now (Some evt) e)"
  show ?case
  proof (cases "passed (eng_rules e) r k ((now, evt), snd (Evaluate oob now (Some evt) e))")
    case True
    then have "map_of (dedupCache e') k = Some now"
      using cache_Evaluate_hit [of evt e r now oob] assms(1)
      by (auto simp: passed_def e'_def Evaluate_Some fire_rule_decision)
    moreover have "t0 \<le> now" using Cons.prems x by simp
    ultimately have "filter (passed (eng_rules e') r k) (zip xs (snd (eval_run oob xs e'))) = []"
      using Cons.prems by (intro none_passed [OF assms(1,2)]) auto
    with True show ?thesis by (simp add: x Let_def e'_def)
  next
    case False
    have "length (filter (passed (eng_rules e') r k) (zip xs (snd (eval_run oob xs e')))) \<le> 1"
      using Cons.prems by (intro Cons.IH) auto
    with False show ?thesis by (simp add: x Let_def e'_def)
  qed
qed simp

text \<open>A run in which each event follows the previous one within \<open>d\<close> nanoseconds.\<close>

fun spaced :: "int \<Rightarrow> int \<Rightarrow> (int \<times> event) list \<Rightarrow> bool" where
  "spaced d t [] = True"
| "spaced d t ((now, evt) # xs) = (now - t \<le> d \<and> spaced d now xs)"

lemma sliding_run:
  assumes "0 < r_DedupWindowSeconds r" and "r_DedupWindowSeconds r \<le> 9223372036"
    and "r_RateLimitPerSecond r \<le> 0"
    and "\<forall>(now, evt) \<in> set xs. first_match evt (eng_rules e) = Some r \<and> dedupKey r evt (operationFor evt) = k"
    and "spaced (r_DedupWindowSeconds r * 1000000000) t xs"
    and "map_of (dedupCache e) k = Some t"
  shows "\<forall>d \<in> set (snd (eval_run oob xs e)). d_Reason d = ''rule_duplicate_window''"
  using assms(4-6)
proof (induction xs arbitrary: e t)
  case (Cons x xs)
  obtain now evt where x: "x = (now, evt)" by (cases x)
  define e' where "e' = fst (Evaluate oob now (Some evt) e)"
  have m: "first_match evt (eng_rules e) = Some r" "dedupKey r evt (operationFor evt) = k"
    using Cons.prems x by auto
  have no: "\<not> over_rate now r evt e" using assms(3) by (simp add: over_rate_def)
  have "is_duplicate now r evt e"
    using Cons.prems assms(1,2) m x
    by (auto simp: is_duplicate_iff seconds_duration_exact intro!: time_Sub_le)
  with m no have d: "d_Reason (snd (Evaluate oob now (Some evt) e)) = ''rule_duplicate_window''"
    by (simp add: Evaluate_Some fire_rule_decision)
  have "map_of (dedupCache e') k = Some now"
    using cache_Evaluate_hit [OF m(1) assms(1) no] m(2) by (simp add: e'_def)
  then have "\<forall>d \<in> set (snd (eval_run oob xs e')). d_Reason d = ''rule_duplicate_window''"
    using Cons.prems x by (intro Cons.IH [of e' now]) (auto simp: e'_def)
  with d show ?case by (simp add: x Let_def e'_def)
qed simp

subsection \<open>Sampling\<close>

definition effective_rate :: "RuleConfig \<Rightarrow> rat" where
  "effective_rate r = (if r_SampleRate r \<le> 0 then go_float (1 / 10) else r_SampleRate r)"

definition keep_every :: "int \<Rightarrow> RuleConfig \<Rightarrow> int" where
  "keep_every oob r = sampleToKeepEvery oob (effective_rate r)"

definition sample_hit :: "RuleConfig list \<Rightarrow> string \<Rightarrow> (int \<times> event) \<times> Decision \<Rightarrow> bool" where
  "sample_hit rs k = (\<lambda>((now, evt), d). d_Sampled d \<and>
     (case first_match evt rs of None \<Rightarrow> False | Some r \<Rightarrow> sampleKey r evt = k))"

definition sample_kept :: "RuleConfig list \<Rightarrow> string \<Rightarrow> (int \<times> event) \<times> Decision \<Rightarrow> bool" where
  "sample_kept rs k x \<longleftrightarrow> sample_hit rs k x \<and> d_Reason (snd x) = ''rule_sample_keep''"

lemma gate_reasons_not_sample [simp]:
  "\<not> Contains ''rule_rate_limit'' ''sample''" "\<not> Contains ''rule_duplicate_window'' ''sample''"
  "Contains ''rule_sample_drop'' ''sample''"
  by simp_all

lemma rule_action_sampled:
  "d_Sampled (snd (rule_action oob r evt e)) \<longleftrightarrow> ToLower (r_Action r) = ''sample''"
  by (auto simp: rule_action_def dropDecision_def Let_def split_beta)

lemma rule_action_counts:
  "sampleCounts (fst (rule_action oob r evt e)) =
     (if ToLower (r_Action r) = ''sample''
      then fst (sample_step (sampleKey r evt) (keep_every oob r) (sampleCounts e)) else sampleCounts e)"
  by (auto simp: rule_action_def keep_every_def effective_rate_def Let_def split_beta)

lemma rule_action_kept:
  "d_Reason (snd (rule_action oob r evt e)) = ''rule_sample_keep'' \<longleftrightarrow>
     ToLower (r_Action r) = ''sample'' \<and>
     snd (sample_step (sampleKey r evt) (keep_every oob r) (sampleCounts e))"
  by (auto simp: rule_action_def keep_every_def effective_rate_def dropDecision_def Let_def split_beta)

lemma fire_rule_counts:
  "sampleCounts (fst (fire_rule oob now r evt (operationFor evt) e)) =
     (if d_Sampled (snd (fire_rule oob now r evt (operationFor evt) e))
      then fst (sample_step (sampleKey r evt) (keep_every oob r) (sampleCounts e)) else sampleCounts e)"
  by (auto simp: fire_rule_def rule_dedup_def rule_action_counts rule_action_sampled dropDecision_def
      Let_def split_beta)

lemma fire_rule_kept:
  "d_Sampled (snd (fire_rule oob now r evt (operationFor evt) e)) \<Longrightarrow>
   d_Reason (snd (fire_rule oob now r evt (operationFor evt) e)) = ''rule_sample_keep'' \<longleftrightarrow>
     keep_every oob r \<le> 1 \<or> (gget 0 (sampleCounts e) (sampleKey r evt) + 1) mod keep_every oob r = 1"
  by (auto simp: fire_rule_def rule_dedup_def rule_action_kept rule_action_sampled dropDecision_def
      sample_step_def Let_def split_beta split: if_splits)

lemma count_Evaluate:
  "gget 0 (sampleCounts (fst (Evaluate oob now (Some evt) e))) k =
     gget 0 (sampleCounts e) k +
     (if sample_hit (eng_rules e) k ((now, evt), snd (Evaluate oob now (Some evt) e)) then 1 else 0)"
  by (auto simp: Evaluate_Some sample_hit_def fire_rule_counts sample_step_def default_decision_def Let_def
      split: option.splits)

lemma ceil_step:
  fixes c K :: int
  assumes "2 \<le> K" "0 \<le> c"
  shows "(c + 1 + K - 1) div K = (c + K - 1) div K + (if (c + 1) mod K = 1 then 1 else 0)"
proof -
  obtain q r where q: "c = q * K + r" "0 \<le> r" "r < K"
    using assms by (metis div_mult_mod_eq pos_mod_bound pos_mod_sign zero_less_numeral order_less_le_trans)
  have 1: "(c + 1 + K - 1) div K = q + 1"
    using q assms by (intro int_div_pos_eq [of _ _ _ r]) (auto simp: algebra_simps)
  show ?thesis
  proof (cases "r = 0")
    case True
    have "(c + K - 1) div K = q"
      using q True assms by (intro int_div_pos_eq [of _ _ _ "K - 1"]) (auto simp: algebra_simps)
    moreover have "(c + 1) mod K = 1" using q True assms by simp
    ultimately show ?thesis using 1 by simp
  next
    case False
    have "(c + K - 1) div K = q + 1"
      using q False assms by (intro int_div_pos_eq [of _ _ _ "r - 1"]) (auto simp: algebra_simps)
    moreover have "(c + 1) mod K \<noteq> 1"
    proof (cases "r = K - 1")
      case True
      then have "c + 1 = (q + 1) * K" using q by (simp add: algebra_simps)
      then show ?thesis by simp
    next
      case False
      then have "(c + 1) mod K = r + 1" using q by (simp add: add.assoc)
      with \<open>r \<noteq> 0\<close> show ?thesis by simp
    qed
    ultimately show ?thesis using 1 by simp
  qed
qed

lemma sampled_run:
  assumes "2 \<le> keep_every oob r" and "0 \<le> gget 0 (sampleCounts e) k"
    and "\<forall>x \<in> set (zip xs (snd (eval_run oob xs e))).
           sample_hit (eng_rules e) k x \<longrightarrow> first_match (snd (fst x)) (eng_rules e) = Some r"
  shows "int (length (filter (sample_kept (eng_rules e) k) (zip xs (snd (eval_run oob xs e))))) =
     (gget 0 (sampleCounts e) k +
        int (length (filter (sample_hit (eng_rules e) k) (zip xs (snd (eval_run oob xs e))))) +
        keep_every oob r - 1) div keep_every oob r -
     (gget 0 (sampleCounts e) k + keep_every oob r - 1) div keep_every oob r"
  using assms(2,3)
proof (induction xs arbitrary: e)
  case (Cons x xs)
  obtain now evt where x: "x = (now, evt)" by (cases x)
  define d where "d = snd (Evaluate oob now (Some evt) e)"
  define e' where "e' = fst (Evaluate oob now (Some evt) e)"
  define c where "c = gget 0 (sampleCounts e) k"
  have c': "gget 0 (sampleCounts e') k = c + (if sample_hit (eng_rules e) k ((now, evt), d) then 1 else 0)"
    by (simp add: e'_def d_def c_def count_Evaluate)
  have IH: "int (length (filter (sample_kept (eng_rules e) k) (zip xs (snd (eval_run oob xs e'))))) =
     (gget 0 (sampleCounts e') k +
        int (length (filter (sample_hit (eng_rules e) k) (zip xs (snd (eval_run oob xs e'))))) +
        keep_every oob r - 1) div keep_every oob r -
     (gget 0 (sampleCounts e') k + keep_every oob r - 1) div keep_every oob r"
    using Cons.IH [of e'] Cons.prems c' by (auto simp: c_def e'_def x Let_def)
  show ?case
  proof (cases "sample_hit (eng_rules e) k ((now, evt), d)")
    case True
    with Cons.prems(2) have m: "first_match evt (eng_rules e) = Some r"
      by (auto simp: x d_def Let_def)
    with True have "d_Sampled d" and key: "sampleKey r evt = k" by (auto simp: sample_hit_def)
    then have kept: "d_Reason d = ''rule_sample_keep'' \<longleftrightarrow> (c + 1) mod keep_every oob r = 1"
      using assms(1) m fire_rule_kept [of oob now r evt e] by (simp add: d_def c_def Evaluate_Some)
    then have k: "sample_kept (eng_rules e) k ((now, evt), d) \<longleftrightarrow> (c + 1) mod keep_every oob r = 1"
      using True by (simp add: sample_kept_def)
    have "0 \<le> c" using Cons.prems(1) by (simp add: c_def)
    then show ?thesis
      using IH c' True k ceil_step [OF assms(1), of c]
      by (simp add: x Let_def add.assoc flip: d_def e'_def c_def)
  next
    case False
    then have "\<not> sample_kept (eng_rules e) k ((now, evt), d)" by (simp add: sample_kept_def)
    with False IH c' show ?thesis
      by (simp add: x Let_def flip: d_def e'_def c_def)
  qed
qed simp

end
