(* ===== verification/Engine_Defaults.thy ===== *)
theory Engine_Defaults
  imports Engine_Facts
begin

text \<open>
  The default matrix: when each of its rules matches, how often its sampling rules keep, and which
  rules can drop an event at all.
\<close>

section \<open>Comparing fields\<close>

lemma matchField_star [simp]: "matchField ''*'' v"
  by (simp add: matchField_def comparableValue_def Let_def ToLower_def TrimSpace_def trim_with_def is_space_def)

lemma matchField_value:
  "comparableValue x = y \<Longrightarrow> y \<noteq> '''' \<Longrightarrow> y \<noteq> ''*'' \<Longrightarrow> matchField x v \<longleftrightarrow> comparableValue v = y"
  by (auto simp: matchField_def Let_def)

lemma comparable_literals [simp]:
  "comparableValue ''firewall'' = ''firewall''" "comparableValue ''opcua'' = ''opcua''"
  "comparableValue ''ews'' = ''ews''" "comparableValue ''scada'' = ''scada''"
  "comparableValue ''gds_agent'' = ''gds_agent''" "comparableValue ''plc'' = ''plc''"
  "comparableValue ''security'' = ''security''" "comparableValue ''critical'' = ''critical''"
  "comparableValue ''error'' = ''error''" "comparableValue ''info'' = ''info''"
  "comparableValue ''network'' = ''network''" "comparableValue ''system_health'' = ''system_health''"
  "comparableValue ''operator_action'' = ''operator_action''"
  "comparableValue ''READ'' = ''read''" "comparableValue ''WRITE'' = ''write''"
  "comparableValue ''true'' = ''true''"
  by (simp_all add: comparableValue_def Let_def ToLower_def TrimSpace_def trim_with_def is_space_def)

lemmas matchField_literals [simp] =
  matchField_value [OF comparable_literals(1), simplified]
  matchField_value [OF comparable_literals(2), simplified]
  matchField_value [OF comparable_literals(3), simplified]
  matchField_value [OF comparable_literals(4), simplified]
  matchField_value [OF comparable_literals(5), simplified]
  matchField_value [OF comparable_literals(6), simplified]
  matchField_value [OF comparable_literals(7), simplified]
  matchField_value [OF comparable_literals(8), simplified]
  matchField_value [OF comparable_literals(9), simplified]
  matchField_value [OF comparable_literals(10), simplified]
  matchField_value [OF comparable_literals(11), simplified]
  matchField_value [OF comparable_literals(12), simplified]
  matchField_value [OF comparable_literals(13), simplified]
  matchField_value [OF comparable_literals(14), simplified]
  matchField_value [OF comparable_literals(15), simplified]
  matchField_value [OF comparable_literals(16), simplified]

lemma comparableValue_warn:
  "comparableValue ''warn'' = ''warning''" "comparableValue ''warning'' = ''warning''"
  "comparableValue ''WARN'' = ''warning''"
  by (simp_all add: comparableValue_def Let_def ToLower_def TrimSpace_def trim_with_def is_space_def)

lemma matchTag_empty [simp]: "r_TagKey r = '''' \<Longrightarrow> matchTag r evt"
  by (simp add: matchTag_def)

section \<open>Rules that forward, rules that may drop\<close>

definition forwards_always :: "RuleConfig \<Rightarrow> bool" where
  "forwards_always r \<longleftrightarrow> r_RateLimitPerSecond r \<le> 0 \<and> r_DedupWindowSeconds r \<le> 0 \<and>
     ToLower (r_Action r) = ''store_and_forward''"

definition may_drop :: "RuleConfig \<Rightarrow> bool" where
  "may_drop r \<longleftrightarrow> 0 < r_RateLimitPerSecond r \<or> 0 < r_DedupWindowSeconds r \<or>
     ToLower (r_Action r) = ''sample'' \<or> ToLower (r_Action r) = ''drop''"

lemma fire_rule_forwards:
  "forwards_always r \<Longrightarrow> fire_rule oob now r evt opn e =
     (e, \<lparr>d_Store = True, d_Forward = True, d_Show = ruleShowInUI r, d_Drop = False, d_Sampled = False,
          d_MatchedRuleID = r_ID r, d_Reason = ''rule_store_and_forward''\<rparr>)"
  by (simp add: forwards_always_def fire_rule_def rule_dedup_def rule_action_def)

lemma fire_rule_no_drop: "\<not> may_drop r \<Longrightarrow> \<not> d_Drop (snd (fire_rule oob now r evt opn e))"
  by (simp add: may_drop_def fire_rule_def rule_dedup_def rule_action_def Let_def)

lemma Evaluate_no_drop:
  assumes "\<And>r. first_match evt (eng_rules e) = Some r \<Longrightarrow> \<not> may_drop r"
  shows "\<not> d_Drop (snd (Evaluate oob now (Some evt) e))"
  using assms by (auto simp: Evaluate_Some default_decision_def fire_rule_no_drop split: option.splits)

text \<open>
  If the first rules of a matrix all forward, and one of them matches, the event is forwarded.
\<close>

lemma forwarded_by_prefix:
  assumes "eng_rules e = pre @ rest" and "list_all forwards_always pre"
    and "r \<in> set pre" and "rule_matches evt (operationFor evt) r"
  shows "fst (Evaluate oob now (Some evt) e) = e"
    and "d_Store (snd (Evaluate oob now (Some evt) e))"
    and "d_Forward (snd (Evaluate oob now (Some evt) e))"
    and "\<not> d_Drop (snd (Evaluate oob now (Some evt) e))"
proof -
  from assms(3,4) obtain r' where r': "first_match evt pre = Some r'"
    unfolding first_match_def by (metis find_None_iff option.exhaust)
  then have "forwards_always r'"
    using assms(2) first_match_SomeD(1) by (metis list_all_iff)
  moreover have "first_match evt (eng_rules e) = Some r'"
    using r' by (simp add: assms(1) first_match_append)
  ultimately show "fst (Evaluate oob now (Some evt) e) = e"
    and "d_Store (snd (Evaluate oob now (Some evt) e))"
    and "d_Forward (snd (Evaluate oob now (Some evt) e))"
    and "\<not> d_Drop (snd (Evaluate oob now (Some evt) e))"
    by (simp_all add: Evaluate_Some fire_rule_forwards)
qed

lemma ToLower_actions [simp]:
  "ToLower ''store_and_forward'' = ''store_and_forward''" "ToLower ''sample'' = ''sample''"
  "ToLower ''store_only'' = ''store_only''" "ToLower ''keep'' = ''keep''" "ToLower ''drop'' = ''drop''"
  "ToLower ''forward_only'' = ''forward_only''"
  by (simp_all add: ToLower_def)

lemma default_prefix_forwards: "list_all forwards_always (take 4 defaultRules)"
  by (simp add: defaultRules_def base_rule_def forwards_always_def)

lemma default_security_rule: "rule_matches evt opn (defaultRules ! 2) \<longleftrightarrow> comparableValue (EventCategory evt) = ''security''"
  by (simp add: defaultRules_def base_rule_def rule_matches_def)

lemma default_critical_rule: "rule_matches evt opn (defaultRules ! 3) \<longleftrightarrow> comparableValue (Severity evt) = ''critical''"
  by (simp add: defaultRules_def base_rule_def rule_matches_def)

text \<open>The classes of events a default rule may drop.\<close>

definition noise :: "event \<Rightarrow> bool" where
  "noise evt \<longleftrightarrow>
     (let st = comparableValue (SourceType evt); cat = comparableValue (EventCategory evt);
          sev = comparableValue (Severity evt)
      in st = ''firewall''
       \<or> st = ''opcua'' \<and> cat = ''operator_action'' \<and> comparableValue (operationFor evt) = ''read''
       \<or> st = ''ews'' \<and> cat = ''system_health'' \<and> sev = ''info'' \<and> messageContains evt ''ews_heartbeat''
       \<or> st = ''scada'' \<and> cat = ''system_health'' \<and> sev = ''info'' \<and> messageContains evt ''heartbeat''
       \<or> st = ''gds_agent'' \<and> sev = ''info'' \<and> messageContains evt ''sync_cycle_success''
       \<or> st = ''plc'' \<and> cat = ''network'')"

lemma rule_matches_conj:
  "rule_matches evt opn r \<longleftrightarrow>
     r_Enabled r \<and> matchField (r_SourceType r) (SourceType evt) \<and>
     (matchField (r_Asset r) (AssetName evt) \<or> matchField (r_Asset r) (AssetIP evt)) \<and>
     matchField (r_Category r) (EventCategory evt) \<and> matchField (r_Severity r) (Severity evt) \<and>
     matchField (r_Operation r) opn \<and> matchField (r_EventType r) (tag evt ''event_type'') \<and>
     (r_MessageContains r = '''' \<or> messageContains evt (r_MessageContains r)) \<and> matchTag r evt"
  by (auto simp: rule_matches_def)

lemma default_may_drop_list:
  "list_all (\<lambda>r. may_drop r \<longrightarrow> rule_matches evt (operationFor evt) r \<longrightarrow> noise evt) defaultRules"
  by (simp add: defaultRules_def base_rule_def may_drop_def rule_matches_conj)
    (simp add: noise_def Let_def)

lemma default_may_drop_noise:
  assumes "r \<in> set defaultRules" and "may_drop r" and "rule_matches evt (operationFor evt) r"
  shows "noise evt"
  using assms default_may_drop_list [of evt] by (auto simp: list_all_iff)

text \<open>The sampling rules keep one event in 50, 20, 5, 10, 4 or 3.\<close>

lemma default_keep_every:
  "map (\<lambda>r. (r_ID r, keep_every oob r)) (filter (\<lambda>r. r_Action r = ''sample'') defaultRules) =
     [(''rule-firewall-pass-sample'', 50), (''rule-firewall-filterlog-noise-sample'', 50),
      (''rule-opcua-read-sample'', 20), (''rule-ews-heartbeat-sample'', 5),
      (''rule-scada-heartbeat-sample'', 10), (''rule-gds-sync-success-sample'', 4),
      (''rule-firewall-catchall-sample'', 20), (''rule-plc-network-sample'', 3)]"
  by (simp add: defaultRules_def base_rule_def keep_every_def effective_rate_def default_rate_floats
      default_rate_floats_reduced sampleToKeepEvery_def f64_eval)

lemma default_rules_sanitized: "rules.well_formed defaultRules"
  by (simp add: rules.well_formed_def sanitizeRule_def defaultRules_def base_rule_def if_empty_def
      sanitize_tag_key_def sanitize_rate_def sanitize_show_def default_rate_floats default_rate_floats_reduced)

lemma default_rules_distinct: "distinct (map r_ID defaultRules)"
  by (simp add: defaultRules_def base_rule_def)

end
