(* ===== verification/Engine_Properties.thy ===== *)
theory Engine_Properties
  imports Engine_Defaults
begin

text \<open>
  What the rule engine guarantees: the first-match refinement, the rate limiter, the duplicate
  window, the sampler and the default matrix. Each property has its witness after it.
\<close>

section \<open>Inputs of the witnesses\<close>

definition probe_rule :: RuleConfig where
  "probe_rule = base_rule\<lparr>r_ID := ''r1'', r_Action := ''keep'', r_RateLimitPerSecond := 2\<rparr>"

definition probe_dedup_rule :: RuleConfig where
  "probe_dedup_rule = base_rule\<lparr>r_ID := ''r2'', r_Action := ''keep'', r_DedupWindowSeconds := 10\<rparr>"

definition probe_sample_rule :: RuleConfig where
  "probe_sample_rule = base_rule\<lparr>r_ID := ''r3'', r_Action := ''sample'', r_SampleRate := 1 / 4\<rparr>"

definition probe_event :: event where
  "probe_event = zero_event\<lparr>SourceType := ''plc'', AssetIP := ''10.0.0.7'', Severity := ''info'',
     EventCategory := ''process'', Message := ''tick''\<rparr>"

lemma probe_matches [simp]:
  "rule_matches probe_event opn probe_rule" "rule_matches probe_event opn probe_dedup_rule"
  "rule_matches probe_event opn probe_sample_rule"
  by (simp_all add: probe_rule_def probe_dedup_rule_def probe_sample_rule_def base_rule_def rule_matches_conj)

lemma probe_first [simp]:
  "first_match probe_event [probe_rule] = Some probe_rule"
  "first_match probe_event [probe_dedup_rule] = Some probe_dedup_rule"
  "first_match probe_event [probe_sample_rule] = Some probe_sample_rule"
  by (simp_all add: first_match_def)

lemma probe_fields [simp]:
  "r_RateLimitPerSecond probe_rule = 2" "r_DedupWindowSeconds probe_rule = 0"
  "r_RateLimitPerSecond probe_dedup_rule = 0" "r_DedupWindowSeconds probe_dedup_rule = 10"
  "r_SampleRate probe_sample_rule = 1 / 4"
  by (simp_all add: probe_rule_def probe_dedup_rule_def probe_sample_rule_def base_rule_def)

lemma probe_keys:
  "rateKey probe_rule probe_event = ''r1|10.0.0.7''"
  "dedupKey probe_dedup_rule probe_event opn = Join [''r2'', ''10.0.0.7'', '''', ''plc'', ''process'', ''info'', opn, '''', ''tick''] ''|''"
  "operationFor probe_event = ''''"
  by (simp_all add: rateKey_def dedupKey_def operationFor_def probe_rule_def probe_dedup_rule_def base_rule_def
      probe_event_def zero_event_def tag_def)

definition probe_suppressed :: Engine where
  "probe_suppressed = (SetRules [probe_dedup_rule] New)
     \<lparr>dedupCache := [(dedupKey probe_dedup_rule probe_event (operationFor probe_event), 0)]\<rparr>"

section \<open>First match\<close>


lemma rule_action_decision_cong:
  "sampleCounts e = sampleCounts e' \<Longrightarrow> snd (rule_action oob r evt e) = snd (rule_action oob r evt e')"
  by (simp add: rule_action_def Let_def split_beta)

lemma fire_rule_spec:
  "snd (fire_rule oob now r evt (operationFor evt) e) =
     (if over_rate now r evt e then dropDecision ''rule_rate_limit'' (r_ID r)
      else if is_duplicate now r evt e then dropDecision ''rule_duplicate_window'' (r_ID r)
      else snd (rule_action oob r evt e))"
  by (auto simp: fire_rule_def rule_dedup_def over_rate_def is_duplicate_def Let_def split_beta
      intro: rule_action_decision_cong)


text \<open>No decision of the engine both drops and forwards an event, and an event dropped by a gate or by the sampler is neither stored nor shown.\<close>

theorem Evaluate_decision_consistent:
  "let d = snd (Evaluate oob now evt e)
   in \<not> (d_Drop d \<and> d_Forward d) \<and>
      (d_Reason d \<in> {''rule_rate_limit'', ''rule_duplicate_window'', ''rule_sample_drop''} \<longrightarrow>
         d_Drop d \<and> \<not> d_Store d \<and> \<not> d_Show d)"
proof -
  define good :: "Decision \<Rightarrow> bool" where "good d \<longleftrightarrow> \<not> (d_Drop d \<and> d_Forward d) \<and>
      (d_Reason d \<in> {''rule_rate_limit'', ''rule_duplicate_window'', ''rule_sample_drop''} \<longrightarrow>
         d_Drop d \<and> \<not> d_Store d \<and> \<not> d_Show d)" for d
  have "good (snd (rule_action oob r ev e))" for r ev
    by (simp add: good_def rule_action_def dropDecision_def Let_def split_beta)
  then have "good (snd (Evaluate oob now evt e))"
  proof (cases evt)
    case None
    then show ?thesis by (simp add: Evaluate_def good_def default_decision_def)
  next
    case (Some ev)
    have "good (default_decision ''default_store_only'')" "good (dropDecision ''rule_rate_limit'' i)"
      "good (dropDecision ''rule_duplicate_window'' i)" for i
      by (simp_all add: good_def default_decision_def dropDecision_def)
    with Some \<open>\<And>ev r. good (snd (rule_action oob r ev e))\<close> show ?thesis
      by (simp add: Evaluate_Some fire_rule_spec split: option.split)
  qed
  then show ?thesis by (simp add: good_def Let_def)
qed

theorem Evaluate_decision_consistent_witness:
  "let d = snd (Evaluate 0 9 (Some probe_event) probe_suppressed) in d_Drop d \<and> \<not> d_Store d \<and> \<not> d_Forward d"
proof -
  have "d_Reason (snd (Evaluate 0 9 (Some probe_event) probe_suppressed)) = ''rule_duplicate_window''"
    by (simp add: Evaluate_Some fire_rule_decision over_rate_def is_duplicate_iff probe_suppressed_def
        SetRules_def New_def time_Sub_def seconds_duration_exact)
  with Evaluate_decision_consistent [of 0 9 "Some probe_event" probe_suppressed] show ?thesis
    by (simp add: Let_def)
qed

section \<open>Rate limiting\<close>

text \<open>C6: Within one wall-clock second a rule with a rate limit admits at most its limit of events of one source, less what the source has used of it, whatever else the engine evaluates in between.\<close>

theorem rate_limit_bounds_admissions:
  assumes "0 < r_RateLimitPerSecond r" and "\<forall>(now, evt) \<in> set xs. now div 1000000000 = sec"
  shows "int (length (filter (admitted (eng_rules e) r k) (zip xs (snd (eval_run oob xs e))))) \<le>
     max 0 (r_RateLimitPerSecond r - rate_used e k sec)"
  by (rule admitted_bound [OF assms])

theorem rate_limit_bounds_admissions_witness:
  "int (length (filter (admitted [probe_rule] probe_rule ''r1|10.0.0.7'')
     (zip (replicate 5 (7, probe_event))
        (snd (eval_run 0 (replicate 5 (7, probe_event)) (SetRules [probe_rule] New)))))) \<le> 2"
  using rate_limit_bounds_admissions [of probe_rule "replicate 5 (7, probe_event)" 0 "SetRules [probe_rule] New"
      "''r1|10.0.0.7''" 0]
  by (simp add: SetRules_def New_def rate_used_def)

text \<open>C27: The limiter is exact: after a run of events of one second on an engine whose budget for the source is untouched, the next event of a rule with a limit is refused for its rate if and only if the run already used the whole limit of that key.\<close>

theorem rate_limit_exact:
  assumes "\<forall>(t, ev) \<in> set xs. t div 1000000000 = now div 1000000000"
    and "first_match evt (eng_rules e) = Some r" and "0 < r_RateLimitPerSecond r"
    and "rate_used e (rateKey r evt) (now div 1000000000) = 0"
  shows "d_Reason (snd (Evaluate oob now (Some evt) (fst (eval_run oob xs e)))) = ''rule_rate_limit'' \<longleftrightarrow>
     r_RateLimitPerSecond r \<le> int (length (filter (\<lambda>(t, ev). rate_hit (eng_rules e) (rateKey r evt) ev) xs))"
  using assms by (auto simp: Evaluate_rate_limited over_rate_used rate_used_run)

theorem rate_limit_exact_witness:
  "d_Reason (snd (Evaluate 0 9 (Some probe_event)
     (fst (eval_run 0 [(7, probe_event), (8, probe_event)] (SetRules [probe_rule] New))))) = ''rule_rate_limit''"
  using rate_limit_exact [of "[(7, probe_event), (8, probe_event)]" 9 probe_event "SetRules [probe_rule] New" probe_rule 0]
  by (simp add: SetRules_def New_def rate_used_def rate_hit_def)

text \<open>The rate limiter treats sources in isolation: the verdicts one key receives in any interleaving with other keys are those it receives alone, so no source can use up or restore the budget of another.\<close>

theorem rate_limiter_isolation:
  "filter (\<lambda>(j, b). j = k) (snd (gate_run rate_step ops m)) =
   snd (gate_run rate_step (filter (\<lambda>(j, c). j = k) ops) m)"
  by (rule rate.isolation)

section \<open>Duplicate suppression\<close>

text \<open>C10: Of the events of one rule with the same duplicate key whose times lie within one window, at most one gets past the gates, on any engine state and whatever other events come between.\<close>

theorem dedup_passes_at_most_one:
  assumes "0 < r_DedupWindowSeconds r" and "r_DedupWindowSeconds r \<le> 9223372036"
    and "\<forall>(now, evt) \<in> set xs. t0 \<le> now \<and> now \<le> t0 + r_DedupWindowSeconds r * 1000000000"
  shows "length (filter (passed (eng_rules e) r k) (zip xs (snd (eval_run oob xs e)))) \<le> 1"
  by (rule passed_at_most_one [OF assms])

theorem dedup_passes_at_most_one_witness:
  "length (filter (passed [probe_dedup_rule] probe_dedup_rule (dedupKey probe_dedup_rule probe_event (operationFor probe_event)))
     (zip [(7, probe_event), (9000000000, probe_event), (10000000000, probe_event)]
        (snd (eval_run 0 [(7, probe_event), (9000000000, probe_event), (10000000000, probe_event)]
          (SetRules [probe_dedup_rule] New))))) \<le> 1"
  using dedup_passes_at_most_one [of probe_dedup_rule
      "[(7, probe_event), (9000000000, probe_event), (10000000000, probe_event)]" 0 "SetRules [probe_dedup_rule] New"
      "dedupKey probe_dedup_rule probe_event (operationFor probe_event)" 0]
  by (simp add: SetRules_def New_def)



lemma seconds_duration_wraps:
  assumes "9223372037 \<le> w" "w \<le> 18446744073" shows "seconds_duration w < 0"
proof -
  have "(w * 1000000000 + 2 ^ 63) mod 2 ^ 64 = ((w * 1000000000 + 2 ^ 63 - 2 ^ 64) + 2 ^ 64) mod 2 ^ 64"
    by (simp only: diff_add_cancel)
  also have "\<dots> = w * 1000000000 + 2 ^ 63 - 2 ^ 64"
    unfolding mod_add_self2 using assms by (intro mod_pos_pos_trivial) auto
  finally show ?thesis
    using assms unfolding seconds_duration_def signed_take_bit_eq_take_bit_shift take_bit_eq_mod by simp
qed

text \<open>C34: A duplicate window between 9223372037 and 18446744073 seconds overflows the duration it is converted to, becomes negative and suppresses nothing, as long as the clock does not run backwards.\<close>

theorem dedup_window_overflow_disables:
  assumes "9223372037 \<le> r_DedupWindowSeconds r" and "r_DedupWindowSeconds r \<le> 18446744073"
    and "\<forall>t \<in> ran (map_of (dedupCache e)). t \<le> now"
    and "first_match evt (eng_rules e) = Some r"
  shows "d_Reason (snd (Evaluate oob now (Some evt) e)) \<noteq> ''rule_duplicate_window''"
proof -
  have "0 \<le> time_Sub now t" if "map_of (dedupCache e) k = Some t" for t k
    using assms(3) that by (auto simp: time_Sub_def ran_def)
  then have "\<not> is_duplicate now r evt e"
    using seconds_duration_wraps [OF assms(1,2)] by (force simp: is_duplicate_iff)
  then show ?thesis using assms(4) by (simp add: Evaluate_Some fire_rule_decision)
qed

definition probe_huge_rule :: RuleConfig where
  "probe_huge_rule = base_rule\<lparr>r_ID := ''r4'', r_Action := ''keep'', r_DedupWindowSeconds := 10000000000\<rparr>"

theorem dedup_window_overflow_disables_witness:
  "d_Reason (snd (Evaluate 0 8 (Some probe_event)
     (fst (Evaluate 0 7 (Some probe_event) (SetRules [probe_huge_rule] New))))) \<noteq> ''rule_duplicate_window''"
proof (rule dedup_window_overflow_disables [of probe_huge_rule])
  have m: "first_match probe_event [probe_huge_rule] = Some probe_huge_rule"
    by (simp add: probe_huge_rule_def base_rule_def first_match_def rule_matches_conj)
  then show "first_match probe_event
      (eng_rules (fst (Evaluate 0 7 (Some probe_event) (SetRules [probe_huge_rule] New)))) = Some probe_huge_rule"
    by (simp add: SetRules_def)
  show "\<forall>t \<in> ran (map_of (dedupCache (fst (Evaluate 0 7 (Some probe_event) (SetRules [probe_huge_rule] New))))). t \<le> 8"
  proof
    fix t
    assume "t \<in> ran (map_of (dedupCache (fst (Evaluate 0 7 (Some probe_event) (SetRules [probe_huge_rule] New)))))"
    then obtain k where k: "map_of (dedupCache (fst (Evaluate 0 7 (Some probe_event) (SetRules [probe_huge_rule] New)))) k = Some t"
      by (auto simp: ran_def)
    show "t \<le> 8"
      using cache_Evaluate [of 0 7 probe_event "SetRules [probe_huge_rule] New" k] k
      by (auto simp: SetRules_def New_def)
  qed
qed (simp_all add: probe_huge_rule_def base_rule_def)

section \<open>Sampling\<close>

text \<open>C28: The sampler is exact: when a rule keeps one event in K, the events of a sampling key that reach it are kept as many times as K-multiples start among them, so a key that has counted c events and then counts n more keeps ceil((c + n) / K) - ceil(c / K) of them.\<close>

theorem sampler_exact:
  assumes "2 \<le> keep_every oob r" and "0 \<le> gget 0 (sampleCounts e) k"
    and "\<forall>x \<in> set (zip xs (snd (eval_run oob xs e))).
           sample_hit (eng_rules e) k x \<longrightarrow> first_match (snd (fst x)) (eng_rules e) = Some r"
  shows "int (length (filter (sample_kept (eng_rules e) k) (zip xs (snd (eval_run oob xs e))))) =
     (gget 0 (sampleCounts e) k +
        int (length (filter (sample_hit (eng_rules e) k) (zip xs (snd (eval_run oob xs e))))) +
        keep_every oob r - 1) div keep_every oob r -
     (gget 0 (sampleCounts e) k + keep_every oob r - 1) div keep_every oob r"
  by (rule sampled_run [OF assms])

lemma probe_keep_every: "keep_every oob probe_sample_rule = 4"
  by (simp add: keep_every_def effective_rate_def sampleToKeepEvery_def f64_eval)

theorem sampler_exact_witness:
  "let run = zip (replicate 9 (7::int, probe_event))
       (snd (eval_run 0 (replicate 9 (7::int, probe_event)) (SetRules [probe_sample_rule] New)))
   in int (length (filter (sample_kept [probe_sample_rule] ''r3|10.0.0.7||process|tick'') run)) =
      (int (length (filter (sample_hit [probe_sample_rule] ''r3|10.0.0.7||process|tick'') run)) + 3) div 4"
proof -
  have "\<forall>x \<in> set (zip (replicate 9 (7::int, probe_event))
       (snd (eval_run 0 (replicate 9 (7::int, probe_event)) (SetRules [probe_sample_rule] New)))).
     first_match (snd (fst x)) [probe_sample_rule] = Some probe_sample_rule"
    by (auto dest!: set_zip_leftD)
  then show ?thesis
    using sampler_exact [of 0 probe_sample_rule "SetRules [probe_sample_rule] New" "''r3|10.0.0.7||process|tick''"
        "replicate 9 (7, probe_event)"]
    by (simp add: SetRules_def New_def probe_keep_every Let_def add.commute)
qed

text \<open>A sampling rate above one half (by at least one unit in the last place of its inverse) and below one does not sample at all: the inverse truncates to one and every event is kept.\<close>

theorem sample_rate_above_half_keeps_all:
  assumes "1 / 2 < r_SampleRate r" and "f64 (1 / r_SampleRate r) = Some v" and "v < 2"
    and "first_match evt (eng_rules e) = Some r" and "ToLower (r_Action r) = ''sample''"
  shows "d_Reason (snd (Evaluate oob now (Some evt) e)) \<noteq> ''rule_sample_drop''"
proof -
  have "keep_every oob r \<le> 1"
    using assms(1-3) f64_ge_1 [OF _ assms(2)]
    by (auto simp: keep_every_def effective_rate_def sampleToKeepEvery_def f64_to_int_def floor_le_iff)
  then have "snd (sample_step (sampleKey r evt) (keep_every oob r) (sampleCounts e))"
    by (simp add: sample_step_def Let_def)
  then have "d_Reason (snd (rule_action oob r evt e)) = ''rule_sample_keep''"
    by (simp add: rule_action_kept assms(5))
  then show ?thesis
    using assms(4) by (simp add: Evaluate_Some fire_rule_spec dropDecision_def)
qed

definition probe_three_quarters :: RuleConfig where
  "probe_three_quarters = probe_sample_rule\<lparr>r_SampleRate := 3 / 4\<rparr>"

theorem sample_rate_above_half_keeps_all_witness:
  "d_Reason (snd (Evaluate 0 7 (Some probe_event) (SetRules [probe_three_quarters] New))) \<noteq> ''rule_sample_drop''"
proof (rule sample_rate_above_half_keeps_all [of probe_three_quarters "6004799503160661 / 4503599627370496"])
  show "f64 (1 / r_SampleRate probe_three_quarters) = Some (6004799503160661 / 4503599627370496)"
    by (simp add: probe_three_quarters_def f64_eval)
qed (simp_all add: probe_three_quarters_def probe_sample_rule_def base_rule_def SetRules_def first_match_def rule_matches_conj)

section \<open>The default matrix\<close>

text \<open>With the default matrix every security event and every critical event is stored and forwarded: no rate limit, duplicate window or sampling rule can get hold of it, and it leaves no trace in the gates.\<close>

theorem default_security_and_critical_forwarded:
  assumes "eng_rules e = defaultRules"
    and "comparableValue (EventCategory evt) = ''security'' \<or> comparableValue (Severity evt) = ''critical''"
  shows "fst (Evaluate oob now (Some evt) e) = e \<and>
     d_Store (snd (Evaluate oob now (Some evt) e)) \<and> d_Forward (snd (Evaluate oob now (Some evt) e)) \<and>
     \<not> d_Drop (snd (Evaluate oob now (Some evt) e))"
proof -
  have "eng_rules e = take 4 defaultRules @ drop 4 defaultRules"
    using assms(1) by (metis append_take_drop_id)
  moreover obtain r where "r \<in> set (take 4 defaultRules)" "rule_matches evt (operationFor evt) r"
  proof -
    have "length defaultRules = 16" by (simp add: defaultRules_def)
    then have "defaultRules ! 2 \<in> set (take 4 defaultRules)" "defaultRules ! 3 \<in> set (take 4 defaultRules)"
      by (auto simp: in_set_conv_nth intro: exI [of _ 2] exI [of _ 3])
    with assms(2) that show ?thesis using default_security_rule default_critical_rule by blast
  qed
  ultimately show ?thesis
    using forwarded_by_prefix [of e "take 4 defaultRules" "drop 4 defaultRules" r, OF _ default_prefix_forwards]
    by (simp del: append_take_drop_id)
qed

definition probe_alarm :: event where
  "probe_alarm = probe_event\<lparr>EventCategory := '' Security ''\<rparr>"

theorem default_security_and_critical_forwarded_witness:
  "d_Forward (snd (Evaluate 0 7 (Some probe_alarm) (SetRules defaultRules New)))"
  using default_security_and_critical_forwarded [of "SetRules defaultRules New" probe_alarm 0 7]
  by (simp add: SetRules_def probe_alarm_def comparableValue_def Let_def ToLower_def TrimSpace_def
      trim_with_def is_space_def)






section \<open>Keys\<close>

text \<open>C35: Two events share a duplicate key of one rule exactly when they agree on asset, source, category, severity, operation, event type and message, as long as no field but the message contains the separator of the key; so suppression never merges different events of such sources.\<close>

theorem dedup_key_injective:
  assumes "\<forall>ev \<in> {evt, evt'}. CHR ''|'' \<notin> set (AssetIP ev @ AssetName ev @ SourceType ev @ EventCategory ev @ Severity ev @
      operationFor ev @ tag ev ''event_type'')"
  shows "dedupKey r evt (operationFor evt) = dedupKey r evt' (operationFor evt') \<longleftrightarrow>
     AssetIP evt = AssetIP evt' \<and> AssetName evt = AssetName evt' \<and> SourceType evt = SourceType evt' \<and>
     EventCategory evt = EventCategory evt' \<and> Severity evt = Severity evt' \<and>
     operationFor evt = operationFor evt' \<and> tag evt ''event_type'' = tag evt' ''event_type'' \<and>
     Message evt = Message evt'"
  using assms by (auto simp: dedupKey_def append_sep_eq)

theorem dedup_key_injective_witness:
  "dedupKey probe_rule probe_event (operationFor probe_event) \<noteq>
   dedupKey probe_rule probe_alarm (operationFor probe_alarm)"
  using dedup_key_injective [of probe_event probe_alarm probe_rule]
  by (simp add: probe_alarm_def probe_event_def zero_event_def operationFor_def tag_def)

text \<open>C00: The separator is not escaped: two different firewall events, one with the separator in its asset name, have the same duplicate key, so the first one suppresses the second.\<close>

theorem dedup_key_collides:
  "\<exists>evt evt'. (AssetName evt, SourceType evt) \<noteq> (AssetName evt', SourceType evt') \<and>
     dedupKey probe_dedup_rule evt (operationFor evt) = dedupKey probe_dedup_rule evt' (operationFor evt')"
  by (rule exI [of _ "probe_event\<lparr>AssetName := ''a|b'', SourceType := ''c''\<rparr>"],
      rule exI [of _ "probe_event\<lparr>AssetName := ''a'', SourceType := ''b|c''\<rparr>"])
    (simp add: dedupKey_def probe_event_def zero_event_def operationFor_def tag_def)

end
