(* ===== verification/Forwarder.thy ===== *)
theory Forwarder
  imports Event
begin

text \<open>
  The HTTP client of the DMZ collector (\<open>internal/forwarder/forwarder.go\<close>). What the network does
  with a request is an input: the request cannot be built, the exchange fails, or a response comes
  back. The body sent is the JSON encoding of the event, which cannot fail for a record of strings.
\<close>

record Forwarder =
  f_url :: string
  f_timeoutSecs :: int

definition New_Forwarder :: "string \<Rightarrow> int \<Rightarrow> Forwarder" where
  "New_Forwarder url timeoutSecs =
     \<lparr>f_url = TrimSpace url, f_timeoutSecs = (if timeoutSecs \<le> 0 then 10 else timeoutSecs)\<rparr>"

definition Forwarder_Enabled :: "Forwarder \<Rightarrow> bool" where
  "Forwarder_Enabled f \<longleftrightarrow> f_url f \<noteq> ''''"

datatype send_error = PlainError string | HTTPStatusError (StatusCode: int) (Body: string)

definition Itoa_int :: "int \<Rightarrow> string" where
  "Itoa_int n = (if n < 0 then CHR ''-'' # Itoa (nat (- n)) else Itoa (nat n))"

definition send_error_text :: "send_error \<Rightarrow> string" where
  "send_error_text e =
     (case e of PlainError s \<Rightarrow> s
      | HTTPStatusError code body \<Rightarrow> ''dmz collector returned status '' @ Itoa_int code)"

datatype http_outcome = BadRequest string | ExchangeFailed string | Response int string

text \<open>
  The status and the error of one attempt. The body snippet is the first 200 bytes of the response,
  trimmed.
\<close>

definition SendWithStatus :: "Forwarder \<Rightarrow> http_outcome \<Rightarrow> int \<times> send_error option" where
  "SendWithStatus f net =
     (if \<not> Forwarder_Enabled f then (0, None)
      else (case net of
              BadRequest e \<Rightarrow> (0, Some (PlainError e))
            | ExchangeFailed e \<Rightarrow> (0, Some (PlainError e))
            | Response code body \<Rightarrow>
                if code < 200 \<or> 300 \<le> code
                then (code, Some (HTTPStatusError code (TrimSpace (take 200 body))))
                else (code, None)))"

definition Send :: "Forwarder \<Rightarrow> http_outcome \<Rightarrow> send_error option" where
  "Send f net = snd (SendWithStatus f net)"

lemma SendWithStatus_ok_iff:
  "snd (SendWithStatus f net) = None \<longleftrightarrow>
     \<not> Forwarder_Enabled f \<or> (\<exists>code body. net = Response code body \<and> 200 \<le> code \<and> code < 300)"
  by (auto simp: SendWithStatus_def split: http_outcome.splits)

lemma New_Forwarder_Enabled: "Forwarder_Enabled (New_Forwarder url t) \<longleftrightarrow> TrimSpace url \<noteq> ''''"
  by (simp add: Forwarder_Enabled_def New_Forwarder_def)

end
