(* ===== verification/Forward_Queue.thy ===== *)
theory Forward_Queue
  imports Forwarder "HOL-Library.Multiset"
begin

text \<open>
  The forwarding queue (\<open>internal/forwarder/queue.go\<close>): a buffered channel, a pool of workers and
  two atomic counters. The counters are not updated together with the channel, so the queue is
  modelled at the grain of its atomic actions: each channel operation and each \<open>Add\<close> is one
  step, taken by an \<open>Enqueue\<close> or \<open>Drain\<close> call or by one of the anonymous workers.
  \<open>Enqueue\<close>, \<open>Drain\<close> and one turn of a worker are also given as the
  functions they compute when nothing interleaves, and are shown to be runs of the steps.
\<close>

record ForwardTask =
  t_Evt :: event
  t_IngestionPath :: string
  t_EnqueuedAt :: int

record ForwardResult =
  fr_EventID :: string
  fr_IngestionPath :: string
  fr_Skipped :: bool
  fr_SkipReason :: string
  fr_ElapsedMS :: int
  fr_HTTPStatus :: int
  fr_Err :: "send_error option"

section \<open>Processing one task\<close>

definition stale :: "int \<Rightarrow> int \<Rightarrow> ForwardTask \<Rightarrow> bool" where
  "stale maxAge now t \<longleftrightarrow> 0 < maxAge \<and> maxAge < now - t_EnqueuedAt t"

definition task_result :: "ForwardTask \<Rightarrow> ForwardResult" where
  "task_result t = \<lparr>fr_EventID = ID (t_Evt t), fr_IngestionPath = t_IngestionPath t, fr_Skipped = False,
     fr_SkipReason = '''', fr_ElapsedMS = 0, fr_HTTPStatus = 0, fr_Err = None\<rparr>"

definition skip_result :: "ForwardTask \<Rightarrow> ForwardResult" where
  "skip_result t = (task_result t)\<lparr>fr_Skipped := True, fr_SkipReason := ''max_age_exceeded''\<rparr>"

definition sent_result :: "ForwardTask \<Rightarrow> int \<Rightarrow> int \<times> send_error option \<Rightarrow> ForwardResult" where
  "sent_result t elapsed r =
     (task_result t)\<lparr>fr_ElapsedMS := elapsed, fr_HTTPStatus := fst r, fr_Err := snd r\<rparr>"

text \<open>
  \<open>process\<close>: the result handed to the callback, and the event handed to \<open>doSend\<close>, if
  any. The clock, the outcome of \<open>doSend\<close> and the time it took are inputs.
\<close>

definition process ::
  "int \<Rightarrow> int \<Rightarrow> (event \<Rightarrow> int \<times> send_error option) \<Rightarrow> int \<Rightarrow> ForwardTask \<Rightarrow> ForwardResult \<times> event option" where
  "process maxAge now doSend elapsed t =
     (if stale maxAge now t then (skip_result t, None)
      else (sent_result t elapsed (doSend (t_Evt t)), Some (t_Evt t)))"

section \<open>The queue\<close>

text \<open>Where a worker is: each value stands between two atomic actions of its loop.\<close>

datatype worker =
    Waiting
  | Received ForwardTask
  | Dequeued ForwardTask
  | Running ForwardTask
  | Sending ForwardTask int
  | Finished
  | Stopped

text \<open>
  \<open>enq_open\<close> and \<open>drain_open\<close> count the calls of \<open>Enqueue\<close> and \<open>Drain\<close> that
  have used the channel and not yet updated the counter. The last four fields record history and
  are read by no step: the tasks accepted, the tasks taken out of the channel, the tasks drained
  and the results reported, each with the time its send started, if it was sent.
\<close>

record ForwardQueue =
  tasks :: "ForwardTask list"
  cap :: nat
  maxAge :: int
  queued :: int
  inFlight :: int
  workers :: "worker multiset"
  enq_open :: nat
  drain_open :: nat
  cancelled :: bool
  h_accepted :: "ForwardTask list"
  h_taken :: "ForwardTask list"
  h_drained :: "ForwardTask list"
  h_results :: "(ForwardTask \<times> int option \<times> ForwardResult) list"

definition NewForwardQueue :: "int \<Rightarrow> int \<Rightarrow> int \<Rightarrow> ForwardQueue" where
  "NewForwardQueue n bufSize age =
     (let n = (if n \<le> 0 then 4 else n); bufSize = (if bufSize \<le> 0 then 2048 else bufSize)
      in \<lparr>tasks = [], cap = nat bufSize, maxAge = age, queued = 0, inFlight = 0,
          workers = replicate_mset (nat n) Waiting, enq_open = 0, drain_open = 0, cancelled = False,
          h_accepted = [], h_taken = [], h_drained = [], h_results = []\<rparr>)"

definition QueuedCount :: "ForwardQueue \<Rightarrow> int" where
  "QueuedCount q = queued q"

definition InFlightCount :: "ForwardQueue \<Rightarrow> int" where
  "InFlightCount q = inFlight q"

section \<open>Atomic steps\<close>

inductive qstep :: "ForwardQueue \<Rightarrow> ForwardQueue \<Rightarrow> bool" where
  enqueue_send: "length (tasks q) < cap q \<Longrightarrow>
    qstep q (q\<lparr>tasks := tasks q @ [t], enq_open := enq_open q + 1, h_accepted := h_accepted q @ [t]\<rparr>)"
| enqueue_count: "enq_open q = Suc n \<Longrightarrow> qstep q (q\<lparr>enq_open := n, queued := queued q + 1\<rparr>)"
| drain_receive: "tasks q = t # ts \<Longrightarrow>
    qstep q (q\<lparr>tasks := ts, drain_open := drain_open q + 1, h_taken := h_taken q @ [t],
               h_drained := h_drained q @ [t]\<rparr>)"
| drain_count: "drain_open q = Suc n \<Longrightarrow> qstep q (q\<lparr>drain_open := n, queued := queued q - 1\<rparr>)"
| receive: "workers q = add_mset Waiting W \<Longrightarrow> tasks q = t # ts \<Longrightarrow>
    qstep q (q\<lparr>tasks := ts, workers := add_mset (Received t) W, h_taken := h_taken q @ [t]\<rparr>)"
| count_dequeued: "workers q = add_mset (Received t) W \<Longrightarrow>
    qstep q (q\<lparr>workers := add_mset (Dequeued t) W, queued := queued q - 1\<rparr>)"
| count_running: "workers q = add_mset (Dequeued t) W \<Longrightarrow>
    qstep q (q\<lparr>workers := add_mset (Running t) W, inFlight := inFlight q + 1\<rparr>)"
| discard_stale: "workers q = add_mset (Running t) W \<Longrightarrow> stale (maxAge q) now t \<Longrightarrow>
    qstep q (q\<lparr>workers := add_mset Finished W,
               h_results := h_results q @ [(t, None, skip_result t)]\<rparr>)"
| start_send: "workers q = add_mset (Running t) W \<Longrightarrow> \<not> stale (maxAge q) now t \<Longrightarrow>
    qstep q (q\<lparr>workers := add_mset (Sending t now) W\<rparr>)"
| end_send: "workers q = add_mset (Sending t now) W \<Longrightarrow>
    qstep q (q\<lparr>workers := add_mset Finished W,
               h_results := h_results q @ [(t, Some now, sent_result t elapsed r)]\<rparr>)"
| count_finished: "workers q = add_mset Finished W \<Longrightarrow>
    qstep q (q\<lparr>workers := add_mset Waiting W, inFlight := inFlight q - 1\<rparr>)"
| cancel: "qstep q (q\<lparr>cancelled := True\<rparr>)"
| stop: "workers q = add_mset Waiting W \<Longrightarrow> cancelled q \<Longrightarrow>
    qstep q (q\<lparr>workers := add_mset Stopped W\<rparr>)"

inductive reachable :: "ForwardQueue \<Rightarrow> bool" where
  initial: "reachable (NewForwardQueue n bufSize age)"
| step: "reachable q \<Longrightarrow> qstep q q' \<Longrightarrow> reachable q'"

section \<open>Uninterrupted calls\<close>

definition Enqueue :: "ForwardTask \<Rightarrow> ForwardQueue \<Rightarrow> ForwardQueue \<times> bool" where
  "Enqueue t q =
     (if length (tasks q) < cap q
      then (q\<lparr>tasks := tasks q @ [t], queued := queued q + 1, h_accepted := h_accepted q @ [t]\<rparr>, True)
      else (q, False))"

text \<open>The loop of \<open>Drain\<close>, on the tasks left in the channel.\<close>

fun drain_loop :: "ForwardTask list \<Rightarrow> int \<Rightarrow> ForwardQueue \<Rightarrow> ForwardQueue \<times> int" where
  "drain_loop [] n q = (q, n)"
| "drain_loop (t # ts) n q =
     drain_loop ts (n + 1) (q\<lparr>tasks := ts, queued := queued q - 1, h_taken := h_taken q @ [t],
       h_drained := h_drained q @ [t]\<rparr>)"

definition Drain :: "ForwardQueue \<Rightarrow> ForwardQueue \<times> int" where
  "Drain q = drain_loop (tasks q) 0 q"

text \<open>One turn of the loop of \<open>worker\<close>: nothing when the channel is empty.\<close>

definition worker_turn ::
  "int \<Rightarrow> (event \<Rightarrow> int \<times> send_error option) \<Rightarrow> int \<Rightarrow> ForwardQueue \<Rightarrow> ForwardQueue \<times> ForwardResult option" where
  "worker_turn now doSend elapsed q =
     (case tasks q of
        [] \<Rightarrow> (q, None)
      | t # ts \<Rightarrow>
          (let (r, sent) = process (maxAge q) now doSend elapsed t
           in (q\<lparr>tasks := ts, queued := queued q - 1, h_taken := h_taken q @ [t],
                 h_results := h_results q @ [(t, map_option (\<lambda>_. now) sent, r)]\<rparr>, Some r)))"

end
