(* ===== verification/Forward_Queue_Facts.thy ===== *)
theory Forward_Queue_Facts
  imports Forward_Queue
begin

text \<open>
  The invariant of the forwarding queue over all interleavings, the atomic runs of its
  uninterrupted calls, and the properties of the queue.
\<close>

section \<open>The invariant\<close>

definition hand :: "worker \<Rightarrow> ForwardTask multiset" where
  "hand w = (case w of Received t \<Rightarrow> {#t#} | Dequeued t \<Rightarrow> {#t#} | Running t \<Rightarrow> {#t#}
     | Sending t now \<Rightarrow> {#t#} | _ \<Rightarrow> {#})"

definition uncounted :: "worker \<Rightarrow> int" where
  "uncounted w = (case w of Received t \<Rightarrow> 1 | _ \<Rightarrow> 0)"

definition busy :: "worker \<Rightarrow> int" where
  "busy w = (case w of Running t \<Rightarrow> 1 | Sending t now \<Rightarrow> 1 | Finished \<Rightarrow> 1 | _ \<Rightarrow> 0)"

definition hands :: "worker multiset \<Rightarrow> ForwardTask multiset" where
  "hands W = sum_mset (image_mset hand W)"

definition total :: "(worker \<Rightarrow> int) \<Rightarrow> worker multiset \<Rightarrow> int" where
  "total f W = sum_mset (image_mset f W)"

lemma hands_add [simp]: "hands (add_mset w W) = hand w + hands W"
  by (simp add: hands_def)

lemma total_add [simp]: "total f (add_mset w W) = f w + total f W"
  by (simp add: total_def)

lemmas worker_simps [simp] = hand_def uncounted_def busy_def

definition counters_exact :: "ForwardQueue \<Rightarrow> bool" where
  "counters_exact q \<longleftrightarrow>
     queued q = int (length (tasks q)) - int (enq_open q) + int (drain_open q) + total uncounted (workers q) \<and>
     inFlight q = total busy (workers q)"

definition conserved :: "ForwardQueue \<Rightarrow> bool" where
  "conserved q \<longleftrightarrow>
     h_accepted q = h_taken q @ tasks q \<and>
     mset (h_taken q) = mset (h_drained q) + hands (workers q) + mset (map fst (h_results q))"

definition result_ok :: "int \<Rightarrow> ForwardTask \<times> int option \<times> ForwardResult \<Rightarrow> bool" where
  "result_ok age = (\<lambda>(t, started, r).
     fr_EventID r = ID (t_Evt t) \<and> fr_IngestionPath r = t_IngestionPath t \<and>
     (case started of None \<Rightarrow> fr_Skipped r \<and> 0 < age
      | Some now \<Rightarrow> \<not> fr_Skipped r \<and> \<not> stale age now t))"

definition results_ok :: "ForwardQueue \<Rightarrow> bool" where
  "results_ok q \<longleftrightarrow> list_all (result_ok (maxAge q)) (h_results q) \<and>
     (\<forall>t now. Sending t now \<in># workers q \<longrightarrow> \<not> stale (maxAge q) now t)"

definition queue_ok :: "ForwardQueue \<Rightarrow> bool" where
  "queue_ok q \<longleftrightarrow> length (tasks q) \<le> cap q \<and> counters_exact q \<and> conserved q \<and> results_ok q"

lemma bounded_step: "qstep q q' \<Longrightarrow> length (tasks q) \<le> cap q \<Longrightarrow> length (tasks q') \<le> cap q'"
  by (induction rule: qstep.induct) auto

lemma counters_step: "qstep q q' \<Longrightarrow> counters_exact q \<Longrightarrow> counters_exact q'"
  by (induction rule: qstep.induct) (auto simp: counters_exact_def)

lemma conserved_step: "qstep q q' \<Longrightarrow> conserved q \<Longrightarrow> conserved q'"
  by (induction rule: qstep.induct) (auto simp: conserved_def)

lemma results_step: "qstep q q' \<Longrightarrow> results_ok q \<Longrightarrow> results_ok q'"
  by (induction rule: qstep.induct)
    (auto simp: results_ok_def result_ok_def sent_result_def skip_result_def task_result_def stale_def)

lemma queue_ok_step: "qstep q q' \<Longrightarrow> queue_ok q \<Longrightarrow> queue_ok q'"
  using bounded_step counters_step conserved_step results_step by (simp add: queue_ok_def)

lemma hands_idle [simp]: "hands (replicate_mset n Waiting) = {#}"
  by (induction n) (simp_all add: hands_def)

lemma total_idle [simp]: "f Waiting = 0 \<Longrightarrow> total f (replicate_mset n Waiting) = 0"
  by (induction n) (simp_all add: total_def)

lemma queue_ok_initial: "queue_ok (NewForwardQueue n bufSize age)"
  by (simp add: queue_ok_def NewForwardQueue_def counters_exact_def conserved_def results_ok_def Let_def)

lemma reachable_ok: "reachable q \<Longrightarrow> queue_ok q"
  by (induction rule: reachable.induct) (auto intro: queue_ok_initial queue_ok_step)

lemma total_nonneg: "(\<And>w. 0 \<le> f w) \<Longrightarrow> 0 \<le> total f W"
  by (induction W) (simp_all add: total_def)

lemma total_le_size: "(\<And>w. f w \<le> 1) \<Longrightarrow> total f W \<le> int (size W)"
proof (induction W)
  case empty
  then show ?case by (simp add: total_def)
next
  case (add w W)
  from add.IH [OF add.prems] add.prems [of w] show ?case by simp
qed

lemma workers_constant: "qstep q q' \<Longrightarrow> size (workers q') = size (workers q)"
  by (induction rule: qstep.induct) auto

section \<open>Runs\<close>

lemma qstep_rtranclp_reachable: "reachable q \<Longrightarrow> qstep\<^sup>*\<^sup>* q q' \<Longrightarrow> reachable q'"
  by (rotate_tac, induction rule: rtranclp_induct) (auto intro: reachable.step)

text \<open>The uninterrupted calls are runs of the atomic steps.\<close>

lemma Enqueue_run: "qstep\<^sup>*\<^sup>* q (fst (Enqueue t q))"
proof (cases "length (tasks q) < cap q")
  case True
  let ?m = "q\<lparr>tasks := tasks q @ [t], enq_open := enq_open q + 1, h_accepted := h_accepted q @ [t]\<rparr>"
  have "qstep q ?m" by (rule enqueue_send [OF True])
  moreover have "qstep ?m (?m\<lparr>enq_open := enq_open q, queued := queued ?m + 1\<rparr>)"
    by (rule enqueue_count) simp
  moreover have "?m\<lparr>enq_open := enq_open q, queued := queued ?m + 1\<rparr> = fst (Enqueue t q)"
    using True by (simp add: Enqueue_def)
  ultimately show ?thesis by (metis converse_rtranclp_into_rtranclp r_into_rtranclp)
qed (simp add: Enqueue_def)

lemma drain_loop_run:
  "tasks q = ts \<Longrightarrow> qstep\<^sup>*\<^sup>* q (fst (drain_loop ts n q)) \<and> snd (drain_loop ts n q) = n + int (length ts) \<and>
     tasks (fst (drain_loop ts n q)) = []"
proof (induction ts arbitrary: q n)
  case (Cons t ts)
  let ?m = "q\<lparr>tasks := ts, drain_open := drain_open q + 1, h_taken := h_taken q @ [t], h_drained := h_drained q @ [t]\<rparr>"
  let ?e = "q\<lparr>tasks := ts, queued := queued q - 1, h_taken := h_taken q @ [t], h_drained := h_drained q @ [t]\<rparr>"
  have "qstep q ?m" by (rule drain_receive [OF Cons.prems])
  moreover have "qstep ?m (?m\<lparr>drain_open := drain_open q, queued := queued ?m - 1\<rparr>)"
    by (rule drain_count) simp
  moreover have "?m\<lparr>drain_open := drain_open q, queued := queued ?m - 1\<rparr> = ?e" by simp
  ultimately have "qstep\<^sup>*\<^sup>* q ?e"
    by (metis converse_rtranclp_into_rtranclp r_into_rtranclp)
  with Cons.IH [of ?e "n + 1"] show ?case by auto
qed simp

lemma worker_turn_run:
  assumes "workers q = add_mset Waiting W"
  shows "qstep\<^sup>*\<^sup>* q (fst (worker_turn now doSend elapsed q))"
proof (cases "tasks q")
  case (Cons t ts)
  define a where "a = q\<lparr>tasks := ts, workers := add_mset (Received t) W, h_taken := h_taken q @ [t]\<rparr>"
  define b where "b = a\<lparr>workers := add_mset (Dequeued t) W, queued := queued a - 1\<rparr>"
  define c where "c = b\<lparr>workers := add_mset (Running t) W, inFlight := inFlight b + 1\<rparr>"
  define entry where "entry = (let (r, sent) = process (maxAge q) now doSend elapsed t
    in (t, map_option (\<lambda>_. now) sent, r))"
  define d where "d = c\<lparr>workers := add_mset Finished W, h_results := h_results c @ [entry]\<rparr>"
  define f where "f = d\<lparr>workers := add_mset Waiting W, inFlight := inFlight d - 1\<rparr>"
  have "qstep q a" unfolding a_def by (rule receive [OF assms Cons])
  moreover have "qstep a b" unfolding b_def by (rule count_dequeued) (simp add: a_def)
  moreover have "qstep b c" unfolding c_def by (rule count_running) (simp add: b_def)
  moreover have "qstep\<^sup>*\<^sup>* c d"
  proof (cases "stale (maxAge q) now t")
    case True
    then have "entry = (t, None, skip_result t)" by (simp add: entry_def process_def)
    with True have "qstep c d"
      using discard_stale [of c t W now] by (simp add: d_def c_def b_def a_def)
    then show ?thesis by blast
  next
    case False
    then have e: "entry = (t, Some now, sent_result t elapsed (doSend (t_Evt t)))"
      by (simp add: entry_def process_def)
    have "qstep c (c\<lparr>workers := add_mset (Sending t now) W\<rparr>)"
      using False by (intro start_send) (simp_all add: c_def b_def a_def)
    moreover have "qstep (c\<lparr>workers := add_mset (Sending t now) W\<rparr>) d"
      using end_send [of "c\<lparr>workers := add_mset (Sending t now) W\<rparr>" t now W elapsed "doSend (t_Evt t)"]
      by (simp add: d_def e)
    ultimately show ?thesis by (metis converse_rtranclp_into_rtranclp r_into_rtranclp)
  qed
  moreover have "qstep d f" unfolding f_def by (rule count_finished) (simp add: d_def)
  ultimately have "qstep\<^sup>*\<^sup>* q f"
    by (meson converse_rtranclp_into_rtranclp rtranclp.rtrancl_into_rtrancl rtranclp_trans r_into_rtranclp)
  moreover have "f = fst (worker_turn now doSend elapsed q)"
    using assms by (simp add: worker_turn_def Cons f_def d_def c_def b_def a_def entry_def split_beta Let_def)
  ultimately show ?thesis by simp
qed (simp add: worker_turn_def)

section \<open>Progress\<close>

definition steps_left :: "worker \<Rightarrow> nat" where
  "steps_left w = (case w of Received t \<Rightarrow> 5 | Dequeued t \<Rightarrow> 4 | Running t \<Rightarrow> 3 | Sending t now \<Rightarrow> 2
     | Finished \<Rightarrow> 1 | _ \<Rightarrow> 0)"

definition work_left :: "ForwardQueue \<Rightarrow> nat" where
  "work_left q = 6 * length (tasks q) + sum_mset (image_mset steps_left (workers q))"

definition alive :: "ForwardQueue \<Rightarrow> bool" where
  "alive q \<longleftrightarrow> (\<exists>w \<in># workers q. w \<noteq> Stopped)"

definition progress :: "ForwardQueue \<Rightarrow> ForwardQueue \<Rightarrow> bool" where
  "progress q q' \<longleftrightarrow> qstep q q' \<and> work_left q' < work_left q \<and> alive q' \<and>
     h_accepted q' = h_accepted q \<and> h_drained q' = h_drained q"

lemma progress_intro:
  assumes "qstep q q'" and "workers q' = add_mset w' W" and "workers q = add_mset w W"
    and "6 * length (tasks q') + steps_left w' < 6 * length (tasks q) + steps_left w" and "w' \<noteq> Stopped"
    and "h_accepted q' = h_accepted q" and "h_drained q' = h_drained q"
  shows "progress q q'"
  using assms by (auto simp: progress_def work_left_def alive_def)

lemma busy_progress:
  assumes "w \<in># workers q" and "steps_left w \<noteq> 0"
  shows "\<exists>q'. progress q q'"
proof -
  obtain W where W: "workers q = add_mset w W" using assms(1) by (metis mset_add)
  show ?thesis
  proof (cases w)
    case (Received t)
    show ?thesis by (rule exI, rule progress_intro [OF count_dequeued [of q t W]]) (use W Received in \<open>auto simp: steps_left_def\<close>)
  next
    case (Dequeued t)
    show ?thesis by (rule exI, rule progress_intro [OF count_running [of q t W]]) (use W Dequeued in \<open>auto simp: steps_left_def\<close>)
  next
    case (Running t)
    show ?thesis
      by (rule exI, rule progress_intro [OF start_send [of q t W "t_EnqueuedAt t"]])
        (use W Running in \<open>auto simp: steps_left_def stale_def\<close>)
  next
    case (Sending t now)
    show ?thesis by (rule exI, rule progress_intro [OF end_send [of q t now W]]) (use W Sending in \<open>auto simp: steps_left_def\<close>)
  next
    case Finished
    show ?thesis by (rule exI, rule progress_intro [OF count_finished [of q W]]) (use W Finished in \<open>auto simp: steps_left_def\<close>)
  qed (use assms(2) in \<open>simp_all add: steps_left_def\<close>)
qed

lemma steps_left_0: "steps_left w = 0 \<Longrightarrow> w = Waiting \<or> w = Stopped"
  by (cases w) (auto simp: steps_left_def)

lemma alive_progress:
  assumes "alive q" shows "(\<exists>q'. progress q q') \<or> tasks q = [] \<and> hands (workers q) = {#}"
proof (cases "\<exists>w \<in># workers q. steps_left w \<noteq> 0")
  case True
  then show ?thesis using busy_progress by blast
next
  case False
  then have idle: "\<forall>w \<in># workers q. w = Waiting \<or> w = Stopped" using steps_left_0 by blast
  then have h: "hands (workers q) = {#}" by (auto simp: hands_def)
  show ?thesis
  proof (cases "tasks q")
    case (Cons t ts)
    from idle assms have "Waiting \<in># workers q" by (auto simp: alive_def)
    then obtain W where "workers q = add_mset Waiting W" by (metis mset_add)
    have "\<exists>q'. progress q q'"
      by (rule exI, rule progress_intro [OF receive [of q W t ts]]) (use Cons \<open>workers q = add_mset Waiting W\<close> in \<open>auto simp: steps_left_def\<close>)
    then show ?thesis by blast
  qed (simp add: h)
qed

lemma can_finish:
  "alive q \<Longrightarrow> \<exists>q'. qstep\<^sup>*\<^sup>* q q' \<and> tasks q' = [] \<and> hands (workers q') = {#} \<and>
     h_accepted q' = h_accepted q \<and> h_drained q' = h_drained q"
proof (induction "work_left q" arbitrary: q rule: less_induct)
  case less
  show ?case
  proof (cases "\<exists>q'. progress q q'")
    case True
    then obtain q' where "progress q q'" by blast
    with less.hyps [of q'] show ?thesis
      by (auto simp: progress_def intro: converse_rtranclp_into_rtranclp)
  next
    case False
    with alive_progress [OF less.prems] show ?thesis by blast
  qed
qed

text \<open>Once every worker has stopped, none starts again and nothing is reported any more.\<close>

lemma stopped_step:
  assumes "qstep q q'" and "\<forall>w \<in># workers q. w = Stopped"
  shows "(\<forall>w \<in># workers q'. w = Stopped) \<and> h_results q' = h_results q"
  using assms by (induction rule: qstep.induct) auto

lemma stopped_run:
  assumes "qstep\<^sup>*\<^sup>* q q'" and "\<forall>w \<in># workers q. w = Stopped"
  shows "(\<forall>w \<in># workers q'. w = Stopped) \<and> h_results q' = h_results q"
  using assms by (induction rule: rtranclp_induct) (use stopped_step in auto)

section \<open>Properties\<close>

definition probe_task :: ForwardTask where
  "probe_task = \<lparr>t_Evt = zero_event\<lparr>ID := ''e1''\<rparr>, t_IngestionPath = ''api'', t_EnqueuedAt = 5\<rparr>"

definition probe_queue :: ForwardQueue where
  "probe_queue = fst (worker_turn 8 (\<lambda>_. (202, None)) 1
     (fst (Enqueue probe_task (fst (Enqueue probe_task (NewForwardQueue 1 2 100))))))"

lemma probe_queue_reachable: "reachable probe_queue"
  unfolding probe_queue_def
  by (intro qstep_rtranclp_reachable [OF _ worker_turn_run [of _ "{#}"]] qstep_rtranclp_reachable [OF _ Enqueue_run] reachable.initial)
    (simp add: Enqueue_def NewForwardQueue_def)

lemma probe_queue_fields:
  "tasks probe_queue = [probe_task]" "h_accepted probe_queue = [probe_task, probe_task]"
  "queued probe_queue = 1" "workers probe_queue = {#Waiting#}" "cap probe_queue = 2"
  "h_drained probe_queue = []" "maxAge probe_queue = 100" "enq_open probe_queue = 0" "drain_open probe_queue = 0"
  "h_results probe_queue = [(probe_task, Some 8, sent_result probe_task 1 (202, None))]"
  by (simp_all add: probe_queue_def NewForwardQueue_def Enqueue_def worker_turn_def process_def stale_def probe_task_def)

text \<open>In every interleaving of enqueues, drains, workers and cancellation the channel never holds more tasks than its capacity, the number of workers stays what it was, and the in-flight counter is the number of workers that are sending, so it lies between 0 and the pool size.\<close>

theorem queue_bounds:
  assumes "reachable q"
  shows "length (tasks q) \<le> cap q \<and> 0 \<le> InFlightCount q \<and> InFlightCount q \<le> int (size (workers q))"
proof -
  have "0 \<le> total busy W \<and> total busy W \<le> int (size W)" for W
    using total_nonneg [of busy W] total_le_size [of busy W]
    by (auto split: worker.splits)
  with reachable_ok [OF assms] show ?thesis
    by (simp add: queue_ok_def counters_exact_def InFlightCount_def)
qed

theorem queue_bounds_witness: "length (tasks probe_queue) \<le> 2 \<and> InFlightCount probe_queue \<le> 1"
  using queue_bounds [OF probe_queue_reachable] by (simp add: probe_queue_fields)

text \<open>Whenever no \<open>Enqueue\<close> or \<open>Drain\<close> call stands between its channel operation and its counter update and no worker stands between its receive and its decrement, the reported queued count is exactly the number of tasks in the channel.\<close>

theorem queued_count_exact:
  assumes "reachable q" and "enq_open q = 0" and "drain_open q = 0" and "\<forall>t. Received t \<notin># workers q"
  shows "QueuedCount q = int (length (tasks q))"
proof -
  have "total uncounted W = 0" if "\<forall>t. Received t \<notin># W" for W
    using that by (induction W) (auto simp: total_def split: worker.splits)
  with reachable_ok [OF assms(1)] assms(2-4) show ?thesis
    by (simp add: queue_ok_def counters_exact_def QueuedCount_def)
qed

theorem queued_count_exact_witness: "QueuedCount probe_queue = 1"
  using queued_count_exact [OF probe_queue_reachable] by (simp add: probe_queue_fields)

text \<open>The queued count is not always a count: the counter is incremented after the task is in the channel, so a worker can take the task and decrement first, and the API then reports -1.\<close>

theorem queued_count_can_be_negative:
  "\<exists>q. reachable q \<and> QueuedCount q = - 1"
proof -
  define q0 where "q0 = NewForwardQueue 1 1 0"
  define q1 where "q1 = q0\<lparr>tasks := tasks q0 @ [probe_task], enq_open := enq_open q0 + 1,
    h_accepted := h_accepted q0 @ [probe_task]\<rparr>"
  define q2 where "q2 = q1\<lparr>tasks := [], workers := add_mset (Received probe_task) {#}, h_taken := h_taken q1 @ [probe_task]\<rparr>"
  define q3 where "q3 = q2\<lparr>workers := add_mset (Dequeued probe_task) {#}, queued := queued q2 - 1\<rparr>"
  have "reachable q0" unfolding q0_def by (rule reachable.initial)
  moreover have "qstep q0 q1" unfolding q1_def by (rule enqueue_send) (simp add: q0_def NewForwardQueue_def)
  moreover have "qstep q1 q2" unfolding q2_def by (rule receive) (simp_all add: q1_def q0_def NewForwardQueue_def)
  moreover have "qstep q2 q3" unfolding q3_def by (rule count_dequeued) (simp add: q2_def)
  ultimately have "reachable q3" by (meson reachable.step)
  moreover have "QueuedCount q3 = - 1"
    by (simp add: q3_def q2_def q1_def q0_def NewForwardQueue_def QueuedCount_def)
  ultimately show ?thesis by blast
qed

text \<open>C12: No task is lost or duplicated by the queue: in every interleaving each accepted task is exactly once in the channel, in the hands of a worker, drained or reported, and the tasks leave the channel in the order in which they were accepted.\<close>

theorem queue_conserves_tasks:
  assumes "reachable q"
  shows "mset (h_accepted q) =
      mset (tasks q) + hands (workers q) + mset (h_drained q) + mset (map fst (h_results q)) \<and>
    h_taken q = take (length (h_taken q)) (h_accepted q)"
  using reachable_ok [OF assms] by (auto simp: queue_ok_def conserved_def)

theorem queue_conserves_tasks_witness:
  "mset (h_accepted probe_queue) = {#probe_task, probe_task#}"
  using queue_conserves_tasks [OF probe_queue_reachable] by (simp add: probe_queue_fields)

text \<open>C29: A stale task is never sent: in every interleaving a result that comes from a send belongs to a task that was no older than the maximum age when the send started, every other result is reported as skipped, and each result carries the identifier and the ingestion path of its task.\<close>

theorem queue_never_sends_stale:
  assumes "reachable q" and "(t, started, r) \<in> set (h_results q)"
  shows "fr_EventID r = ID (t_Evt t) \<and> fr_IngestionPath r = t_IngestionPath t \<and>
    (case started of None \<Rightarrow> fr_Skipped r \<and> 0 < maxAge q
     | Some now \<Rightarrow> \<not> fr_Skipped r \<and> (maxAge q \<le> 0 \<or> now - t_EnqueuedAt t \<le> maxAge q))"
  using reachable_ok [OF assms(1)] assms(2)
  by (auto simp: queue_ok_def results_ok_def list_all_iff result_ok_def stale_def split: option.splits)

theorem queue_never_sends_stale_witness:
  "\<not> fr_Skipped (sent_result probe_task 1 (202, None)) \<and> 8 - t_EnqueuedAt probe_task \<le> 100"
  using queue_never_sends_stale [OF probe_queue_reachable, of probe_task "Some 8" "sent_result probe_task 1 (202, None)"]
  by (simp add: probe_queue_fields)

text \<open>C30: While a worker is alive the queue cannot get stuck: from every reachable state there is a run that needs no further calls and after which every task accepted so far has been drained or reported.\<close>

theorem queue_can_finish:
  assumes "reachable q" and "\<exists>w \<in># workers q. w \<noteq> Stopped"
  shows "\<exists>q'. qstep\<^sup>*\<^sup>* q q' \<and> h_accepted q' = h_accepted q \<and> h_drained q' = h_drained q \<and>
    mset (h_accepted q) = mset (h_drained q) + mset (map fst (h_results q'))"
proof -
  obtain q' where q': "qstep\<^sup>*\<^sup>* q q'" "tasks q' = []" "hands (workers q') = {#}"
    "h_accepted q' = h_accepted q" "h_drained q' = h_drained q"
    using can_finish [of q] assms(2) by (auto simp: alive_def)
  have "conserved q'"
    using reachable_ok [OF qstep_rtranclp_reachable [OF assms(1) q'(1)]] by (simp add: queue_ok_def)
  with q' show ?thesis by (intro exI [of _ q']) (simp add: conserved_def)
qed

theorem queue_can_finish_witness:
  "\<exists>q'. qstep\<^sup>*\<^sup>* probe_queue q' \<and> mset (map fst (h_results q')) = {#probe_task, probe_task#}"
  using queue_can_finish [OF probe_queue_reachable] by (auto simp: probe_queue_fields)

text \<open>C31: Shutdown loses what is queued: there is a reachable state with an accepted task in the channel and every worker stopped, and from a state whose workers have all stopped no task is ever reported.\<close>

theorem queue_shutdown_loses_tasks:
  "(\<exists>q. reachable q \<and> (\<forall>w \<in># workers q. w = Stopped) \<and> tasks q \<noteq> []) \<and>
   (\<forall>q q'. (\<forall>w \<in># workers q. w = Stopped) \<and> qstep\<^sup>*\<^sup>* q q' \<longrightarrow> h_results q' = h_results q)"
proof
  define q0 where "q0 = fst (Enqueue probe_task (NewForwardQueue 1 1 0))"
  have "reachable q0"
    unfolding q0_def by (rule qstep_rtranclp_reachable [OF reachable.initial Enqueue_run])
  moreover have "qstep q0 (q0\<lparr>cancelled := True\<rparr>)" by (rule cancel)
  moreover have "qstep (q0\<lparr>cancelled := True\<rparr>) (q0\<lparr>cancelled := True, workers := add_mset Stopped {#}\<rparr>)"
    using stop [of "q0\<lparr>cancelled := True\<rparr>" "{#}"] by (simp add: q0_def Enqueue_def NewForwardQueue_def)
  ultimately have "reachable (q0\<lparr>cancelled := True, workers := add_mset Stopped {#}\<rparr>)"
    by (meson reachable.step)
  then show "\<exists>q. reachable q \<and> (\<forall>w \<in># workers q. w = Stopped) \<and> tasks q \<noteq> []"
    by (intro exI conjI) (auto simp: q0_def Enqueue_def NewForwardQueue_def)
  show "\<forall>q q'. (\<forall>w \<in># workers q. w = Stopped) \<and> qstep\<^sup>*\<^sup>* q q' \<longrightarrow> h_results q' = h_results q"
    using stopped_run by blast
qed

theorem queue_shutdown_loses_tasks_witness:
  "h_results (fst (Enqueue probe_task (probe_queue\<lparr>workers := {#Stopped#}, tasks := []\<rparr>))) = h_results probe_queue"
  using queue_shutdown_loses_tasks Enqueue_run [of "probe_queue\<lparr>workers := {#Stopped#}, tasks := []\<rparr>" probe_task]
  by (auto dest: spec [of _ "probe_queue\<lparr>workers := {#Stopped#}, tasks := []\<rparr>"])

text \<open>An undisturbed \<open>Drain\<close> is a run of the atomic steps that empties the channel and returns the number of tasks it discarded.\<close>

theorem drain_empties:
  "qstep\<^sup>*\<^sup>* q (fst (Drain q)) \<and> tasks (fst (Drain q)) = [] \<and> snd (Drain q) = int (length (tasks q))"
  using drain_loop_run [of q "tasks q" 0] by (simp add: Drain_def)

end
