(* ===== verification/Sources_Config.thy ===== *)
theory Sources_Config
  imports Config_Store
begin

text \<open>
  The known sources and their store (\<open>internal/config/sources_config.go\<close>), a second provider of
  the contract \<open>config_store\<close>, and the resolution of a source from an address and a message
  (\<open>internal/sources/sources.go\<close>).
\<close>

record SourceConfig =
  s_ID :: string
  s_Name :: string
  s_Type :: string
  s_IP :: string
  s_Protocol :: string
  s_Impact :: string
  s_Zone :: string
  s_Enabled :: bool
  s_ForwardEnabled :: bool
  s_Notes :: string

definition sanitizeSource :: "SourceConfig \<Rightarrow> SourceConfig option" where
  "sanitizeSource s =
     (if s_ID s = '''' then None
      else Some (s\<lparr>
        s_Name := (if s_Name s = '''' then s_ID s else s_Name s),
        s_Protocol := (if s_Protocol s = '''' then ''syslog'' else s_Protocol s)\<rparr>))"

definition sanitizeSources :: "SourceConfig list \<Rightarrow> SourceConfig list" where
  "sanitizeSources xs = List.map_filter sanitizeSource xs"

definition base_source :: SourceConfig where
  "base_source = \<lparr>s_ID = '''', s_Name = '''', s_Type = '''', s_IP = '''', s_Protocol = ''syslog'',
     s_Impact = ''high'', s_Zone = '''', s_Enabled = True, s_ForwardEnabled = True, s_Notes = ''''\<rparr>"

definition defaultSources :: "SourceConfig list" where
  "defaultSources = [
    base_source\<lparr>s_ID := ''plc1'', s_Name := ''PLC1'', s_Type := ''plc'', s_IP := ''192.168.1.20'',
      s_Zone := ''L1/L2''\<rparr>,
    base_source\<lparr>s_ID := ''plc2'', s_Name := ''PLC2'', s_Type := ''plc'', s_IP := ''192.168.1.21'',
      s_Zone := ''L1/L2''\<rparr>,
    base_source\<lparr>s_ID := ''plc3'', s_Name := ''PLC3'', s_Type := ''plc'', s_IP := ''192.168.1.22'',
      s_Zone := ''L1/L2''\<rparr>,
    base_source\<lparr>s_ID := ''plc4'', s_Name := ''PLC4'', s_Type := ''plc'', s_IP := ''192.168.1.23'',
      s_Zone := ''L1/L2''\<rparr>,
    base_source\<lparr>s_ID := ''plc5'', s_Name := ''PLC5'', s_Type := ''plc'', s_IP := ''192.168.1.24'',
      s_Zone := ''L1/L2''\<rparr>,
    base_source\<lparr>s_ID := ''fuxa-scada'', s_Name := ''FUXA SCADA'', s_Type := ''scada'',
      s_IP := ''192.168.1.60'', s_Zone := ''L2''\<rparr>,
    base_source\<lparr>s_ID := ''opcua-server'', s_Name := ''OPC UA Server'', s_Type := ''opcua'',
      s_IP := ''192.168.1.62'', s_Impact := ''critical'', s_Zone := ''L2''\<rparr>,
    base_source\<lparr>s_ID := ''ews'', s_Name := ''EWS'', s_Type := ''ews'', s_IP := ''192.168.1.50'',
      s_Zone := ''L2/L3''\<rparr>,
    base_source\<lparr>s_ID := ''ot-firewall'', s_Name := ''Future Firewall'', s_Type := ''firewall'',
      s_IP := ''192.168.1.254'', s_Impact := ''critical'', s_Zone := ''L3'', s_Enabled := False\<rparr>,
    base_source\<lparr>s_ID := ''future-ids'', s_Name := ''Future IDS'', s_Type := ''ids'',
      s_Impact := ''critical'', s_Zone := ''L3'', s_Enabled := False\<rparr>]"

section \<open>The store\<close>

type_synonym SourceStore = "SourceConfig list store"

definition SourceStore_All :: "SourceStore \<Rightarrow> SourceConfig list" where
  "SourceStore_All s = st_data s"

definition SourceStore_persistLocked ::
  "SourceStore \<Rightarrow> SourceConfig list write_result \<Rightarrow> SourceStore \<times> string option" where
  "SourceStore_persistLocked s w = persist s w"

definition SourceStore_Replace ::
  "SourceConfig list \<Rightarrow> SourceStore \<Rightarrow> SourceConfig list write_result \<Rightarrow> SourceStore \<times> string option" where
  "SourceStore_Replace all s w = SourceStore_persistLocked (s\<lparr>st_data := sanitizeSources all\<rparr>) w"

definition sources_upsert :: "SourceConfig \<Rightarrow> SourceConfig list \<Rightarrow> SourceConfig list" where
  "sources_upsert one xs =
     sanitizeSources
       (case replace_first (\<lambda>x. s_ID x = s_ID one) one xs of
          None \<Rightarrow> xs @ [one] | Some ys \<Rightarrow> ys)"

definition SourceStore_Upsert ::
  "SourceConfig \<Rightarrow> SourceStore \<Rightarrow> SourceConfig list write_result \<Rightarrow> SourceStore \<times> string option" where
  "SourceStore_Upsert one s w =
     SourceStore_persistLocked (s\<lparr>st_data := sources_upsert one (st_data s)\<rparr>) w"

definition sources_delete :: "string \<Rightarrow> SourceConfig list \<Rightarrow> SourceConfig list" where
  "sources_delete i xs = filter (\<lambda>x. s_ID x \<noteq> i) xs"

definition SourceStore_Delete ::
  "string \<Rightarrow> SourceStore \<Rightarrow> SourceConfig list write_result \<Rightarrow> SourceStore \<times> string option" where
  "SourceStore_Delete i s w =
     SourceStore_persistLocked (s\<lparr>st_data := sources_delete i (st_data s)\<rparr>) w"

definition SourceStore_loadOrInit ::
  "string option \<Rightarrow> SourceConfig list file_read \<Rightarrow> SourceConfig list write_result \<Rightarrow> SourceStore \<Rightarrow>
     SourceStore \<times> string option" where
  "SourceStore_loadOrInit mk rd w s =
     (case mk of
        Some e \<Rightarrow> (s, Some e)
      | None \<Rightarrow>
          (let finish = (\<lambda>arr. SourceStore_persistLocked
                 (s\<lparr>st_data := sanitizeSources (if arr = [] then defaultSources else arr)\<rparr>) w)
           in case rd of
                FileNotExist \<Rightarrow> SourceStore_persistLocked (s\<lparr>st_data := defaultSources\<rparr>) w
              | FileReadError e \<Rightarrow> (s, Some e)
              | FileBadJSON e \<Rightarrow> (s, Some e)
              | FileEmpty \<Rightarrow> finish []
              | FileDecoded arr \<Rightarrow> finish arr))"

definition NewSourceStore ::
  "string option \<Rightarrow> SourceConfig list file_read \<Rightarrow> SourceConfig list write_result \<Rightarrow> string + SourceStore" where
  "NewSourceStore mk rd w =
     (case SourceStore_loadOrInit mk rd w
         \<lparr>st_data = [], st_disk = (case rd of FileDecoded arr \<Rightarrow> Some arr | _ \<Rightarrow> None)\<rparr> of
        (s, None) \<Rightarrow> Inr s | (s, Some e) \<Rightarrow> Inl e)"

lemma sanitizeSource_Some: "sanitizeSource r = Some y \<Longrightarrow> s_ID r \<noteq> '''' \<and> s_ID y = s_ID r"
  by (auto simp: sanitizeSource_def split: if_splits)

lemma sanitizeSource_idem: "sanitizeSource r = Some y \<Longrightarrow> sanitizeSource y = Some y"
  by (auto simp: sanitizeSource_def split: if_splits)

interpretation srcs: config_store s_ID sanitizeSource sanitizeSources sources_upsert sources_delete
proof
  show "\<And>r. sanitizeSource r = None \<longleftrightarrow> s_ID r = ''''" by (simp add: sanitizeSource_def)
  show "\<And>r y. sanitizeSource r = Some y \<Longrightarrow> s_ID y = s_ID r" by (simp add: sanitizeSource_Some)
qed (simp_all add: sanitizeSource_idem sanitizeSources_def sources_upsert_def sources_delete_def)

section \<open>Resolving a source\<close>

record SourceInfo =
  si_AssetName :: string
  si_SourceType :: string
  si_AssetIP :: string

definition source_info :: "string \<Rightarrow> string \<Rightarrow> string \<Rightarrow> SourceInfo" where
  "source_info n t i = \<lparr>si_AssetName = n, si_SourceType = t, si_AssetIP = i\<rparr>"

definition assetByIP :: "SourceInfo gomap" where
  "assetByIP = [
    (''192.168.1.20'', source_info ''labshock-plc1-1'' ''plc'' ''192.168.1.20''),
    (''192.168.1.21'', source_info ''labshock-plc2-1'' ''plc'' ''192.168.1.21''),
    (''192.168.1.22'', source_info ''labshock-plc3-1'' ''plc'' ''192.168.1.22''),
    (''192.168.1.23'', source_info ''labshock-plc4-1'' ''plc'' ''192.168.1.23''),
    (''192.168.1.24'', source_info ''labshock-plc5-1'' ''plc'' ''192.168.1.24''),
    (''192.168.1.60'', source_info ''labshock_scada'' ''scada'' ''192.168.1.60''),
    (''192.168.1.62'', source_info ''powergrid_opcua_server'' ''opcua'' ''192.168.1.62''),
    (''192.168.1.50'', source_info ''labshock-ews-1'' ''ews'' ''192.168.1.50''),
    (''192.168.1.254'', source_info ''ot_firewall'' ''firewall'' ''192.168.1.254'')]"

text \<open>
  The heuristics on the text, in \<open>resolveFallback\<close> and repeated at the end of
  \<open>Resolver.Resolve\<close>.
\<close>

definition resolveFallback :: "string \<Rightarrow> string \<Rightarrow> string \<Rightarrow> string \<Rightarrow> SourceInfo" where
  "resolveFallback ip host app message =
     (case map_of assetByIP ip of
        Some s \<Rightarrow> s
      | None \<Rightarrow>
          (let h = ToLower (host @ '' '' @ app @ '' '' @ message)
           in if Contains h ''fuxa'' then source_info ''labshock_scada'' ''scada'' ip
              else if Contains h ''openplc'' then source_info ''unknown'' ''plc'' ip
              else if Contains h ''opcua'' \<or> Contains h ''powergrid_opcua_server'' \<or>
                Contains h ''powergrid-opcua'' then source_info ''powergrid_opcua_server'' ''opcua'' ip
              else source_info ''unknown'' ''unknown'' ip))"

text \<open>
  A resolver with a store looks its enabled sources up first, in the order of the store.
  \<open>None\<close> is a nil resolver or a nil store.
\<close>

definition Resolver_Resolve :: "SourceStore option \<Rightarrow> string \<Rightarrow> string \<Rightarrow> string \<Rightarrow> string \<Rightarrow> SourceInfo" where
  "Resolver_Resolve store ip host app message =
     (case store of
        None \<Rightarrow> resolveFallback ip host app message
      | Some st \<Rightarrow>
          (case find (\<lambda>src. s_Enabled src \<and> s_IP src = ip) (SourceStore_All st) of
             Some src \<Rightarrow> source_info (s_Name src) (s_Type src) (s_IP src)
           | None \<Rightarrow>
               (case map_of assetByIP ip of
                  Some s \<Rightarrow> s
                | None \<Rightarrow>
                    (let h = ToLower (host @ '' '' @ app @ '' '' @ message)
                     in if Contains h ''fuxa'' then source_info ''labshock_scada'' ''scada'' ip
                        else if Contains h ''openplc'' then source_info ''unknown'' ''plc'' ip
                        else if Contains h ''opcua'' \<or> Contains h ''powergrid_opcua_server'' \<or>
                          Contains h ''powergrid-opcua'' then
                          source_info ''powergrid_opcua_server'' ''opcua'' ip
                        else source_info ''unknown'' ''unknown'' ip))))"

text \<open>The package-level functions over the default resolver.\<close>

definition Resolve :: "SourceStore option \<Rightarrow> string \<Rightarrow> string \<Rightarrow> string \<Rightarrow> string \<Rightarrow> SourceInfo" where
  "Resolve defaultResolver ip host app message =
     (case defaultResolver of
        Some st \<Rightarrow> Resolver_Resolve (Some st) ip host app message
      | None \<Rightarrow> resolveFallback ip host app message)"

definition Known :: "SourceStore option \<Rightarrow> SourceInfo gomap" where
  "Known defaultResolver =
     (case defaultResolver of
        None \<Rightarrow> assetByIP
      | Some st \<Rightarrow>
          fold (\<lambda>s m. gput (s_IP s) (source_info (s_Name s) (s_Type s) (s_IP s)) m)
            (SourceStore_All st) [])"

lemma resolveFallback_ip: "si_AssetIP (resolveFallback ip host app message) = ip"
  by (auto simp: resolveFallback_def assetByIP_def source_info_def Let_def split: if_splits option.splits)

text \<open>The resolved address is always the address asked for, whatever the store and the text.\<close>

lemma Resolve_ip: "si_AssetIP (Resolve r ip host app message) = ip"
  by (auto simp: Resolve_def Resolver_Resolve_def resolveFallback_ip assetByIP_def source_info_def
      Let_def find_Some_iff split: if_splits option.splits)

lemma Resolve_no_enabled:
  assumes "\<forall>src \<in> set (SourceStore_All st). \<not> (s_Enabled src \<and> s_IP src = ip)"
  shows "Resolve (Some st) ip host app message = resolveFallback ip host app message"
proof -
  have "find (\<lambda>src. s_Enabled src \<and> s_IP src = ip) (SourceStore_All st) = None"
    using assms by (simp add: find_None_iff)
  then show ?thesis by (simp add: Resolve_def Resolver_Resolve_def resolveFallback_def)
qed

lemma Resolve_enabled:
  assumes "find (\<lambda>src. s_Enabled src \<and> s_IP src = ip) (SourceStore_All st) = Some src"
  shows "Resolve (Some st) ip host app message = source_info (s_Name src) (s_Type src) ip"
proof -
  have "s_IP src = ip" using assms by (auto simp: find_Some_iff)
  with assms show ?thesis by (simp add: Resolve_def Resolver_Resolve_def)
qed

end
