(* ===== verification/Forwarding_Config.thy ===== *)
theory Forwarding_Config
  imports Config_Store
begin

text \<open>
  The forwarding settings and counters (\<open>internal/config/forwarding_config.go\<close>) and the
  process configuration read from the environment (\<open>internal/config/config.go\<close>).
\<close>

record ForwardingConfig =
  fc_DMZCollectorURL :: string
  fc_Enabled :: bool
  fc_ForwardOnlyFiltered :: bool
  fc_ForwardQueueStatus :: string
  fc_FailedForwardCount :: int
  fc_SuccessfulForwardCount :: int
  fc_LastSuccessfulForwardAt :: string
  fc_LastFailedForwardAt :: string
  fc_LastForwardAttemptAt :: string
  fc_LastForwardedEventID :: string
  fc_LastFailedEventID :: string
  fc_LastError :: string
  fc_QueuedCount :: int
  fc_InFlightCount :: int

type_synonym ForwardingStore = "ForwardingConfig store"

definition zero_forwarding :: ForwardingConfig where
  "zero_forwarding = \<lparr>fc_DMZCollectorURL = '''', fc_Enabled = False, fc_ForwardOnlyFiltered = False,
     fc_ForwardQueueStatus = '''', fc_FailedForwardCount = 0, fc_SuccessfulForwardCount = 0,
     fc_LastSuccessfulForwardAt = '''', fc_LastFailedForwardAt = '''', fc_LastForwardAttemptAt = '''',
     fc_LastForwardedEventID = '''', fc_LastFailedEventID = '''', fc_LastError = '''',
     fc_QueuedCount = 0, fc_InFlightCount = 0\<rparr>"

definition ForwardingStore_Get :: "ForwardingStore \<Rightarrow> ForwardingConfig" where
  "ForwardingStore_Get s = st_data s"

definition ForwardingStore_persistLocked ::
  "ForwardingStore \<Rightarrow> ForwardingConfig write_result \<Rightarrow> ForwardingStore \<times> string option" where
  "ForwardingStore_persistLocked s w = persist s w"

definition queue_status_ok :: "ForwardingConfig \<Rightarrow> ForwardingConfig" where
  "queue_status_ok c = (if fc_ForwardQueueStatus c = '''' then c\<lparr>fc_ForwardQueueStatus := ''ok''\<rparr> else c)"

definition ForwardingStore_Replace ::
  "ForwardingConfig \<Rightarrow> ForwardingStore \<Rightarrow> ForwardingConfig write_result \<Rightarrow> ForwardingStore \<times> string option" where
  "ForwardingStore_Replace cfg s w =
     ForwardingStore_persistLocked (s\<lparr>st_data := queue_status_ok cfg\<rparr>) w"

text \<open>What one forwarding attempt records.\<close>

definition forward_result_update ::
  "bool \<Rightarrow> string \<Rightarrow> string \<Rightarrow> string \<Rightarrow> ForwardingConfig \<Rightarrow> ForwardingConfig" where
  "forward_result_update success when errMsg eventID c =
     (let c1 = c\<lparr>fc_LastForwardAttemptAt := when\<rparr>
      in if success then
           c1\<lparr>fc_LastSuccessfulForwardAt := when,
              fc_SuccessfulForwardCount := fc_SuccessfulForwardCount c1 + 1,
              fc_LastForwardedEventID := eventID,
              fc_LastError := ''''\<rparr>
         else
           (let c2 = c1\<lparr>fc_FailedForwardCount := fc_FailedForwardCount c1 + 1,
                         fc_LastFailedForwardAt := when,
                         fc_LastFailedEventID := eventID\<rparr>
            in if errMsg \<noteq> '''' then c2\<lparr>fc_LastError := errMsg\<rparr> else c2))"

definition ForwardingStore_UpdateForwardResult ::
  "bool \<Rightarrow> string \<Rightarrow> string \<Rightarrow> string \<Rightarrow> ForwardingStore \<Rightarrow> ForwardingConfig write_result \<Rightarrow>
     ForwardingStore \<times> string option" where
  "ForwardingStore_UpdateForwardResult success when errMsg eventID s w =
     ForwardingStore_persistLocked
       (s\<lparr>st_data := forward_result_update success when errMsg eventID (st_data s)\<rparr>) w"

text \<open>
  Loading. \<open>json.Unmarshal\<close> writes into the zero value, so an empty file leaves the zero value.
\<close>

definition ForwardingStore_loadOrInit ::
  "string option \<Rightarrow> ForwardingConfig file_read \<Rightarrow> ForwardingConfig write_result \<Rightarrow> ForwardingStore \<Rightarrow>
     ForwardingStore \<times> string option" where
  "ForwardingStore_loadOrInit mk rd w s =
     (case mk of
        Some e \<Rightarrow> (s, Some e)
      | None \<Rightarrow>
          (let finish = (\<lambda>c. ForwardingStore_persistLocked
                 (s\<lparr>st_data := (queue_status_ok c)\<lparr>fc_QueuedCount := 0, fc_InFlightCount := 0\<rparr>\<rparr>) w)
           in case rd of
                FileNotExist \<Rightarrow> ForwardingStore_persistLocked
                  (s\<lparr>st_data := zero_forwarding\<lparr>fc_ForwardOnlyFiltered := True,
                     fc_ForwardQueueStatus := ''ok''\<rparr>\<rparr>) w
              | FileReadError e \<Rightarrow> (s, Some e)
              | FileBadJSON e \<Rightarrow> (s, Some e)
              | FileEmpty \<Rightarrow> finish (st_data s)
              | FileDecoded c \<Rightarrow> finish c))"

definition NewForwardingStore ::
  "string option \<Rightarrow> ForwardingConfig file_read \<Rightarrow> ForwardingConfig write_result \<Rightarrow>
     string + ForwardingStore" where
  "NewForwardingStore mk rd w =
     (case ForwardingStore_loadOrInit mk rd w
         \<lparr>st_data = zero_forwarding, st_disk = (case rd of FileDecoded c \<Rightarrow> Some c | _ \<Rightarrow> None)\<rparr> of
        (s, None) \<Rightarrow> Inr s | (s, Some e) \<Rightarrow> Inl e)"

section \<open>The process configuration\<close>

datatype log_level = LevelDebug | LevelInfo | LevelWarn | LevelError

record Config =
  c_Zone :: string
  c_UDPSyslogAddr :: string
  c_TCPSyslogAddr :: string
  c_APIAddr :: string
  c_EventsFile :: string
  c_DMZCollectorURL :: string
  c_ForwardTimeoutSeconds :: int
  c_ForwardWorkers :: int
  c_ForwardQueueSize :: int
  c_ForwardMaxAgeSecs :: int
  c_LogLevel :: log_level

text \<open>The environment is a map; an unset variable reads as the empty string (\<open>os.Getenv\<close>).\<close>

definition getenv :: "string gomap \<Rightarrow> string \<Rightarrow> string \<Rightarrow> string" where
  "getenv env key def = (let v = gget '''' env key in if v = '''' then def else v)"

definition parseIntEnv :: "string gomap \<Rightarrow> string \<Rightarrow> int \<Rightarrow> int" where
  "parseIntEnv env key def =
     (let v = gget '''' env key
      in if v = '''' then def
         else (case Atoi v of None \<Rightarrow> def | Some n \<Rightarrow> if n \<le> 0 then def else n))"

definition parseLevel :: "string \<Rightarrow> log_level" where
  "parseLevel v =
     (if v = ''debug'' then LevelDebug
      else if v = ''warn'' \<or> v = ''warning'' then LevelWarn
      else if v = ''error'' then LevelError
      else LevelInfo)"

definition Load :: "string gomap \<Rightarrow> Config" where
  "Load env = \<lparr>
     c_Zone = getenv env ''OT_COLLECTOR_ZONE'' ''OT'',
     c_UDPSyslogAddr = getenv env ''UDP_SYSLOG_ADDR'' ''0.0.0.0:514'',
     c_TCPSyslogAddr = getenv env ''TCP_SYSLOG_ADDR'' ''0.0.0.0:1514'',
     c_APIAddr = getenv env ''API_ADDR'' ''0.0.0.0:8088'',
     c_EventsFile = getenv env ''EVENTS_FILE'' ''/data/events.jsonl'',
     c_DMZCollectorURL = getenv env ''DMZ_COLLECTOR_URL'' '''',
     c_ForwardTimeoutSeconds = parseIntEnv env ''FORWARD_TIMEOUT_SECONDS'' 10,
     c_ForwardWorkers = parseIntEnv env ''FORWARD_WORKERS'' 4,
     c_ForwardQueueSize = parseIntEnv env ''FORWARD_QUEUE_SIZE'' 2048,
     c_ForwardMaxAgeSecs = parseIntEnv env ''FORWARD_MAX_AGE_SECONDS'' 30,
     c_LogLevel = parseLevel (getenv env ''LOG_LEVEL'' ''info'')\<rparr>"

lemma Atoi_bounds: "Atoi s = Some n \<Longrightarrow> - (2 ^ 63) \<le> n \<and> n < 2 ^ 63"
  by (auto simp: Atoi_def Let_def split: if_splits)

lemma parseIntEnv_pos: "0 < d \<Longrightarrow> 0 < parseIntEnv env key d"
  by (auto simp: parseIntEnv_def Let_def split: option.splits)

lemma getenv_nonempty: "d \<noteq> '''' \<Longrightarrow> getenv env key d \<noteq> ''''"
  by (auto simp: getenv_def Let_def)

section \<open>Counting\<close>

text \<open>
  Over any run of results the two counters move by the number of successes and of failures, and
  the last error is cleared by a success only.
\<close>

fun apply_results :: "(bool \<times> string \<times> string \<times> string) list \<Rightarrow> ForwardingConfig \<Rightarrow> ForwardingConfig" where
  "apply_results [] c = c"
| "apply_results ((ok, w, e, i) # rs) c = apply_results rs (forward_result_update ok w e i c)"

lemma apply_results_counts:
  "fc_SuccessfulForwardCount (apply_results rs c) =
     fc_SuccessfulForwardCount c + int (length (filter fst rs)) \<and>
   fc_FailedForwardCount (apply_results rs c) =
     fc_FailedForwardCount c + int (length (filter (\<lambda>r. \<not> fst r) rs))"
  by (induction rs c rule: apply_results.induct) (auto simp: forward_result_update_def Let_def)

lemma forward_result_keeps:
  "fc_Enabled (forward_result_update ok w e i c) = fc_Enabled c"
  "fc_DMZCollectorURL (forward_result_update ok w e i c) = fc_DMZCollectorURL c"
  by (simp_all add: forward_result_update_def Let_def)

end
