(* ===== verification/Go_Regexp.thy ===== *)
theory Go_Regexp
  imports Go_Strings
begin

text \<open>
  The part of Go's package \<open>regexp\<close> that the collector uses: expressions built from character
  classes, sequences, alternatives, greedy repetition of a class, optional parts, capture groups
  and the anchors of the whole text. Go returns the leftmost match and, among the matches that
  begin there, the one a backtracking search in preference order finds first. The matcher below is
  that search, in continuation-passing style: \<open>re_match r b s cs k\<close> tries \<open>r\<close> at the front of
  \<open>s\<close> (\<open>b\<close> says whether that is the beginning of the text, \<open>cs\<close> are the groups captured so far)
  and calls \<open>k\<close> with what is left; if \<open>k\<close> fails it tries the next preference.
\<close>

section \<open>Expressions and the matcher\<close>

datatype re =
    REmp
  | RCls "char \<Rightarrow> bool"
  | RStar "char \<Rightarrow> bool"
  | RSeq re re
  | RAlt re re
  | ROpt re
  | RCap nat re
  | RBol
  | REol

type_synonym caps = "(nat \<times> string) list"

type_synonym re_cont = "bool \<Rightarrow> string \<Rightarrow> caps \<Rightarrow> (string \<times> caps) option"

fun star_match :: "(char \<Rightarrow> bool) \<Rightarrow> bool \<Rightarrow> string \<Rightarrow> caps \<Rightarrow> re_cont \<Rightarrow> (string \<times> caps) option" where
  "star_match p b [] cs k = k b [] cs"
| "star_match p b (c # s) cs k =
     (if p c then (case star_match p False s cs k of None \<Rightarrow> k b (c # s) cs | Some x \<Rightarrow> Some x)
      else k b (c # s) cs)"

primrec re_match :: "re \<Rightarrow> bool \<Rightarrow> string \<Rightarrow> caps \<Rightarrow> re_cont \<Rightarrow> (string \<times> caps) option" where
  "re_match REmp b s cs k = k b s cs"
| "re_match (RCls p) b s cs k =
     (case s of [] \<Rightarrow> None | c # t \<Rightarrow> if p c then k False t cs else None)"
| "re_match (RStar p) b s cs k = star_match p b s cs k"
| "re_match (RSeq r1 r2) b s cs k =
     re_match r1 b s cs (\<lambda>b' s' cs'. re_match r2 b' s' cs' k)"
| "re_match (RAlt r1 r2) b s cs k =
     (case re_match r1 b s cs k of None \<Rightarrow> re_match r2 b s cs k | Some x \<Rightarrow> Some x)"
| "re_match (ROpt r) b s cs k =
     (case re_match r b s cs k of None \<Rightarrow> k b s cs | Some x \<Rightarrow> Some x)"
| "re_match (RCap n r) b s cs k =
     re_match r b s cs (\<lambda>b' s' cs'. k b' s' ((n, take (length s - length s') s) # cs'))"
| "re_match RBol b s cs k = (if b then k b s cs else None)"
| "re_match REol b s cs k = (if s = [] then k b s cs else None)"

text \<open>
  The search of a text: \<open>re_find\<close> gives what precedes the leftmost match, the text that follows it
  and its groups.
\<close>

fun re_find :: "re \<Rightarrow> bool \<Rightarrow> string \<Rightarrow> (string \<times> string \<times> string \<times> caps) option" where
  "re_find r b [] =
     (case re_match r b [] [] (\<lambda>b' s' cs'. Some (s', cs')) of
        Some (s', cs') \<Rightarrow> Some ([], [], s', cs') | None \<Rightarrow> None)"
| "re_find r b (c # s) =
     (case re_match r b (c # s) [] (\<lambda>b' s' cs'. Some (s', cs')) of
        Some (s', cs') \<Rightarrow> Some ([], take (length (c # s) - length s') (c # s), s', cs')
      | None \<Rightarrow> (case re_find r False s of
          None \<Rightarrow> None | Some (pre, m, s', cs') \<Rightarrow> Some (c # pre, m, s', cs')))"

definition MatchString :: "re \<Rightarrow> string \<Rightarrow> bool" where
  "MatchString r s \<longleftrightarrow> re_find r True s \<noteq> None"

text \<open>Group \<open>n\<close> of a match; a group that took no part in it is the empty string.\<close>

definition group :: "caps \<Rightarrow> nat \<Rightarrow> string" where
  "group cs n = (case map_of cs n of None \<Rightarrow> [] | Some s \<Rightarrow> s)"

definition FindStringSubmatch :: "re \<Rightarrow> string \<Rightarrow> caps option" where
  "FindStringSubmatch r s =
     (case re_find r True s of None \<Rightarrow> None | Some (pre, m, rest, cs) \<Rightarrow> Some ((0, m) # cs))"

text \<open>
  All non-overlapping matches, left to right (\<open>FindAllStringSubmatch(s, -1)\<close>), and the text with
  every match removed (\<open>ReplaceAllString(s, "")\<close>). The patterns of the collector do not match the
  empty string; one that did would make the search move on by one character here.
\<close>

lemma re_match_suffix:
  assumes "re_match r b s cs k = Some x"
  shows "\<exists>u t b' cs'. s = u @ t \<and> k b' t cs' = Some x"
  using assms
proof (induction r arbitrary: b s cs k)
  case (RStar p)
  from RStar.prems have "star_match p b s cs k = Some x" by simp
  then show ?case
  proof (induction s arbitrary: b)
    case Nil
    then show ?case by auto
  next
    case (Cons c s)
    show ?case
    proof (cases "k b (c # s) cs = Some x")
      case True
      then show ?thesis by (metis append_Nil)
    next
      case False
      with Cons.prems have "star_match p False s cs k = Some x"
        by (auto split: if_splits option.splits)
      then obtain u t b' cs' where "s = u @ t" "k b' t cs' = Some x" using Cons.IH by blast
      then show ?thesis by (metis append_Cons)
    qed
  qed
next
  case (RSeq r1 r2)
  from RSeq.prems have "re_match r1 b s cs (\<lambda>b' s' cs'. re_match r2 b' s' cs' k) = Some x" by simp
  from RSeq.IH(1) [OF this] obtain u t b' cs'
    where 1: "s = u @ t" "re_match r2 b' t cs' k = Some x" by blast
  from RSeq.IH(2) [OF 1(2)] obtain v w b'' cs'' where "t = v @ w" "k b'' w cs'' = Some x"
    by blast
  with 1 have "s = (u @ v) @ w" "k b'' w cs'' = Some x" by auto
  then show ?case by blast
next
  case (RCap n r)
  let ?k = "\<lambda>b' s' cs'. k b' s' ((n, take (length s - length s') s) # cs')"
  from RCap.prems have "re_match r b s cs ?k = Some x" by simp
  from RCap.IH [OF this] show ?case by blast
next
  case (RCls p)
  then obtain c t where "s = [c] @ t" "k False t cs = Some x"
    by (auto split: list.splits if_splits)
  then show ?case by blast
next
  case REmp
  then have "k b s cs = Some x" by simp
  then show ?case by (metis append_Nil)
next
  case (RAlt r1 r2)
  then show ?case by (auto split: option.splits)
next
  case (ROpt r)
  show ?case
  proof (cases "re_match r b s cs k")
    case None
    with ROpt.prems have "k b s cs = Some x" by simp
    then show ?thesis by (metis append_Nil)
  next
    case (Some y)
    with ROpt.prems have "re_match r b s cs k = Some x" by simp
    then show ?thesis by (rule ROpt.IH)
  qed
next
  case RBol
  then have "k b s cs = Some x" by (simp split: if_splits)
  then show ?case by (metis append_Nil)
next
  case REol
  then have "k b s cs = Some x" by (simp split: if_splits)
  then show ?case by (metis append_Nil)
qed

lemma re_find_split: "re_find r b s = Some (pre, m, rest, cs) \<Longrightarrow> s = pre @ m @ rest"
proof (induction s arbitrary: b pre)
  case Nil
  then show ?case
    by (auto split: option.splits dest!: re_match_suffix)
next
  case (Cons c s)
  show ?case
  proof (cases "re_match r b (c # s) [] (\<lambda>b' s' cs'. Some (s', cs'))")
    case None
    with Cons show ?thesis by (auto split: option.splits)
  next
    case (Some a)
    then obtain u t b' cs' where u: "c # s = u @ t" "a = (t, cs')"
      using re_match_suffix [OF Some] by (metis option.inject)
    then have "take (length (c # s) - length t) (c # s) = u" by (simp only: u(1)) simp
    with Some Cons.prems u(2) have "pre = []" and "m = u" and "rest = t" by auto
    with u(1) show ?thesis by simp
  qed
qed

function FindAllStringSubmatch_from :: "re \<Rightarrow> bool \<Rightarrow> string \<Rightarrow> caps list" where
  "FindAllStringSubmatch_from r b s =
     (case re_find r b s of
        None \<Rightarrow> []
      | Some (pre, m, rest, cs) \<Rightarrow>
          if m = [] then
            (case rest of [] \<Rightarrow> [(0, m) # cs]
             | c # rest' \<Rightarrow> ((0, m) # cs) # FindAllStringSubmatch_from r False rest')
          else ((0, m) # cs) # FindAllStringSubmatch_from r False rest)"
  by pat_completeness auto
termination
  by (relation "measure (\<lambda>(r, b, s). length s)") (auto dest!: re_find_split)

declare FindAllStringSubmatch_from.simps [simp del]

definition FindAllStringSubmatch :: "re \<Rightarrow> string \<Rightarrow> caps list" where
  "FindAllStringSubmatch r s = FindAllStringSubmatch_from r True s"

function remove_matches :: "re \<Rightarrow> bool \<Rightarrow> string \<Rightarrow> string" where
  "remove_matches r b s =
     (case re_find r b s of
        None \<Rightarrow> s
      | Some (pre, m, rest, cs) \<Rightarrow>
          if m = [] then
            (case rest of [] \<Rightarrow> pre | c # rest' \<Rightarrow> pre @ c # remove_matches r False rest')
          else pre @ remove_matches r False rest)"
  by pat_completeness auto
termination
  by (relation "measure (\<lambda>(r, b, s). length s)") (auto dest!: re_find_split)

declare remove_matches.simps [simp del]

section \<open>Building expressions\<close>

definition re_lit :: "string \<Rightarrow> re" where
  "re_lit s = foldr (\<lambda>c r. RSeq (RCls (\<lambda>d. d = c)) r) s REmp"

text \<open>A literal under the flag \<open>(?i)\<close>.\<close>

definition re_lit_ci :: "string \<Rightarrow> re" where
  "re_lit_ci s = foldr (\<lambda>c r. RSeq (RCls (\<lambda>d. lower_char d = lower_char c)) r) s REmp"

definition re_plus :: "(char \<Rightarrow> bool) \<Rightarrow> re" where
  "re_plus p = RSeq (RCls p) (RStar p)"

fun re_exactly :: "nat \<Rightarrow> (char \<Rightarrow> bool) \<Rightarrow> re" where
  "re_exactly 0 p = REmp"
| "re_exactly (Suc n) p = RSeq (RCls p) (re_exactly n p)"

text \<open>\<open>p{0,n}\<close>, greedy.\<close>

fun re_upto :: "nat \<Rightarrow> (char \<Rightarrow> bool) \<Rightarrow> re" where
  "re_upto 0 p = REmp"
| "re_upto (Suc n) p = ROpt (RSeq (RCls p) (re_upto n p))"

definition re_seqs :: "re list \<Rightarrow> re" where
  "re_seqs rs = foldr RSeq rs REmp"

text \<open>The classes \<open>\s\<close>, \<open>\S\<close>, \<open>\w\<close> and the dot.\<close>

definition ws :: "char \<Rightarrow> bool" where
  "ws c \<longleftrightarrow> c = CHR '' '' \<or> c = CHR 0x09 \<or> c = CHR 0x0A \<or> c = CHR 0x0C \<or> c = CHR 0x0D"

definition non_ws :: "char \<Rightarrow> bool" where
  "non_ws c \<longleftrightarrow> \<not> ws c"

definition is_lower :: "char \<Rightarrow> bool" where
  "is_lower c \<longleftrightarrow> (97::nat) \<le> of_char c \<and> (of_char c :: nat) \<le> 122"

lemma is_lower_bits [code]:
  "is_lower (Char b0 b1 b2 b3 b4 b5 b6 b7) \<longleftrightarrow>
     \<not> b7 \<and> b6 \<and> b5 \<and> (b0 \<or> b1 \<or> b2 \<or> b3 \<or> b4) \<and> \<not> (b4 \<and> b3 \<and> (b2 \<or> (b1 \<and> b0)))"
  by (auto simp: is_lower_def of_char_def)

definition word_char :: "char \<Rightarrow> bool" where
  "word_char c \<longleftrightarrow> isDigit c \<or> is_upper c \<or> is_lower c \<or> c = CHR ''_''"

definition not_newline :: "char \<Rightarrow> bool" where
  "not_newline c \<longleftrightarrow> c \<noteq> CHR 0x0A"

lemma re_seqs_Nil [simp]: "re_seqs [] = REmp"
  and re_seqs_Cons [simp]: "re_seqs (r # rs) = RSeq r (re_seqs rs)"
  by (simp_all add: re_seqs_def)

section \<open>Facts the parsers use\<close>

text \<open>
  A greedy repetition takes the whole run of its class when the rest of the expression succeeds
  there; with the class excluded from what follows, there is no other way for it to succeed.
\<close>

lemma star_match_run:
  assumes "list_all p u" and "v = [] \<or> \<not> p (hd v)" and "k (b \<and> u = []) v cs = Some x"
  shows "star_match p b (u @ v) cs k = Some x"
  using assms
proof (induction u arbitrary: b)
  case Nil
  then show ?case by (cases v) auto
next
  case (Cons c u)
  then show ?case by auto
qed

lemma re_plus_run:
  assumes "list_all p u" and "u \<noteq> []" and "v = [] \<or> \<not> p (hd v)" and "k False v cs = Some x"
  shows "re_match (re_plus p) b (u @ v) cs k = Some x"
  using assms by (cases u) (auto simp: re_plus_def intro: star_match_run)

lemma re_lit_run:
  "k (b \<and> u = []) v cs = Some x \<Longrightarrow> re_match (re_lit u) b (u @ v) cs k = Some x"
  by (induction u arbitrary: b) (auto simp: re_lit_def)

text \<open>If the continuation fails on every suffix, so does the match.\<close>

lemma re_match_None:
  assumes "\<And>u t b' cs'. s = u @ t \<Longrightarrow> k b' t cs' = None"
  shows "re_match r b s cs k = None"
  using re_match_suffix [of r b s cs k] assms by (metis not_None_eq)

text \<open>
  \<open>re_needs P r\<close>: every match of \<open>r\<close> consumes a character that satisfies \<open>P\<close>. A text
  without such a character cannot match.
\<close>

primrec re_needs :: "(char \<Rightarrow> bool) \<Rightarrow> re \<Rightarrow> bool" where
  "re_needs P REmp = False"
| "re_needs P (RCls p) = (\<forall>c. p c \<longrightarrow> P c)"
| "re_needs P (RStar p) = False"
| "re_needs P (RSeq r1 r2) = (re_needs P r1 \<or> re_needs P r2)"
| "re_needs P (RAlt r1 r2) = (re_needs P r1 \<and> re_needs P r2)"
| "re_needs P (ROpt r) = False"
| "re_needs P (RCap n r) = re_needs P r"
| "re_needs P RBol = False"
| "re_needs P REol = False"

lemma re_needs_None:
  "re_needs P r \<Longrightarrow> (\<forall>c \<in> set s. \<not> P c) \<Longrightarrow> re_match r b s cs k = None"
proof (induction r arbitrary: b s cs k)
  case (RSeq r1 r2)
  show ?case
  proof (cases "re_needs P r1")
    case True
    with RSeq show ?thesis by simp
  next
    case False
    with RSeq.prems(1) have n2: "re_needs P r2" by simp
    show ?thesis
      unfolding re_match.simps
    proof (rule re_match_None)
      fix u t b' cs'
      assume "s = u @ t"
      with RSeq.prems(2) have "\<forall>c \<in> set t. \<not> P c" by auto
      with n2 show "re_match r2 b' t cs' k = None" by (rule RSeq.IH(2))
    qed
  qed
qed (auto split: list.splits option.splits)

lemma re_find_needs_None:
  "re_needs P r \<Longrightarrow> (\<forall>c \<in> set s. \<not> P c) \<Longrightarrow> re_find r b s = None"
  by (induction s arbitrary: b) (auto simp: re_needs_None)

text \<open>
  What an expression can consume, forgetting the anchors, and what its groups can capture. The
  search is sound for both.
\<close>

inductive_set star_lang :: "(char \<Rightarrow> bool) \<Rightarrow> string set" for p where
  star_Nil: "[] \<in> star_lang p"
| star_Cons: "p c \<Longrightarrow> u \<in> star_lang p \<Longrightarrow> c # u \<in> star_lang p"

lemma star_lang_iff: "u \<in> star_lang p \<longleftrightarrow> list_all p u"
proof
  show "u \<in> star_lang p \<Longrightarrow> list_all p u" by (induction rule: star_lang.induct) auto
  show "list_all p u \<Longrightarrow> u \<in> star_lang p" by (induction u) (auto intro: star_lang.intros)
qed

primrec re_lang :: "re \<Rightarrow> string set" where
  "re_lang REmp = {[]}"
| "re_lang (RCls p) = {[c] | c. p c}"
| "re_lang (RStar p) = star_lang p"
| "re_lang (RSeq r1 r2) = {u @ v | u v. u \<in> re_lang r1 \<and> v \<in> re_lang r2}"
| "re_lang (RAlt r1 r2) = re_lang r1 \<union> re_lang r2"
| "re_lang (ROpt r) = insert [] (re_lang r)"
| "re_lang (RCap n r) = re_lang r"
| "re_lang RBol = {[]}"
| "re_lang REol = {[]}"

primrec re_groups :: "re \<Rightarrow> (nat \<times> string) set" where
  "re_groups REmp = {}"
| "re_groups (RCls p) = {}"
| "re_groups (RStar p) = {}"
| "re_groups (RSeq r1 r2) = re_groups r1 \<union> re_groups r2"
| "re_groups (RAlt r1 r2) = re_groups r1 \<union> re_groups r2"
| "re_groups (ROpt r) = re_groups r"
| "re_groups (RCap n r) = insert n {} \<times> re_lang r \<union> re_groups r"
| "re_groups RBol = {}"
| "re_groups REol = {}"

definition re_sound :: "re \<Rightarrow> string \<Rightarrow> caps \<Rightarrow> re_cont \<Rightarrow> string \<times> caps \<Rightarrow> bool" where
  "re_sound r s cs k x \<longleftrightarrow> (\<exists>u t b' cs'. s = u @ t \<and> u \<in> re_lang r \<and> k b' t cs' = Some x \<and>
     set cs' \<subseteq> set cs \<union> re_groups r)"

lemma re_soundI:
  "s = u @ t \<Longrightarrow> u \<in> re_lang r \<Longrightarrow> k b' t cs' = Some x \<Longrightarrow> set cs' \<subseteq> set cs \<union> re_groups r \<Longrightarrow>
     re_sound r s cs k x"
  by (auto simp: re_sound_def)

lemma star_match_sound:
  "star_match p b s cs k = Some x \<Longrightarrow> re_sound (RStar p) s cs k x"
proof (induction s arbitrary: b)
  case Nil
  then show ?case by (intro re_soundI [of _ "[]" _ _ _ b cs]) (auto intro: star_Nil)
next
  case (Cons c s)
  show ?case
  proof (cases "k b (c # s) cs = Some x")
    case True
    then show ?thesis by (intro re_soundI [of _ "[]" _ _ _ b cs]) (auto intro: star_Nil)
  next
    case False
    with Cons.prems have "p c" and "star_match p False s cs k = Some x"
      by (auto split: if_splits option.splits)
    with Cons.IH [of False] show ?thesis
      by (auto simp: re_sound_def intro: star_Cons) (metis append_Cons star_Cons)
  qed
qed

lemma re_match_sound: "re_match r b s cs k = Some x \<Longrightarrow> re_sound r s cs k x"
proof (induction r arbitrary: b s cs k)
  case (RStar p)
  then show ?case by (simp add: star_match_sound)
next
  case (RSeq r1 r2)
  from RSeq.prems have "re_match r1 b s cs (\<lambda>b' s' cs'. re_match r2 b' s' cs' k) = Some x" by simp
  from RSeq.IH(1) [OF this] obtain u t b1 cs1 where 1: "s = u @ t" "u \<in> re_lang r1"
    "re_match r2 b1 t cs1 k = Some x" "set cs1 \<subseteq> set cs \<union> re_groups r1"
    by (auto simp: re_sound_def)
  from RSeq.IH(2) [OF 1(3)] obtain v w b2 cs2 where 2: "t = v @ w" "v \<in> re_lang r2"
    "k b2 w cs2 = Some x" "set cs2 \<subseteq> set cs1 \<union> re_groups r2"
    by (auto simp: re_sound_def)
  show ?case using 1 2 by (intro re_soundI [of s "u @ v" w]) auto
next
  case (RCap n r)
  let ?k = "\<lambda>b' s' cs'. k b' s' ((n, take (length s - length s') s) # cs')"
  from RCap.prems have "re_match r b s cs ?k = Some x" by simp
  from RCap.IH [OF this] obtain u t b' cs' where u: "s = u @ t" "u \<in> re_lang r"
    "k b' t ((n, u) # cs') = Some x" "set cs' \<subseteq> set cs \<union> re_groups r"
    by (auto simp: re_sound_def)
  then show ?case
    by (intro re_soundI [of s u t "RCap n r" k b' "(n, u) # cs'" x cs]) auto
next
  case (RAlt r1 r2)
  show ?case
  proof (cases "re_match r1 b s cs k = Some x")
    case True
    with RAlt.IH(1) have "re_sound r1 s cs k x" by blast
    then show ?thesis by (fastforce simp: re_sound_def)
  next
    case False
    with RAlt.prems have "re_match r2 b s cs k = Some x" by (auto split: option.splits)
    with RAlt.IH(2) have "re_sound r2 s cs k x" by blast
    then show ?thesis by (fastforce simp: re_sound_def)
  qed
next
  case (ROpt r)
  show ?case
  proof (cases "re_match r b s cs k")
    case None
    with ROpt.prems show ?thesis by (auto intro: re_soundI [of _ "[]"])
  next
    case (Some y)
    with ROpt.prems have "re_match r b s cs k = Some x" by simp
    from ROpt.IH [OF this] show ?thesis by (auto simp: re_sound_def)
  qed
qed (auto intro: re_soundI [of _ "[]"] re_soundI [of _ "[_]"] split: list.splits if_splits)

lemma re_find_groups: "re_find r b s = Some (pre, m, rest, cs) \<Longrightarrow> set cs \<subseteq> re_groups r"
proof (induction s arbitrary: b pre)
  case Nil
  then show ?case by (auto split: option.splits dest!: re_match_sound simp: re_sound_def)
next
  case (Cons c s)
  show ?case
  proof (cases "re_match r b (c # s) [] (\<lambda>b' s' cs'. Some (s', cs'))")
    case None
    with Cons show ?thesis by (auto split: option.splits)
  next
    case (Some a)
    with re_match_sound [OF Some] Cons.prems show ?thesis by (auto simp: re_sound_def)
  qed
qed

lemma group_captured:
  assumes "FindStringSubmatch r s = Some m" and "n \<noteq> 0"
  shows "group m n = '''' \<or> (n, group m n) \<in> re_groups r"
proof -
  from assms(1) obtain pre w rest cs where f: "re_find r True s = Some (pre, w, rest, cs)"
    and m: "m = (0, w) # cs" by (auto simp: FindStringSubmatch_def split: option.splits)
  show ?thesis
    using re_find_groups [OF f] assms(2)
    by (cases "map_of cs n") (auto simp: m group_def dest!: map_of_SomeD)
qed

text \<open>Running the search over a text laid out like the expression.\<close>

lemma re_cap_run:
  assumes "re_match r b (u @ v) cs (\<lambda>b' s' cs'. k b' s' ((n, take (length (u @ v) - length s') (u @ v)) # cs')) = Some x"
  shows "re_match (RCap n r) b (u @ v) cs k = Some x"
  using assms by simp

lemma re_cap_plus_run:
  assumes "list_all p u" and "u \<noteq> []" and "v = [] \<or> \<not> p (hd v)" and "k False v ((n, u) # cs) = Some x"
  shows "re_match (RCap n (re_plus p)) b (u @ v) cs k = Some x"
  using assms by (intro re_cap_run re_plus_run) auto

lemma re_upto_run:
  assumes "list_all p u" and "length u \<le> n" and "v = [] \<or> \<not> p (hd v)" and "k (b \<and> u = []) v cs = Some x"
  shows "re_match (re_upto n p) b (u @ v) cs k = Some x"
  using assms
proof (induction n arbitrary: u b)
  case 0
  then show ?case by simp
next
  case (Suc n)
  then show ?case by (cases u; cases v) auto
qed

lemma re_seq_run:
  "re_match r1 b s cs (\<lambda>b' s' cs'. re_match r2 b' s' cs' k) = Some x \<Longrightarrow> re_match (RSeq r1 r2) b s cs k = Some x"
  by simp

lemma re_bol_run: "k True s cs = Some x \<Longrightarrow> re_match RBol True s cs k = Some x"
  by simp

lemma re_eol_run: "k b [] cs = Some x \<Longrightarrow> re_match REol b [] cs k = Some x"
  by simp

lemma re_emp_run: "k b s cs = Some x \<Longrightarrow> re_match REmp b s cs k = Some x"
  by simp

lemma re_cap_cls_run:
  "p c \<Longrightarrow> k False v ((n, [c]) # cs) = Some x \<Longrightarrow> re_match (RCap n (RCls p)) b ([c] @ v) cs k = Some x"
  by simp

lemma re_cls_run: "p c \<Longrightarrow> k False v cs = Some x \<Longrightarrow> re_match (RCls p) b ([c] @ v) cs k = Some x"
  by simp

lemma re_spaces_run:
  assumes "list_all ws u" and "u \<noteq> []" and "v \<noteq> [] \<and> \<not> ws (hd v)" and "k False v cs = Some x"
  shows "re_match (re_plus ws) b (u @ v) cs k = Some x"
  using assms by (intro re_plus_run) auto

lemma re_star_run:
  assumes "list_all p u" and "v = [] \<or> \<not> p (hd v)" and "k (b \<and> u = []) v cs = Some x"
  shows "re_match (RStar p) b (u @ v) cs k = Some x"
  using assms by (simp add: star_match_run)

lemma re_cap_rest_run:
  assumes "list_all p u" and "k (b \<and> u = []) [] ((n, u) # cs) = Some x"
  shows "re_match (RCap n (RStar p)) b u cs k = Some x"
  using re_star_run [of p u "[]"] assms by simp

lemma re_lit_cons_run:
  "u \<noteq> [] \<Longrightarrow> k False v cs = Some x \<Longrightarrow> re_match (re_lit u) b (u @ v) cs k = Some x"
  by (rule re_lit_run) simp

lemmas re_runs = re_seq_run re_bol_run re_eol_run re_emp_run re_cap_cls_run re_cls_run re_spaces_run
  re_star_run re_cap_rest_run re_lit_cons_run re_cap_plus_run

text \<open>An anchored expression matches at the beginning of the text or not at all.\<close>

lemma re_find_anchored_later: "re_find (RSeq RBol r) False s = None"
  by (induction s) simp_all

lemma re_find_anchored:
  "re_find (RSeq RBol r) True s =
     (case re_match r True s [] (\<lambda>b' s' cs'. Some (s', cs')) of
        None \<Rightarrow> None | Some (s', cs') \<Rightarrow> Some ([], take (length s - length s') s, s', cs'))"
  by (cases s) (auto simp: re_find_anchored_later split: option.splits)

lemma remove_matches_None: "re_find r b s = None \<Longrightarrow> remove_matches r b s = s"
  by (simp add: remove_matches.simps)

end
