(* ===== verification/Go_Time.thy ===== *)
theory Go_Time
  imports Go_Strings "HOL-Library.Monad_Syntax"
begin

text \<open>
  What the program uses of package \<open>time\<close>: an instant is the number of nanoseconds since the
  Unix epoch, an unbounded integer; \<open>Format\<close> and \<open>Parse\<close> for \<open>RFC3339Nano\<close>, the minute
  layout of the timeline, the RFC 3164 layout, and \<open>time.Date\<close>. The clock is an argument.
\<close>

section \<open>The calendar\<close>

definition is_leap :: "int \<Rightarrow> bool" where
  "is_leap y \<longleftrightarrow> y mod 4 = 0 \<and> (y mod 100 \<noteq> 0 \<or> y mod 400 = 0)"

text \<open>Days before a month of a year (month 13 gives the length of the year).\<close>

definition days_before_month :: "int \<Rightarrow> nat \<Rightarrow> int" where
  "days_before_month y m =
     [0, 0, 31, 59, 90, 120, 151, 181, 212, 243, 273, 304, 334, 365] ! m + (if 2 < m \<and> is_leap y then 1 else 0)"

definition days_in :: "int \<Rightarrow> nat \<Rightarrow> int" where
  "days_in y m = days_before_month y (m + 1) - days_before_month y m"

text \<open>Days from 1 January of year 1 to 1 January of a year, and from there to the Unix epoch.\<close>

definition days_before_year :: "int \<Rightarrow> int" where
  "days_before_year y = 365 * (y - 1) + (y - 1) div 4 - (y - 1) div 100 + (y - 1) div 400"

definition epoch_days :: int where
  "epoch_days = 719162"

definition unix_day :: "int \<Rightarrow> nat \<Rightarrow> int \<Rightarrow> int" where
  "unix_day y m d = days_before_year y + days_before_month y m + d - 1 - epoch_days"

definition unix_seconds :: "int \<Rightarrow> nat \<Rightarrow> int \<Rightarrow> int \<Rightarrow> int \<Rightarrow> int \<Rightarrow> int" where
  "unix_seconds y m d h mi s = unix_day y m d * 86400 + h * 3600 + mi * 60 + s"

text \<open>The year and the day of the year, by the cycles of 400, 100, 4 and 1 years.\<close>

definition year_of :: "int \<Rightarrow> int \<times> int" where
  "year_of n =
     (let n400 = n div 146097; d = n mod 146097;
          n100 = min 3 (d div 36524); d = d - 36524 * n100;
          n4 = d div 1461; d = d mod 1461;
          n1 = min 3 (d div 365); d = d - 365 * n1
      in (400 * n400 + 100 * n100 + 4 * n4 + n1 + 1, d))"

fun month_search :: "int \<Rightarrow> int \<Rightarrow> nat list \<Rightarrow> nat" where
  "month_search y yday [] = 12"
| "month_search y yday (m # ms) = (if yday < days_before_month y (m + 1) then m else month_search y yday ms)"

text \<open>Year, month and day of a day counted from the Unix epoch.\<close>

definition civil :: "int \<Rightarrow> int \<times> nat \<times> int" where
  "civil day =
     (let (y, yday) = year_of (day + epoch_days); m = month_search y yday [1 ..< 12]
      in (y, m, yday - days_before_month y m + 1))"

section \<open>Formatting\<close>

text \<open>The last \<open>w\<close> decimal digits of a number.\<close>

fun int_digits :: "nat \<Rightarrow> int \<Rightarrow> string" where
  "int_digits 0 n = []"
| "int_digits (Suc w) n = int_digits w (n div 10) @ [char_of (48 + nat (n mod 10))]"

text \<open>A number padded with zeros to a width it may exceed.\<close>

definition pad_int :: "nat \<Rightarrow> int \<Rightarrow> string" where
  "pad_int w n =
     (let a = \<bar>n\<bar>; ds = (if a < 10 ^ w then int_digits w a else Itoa (nat a))
      in if n < 0 then CHR ''-'' # ds else ds)"

definition frac_nano :: "int \<Rightarrow> string" where
  "frac_nano ns =
     (let ds = rev (dropWhile (\<lambda>c. c = CHR ''0'') (rev (int_digits 9 ns)))
      in if ds = [] then [] else CHR ''.'' # ds)"

definition Format_RFC3339Nano :: "int \<Rightarrow> string" where
  "Format_RFC3339Nano t =
     (let sec = t div 1000000000; ns = t mod 1000000000; day = sec div 86400; s = sec mod 86400;
          (y, m, d) = civil day
      in pad_int 4 y @ ''-'' @ pad_int 2 (int m) @ ''-'' @ pad_int 2 d @ ''T'' @ pad_int 2 (s div 3600) @
         '':'' @ pad_int 2 (s mod 3600 div 60) @ '':'' @ pad_int 2 (s mod 60) @ frac_nano ns @ ''Z'')"

text \<open>The layout \<open>2006-01-02T15:04:00Z\<close>: its seconds are the literal 00.\<close>

definition Format_minute :: "int \<Rightarrow> string" where
  "Format_minute t =
     (let sec = t div 1000000000; day = sec div 86400; s = sec mod 86400; (y, m, d) = civil day
      in pad_int 4 y @ ''-'' @ pad_int 2 (int m) @ ''-'' @ pad_int 2 d @ ''T'' @ pad_int 2 (s div 3600) @
         '':'' @ pad_int 2 (s mod 3600 div 60) @ '':00Z'')"

section \<open>Parsing\<close>

fun digits_int :: "int \<Rightarrow> string \<Rightarrow> int" where
  "digits_int acc [] = acc"
| "digits_int acc (c # cs) = digits_int (10 * acc + int (digit_val c)) cs"

text \<open>\<open>getnum\<close>: two digits, or one when the layout element is not zero-padded.\<close>

definition getnum :: "bool \<Rightarrow> string \<Rightarrow> (int \<times> string) option" where
  "getnum fixed s =
     (case s of
        [] \<Rightarrow> None
      | a # t \<Rightarrow>
          if \<not> isDigit a then None
          else (case t of
                  b # u \<Rightarrow> if isDigit b then Some (int (10 * digit_val a + digit_val b), u)
                          else if fixed then None else Some (int (digit_val a), t)
                | [] \<Rightarrow> if fixed then None else Some (int (digit_val a), t)))"

definition skip_char :: "char \<Rightarrow> string \<Rightarrow> string option" where
  "skip_char c s = (case s of d # t \<Rightarrow> if d = c then Some t else None | [] \<Rightarrow> None)"

text \<open>A space of the layout matches a run of spaces, and also the end of the value.\<close>

definition skip_spaces :: "string \<Rightarrow> string option" where
  "skip_spaces s = (if s \<noteq> [] \<and> hd s \<noteq> CHR '' '' then None else Some (dropWhile (\<lambda>c. c = CHR '' '') s))"

definition in_range :: "int \<Rightarrow> int \<Rightarrow> int \<times> string \<Rightarrow> (int \<times> string) option" where
  "in_range lo hi = (\<lambda>(n, s). if lo \<le> n \<and> n < hi then Some (n, s) else None)"

definition parse_year :: "string \<Rightarrow> (int \<times> string) option" where
  "parse_year s =
     (let ds = take 4 s
      in if length ds = 4 \<and> list_all isDigit ds then Some (digits_int 0 ds, drop 4 s) else None)"

text \<open>A fraction of a second: a period or comma and digits, of which nine count.\<close>

definition parse_fraction :: "string \<Rightarrow> int \<times> string" where
  "parse_fraction s =
     (case s of
        c # d # t \<Rightarrow>
          if (c = CHR ''.'' \<or> c = CHR '','') \<and> isDigit d then
            (let ds = takeWhile isDigit (d # t); used = take 9 ds
             in (digits_int 0 used * 10 ^ (9 - length used), dropWhile isDigit (d # t)))
          else (0, s)
      | _ \<Rightarrow> (0, s))"

definition parse_zone :: "string \<Rightarrow> (int \<times> string) option" where
  "parse_zone s =
     (case s of
        [] \<Rightarrow> None
      | c # t \<Rightarrow>
          if c = CHR ''Z'' then Some (0, t)
          else do {
            (hr, s1) \<leftarrow> getnum True t;
            s2 \<leftarrow> skip_char (CHR '':'') s1;
            (mm, s3) \<leftarrow> getnum True s2;
            if hr > 24 \<or> mm > 60 then None
            else if c = CHR ''+'' then Some (hr * 3600 + mm * 60, s3)
            else if c = CHR ''-'' then Some (- (hr * 3600 + mm * 60), s3)
            else None })"

definition Parse_RFC3339Nano :: "string \<Rightarrow> int option" where
  "Parse_RFC3339Nano s0 = do {
     (y, s) \<leftarrow> parse_year s0;
     s \<leftarrow> skip_char (CHR ''-'') s;
     (m, s) \<leftarrow> Option.bind (getnum True s) (in_range 1 13);
     s \<leftarrow> skip_char (CHR ''-'') s;
     (d, s) \<leftarrow> getnum True s;
     s \<leftarrow> skip_char (CHR ''T'') s;
     (h, s) \<leftarrow> Option.bind (getnum False s) (in_range 0 24);
     s \<leftarrow> skip_char (CHR '':'') s;
     (mi, s) \<leftarrow> Option.bind (getnum True s) (in_range 0 60);
     s \<leftarrow> skip_char (CHR '':'') s;
     (sec, s) \<leftarrow> Option.bind (getnum True s) (in_range 0 60);
     let (ns, s) = parse_fraction s;
     (zone, s) \<leftarrow> parse_zone s;
     if s \<noteq> [] \<or> d < 1 \<or> days_in y (nat m) < d then None
     else Some ((unix_seconds y (nat m) d h mi sec - zone) * 1000000000 + ns) }"

text \<open>
  \<open>RFC3339\<close> has no fraction in its layout, and \<open>Parse\<close> then takes one after the seconds all the
  same: it accepts the same strings with the same result.
\<close>

definition Parse_RFC3339 :: "string \<Rightarrow> int option" where
  "Parse_RFC3339 s = Parse_RFC3339Nano s"

definition month_names :: "string list" where
  "month_names = [''jan'', ''feb'', ''mar'', ''apr'', ''may'', ''jun'', ''jul'', ''aug'', ''sep'',
     ''oct'', ''nov'', ''dec'']"

definition parse_month_name :: "string \<Rightarrow> (nat \<times> string) option" where
  "parse_month_name s =
     (case List.find (\<lambda>i. month_names ! i = ToLower (take 3 s)) [0 ..< 12] of
        None \<Rightarrow> None | Some i \<Rightarrow> Some (i + 1, drop 3 s))"

text \<open>The layout \<open>Jan 2 15:04:05\<close>: month, day, hour, minute and second of the year 0.\<close>

definition Parse_stamp :: "string \<Rightarrow> (nat \<times> int \<times> int \<times> int \<times> int) option" where
  "Parse_stamp s0 = do {
     (m, s) \<leftarrow> parse_month_name s0;
     s \<leftarrow> skip_spaces s;
     (d, s) \<leftarrow> getnum False s;
     s \<leftarrow> skip_spaces s;
     (h, s) \<leftarrow> Option.bind (getnum False s) (in_range 0 24);
     s \<leftarrow> skip_char (CHR '':'') s;
     (mi, s) \<leftarrow> Option.bind (getnum True s) (in_range 0 60);
     s \<leftarrow> skip_char (CHR '':'') s;
     (sec, s) \<leftarrow> Option.bind (getnum True s) (in_range 0 60);
     let (ns, s) = parse_fraction s;
     if s \<noteq> [] \<or> d < 1 \<or> days_in 0 m < d then None else Some (m, d, h, mi, sec) }"

end
