(* ===== verification/Go_Time_Facts.thy ===== *)
theory Go_Time_Facts
  imports Go_Time
begin

text \<open>
  The calendar computations agree with each other, and \<open>Parse\<close> inverts \<open>Format\<close> on the
  years the layout can hold.
\<close>

section \<open>The calendar\<close>

lemma year_digits:
  fixes a b c d :: int
  assumes "0 \<le> b" "b \<le> 3" "0 \<le> c" "c \<le> 24" "0 \<le> d" "d \<le> 3"
  shows "days_before_year (400 * a + 100 * b + 4 * c + d + 1) = 146097 * a + 36524 * b + 1461 * c + 365 * d"
    and "is_leap (400 * a + 100 * b + 4 * c + d + 1) \<longleftrightarrow> d = 3 \<and> (c \<noteq> 24 \<or> b = 3)"
proof -
  define x where "x = 4 * c + d + 1"
  have x: "1 \<le> x" "x \<le> 100" "x = 100 \<longleftrightarrow> d = 3 \<and> c = 24" using assms unfolding x_def by presburger+
  have 4: "(400 * a + 100 * b + 4 * c + d) div 4 = 100 * a + 25 * b + c"
    by (rule int_div_pos_eq [of _ _ _ d]) (use assms in auto)
  have 100: "(400 * a + 100 * b + 4 * c + d) div 100 = 4 * a + b"
    by (rule int_div_pos_eq [of _ _ _ "4 * c + d"]) (use assms in auto)
  have 400: "(400 * a + 100 * b + 4 * c + d) div 400 = a"
    by (rule int_div_pos_eq [of _ _ _ "100 * b + 4 * c + d"]) (use assms in auto)
  show "days_before_year (400 * a + 100 * b + 4 * c + d + 1) = 146097 * a + 36524 * b + 1461 * c + 365 * d"
    by (simp add: days_before_year_def 4 100 400)
  have "(400 * a + 100 * b + 4 * c + d + 1) mod 4 = (if d = 3 then 0 else d + 1)"
    by (rule int_mod_pos_eq [of _ _ "100 * a + 25 * b + c + (if d = 3 then 1 else 0)"]) (use assms in auto)
  then have m4: "(400 * a + 100 * b + 4 * c + d + 1) mod 4 = 0 \<longleftrightarrow> d = 3" using assms by auto
  have "(400 * a + 100 * b + 4 * c + d + 1) mod 100 = (if x = 100 then 0 else x)"
    by (rule int_mod_pos_eq [of _ _ "4 * a + b + (if x = 100 then 1 else 0)"]) (use x in \<open>auto simp: x_def\<close>)
  then have m100: "(400 * a + 100 * b + 4 * c + d + 1) mod 100 = 0 \<longleftrightarrow> d = 3 \<and> c = 24" using x by auto
  have "(400 * a + 100 * b + 4 * c + d + 1) mod 400 = (if x = 100 \<and> b = 3 then 0 else 100 * b + x)"
    by (rule int_mod_pos_eq [of _ _ "a + (if x = 100 \<and> b = 3 then 1 else 0)"])
      (use x(1,2) assms(1,2) in \<open>auto simp: x_def\<close>)
  then have m400: "(400 * a + 100 * b + 4 * c + d + 1) mod 400 = 0 \<longleftrightarrow> d = 3 \<and> c = 24 \<and> b = 3"
    using x assms by auto
  show "is_leap (400 * a + 100 * b + 4 * c + d + 1) \<longleftrightarrow> d = 3 \<and> (c \<noteq> 24 \<or> b = 3)"
    using m4 m100 m400 by (auto simp: is_leap_def)
qed

lemma year_of_correct:
  assumes "year_of n = (y, yd)"
  shows "days_before_year y + yd = n" and "0 \<le> yd" and "yd < 365 + (if is_leap y then 1 else 0)"
proof -
  define a where "a = n div 146097"
  define r where "r = n mod 146097"
  define b where "b = min 3 (r div 36524)"
  define s where "s = r - 36524 * b"
  define c where "c = s div 1461"
  define u where "u = s mod 1461"
  define d where "d = min 3 (u div 365)"
  have y: "y = 400 * a + 100 * b + 4 * c + d + 1" and yd: "yd = u - 365 * d"
    using assms by (auto simp: year_of_def Let_def a_def r_def b_def s_def c_def u_def d_def)
  have r: "0 \<le> r" "r < 146097" "n = 146097 * a + r" by (simp_all add: r_def a_def)
  have b: "0 \<le> b" "b \<le> 3" using r by (simp_all add: b_def pos_imp_zdiv_nonneg_iff)
  have s: "0 \<le> s" "s < 36524 + (if b = 3 then 1 else 0)"
    using r unfolding s_def b_def by (auto simp: min_def split: if_splits)
  have c: "0 \<le> c" "c \<le> 24" "s = 1461 * c + u" "0 \<le> u" "u < 1461"
    using s by (auto simp: c_def u_def pos_imp_zdiv_nonneg_iff split: if_splits)
  have d: "0 \<le> d" "d \<le> 3" using c by (simp_all add: d_def pos_imp_zdiv_nonneg_iff)
  have yd0: "0 \<le> u - 365 * d" "u - 365 * d < 365 + (if d = 3 then 1 else 0)"
    using c unfolding d_def by (auto simp: min_def split: if_splits)
  note dig = year_digits [OF b c(1,2) d, of a]
  show "days_before_year y + yd = n" using dig(1) r(3) c(3) by (simp add: y yd s_def)
  show "0 \<le> yd" using yd0 by (simp add: yd)
  have "d = 3 \<Longrightarrow> c = 24 \<Longrightarrow> b \<noteq> 3 \<Longrightarrow> u - 365 * d < 365"
    using s c by simp
  with yd0(2) have "u - 365 * d < 365 + (if d = 3 \<and> (c \<noteq> 24 \<or> b = 3) then 1 else 0)"
    by (auto split: if_splits)
  then show "yd < 365 + (if is_leap y then 1 else 0)"
    by (simp only: y yd dig(2))
qed

lemma days_before_month_numerals [simp]:
  "days_before_month y 1 = 0" "days_before_month y 2 = 31"
  "days_before_month y (Suc 0) = 0" "days_before_month y (Suc (Suc 0)) = 31"
  "days_before_month y 3 = 59 + (if is_leap y then 1 else 0)"
  "days_before_month y 4 = 90 + (if is_leap y then 1 else 0)"
  "days_before_month y 5 = 120 + (if is_leap y then 1 else 0)"
  "days_before_month y 6 = 151 + (if is_leap y then 1 else 0)"
  "days_before_month y 7 = 181 + (if is_leap y then 1 else 0)"
  "days_before_month y 8 = 212 + (if is_leap y then 1 else 0)"
  "days_before_month y 9 = 243 + (if is_leap y then 1 else 0)"
  "days_before_month y 10 = 273 + (if is_leap y then 1 else 0)"
  "days_before_month y 11 = 304 + (if is_leap y then 1 else 0)"
  "days_before_month y 12 = 334 + (if is_leap y then 1 else 0)"
  "days_before_month y 13 = 365 + (if is_leap y then 1 else 0)"
  by (simp_all add: days_before_month_def)

lemma month_search_correct:
  assumes "0 \<le> yd" "yd < 365 + (if is_leap y then 1 else 0)"
  shows "let m = month_search y yd [1 ..< 12]
    in 1 \<le> m \<and> m \<le> 12 \<and> days_before_month y m \<le> yd \<and> yd < days_before_month y (m + 1)"
proof -
  have "[1 ..< 12] = [1, 2, 3, 4, 5, 6, 7, 8, 9, 10, 11 :: nat]" by (simp add: upt_rec)
  then show ?thesis using assms by (simp add: Let_def split: if_splits)
qed

lemma civil_correct:
  assumes "civil day = (y, m, d)"
  shows "unix_day y m d = day" and "1 \<le> m" and "m \<le> 12" and "1 \<le> d" and "d \<le> days_in y m" and "d \<le> 31"
proof -
  obtain y' yd where yo: "year_of (day + epoch_days) = (y', yd)" by (cases "year_of (day + epoch_days)")
  note yc = year_of_correct [OF yo]
  from assms yo have [simp]: "y' = y" and m: "m = month_search y yd [1 ..< 12]"
    and d: "d = yd - days_before_month y m + 1"
    by (auto simp: civil_def Let_def)
  have yl: "yd < 365 + (if is_leap y then 1 else 0)" using yc(3) by simp
  have mc: "1 \<le> m" "m \<le> 12" "days_before_month y m \<le> yd" "yd < days_before_month y (m + 1)"
    using month_search_correct [OF yc(2) yl] by (simp_all add: m Let_def)
  show "unix_day y m d = day" using yc(1) d by (simp add: unix_day_def)
  show "1 \<le> m" "m \<le> 12" using mc by auto
  show "1 \<le> d" "d \<le> days_in y m" using mc d by (simp_all add: days_in_def)
  have "days_in y m \<le> 31"
  proof -
    have "m = 1 \<or> m = 2 \<or> m = 3 \<or> m = 4 \<or> m = 5 \<or> m = 6 \<or> m = 7 \<or> m = 8 \<or> m = 9 \<or>
        m = 10 \<or> m = 11 \<or> m = 12"
      using mc by arith
    then show ?thesis by (auto simp: days_in_def)
  qed
  then show "d \<le> 31" using \<open>d \<le> days_in y m\<close> by simp
qed

section \<open>Digits\<close>

lemma digits_int_append: "digits_int acc (xs @ ys) = digits_int (digits_int acc xs) ys"
  by (induction xs arbitrary: acc) auto

lemma length_int_digits [simp]: "length (int_digits w n) = w"
  by (induction w arbitrary: n) auto

lemma digit_of_int:
  "isDigit (char_of (48 + nat (n mod 10)))" "int (digit_val (char_of (48 + nat (n mod 10)))) = n mod 10"
proof -
  have "nat (n mod 10) < 10" by (simp add: nat_less_iff)
  from digit_char [OF this] show "isDigit (char_of (48 + nat (n mod 10)))"
    "int (digit_val (char_of (48 + nat (n mod 10)))) = n mod 10" by simp_all
qed

lemma int_digits_isDigit [simp]: "list_all isDigit (int_digits w n)"
  by (induction w arbitrary: n) (auto simp: digit_of_int)

lemma digits_int_int_digits: "0 \<le> n \<Longrightarrow> n < 10 ^ w \<Longrightarrow> digits_int 0 (int_digits w n) = n"
proof (induction w arbitrary: n)
  case (Suc w)
  from Suc.prems have "n div 10 < 10 ^ w" "0 \<le> n div 10"
    by (auto simp: div_less_iff_less_mult pos_imp_zdiv_nonneg_iff algebra_simps)
  with Suc.IH [of "n div 10"] show ?case by (simp add: digits_int_append digit_of_int)
qed simp

lemma getnum_digits:
  assumes "0 \<le> n" "n < 100" shows "getnum f (int_digits 2 n @ s) = Some (n, s)"
proof -
  have "n div 10 mod 10 = n div 10" using assms by auto
  then show ?thesis
    using digit_of_int [of n] digit_of_int [of "n div 10"] by (simp add: getnum_def numeral_2_eq_2)
qed

lemma parse_year_digits: "0 \<le> y \<Longrightarrow> y < 10000 \<Longrightarrow> parse_year (int_digits 4 y @ s) = Some (y, s)"
  using digits_int_int_digits [of y 4] by (simp add: parse_year_def Let_def del: int_digits.simps)

lemma digits_int_zeros: "set zs \<subseteq> {CHR ''0''} \<Longrightarrow> digits_int acc zs = acc * 10 ^ length zs"
  by (induction zs arbitrary: acc) (auto simp: digit_val_def)

lemma parse_fraction_nano:
  assumes "0 \<le> ns" "ns < 1000000000"
  shows "parse_fraction (frac_nano ns @ ''Z'') = (ns, ''Z'')"
proof -
  define all where "all = int_digits 9 ns"
  define zs where "zs = takeWhile (\<lambda>c. c = CHR ''0'') (rev all)"
  define ds where "ds = rev (dropWhile (\<lambda>c. c = CHR ''0'') (rev all))"
  have "rev all = zs @ rev ds" by (simp add: zs_def ds_def)
  then have split: "all = ds @ rev zs" by (metis rev_append rev_rev_ident)
  have z: "set zs \<subseteq> {CHR ''0''}" by (auto simp: zs_def dest: set_takeWhileD)
  have len: "length ds + length zs = 9"
    using arg_cong [OF split, of length] by (simp add: all_def)
  have "digits_int 0 all = ns" using assms by (simp add: all_def digits_int_int_digits)
  then have val: "digits_int 0 ds * 10 ^ length zs = ns"
    using digits_int_zeros [of "rev zs"] z by (simp add: split digits_int_append)
  have dd: "list_all isDigit ds"
    using split int_digits_isDigit [of 9 ns] by (simp add: all_def del: int_digits.simps)
  have frac: "frac_nano ns = (if ds = [] then [] else CHR ''.'' # ds)"
    by (simp add: frac_nano_def ds_def all_def Let_def)
  show ?thesis
  proof (cases ds)
    case Nil
    then have "ns = 0" using val by simp
    with Nil frac show ?thesis by (simp add: parse_fraction_def)
  next
    case (Cons d ds')
    have tw: "takeWhile isDigit (ds @ ''Z'') = ds" "dropWhile isDigit (ds @ ''Z'') = ''Z''"
      using dd by (auto simp: takeWhile_append dropWhile_append list_all_iff isDigit_def)
    have "9 - length ds = length zs" "take 9 ds = ds" using len by auto
    then have "parse_fraction (CHR ''.'' # (ds @ ''Z'')) = (ns, ''Z'')"
      using tw val dd by (simp add: parse_fraction_def Cons Let_def)
    with Cons show ?thesis by (simp add: frac)
  qed
qed

section \<open>Round trip\<close>

lemma pad_int_digits: "0 \<le> n \<Longrightarrow> n < 10 ^ w \<Longrightarrow> pad_int w n = int_digits w n"
  by (simp add: pad_int_def Let_def)

lemma Parse_digits:
  assumes "0 \<le> y" "y < 10000" and "1 \<le> m" "m \<le> 12" and "1 \<le> d" "d \<le> 31" "d \<le> days_in y (nat m)"
    and "0 \<le> h" "h < 24" and "0 \<le> mi" "mi < 60" and "0 \<le> se" "se < 60" and "0 \<le> ns" "ns < 1000000000"
  shows "Parse_RFC3339Nano (int_digits 4 y @ ''-'' @ int_digits 2 m @ ''-'' @ int_digits 2 d @ ''T'' @
      int_digits 2 h @ '':'' @ int_digits 2 mi @ '':'' @ int_digits 2 se @ frac_nano ns @ ''Z'') =
    Some (unix_seconds y (nat m) d h mi se * 1000000000 + ns)"
proof -
  have z: "parse_zone ''Z'' = Some (0, [])" by (simp add: parse_zone_def)
  show ?thesis
    using assms
    by (simp add: Parse_RFC3339Nano_def parse_year_digits getnum_digits in_range_def skip_char_def
        parse_fraction_nano z del: int_digits.simps)
qed

lemma clock_parts:
  fixes s :: int
  assumes "0 \<le> s" "s < 86400"
  shows "0 \<le> s div 3600" "s div 3600 < 24" "0 \<le> s mod 3600 div 60" "s mod 3600 div 60 < 60"
    and "s div 3600 * 3600 + s mod 3600 div 60 * 60 + s mod 60 = s"
proof -
  have q: "s = s div 3600 * 3600 + s mod 3600" by simp
  have r: "s mod 3600 = s mod 3600 div 60 * 60 + s mod 3600 mod 60" by simp
  have "s mod 3600 mod 60 = s mod 60" by (rule mod_mod_cancel) simp
  with q r show "s div 3600 * 3600 + s mod 3600 div 60 * 60 + s mod 60 = s" by linarith
  have m: "0 \<le> s mod 3600" "s mod 3600 < 3600" by simp_all
  show "0 \<le> s div 3600" "s div 3600 < 24" "0 \<le> s mod 3600 div 60" "s mod 3600 div 60 < 60"
    using assms m by (auto simp: pos_imp_zdiv_nonneg_iff div_less_iff_less_mult)
qed

lemma Parse_Format:
  assumes "fst (civil (t div 1000000000 div 86400)) \<in> {0 .. 9999}"
  shows "Parse_RFC3339Nano (Format_RFC3339Nano t) = Some t"
proof -
  define sec where "sec = t div 1000000000"
  define ns where "ns = t mod 1000000000"
  define s where "s = sec mod 86400"
  define h where "h = s div 3600"
  define mi where "mi = s mod 3600 div 60"
  define se where "se = s mod 60"
  obtain y m d where c: "civil (sec div 86400) = (y, m, d)" by (cases "civil (sec div 86400)") auto
  note cc = civil_correct [OF c]
  have y: "0 \<le> y" "y < 10000" using assms c by (auto simp: sec_def)
  have "0 \<le> s" "s < 86400" by (simp_all add: s_def)
  note cp = clock_parts [OF this, folded h_def mi_def se_def]
  have se: "0 \<le> se" "se < 60" by (simp_all add: se_def)
  have ns: "0 \<le> ns" "ns < 1000000000" by (simp_all add: ns_def)
  have "Format_RFC3339Nano t = int_digits 4 y @ ''-'' @ int_digits 2 (int m) @ ''-'' @ int_digits 2 d @ ''T'' @
      int_digits 2 h @ '':'' @ int_digits 2 mi @ '':'' @ int_digits 2 se @ frac_nano ns @ ''Z''"
    using y cc cp se
    by (simp add: Format_RFC3339Nano_def Let_def sec_def [symmetric] ns_def [symmetric] s_def [symmetric] c
        h_def [symmetric] mi_def [symmetric] se_def [symmetric] pad_int_digits del: int_digits.simps)
  moreover have "unix_seconds y m d h mi se = sec"
    using cc(1) cp(5) by (simp add: unix_seconds_def s_def add.assoc)
  moreover have "sec * 1000000000 + ns = t" by (simp add: sec_def ns_def)
  ultimately show ?thesis
    using Parse_digits [of y "int m" d h mi se ns] y cc cp se ns by simp
qed

end
