(* ===== verification/Go_Json.thy ===== *)
theory Go_Json
  imports Go_Float Event "HOL-Library.Char_ord" "HOL-Library.List_Lexorder"
begin

text \<open>
  What the program uses of \<open>encoding/json\<close>: parsing a text into a value, decoding events, and
  encoding them, at the level of bytes. A number keeps its literal, an object its members in the
  order of the text. The parser is a recursive descent with fuel; one unit for each byte is enough
  (\<open>Go_Json_Fuel\<close>). \<open>depth\<close> is the nesting the
  library accepts. Field names are matched without regard to the case of ASCII letters.
\<close>

datatype json =
    JNull
  | JBool bool
  | JNum string
  | JStr string
  | JArr "json list"
  | JObj "(string \<times> json) list"

section \<open>Runes\<close>

definition continuation :: "char \<Rightarrow> bool" where
  "continuation c \<longleftrightarrow> 128 \<le> (of_char c :: int) \<and> (of_char c :: int) < 192"

text \<open>\<open>utf8.DecodeRune\<close> on a nonempty string: the code point and its size, or 65533 and 1.\<close>

definition decode_rune :: "string \<Rightarrow> int \<times> nat" where
  "decode_rune s =
     (let b = (\<lambda>i. if i < length s then (of_char (s ! i) :: int) else 0);
          cont = (\<lambda>i. i < length s \<and> continuation (s ! i));
          b0 = b 0
      in if b0 < 128 then (b0, 1)
         else if 194 \<le> b0 \<and> b0 < 224 \<and> cont 1 then ((b0 - 192) * 64 + (b 1 - 128), 2)
         else if 224 \<le> b0 \<and> b0 < 240 \<and> cont 1 \<and> cont 2 \<and> (b0 = 224 \<longrightarrow> 160 \<le> b 1) \<and> (b0 = 237 \<longrightarrow> b 1 < 160)
           then ((b0 - 224) * 4096 + (b 1 - 128) * 64 + (b 2 - 128), 3)
         else if 240 \<le> b0 \<and> b0 < 245 \<and> cont 1 \<and> cont 2 \<and> cont 3 \<and>
             (b0 = 240 \<longrightarrow> 144 \<le> b 1) \<and> (b0 = 244 \<longrightarrow> b 1 < 144)
           then ((b0 - 240) * 262144 + (b 1 - 128) * 4096 + (b 2 - 128) * 64 + (b 3 - 128), 4)
         else (65533, 1))"

definition byte :: "int \<Rightarrow> char" where
  "byte n = char_of (nat n)"

definition encode_rune :: "int \<Rightarrow> string" where
  "encode_rune r =
     (if r < 128 then [byte r]
      else if r < 2048 then [byte (192 + r div 64), byte (128 + r mod 64)]
      else if r < 65536 then [byte (224 + r div 4096), byte (128 + r div 64 mod 64), byte (128 + r mod 64)]
      else [byte (240 + r div 262144), byte (128 + r div 4096 mod 64), byte (128 + r div 64 mod 64),
            byte (128 + r mod 64)])"

section \<open>Parsing\<close>

definition json_space :: "char \<Rightarrow> bool" where
  "json_space c \<longleftrightarrow> c = CHR 0x20 \<or> c = CHR 0x09 \<or> c = CHR 0x0A \<or> c = CHR 0x0D"

definition skip_ws :: "string \<Rightarrow> string" where
  "skip_ws s = dropWhile json_space s"

definition hex_value :: "char \<Rightarrow> int option" where
  "hex_value c =
     (let n = (of_char c :: int)
      in if 48 \<le> n \<and> n \<le> 57 then Some (n - 48)
         else if 97 \<le> n \<and> n \<le> 102 then Some (n - 87)
         else if 65 \<le> n \<and> n \<le> 70 then Some (n - 55) else None)"

definition hex4 :: "char \<Rightarrow> char \<Rightarrow> char \<Rightarrow> char \<Rightarrow> int option" where
  "hex4 a b c d =
     (case (hex_value a, hex_value b, hex_value c, hex_value d) of
        (Some a, Some b, Some c, Some d) \<Rightarrow> Some (4096 * a + 256 * b + 16 * c + d)
      | _ \<Rightarrow> None)"

definition simple_escape :: "char \<Rightarrow> char option" where
  "simple_escape c = map_of [(CHR 0x22, CHR 0x22), (CHR 0x5C, CHR 0x5C), (CHR ''/'', CHR ''/''),
     (CHR ''b'', CHR 0x08), (CHR ''f'', CHR 0x0C), (CHR ''n'', CHR 0x0A), (CHR ''r'', CHR 0x0D), (CHR ''t'', CHR 0x09)] c"

definition low_surrogate :: "string \<Rightarrow> int option" where
  "low_surrogate s =
     (case s of
        e # u # a # b # c # d # _ \<Rightarrow>
          if e = CHR 0x5C \<and> u = CHR ''u'' then
            (case hex4 a b c d of
               Some r \<Rightarrow> if 56320 \<le> r \<and> r < 57344 then Some r else None
             | None \<Rightarrow> None)
          else None
      | _ \<Rightarrow> None)"

definition prepend :: "string \<Rightarrow> (string \<times> string) option \<Rightarrow> (string \<times> string) option" where
  "prepend p r = map_option (\<lambda>(s, t). (p @ s, t)) r"

text \<open>A string after its opening quote: its contents and what follows the closing quote.\<close>

function jstr :: "string \<Rightarrow> (string \<times> string) option" where
  "jstr [] = None"
| "jstr (c # s) =
     (if c = CHR 0x22 then Some ([], s)
      else if c = CHR 0x5C then
        (case s of
           [] \<Rightarrow> None
         | e # t \<Rightarrow>
             if e = CHR ''u'' then
               (case t of
                  x # y # z # w # t' \<Rightarrow>
                    (case hex4 x y z w of
                       None \<Rightarrow> None
                     | Some r \<Rightarrow>
                         if 55296 \<le> r \<and> r < 57344 then
                           (case (if r < 56320 then low_surrogate t' else None) of
                              Some r2 \<Rightarrow> prepend (encode_rune (65536 + (r - 55296) * 1024 + (r2 - 56320)))
                                          (jstr (drop 6 t'))
                            | None \<Rightarrow> prepend (encode_rune 65533) (jstr t'))
                         else prepend (encode_rune r) (jstr t'))
                | _ \<Rightarrow> None)
             else (case simple_escape e of None \<Rightarrow> None | Some x \<Rightarrow> prepend [x] (jstr t)))
      else if (of_char c :: int) < 32 then None
      else if (of_char c :: int) < 128 then prepend [c] (jstr s)
      else prepend (encode_rune (fst (decode_rune (c # s)))) (jstr (drop (snd (decode_rune (c # s)) - 1) s)))"
  by pat_completeness auto
termination by (relation "measure length") auto

definition digits_of :: "string \<Rightarrow> string \<times> string" where
  "digits_of s = (takeWhile isDigit s, dropWhile isDigit s)"

definition take_if :: "(char \<Rightarrow> bool) \<Rightarrow> string \<Rightarrow> string \<times> string" where
  "take_if P s = (case s of c # t \<Rightarrow> if P c then ([c], t) else ([], s) | [] \<Rightarrow> ([], s))"

text \<open>A number literal.\<close>

definition jnum :: "string \<Rightarrow> (string \<times> string) option" where
  "jnum s =
     (let (sign, s1) = take_if (\<lambda>c. c = CHR ''-'') s;
          (ip, s2) = (case s1 of c # t \<Rightarrow> if c = CHR ''0'' then ([c], t) else digits_of s1 | [] \<Rightarrow> ([], s1));
          (dot, s3) = take_if (\<lambda>c. c = CHR ''.'') s2;
          (fp, s4) = (if dot = [] then ([], s3) else digits_of s3);
          (e, s5) = take_if (\<lambda>c. c = CHR ''e'' \<or> c = CHR ''E'') s4;
          (es, s6) = (if e = [] then ([], s5) else take_if (\<lambda>c. c = CHR ''+'' \<or> c = CHR ''-'') s5);
          (ep, s7) = (if e = [] then ([], s6) else digits_of s6)
      in if ip = [] \<or> (dot \<noteq> [] \<and> fp = []) \<or> (e \<noteq> [] \<and> ep = []) then None
         else Some (sign @ ip @ dot @ fp @ e @ es @ ep, s7))"

fun jval :: "nat \<Rightarrow> int \<Rightarrow> string \<Rightarrow> (json \<times> string) option"
  and jarr :: "nat \<Rightarrow> int \<Rightarrow> string \<Rightarrow> (json list \<times> string) option"
  and jobj :: "nat \<Rightarrow> int \<Rightarrow> string \<Rightarrow> ((string \<times> json) list \<times> string) option"
where
  "jval 0 depth s = None"
| "jval (Suc n) depth s0 =
     (case skip_ws s0 of
        [] \<Rightarrow> None
      | c # s \<Rightarrow>
          if c = CHR ''{'' then
            (if depth \<le> 0 then None
             else (case skip_ws s of
                     [] \<Rightarrow> None
                   | d # t \<Rightarrow> if d = CHR ''}'' then Some (JObj [], t)
                             else map_option (\<lambda>(ms, u). (JObj ms, u)) (jobj n (depth - 1) s)))
          else if c = CHR ''['' then
            (if depth \<le> 0 then None
             else (case skip_ws s of
                     [] \<Rightarrow> None
                   | d # t \<Rightarrow> if d = CHR '']'' then Some (JArr [], t)
                             else map_option (\<lambda>(vs, u). (JArr vs, u)) (jarr n (depth - 1) s)))
          else if c = CHR 0x22 then map_option (\<lambda>(x, u). (JStr x, u)) (jstr s)
          else if HasPrefix (c # s) ''true'' then Some (JBool True, drop 4 (c # s))
          else if HasPrefix (c # s) ''false'' then Some (JBool False, drop 5 (c # s))
          else if HasPrefix (c # s) ''null'' then Some (JNull, drop 4 (c # s))
          else map_option (\<lambda>(x, u). (JNum x, u)) (jnum (c # s)))"
| "jarr 0 depth s = None"
| "jarr (Suc n) depth s =
     (case jval n depth s of
        None \<Rightarrow> None
      | Some (v, t) \<Rightarrow>
          (case skip_ws t of
             [] \<Rightarrow> None
           | c # u \<Rightarrow> if c = CHR '','' then map_option (\<lambda>(vs, w). (v # vs, w)) (jarr n depth u)
                     else if c = CHR '']'' then Some ([v], u) else None))"
| "jobj 0 depth s = None"
| "jobj (Suc n) depth s =
     (case skip_ws s of
        [] \<Rightarrow> None
      | q # s1 \<Rightarrow>
          if q \<noteq> CHR 0x22 then None
          else (case jstr s1 of
                  None \<Rightarrow> None
                | Some (k, s2) \<Rightarrow>
                    (case skip_ws s2 of
                       [] \<Rightarrow> None
                     | col # s3 \<Rightarrow>
                         if col \<noteq> CHR '':'' then None
                         else (case jval n depth s3 of
                                 None \<Rightarrow> None
                               | Some (v, s4) \<Rightarrow>
                                   (case skip_ws s4 of
                                      [] \<Rightarrow> None
                                    | c # s5 \<Rightarrow>
                                        if c = CHR '','' then
                                          map_option (\<lambda>(ms, w). ((k, v) # ms, w)) (jobj n depth s5)
                                        else if c = CHR ''}'' then Some ([(k, v)], s5)
                                        else None)))))"

definition json_parse :: "string \<Rightarrow> json option" where
  "json_parse s =
     (case jval (length s + 1) 10000 s of
        Some (v, t) \<Rightarrow> if skip_ws t = [] then Some v else None
      | None \<Rightarrow> None)"

section \<open>Decoding an event\<close>

definition string_setter :: "string \<Rightarrow> (string \<Rightarrow> event \<Rightarrow> event) option" where
  "string_setter k = map_of
     [(''id'', \<lambda>s e. e\<lparr>ID := s\<rparr>), (''timestamp'', \<lambda>s e. e\<lparr>Timestamp := s\<rparr>),
      (''received_at'', \<lambda>s e. e\<lparr>ReceivedAt := s\<rparr>), (''zone'', \<lambda>s e. e\<lparr>Zone := s\<rparr>),
      (''source_type'', \<lambda>s e. e\<lparr>SourceType := s\<rparr>), (''asset_name'', \<lambda>s e. e\<lparr>AssetName := s\<rparr>),
      (''asset_ip'', \<lambda>s e. e\<lparr>AssetIP := s\<rparr>), (''severity'', \<lambda>s e. e\<lparr>Severity := s\<rparr>),
      (''protocol'', \<lambda>s e. e\<lparr>Protocol := s\<rparr>), (''event_category'', \<lambda>s e. e\<lparr>EventCategory := s\<rparr>),
      (''message'', \<lambda>s e. e\<lparr>Message := s\<rparr>), (''raw'', \<lambda>s e. e\<lparr>Raw := s\<rparr>)] k"

text \<open>
  One member of a \<open>map[string]string\<close>: a value that is not a string stores the empty string and,
  unless it is null, is an error.
\<close>

definition decode_tag :: "string \<times> json \<Rightarrow> string gomap \<times> bool \<Rightarrow> string gomap \<times> bool" where
  "decode_tag = (\<lambda>(k, v) (m, ok).
     (case v of JStr s \<Rightarrow> (gput k s m, ok) | JNull \<Rightarrow> (gput k '''' m, ok) | _ \<Rightarrow> (gput k '''' m, False)))"

definition decode_member :: "string \<times> json \<Rightarrow> event \<times> bool \<Rightarrow> event \<times> bool" where
  "decode_member = (\<lambda>(k, v) (e, ok).
     (case string_setter (ToLower k) of
        Some upd \<Rightarrow> (case v of JStr s \<Rightarrow> (upd s e, ok) | JNull \<Rightarrow> (e, ok) | _ \<Rightarrow> (e, False))
      | None \<Rightarrow>
          if ToLower k = ''tags'' then
            (case v of
               JNull \<Rightarrow> (e\<lparr>Tags := None\<rparr>, ok)
             | JObj ms \<Rightarrow>
                 (let (m, ok') = fold decode_tag ms (case Tags e of None \<Rightarrow> [] | Some m \<Rightarrow> m, ok)
                  in (e\<lparr>Tags := Some m\<rparr>, ok'))
             | _ \<Rightarrow> (e, False))
          else (e, ok)))"

text \<open>
  \<open>json.Unmarshal\<close> into a fresh event. Decoding goes on after a type mismatch and reports it at
  the end; null leaves the event as it is.
\<close>

definition decode_event :: "json \<Rightarrow> event \<times> bool" where
  "decode_event v =
     (case v of JObj ms \<Rightarrow> fold decode_member ms (zero_event, True)
      | JNull \<Rightarrow> (zero_event, True) | _ \<Rightarrow> (zero_event, False))"

definition Unmarshal_event :: "string \<Rightarrow> event option" where
  "Unmarshal_event s =
     (case json_parse s of
        None \<Rightarrow> None
      | Some v \<Rightarrow> (case decode_event v of (e, ok) \<Rightarrow> if ok then Some e else None))"

section \<open>Encoding\<close>

definition hex_digit :: "int \<Rightarrow> char" where
  "hex_digit n = byte (if n < 10 then 48 + n else 87 + n)"

definition escape_byte :: "char \<Rightarrow> string" where
  "escape_byte c =
     (if c = CHR 0x22 \<or> c = CHR 0x5C then [CHR 0x5C, c]
      else if c = CHR 0x08 then [CHR 0x5C, CHR ''b'']
      else if c = CHR 0x0C then [CHR 0x5C, CHR ''f'']
      else if c = CHR 0x0A then [CHR 0x5C, CHR ''n'']
      else if c = CHR 0x0D then [CHR 0x5C, CHR ''r'']
      else if c = CHR 0x09 then [CHR 0x5C, CHR ''t'']
      else if (of_char c :: int) < 32 \<or> c = CHR ''<'' \<or> c = CHR ''>'' \<or> c = CHR ''&'' then
        [CHR 0x5C, CHR ''u'', CHR ''0'', CHR ''0'', hex_digit (of_char c div 16), hex_digit (of_char c mod 16)]
      else [c])"

text \<open>The body of an encoded string: invalid bytes and the two line separators are escaped.\<close>

function escape_string :: "string \<Rightarrow> string" where
  "escape_string [] = []"
| "escape_string (c # s) =
     (if (of_char c :: int) < 128 then escape_byte c @ escape_string s
      else (case decode_rune (c # s) of
              (r, n) \<Rightarrow>
                (if r = 65533 \<and> n = 1 then CHR 0x5C # ''ufffd''
                 else if r = 8232 then CHR 0x5C # ''u2028''
                 else if r = 8233 then CHR 0x5C # ''u2029''
                 else take n (c # s)) @ escape_string (drop (n - 1) s)))"
  by pat_completeness auto
termination by (relation "measure length") auto

definition quote_string :: "string \<Rightarrow> string" where
  "quote_string s = [CHR 0x22] @ escape_string s @ [CHR 0x22]"

definition encode_member :: "string \<times> string \<Rightarrow> string" where
  "encode_member = (\<lambda>(k, v). quote_string k @ '':'' @ quote_string v)"

text \<open>A map is written in the order of its keys.\<close>

definition sorted_entries :: "string gomap \<Rightarrow> (string \<times> string) list" where
  "sorted_entries m = sort_key fst m"

definition encode_tags :: "string gomap option \<Rightarrow> string" where
  "encode_tags t =
     (case t of None \<Rightarrow> ''null''
      | Some m \<Rightarrow> ''{'' @ Join (map encode_member (sorted_entries m)) '','' @ ''}'')"

definition event_strings :: "event \<Rightarrow> (string \<times> string) list" where
  "event_strings e =
     [(''id'', ID e), (''timestamp'', Timestamp e), (''received_at'', ReceivedAt e), (''zone'', Zone e),
      (''source_type'', SourceType e), (''asset_name'', AssetName e), (''asset_ip'', AssetIP e),
      (''severity'', Severity e), (''protocol'', Protocol e), (''event_category'', EventCategory e),
      (''message'', Message e), (''raw'', Raw e)]"

definition Marshal_event :: "event \<Rightarrow> string" where
  "Marshal_event e =
     ''{'' @ Join (map encode_member (event_strings e)) '','' @ '','' @
     quote_string ''tags'' @ '':'' @ encode_tags (Tags e) @ ''}''"

end
