(* ===== verification/Jsonl_Store.thy ===== *)
theory Jsonl_Store
  imports Go_Json
begin

text \<open>
  The event store (\<open>internal/storage/jsonl.go\<close>): a file of bytes, one JSON record per line,
  \<open>None\<close> when it does not exist. Each operation holds the store's lock and takes the outcome of
  its file accesses as an input. \<open>max_cap\<close> is the largest capacity \<open>make\<close> accepts; above it
  the runtime panics, which is \<open>None\<close>.
\<close>

type_synonym jsonl_file = "string option"

record EventQuery =
  q_Limit :: int
  q_SourceType :: string
  q_Severity :: string
  q_Category :: string
  q_AssetIP :: string
  q_Search :: string

section \<open>Appending\<close>

text \<open>\<open>Wrote n e\<close>: the write returned after \<open>n\<close> bytes, with an error or without.\<close>

datatype append_io = MkdirFails string | OpenFails string | Wrote nat "string option"

definition file_bytes :: "jsonl_file \<Rightarrow> string" where
  "file_bytes f = (case f of None \<Rightarrow> '''' | Some c \<Rightarrow> c)"

definition Append :: "append_io \<Rightarrow> event \<Rightarrow> jsonl_file \<Rightarrow> jsonl_file \<times> string option" where
  "Append io evt f =
     (case io of
        MkdirFails e \<Rightarrow> (f, Some e)
      | OpenFails e \<Rightarrow> (f, Some e)
      | Wrote n err \<Rightarrow>
          (let recd = Marshal_event evt
           in if CHR 0x00 \<in> set recd
              then (Some (file_bytes f), Some ''refusing to write JSONL record containing null byte'')
              else (let recd = recd @ [CHR 0x0A]; f' = Some (file_bytes f @ take n recd)
                    in case err of
                         Some e \<Rightarrow> (f', Some e)
                       | None \<Rightarrow> if n \<noteq> length recd then (f', Some ''short write'') else (f', None))))"

section \<open>Reading\<close>

text \<open>The lines \<open>ReadBytes\<close> returns, each with its newline but for an unfinished last one.\<close>

fun lines_of :: "string \<Rightarrow> string list" where
  "lines_of [] = []"
| "lines_of (c # s) =
     (if c = CHR 0x0A then [c] # lines_of s
      else (case lines_of s of [] \<Rightarrow> [[c]] | l # ls \<Rightarrow> (c # l) # ls))"

definition sanitizeJSONLLine :: "string \<Rightarrow> string" where
  "sanitizeJSONLLine line = Trim line [CHR 0x00, CHR 0x0D, CHR 0x0A, CHR 0x09, CHR 0x20]"

definition parse_line :: "(string \<Rightarrow> 'a option) \<Rightarrow> string \<Rightarrow> 'a option" where
  "parse_line decode line =
     (let clean = sanitizeJSONLLine line in if clean = [] then None else decode clean)"

definition parseLine :: "string \<Rightarrow> event option" where
  "parseLine line = parse_line Unmarshal_event line"

definition canonicalSourceType :: "string \<Rightarrow> string" where
  "canonicalSourceType s0 =
     (let s = ReplaceAll (ToLower (TrimSpace s0)) ''-'' ''_''
      in if s = ''opnsense'' then ''firewall''
         else if s = ''fuxa'' then ''scada''
         else if s = ''openplc'' then ''plc''
         else s)"

definition search_blob :: "event \<Rightarrow> string" where
  "search_blob e = ToLower (Join [Message e, Raw e, AssetName e, AssetIP e, SourceType e, Severity e,
     EventCategory e] '' '')"

definition matchesQuery :: "event \<Rightarrow> EventQuery \<Rightarrow> bool" where
  "matchesQuery e q =
     (if q_SourceType q \<noteq> '''' \<and> canonicalSourceType (SourceType e) \<noteq> canonicalSourceType (q_SourceType q) then False
      else if q_Severity q \<noteq> '''' \<and> \<not> EqualFold (Severity e) (q_Severity q) then False
      else if q_Category q \<noteq> '''' \<and> \<not> EqualFold (EventCategory e) (q_Category q) then False
      else if q_AssetIP q \<noteq> '''' \<and> \<not> EqualFold (AssetIP e) (q_AssetIP q) then False
      else if q_Search q \<noteq> '''' then
        (let s = ToLower (q_Search q)
         in if \<not> Contains (search_blob e) s then
              list_ex (\<lambda>(k, v). Contains (ToLower k) s \<or> Contains (ToLower v) s)
                (case Tags e of None \<Rightarrow> [] | Some m \<Rightarrow> m)
            else True)
      else True)"

text \<open>The loop of \<open>ReadFiltered\<close>: a window of the last matches.\<close>

fun read_loop :: "EventQuery \<Rightarrow> int \<Rightarrow> string list \<Rightarrow> event list \<Rightarrow> event list" where
  "read_loop q limit [] window = window"
| "read_loop q limit (line # ls) window =
     (case parseLine line of
        None \<Rightarrow> read_loop q limit ls window
      | Some e \<Rightarrow>
          if \<not> matchesQuery e q then read_loop q limit ls window
          else (let window = window @ [e]
                in read_loop q limit ls (if limit < int (length window) then tl window else window)))"

definition query_limit :: "EventQuery \<Rightarrow> int" where
  "query_limit q = (if q_Limit q \<le> 0 then 100 else q_Limit q)"

datatype read_io = ReadOk | OpenError string | ReadError string

definition ReadFiltered :: "int \<Rightarrow> read_io \<Rightarrow> EventQuery \<Rightarrow> jsonl_file \<Rightarrow> (string + event list) option" where
  "ReadFiltered max_cap io q f =
     (case io of
        OpenError e \<Rightarrow> Some (Inl e)
      | _ \<Rightarrow>
          (case f of
             None \<Rightarrow> Some (Inr [])
           | Some c \<Rightarrow>
               if max_cap < query_limit q then None
               else (case io of
                       ReadError e \<Rightarrow> Some (Inl e)
                     | _ \<Rightarrow> Some (Inr (read_loop q (query_limit q) (lines_of c) [])))))"

definition limit_query :: "int \<Rightarrow> EventQuery" where
  "limit_query n = \<lparr>q_Limit = n, q_SourceType = '''', q_Severity = '''', q_Category = '''',
     q_AssetIP = '''', q_Search = ''''\<rparr>"

definition ReadLast :: "int \<Rightarrow> read_io \<Rightarrow> int \<Rightarrow> jsonl_file \<Rightarrow> (string + event list) option" where
  "ReadLast max_cap io limit f = ReadFiltered max_cap io (limit_query limit) f"

section \<open>Repairing\<close>

record RepairReport =
  rr_Path :: string
  rr_ValidLines :: int
  rr_InvalidLines :: int
  rr_NullLines :: int
  rr_BytesWritten :: int

definition empty_report :: "string \<Rightarrow> RepairReport" where
  "empty_report path = \<lparr>rr_Path = path, rr_ValidLines = 0, rr_InvalidLines = 0, rr_NullLines = 0, rr_BytesWritten = 0\<rparr>"

text \<open>
  What can fail: each field is the error, if any. \<open>io_write\<close> fails the write of the record that
  comes after that many others.
\<close>

record repair_io =
  io_open :: "string option"
  io_tmp :: "string option"
  io_write :: "(int \<times> string) option"
  io_read :: "string option"
  io_close :: "string option"
  io_rename :: "string option"

fun repair_loop ::
  "(int \<times> string) option \<Rightarrow> string list \<Rightarrow> RepairReport \<Rightarrow> string \<Rightarrow> RepairReport \<times> string \<times> string option" where
  "repair_loop fault [] report out = (report, out, None)"
| "repair_loop fault (line # ls) report out =
     (let clean = sanitizeJSONLLine line
      in if clean = [] then
           repair_loop fault ls
             (report\<lparr>rr_NullLines := rr_NullLines report + (if CHR 0x00 \<in> set line then 1 else 0),
                     rr_InvalidLines := rr_InvalidLines report + 1\<rparr>) out
         else
           (case Unmarshal_event clean of
              None \<Rightarrow> repair_loop fault ls (report\<lparr>rr_InvalidLines := rr_InvalidLines report + 1\<rparr>) out
            | Some evt \<Rightarrow>
                (let recd = Marshal_event evt @ [CHR 0x0A]
                 in case fault of
                      Some (k, e) \<Rightarrow>
                        if k = rr_ValidLines report then (report, out, Some e)
                        else repair_loop fault ls
                          (report\<lparr>rr_ValidLines := rr_ValidLines report + 1,
                                  rr_BytesWritten := rr_BytesWritten report + int (length recd)\<rparr>) (out @ recd)
                    | None \<Rightarrow> repair_loop fault ls
                          (report\<lparr>rr_ValidLines := rr_ValidLines report + 1,
                                  rr_BytesWritten := rr_BytesWritten report + int (length recd)\<rparr>) (out @ recd))))"

definition first_error :: "string option list \<Rightarrow> string option" where
  "first_error es = (case filter (\<lambda>e. e \<noteq> None) es of [] \<Rightarrow> None | e # _ \<Rightarrow> e)"

text \<open>The records go to a second file, which replaces the first one at the end.\<close>

definition Repair :: "repair_io \<Rightarrow> string \<Rightarrow> jsonl_file \<Rightarrow> jsonl_file \<times> RepairReport \<times> string option" where
  "Repair io path f =
     (case (io_open io, f) of
        (Some e, _) \<Rightarrow> (f, empty_report path, Some e)
      | (None, None) \<Rightarrow> (f, empty_report path, None)
      | (None, Some c) \<Rightarrow>
          (case io_tmp io of
             Some e \<Rightarrow> (f, empty_report path, Some e)
           | None \<Rightarrow>
               (let (report, out, err) = repair_loop (io_write io) (lines_of c) (empty_report path) ''''
                in case first_error [err, io_read io, io_close io, io_rename io] of
                     Some e \<Rightarrow> (f, report, Some e)
                   | None \<Rightarrow> (Some out, report, None))))"

end
