(* ===== verification/Go_Json_Strings.thy ===== *)
theory Go_Json_Strings
  imports Go_Json
begin

text \<open>
  UTF-8 strings: a decoded JSON string is one, and encoding it and decoding it gives it back.
\<close>

section \<open>Bytes\<close>

lemma int_of_char_bounds: "0 \<le> (of_char c :: int)" "(of_char c :: int) < 256"
proof -
  have "(of_char c :: int) mod 256 = of_char c" by simp
  then show "0 \<le> (of_char c :: int)" "(of_char c :: int) < 256"
    by (metis pos_mod_sign zero_less_numeral, metis pos_mod_bound zero_less_numeral)
qed

lemma byte_of_char [simp]: "byte (of_char c) = c"
  by (simp add: byte_def)

lemma of_char_byte:
  assumes "0 \<le> n" "n < 256" shows "(of_char (byte n) :: int) = n"
proof -
  have "(of_char (byte n) :: int) = int (of_char (byte n))" by (simp only: of_nat_of_char)
  then show ?thesis using assms by (simp add: byte_def nat_less_iff)
qed

lemma hex_value_digit: "0 \<le> n \<Longrightarrow> n < 16 \<Longrightarrow> hex_value (hex_digit n) = Some n"
  by (simp add: hex_value_def hex_digit_def of_char_byte)

lemma hex4_escape: "hex4 (CHR ''0'') (CHR ''0'') (hex_digit (of_char c div 16)) (hex_digit (of_char c mod 16)) = Some (of_char c)"
proof -
  have "hex_value (hex_digit (of_char c div 16)) = Some (of_char c div 16)"
    "hex_value (hex_digit (of_char c mod 16)) = Some (of_char c mod 16)"
    using int_of_char_bounds [of c] by (auto intro!: hex_value_digit simp: pos_imp_zdiv_nonneg_iff)
  moreover have "hex_value (CHR ''0'') = Some 0" by (simp add: hex_value_def)
  ultimately show ?thesis by (simp add: hex4_def)
qed

section \<open>Strings\<close>

lemma prepend_Some [simp]: "prepend p (Some (s, t)) = Some (p @ s, t)"
  by (simp add: prepend_def)

declare jstr.simps [simp del] escape_string.simps [simp del]

lemma jstr_plain:
  "c \<noteq> CHR 0x22 \<Longrightarrow> c \<noteq> CHR 0x5C \<Longrightarrow> 32 \<le> (of_char c :: int) \<Longrightarrow> (of_char c :: int) < 128 \<Longrightarrow>
     jstr (c # s) = prepend [c] (jstr s)"
  by (subst jstr.simps) simp

lemma jstr_simple: "e \<noteq> CHR ''u'' \<Longrightarrow> simple_escape e = Some x \<Longrightarrow> jstr (CHR 0x5C # e # s) = prepend [x] (jstr s)"
  by (subst jstr.simps) simp

lemma jstr_hex:
  "hex4 a b c d = Some r \<Longrightarrow> r < 55296 \<Longrightarrow>
     jstr (CHR 0x5C # CHR ''u'' # a # b # c # d # s) = prepend (encode_rune r) (jstr s)"
  by (subst jstr.simps) simp

lemma jstr_escape_byte:
  assumes "(of_char c :: int) < 128" shows "jstr (escape_byte c @ s) = prepend [c] (jstr s)"
proof -
  have r: "encode_rune (of_char c) = [c]" using assms by (simp add: encode_rune_def)
  have h: "jstr (CHR 0x5C # CHR ''u'' # CHR ''0'' # CHR ''0'' # hex_digit (of_char c div 16) # hex_digit (of_char c mod 16) # s) = prepend [c] (jstr s)"
    using jstr_hex [OF hex4_escape, of c s] assms r by simp
  show ?thesis
    using h assms
    by (auto simp: escape_byte_def jstr_simple jstr_plain simple_escape_def)
qed

lemma jstr_quote: "jstr (CHR 0x22 # t) = Some ([], t)"
  by (subst jstr.simps) simp

section \<open>Runes\<close>

lemma decode_rune_bytes:
  assumes "decode_rune s = (r, n)" and "128 \<le> (of_char (s ! 0) :: int)" and "s \<noteq> []"
  shows "n = 1 \<or> (\<forall>i < n. i < length s \<and> 128 \<le> (of_char (s ! i) :: int))"
proof -
  have idx: "i < 2 \<Longrightarrow> i = 0 \<or> i = 1" "i < 3 \<Longrightarrow> i = 0 \<or> i = 1 \<or> i = 2"
    "i < 4 \<Longrightarrow> i = 0 \<or> i = 1 \<or> i = 2 \<or> i = 3" for i :: nat
    by arith+
  have cont: "128 \<le> (of_char c :: int)" if "continuation c" for c
    using that by (simp add: continuation_def)
  define b where "b i = (if i < length s then (of_char (s ! i) :: int) else 0)" for i
  define k where "k i \<longleftrightarrow> i < length s \<and> continuation (s ! i)" for i
  have k: "i < length s" "128 \<le> (of_char (s ! i) :: int)" if "k i" for i
    using that cont by (auto simp: k_def)
  from assms(1) have "n = 1 \<or> n = 2 \<and> k 1 \<or> n = 3 \<and> k 1 \<and> k 2 \<or> n = 4 \<and> k 1 \<and> k 2 \<and> k 3"
    unfolding decode_rune_def Let_def b_def [symmetric] k_def [symmetric]
    by (simp split: if_split_asm)
  then show ?thesis using assms(2,3) k by (auto dest!: idx)
qed

definition valid_rune :: "int \<Rightarrow> bool" where
  "valid_rune r \<longleftrightarrow> 0 \<le> r \<and> r < 1114112 \<and> \<not> (55296 \<le> r \<and> r < 57344)"

lemma base64:
  fixes r :: int
  assumes "0 \<le> r"
  shows "r div 64 * 64 + r mod 64 = r" "r div 4096 * 4096 + r div 64 mod 64 * 64 + r mod 64 = r"
    "r div 262144 * 262144 + r div 4096 mod 64 * 4096 + r div 64 mod 64 * 64 + r mod 64 = r"
proof -
  have a: "r = r div 64 * 64 + r mod 64" by simp
  have b: "r div 64 = r div 4096 * 64 + r div 64 mod 64"
    using div_mult_mod_eq [of "r div 64" 64] zdiv_zmult2_eq [of 64 r 64] by simp
  have c: "r div 4096 = r div 262144 * 64 + r div 4096 mod 64"
    using div_mult_mod_eq [of "r div 4096" 64] zdiv_zmult2_eq [of 64 r 4096] by simp
  show "r div 64 * 64 + r mod 64 = r" using a by simp
  show "r div 4096 * 4096 + r div 64 mod 64 * 64 + r mod 64 = r" using a b by linarith
  show "r div 262144 * 262144 + r div 4096 mod 64 * 4096 + r div 64 mod 64 * 64 + r mod 64 = r" using a b c by linarith
qed

lemma continuation_byte: "0 \<le> n \<Longrightarrow> n < 64 \<Longrightarrow> continuation (byte (128 + n))"
  by (simp add: continuation_def of_char_byte)

lemma decode_encode_rune:
  assumes "valid_rune r" and "128 \<le> r"
  shows "decode_rune (encode_rune r @ s) = (r, length (encode_rune r))"
proof -
  have r: "0 \<le> r" "r < 1114112" "\<not> (55296 \<le> r \<and> r < 57344)" using assms by (auto simp: valid_rune_def)
  have m: "0 \<le> r mod 64" "r mod 64 < 64" "0 \<le> r div 64 mod 64" "r div 64 mod 64 < 64"
    "0 \<le> r div 4096 mod 64" "r div 4096 mod 64 < 64" by simp_all
  define x where "x = r mod 64"
  define y where "y = r div 64 mod 64"
  define z where "z = r div 4096 mod 64"
  note defs = x_def [symmetric] y_def [symmetric] z_def [symmetric]
  note m = m [unfolded defs]
  note b = base64 [OF r(1), unfolded defs]
  consider "r < 2048" | "2048 \<le> r" "r < 65536" | "65536 \<le> r" by linarith
  then show ?thesis
  proof cases
    case 1
    define q where "q = r div 64"
    have q: "r = q * 64 + x" using b(1) by (simp add: q_def)
    then have "2 \<le> q" "q < 32" using 1 assms(2) m by linarith+
    then show ?thesis
      unfolding encode_rune_def defs q_def [symmetric] using 1 assms(2) m q
      by (simp add: decode_rune_def Let_def of_char_byte continuation_byte)
  next
    case 2
    define q where "q = r div 4096"
    have q: "r = q * 4096 + y * 64 + x" using b(2) by (simp add: q_def)
    then have "0 \<le> q" "q < 16" "q = 0 \<Longrightarrow> 32 \<le> y" "q = 13 \<Longrightarrow> y < 32"
      using 2 r(3) m by linarith+
    then show ?thesis
      unfolding encode_rune_def defs q_def [symmetric] using 2 m q
      by (simp add: decode_rune_def Let_def of_char_byte continuation_byte eval_nat_numeral)
  next
    case 3
    define q where "q = r div 262144"
    have q: "r = q * 262144 + z * 4096 + y * 64 + x" using b(3) by (simp add: q_def)
    then have "0 \<le> q" "q < 5" "q = 0 \<Longrightarrow> 16 \<le> z" "q = 4 \<Longrightarrow> z < 16"
      using 3 r(2) m by linarith+
    then show ?thesis
      unfolding encode_rune_def defs q_def [symmetric] using 3 m q
      by (simp add: decode_rune_def Let_def of_char_byte continuation_byte eval_nat_numeral)
  qed
qed

lemma encode_rune_first: "valid_rune r \<Longrightarrow> \<exists>c u. encode_rune r = c # u \<and> (r < 128 \<longleftrightarrow> (of_char c :: int) < 128) \<and> (128 \<le> r \<longrightarrow> u \<noteq> [])"
proof -
  assume "valid_rune r"
  then have "0 \<le> r div 64" "r < 65536 \<Longrightarrow> r div 4096 < 16" "r < 2048 \<Longrightarrow> r div 64 < 32" "r div 262144 < 5"
    "0 \<le> r div 4096" "0 \<le> r div 262144" "0 \<le> r"
    by (auto simp: valid_rune_def)
  then show ?thesis by (auto simp: encode_rune_def of_char_byte)
qed

definition utf8 :: "string \<Rightarrow> bool" where
  "utf8 s \<longleftrightarrow> (\<exists>rs. list_all valid_rune rs \<and> s = concat (map encode_rune rs))"

lemma utf8_Nil [simp]: "utf8 []"
  unfolding utf8_def by (rule exI [of _ "[]"]) simp

lemma utf8_rune: "valid_rune r \<Longrightarrow> utf8 s \<Longrightarrow> utf8 (encode_rune r @ s)"
proof -
  assume "valid_rune r" "utf8 s"
  then obtain rs where "list_all valid_rune (r # rs)" "s = concat (map encode_rune rs)"
    by (auto simp: utf8_def)
  then show "utf8 (encode_rune r @ s)"
    unfolding utf8_def by (intro exI [of _ "r # rs"]) simp
qed

lemma utf8_ascii:
  assumes "list_all (\<lambda>c. (of_char c :: int) < 128) s" shows "utf8 s"
  using assms
proof (induction s)
  case (Cons c s)
  then have "encode_rune (of_char c) = [c]" "valid_rune (of_char c)"
    using int_of_char_bounds [of c] by (simp_all add: encode_rune_def valid_rune_def)
  with utf8_rune [of "of_char c" s] Cons show ?case by simp
qed simp

section \<open>Round trip of strings\<close>

lemma escape_encode_rune:
  assumes "valid_rune r" "128 \<le> r"
  shows "escape_string (encode_rune r @ s) =
    (if r = 8232 then CHR 0x5C # ''u2028'' else if r = 8233 then CHR 0x5C # ''u2029'' else encode_rune r) @
    escape_string s"
proof -
  obtain c u where cu: "encode_rune r = c # u" "\<not> (of_char c :: int) < 128" "u \<noteq> []"
    using encode_rune_first [OF assms(1)] assms(2) by auto
  have d: "decode_rune (c # u @ s) = (r, Suc (length u))"
    using decode_encode_rune [OF assms, of s] cu by simp
  have "take (Suc (length u)) (c # u @ s) = c # u" "drop (length u) (u @ s) = s" by simp_all
  then show ?thesis
    using cu d by (simp add: escape_string.simps)
qed

lemma jstr_encode_rune:
  assumes "valid_rune r" "128 \<le> r"
  shows "jstr (encode_rune r @ s) = prepend (encode_rune r) (jstr s)"
proof -
  obtain c u where cu: "encode_rune r = c # u" "\<not> (of_char c :: int) < 128"
    using encode_rune_first [OF assms(1)] assms(2) by auto
  have d: "decode_rune (c # u @ s) = (r, Suc (length u))"
    using decode_encode_rune [OF assms, of s] cu by simp
  have "c \<noteq> CHR 0x22" "c \<noteq> CHR 0x5C" using cu(2) by auto
  then show ?thesis using cu d by (simp add: jstr.simps(2) [of c "u @ s"])
qed

lemma jstr_escape_rune:
  assumes "valid_rune r"
  shows "jstr (escape_string (encode_rune r @ s) @ t) = prepend (encode_rune r) (jstr (escape_string s @ t))"
proof (cases "r < 128")
  case True
  with assms have "encode_rune r = [byte r]" "(of_char (byte r) :: int) = r"
    by (auto simp: encode_rune_def valid_rune_def intro!: of_char_byte)
  with True show ?thesis by (simp add: escape_string.simps jstr_escape_byte)
next
  case False
  have h: "hex4 (CHR ''2'') (CHR ''0'') (CHR ''2'') (CHR ''8'') = Some 8232"
    "hex4 (CHR ''2'') (CHR ''0'') (CHR ''2'') (CHR ''9'') = Some 8233"
    by (simp_all add: hex4_def hex_value_def)
  show ?thesis
    using False assms jstr_hex [OF h(1)] jstr_hex [OF h(2)] jstr_encode_rune [OF assms]
    by (auto simp: escape_encode_rune)
qed

lemma jstr_escape_string: "utf8 s \<Longrightarrow> jstr (escape_string s @ CHR 0x22 # t) = Some (s, t)"
proof -
  have "jstr (escape_string (concat (map encode_rune rs)) @ CHR 0x22 # t) = Some (concat (map encode_rune rs), t)"
    if "list_all valid_rune rs" for rs
    using that
  proof (induction rs)
    case Nil
    then show ?case by (simp add: escape_string.simps jstr_quote)
  next
    case (Cons r rs)
    then show ?case by (simp add: jstr_escape_rune)
  qed
  then show "utf8 s \<Longrightarrow> ?thesis" by (auto simp: utf8_def)
qed

section \<open>Decoded strings are UTF-8\<close>

lemma decode_rune_valid: "valid_rune (fst (decode_rune s))"
proof -
  define b where "b i = (if i < length s then (of_char (s ! i) :: int) else 0)" for i
  define k where "k i \<longleftrightarrow> i < length s \<and> continuation (s ! i)" for i
  have k: "128 \<le> b i" "b i < 192" if "k i" for i
    using that by (auto simp: k_def b_def continuation_def)
  have 0: "0 \<le> b i" for i using int_of_char_bounds by (simp add: b_def)
  show ?thesis
    unfolding decode_rune_def Let_def b_def [symmetric] k_def [symmetric]
    using 0 [of 0] k [of 1] k [of 2] k [of 3]
    by (cases "b 0 \<le> 237") (auto simp: valid_rune_def)
qed

lemma hex_value_bounds: "hex_value c = Some n \<Longrightarrow> 0 \<le> n \<and> n < 16"
  by (auto simp: hex_value_def Let_def split: if_splits)

lemma hex4_bounds: "hex4 a b c d = Some r \<Longrightarrow> 0 \<le> r \<and> r < 65536"
  by (auto simp: hex4_def split: option.splits dest!: hex_value_bounds)

lemma low_surrogate_bounds: "low_surrogate s = Some r \<Longrightarrow> 56320 \<le> r \<and> r < 57344"
  by (auto simp: low_surrogate_def split: list.splits if_splits option.splits)

lemma prepend_rune: "prepend (encode_rune r) x = Some (s, t) \<Longrightarrow> valid_rune r \<Longrightarrow> (\<And>u. x = Some (u, t) \<Longrightarrow> utf8 u) \<Longrightarrow> utf8 s"
  by (auto simp: prepend_def intro: utf8_rune)

lemma prepend_byte: "prepend [c] x = Some (s, t) \<Longrightarrow> (of_char c :: int) < 128 \<Longrightarrow> (\<And>u. x = Some (u, t) \<Longrightarrow> utf8 u) \<Longrightarrow> utf8 s"
proof -
  assume c: "(of_char c :: int) < 128"
  then have "encode_rune (of_char c) = [c]" "valid_rune (of_char c)"
    using int_of_char_bounds [of c] by (simp_all add: encode_rune_def valid_rune_def)
  then show "prepend [c] x = Some (s, t) \<Longrightarrow> (\<And>u. x = Some (u, t) \<Longrightarrow> utf8 u) \<Longrightarrow> utf8 s"
    using prepend_rune [of "of_char c" x s t] by simp
qed

lemma simple_escape_ascii: "simple_escape e = Some x \<Longrightarrow> (of_char x :: int) < 128"
  by (auto simp: simple_escape_def split: if_splits)

lemma jstr_utf8: "jstr z = Some (s, t) \<Longrightarrow> utf8 s"
proof (induction "length z" arbitrary: z s rule: less_induct)
  case less
  have IH: "jstr u = Some (v, t) \<Longrightarrow> length u < length z \<Longrightarrow> utf8 v" for u v
    using less.hyps by blast
  show ?case
  proof (cases z)
    case Nil
    then show ?thesis using less.prems by (simp add: jstr.simps)
  next
    case (Cons c y)
    consider "c = CHR 0x22" | "c = CHR 0x5C" | "c \<noteq> CHR 0x22" "c \<noteq> CHR 0x5C" by blast
    then show ?thesis
    proof cases
      case 1
      then show ?thesis using less.prems Cons by (simp add: jstr_quote)
    next
      case 3
      then show ?thesis
        using less.prems Cons decode_rune_valid [of "c # y"]
        by (auto simp: jstr.simps(2) [of c y] split: if_splits
            intro: prepend_byte [OF _ _ IH] prepend_rune [OF _ _ IH])
    next
      case 2
      obtain e w where y: "y = e # w" using less.prems Cons 2 by (cases y) (auto simp: jstr.simps)
      show ?thesis
      proof (cases "e = CHR ''u''")
        case False
        with less.prems Cons 2 y obtain x where "simple_escape e = Some x" "prepend [x] (jstr w) = Some (s, t)"
          by (auto simp: jstr.simps(2) [of "CHR 0x5C" "e # w"] split: option.splits)
        then show ?thesis
          using Cons y by (auto intro: prepend_byte [OF _ _ IH] dest: simple_escape_ascii)
      next
        case True
        with less.prems Cons 2 y obtain a b d f v where w: "w = a # b # d # f # v"
          by (auto simp: jstr.simps(2) [of "CHR 0x5C" "CHR ''u'' # w"] split: list.splits)
        with less.prems Cons 2 y True obtain r where r: "hex4 a b d f = Some r"
          by (auto simp: jstr.simps(2) [of "CHR 0x5C" "CHR ''u'' # a # b # d # f # v"] split: option.splits)
        note rb = hex4_bounds [OF r]
        show ?thesis
        proof (cases "55296 \<le> r \<and> r < 57344")
          case False
          then have "valid_rune r" using rb by (auto simp: valid_rune_def)
          moreover have "prepend (encode_rune r) (jstr v) = Some (s, t)"
            using less.prems Cons 2 y True w r False by (auto simp: jstr.simps(2) [of "CHR 0x5C" "CHR ''u'' # a # b # d # f # v"])
          ultimately show ?thesis using Cons y w by (auto intro: prepend_rune [OF _ _ IH])
        next
          case sur: True
          show ?thesis
          proof (cases "if r < 56320 then low_surrogate v else None")
            case None
            then have "prepend (encode_rune 65533) (jstr v) = Some (s, t)"
              using less.prems Cons 2 y True w r sur by (auto simp: jstr.simps(2) [of "CHR 0x5C" "CHR ''u'' # a # b # d # f # v"])
            then show ?thesis
              using Cons y w by (auto intro!: prepend_rune [OF _ _ IH] simp: valid_rune_def)
          next
            case (Some r2)
            then have "r < 56320" "low_surrogate v = Some r2" by (auto split: if_splits)
            then have "valid_rune (65536 + (r - 55296) * 1024 + (r2 - 56320))"
              using sur low_surrogate_bounds [of v r2] by (auto simp: valid_rune_def)
            moreover have "prepend (encode_rune (65536 + (r - 55296) * 1024 + (r2 - 56320))) (jstr (drop 6 v)) = Some (s, t)"
              using less.prems Cons 2 y True w r sur Some by (auto simp: jstr.simps(2) [of "CHR 0x5C" "CHR ''u'' # a # b # d # f # v"])
            ultimately show ?thesis using Cons y w by (auto intro: prepend_rune [OF _ _ IH])
          qed
        qed
      qed
    qed
  qed
qed

lemma quote_string_Cons: "quote_string s @ t = CHR 0x22 # escape_string s @ CHR 0x22 # t"
  by (simp add: quote_string_def)

lemma skip_ws_quote [simp]: "skip_ws (quote_string s @ t) = quote_string s @ t"
  by (simp add: quote_string_Cons skip_ws_def json_space_def)

lemma skip_ws_Cons [simp]:
  "skip_ws (CHR '','' # t) = CHR '','' # t" "skip_ws (CHR ''}'' # t) = CHR ''}'' # t"
  "skip_ws (CHR '':'' # t) = CHR '':'' # t" "skip_ws (CHR ''{'' # t) = CHR ''{'' # t"
  "skip_ws (CHR 0x22 # t) = CHR 0x22 # t" "skip_ws (CHR ''n'' # t) = CHR ''n'' # t"
  "skip_ws [] = []"
  by (simp_all add: skip_ws_def json_space_def)

lemma jval_quote: "utf8 s \<Longrightarrow> jval (Suc n) d (quote_string s @ t) = Some (JStr s, t)"
  by (simp add: quote_string_Cons jstr_escape_string)

end
