(* ===== verification/Go_Json_Facts.thy ===== *)
theory Go_Json_Facts
  imports Go_Json_Strings
begin

text \<open>
  An encoded event is one line without control bytes, and decoding it gives the event back, its
  tags in the order of their keys, when its strings are UTF-8; every decoded event is such an event.
\<close>

definition utf8_event :: "event \<Rightarrow> bool" where
  "utf8_event e \<longleftrightarrow> list_all (utf8 \<circ> snd) (event_strings e) \<and>
     (case Tags e of None \<Rightarrow> True | Some m \<Rightarrow> list_all (\<lambda>(k, v). utf8 k \<and> utf8 v) m)"

section \<open>Objects of strings\<close>

text \<open>An encoded member, before a comma or before the end of the object.\<close>

lemma jobj_step:
  assumes "utf8 k" and "jval n d (s @ c # t) = Some (v, c # t)"
  shows "c = CHR '','' \<Longrightarrow> jobj (Suc n) d (quote_string k @ CHR '':'' # s @ c # t) =
      map_option (\<lambda>(ms, w). ((k, v) # ms, w)) (jobj n d t)"
    and "c = CHR ''}'' \<Longrightarrow> jobj (Suc n) d (quote_string k @ CHR '':'' # s @ c # t) = Some ([(k, v)], t)"
  using assms by (simp_all add: quote_string_Cons jstr_escape_string)

declare jval.simps [simp del] jarr.simps [simp del] jobj.simps [simp del]

definition string_members :: "(string \<times> string) list \<Rightarrow> (string \<times> json) list" where
  "string_members ms = map (\<lambda>(k, v). (k, JStr v)) ms"

lemma jobj_members:
  assumes "list_all (\<lambda>(k, v). utf8 k \<and> utf8 v) ms" and "ms \<noteq> []" and "length ms < n"
  shows "jobj n d (Join (map encode_member ms) '','' @ CHR ''}'' # t) = Some (string_members ms, t)"
  using assms
proof (induction ms arbitrary: n)
  case (Cons m ms)
  obtain k v where m: "m = (k, v)" by (cases m)
  from Cons.prems obtain j where n: "n = Suc (Suc j)" by (cases n; cases "n - 1") auto
  have kv: "utf8 k" "utf8 v" using Cons.prems m by auto
  show ?case
  proof (cases ms)
    case Nil
    then show ?thesis
      using jobj_step(2) [where c = "CHR ''}''" and t = t, OF kv(1) jval_quote [OF kv(2)]] n
      by (simp add: m encode_member_def string_members_def)
  next
    case (Cons m' ms')
    have "jobj (Suc j) d (Join (map encode_member ms) '','' @ CHR ''}'' # t) = Some (string_members ms, t)"
      using Cons.IH [of "Suc j"] Cons.prems n Cons by simp
    then show ?thesis
      using jobj_step(1) [where c = "CHR '',''" and t = "Join (map encode_member ms) '','' @ CHR ''}'' # t",
          OF kv(1) jval_quote [OF kv(2)]] n
      by (simp add: m Cons encode_member_def string_members_def)
  qed
qed simp

section \<open>Events\<close>

lemma Join_append:
  "xs \<noteq> [] \<Longrightarrow> ys \<noteq> [] \<Longrightarrow> Join (xs @ ys) sep = Join xs sep @ sep @ Join ys sep"
proof (induction xs)
  case (Cons x xs)
  then show ?case by (cases xs; cases ys) auto
qed simp

text \<open>Members of strings in front of one more member.\<close>

lemma jobj_append:
  assumes "list_all (\<lambda>(k, v). utf8 k \<and> utf8 v) ms" and "ms \<noteq> []" and "length ms < n"
  shows "jobj n d (Join (map encode_member ms) '','' @ CHR '','' # t) =
    map_option (\<lambda>(us, w). (string_members ms @ us, w)) (jobj (n - length ms) d t)"
  using assms
proof (induction ms arbitrary: n)
  case (Cons m ms)
  obtain k v where m: "m = (k, v)" by (cases m)
  from Cons.prems obtain j where n: "n = Suc (Suc j)" by (cases n; cases "n - 1") auto
  have kv: "utf8 k" "utf8 v" using Cons.prems m by auto
  show ?case
  proof (cases ms)
    case Nil
    then show ?thesis
      using jobj_step(1) [where c = "CHR '',''" and t = t, OF kv(1) jval_quote [OF kv(2)]] n
      by (simp add: m encode_member_def string_members_def)
  next
    case (Cons m' ms')
    have "jobj (Suc j) d (Join (map encode_member ms) '','' @ CHR '','' # t) =
        map_option (\<lambda>(us, w). (string_members ms @ us, w)) (jobj (Suc j - length ms) d t)"
      using Cons.IH [of "Suc j"] Cons.prems n Cons by simp
    then show ?thesis
      using jobj_step(1) [where c = "CHR '',''" and t = "Join (map encode_member ms) '','' @ CHR '','' # t",
          OF kv(1) jval_quote [OF kv(2)]] n
      by (cases "jobj (j - length ms') d t")
        (auto simp: m Cons encode_member_def string_members_def)
  qed
qed simp

definition tags_json :: "string gomap option \<Rightarrow> json" where
  "tags_json t = (case t of None \<Rightarrow> JNull | Some m \<Rightarrow> JObj (string_members (sorted_entries m)))"

lemma HasPrefix_Cons_numeral [simp]:
  "HasPrefix (CHR ''n'' # CHR ''u'' # CHR ''l'' # CHR ''l'' # t) ''null''"
  "\<not> HasPrefix (CHR ''n'' # t) ''true''" "\<not> HasPrefix (CHR ''n'' # t) ''false''"
  by (simp_all add: HasPrefix_iff)

lemma jval_tags:
  assumes "case t of None \<Rightarrow> True | Some m \<Rightarrow> list_all (\<lambda>(k, v). utf8 k \<and> utf8 v) m \<and> length m < n" and "0 < d"
  shows "jval (Suc n) d (encode_tags t @ CHR ''}'' # u) = Some (tags_json t, CHR ''}'' # u)"
proof (cases t)
  case None
  then show ?thesis by (simp add: encode_tags_def tags_json_def jval.simps)
next
  case (Some m)
  define ms where "ms = sorted_entries m"
  have ms: "list_all (\<lambda>(k, v). utf8 k \<and> utf8 v) ms" "length ms < n"
    using assms Some by (simp_all add: ms_def sorted_entries_def list_all_iff)
  show ?thesis
  proof (cases ms)
    case Nil
    then show ?thesis
      using Some assms by (simp add: encode_tags_def tags_json_def string_members_def jval.simps flip: ms_def)
  next
    case (Cons x xs)
    have "\<exists>w. Join (map encode_member ms) '','' = CHR 0x22 # w"
      by (cases xs; cases x) (simp_all add: Cons encode_member_def quote_string_Cons)
    then obtain w where w: "Join (map encode_member ms) '','' = CHR 0x22 # w" ..
    have "jobj n (d - 1) (Join (map encode_member ms) '','' @ CHR ''}'' # CHR ''}'' # u) = Some (string_members ms, CHR ''}'' # u)"
      using jobj_members [OF ms(1) _ ms(2)] Cons by simp
    then show ?thesis
      using Some assms by (simp add: encode_tags_def tags_json_def jval.simps w flip: ms_def)
  qed
qed

lemma length_quote: "2 \<le> length (quote_string s)"
  by (simp add: quote_string_def)

lemma length_Join_members: "6 * length ms \<le> length (Join (map encode_member ms) '','') + 1"
proof (induction ms)
  case (Cons m ms)
  have "5 \<le> length (encode_member m)"
    using length_quote [of "fst m"] length_quote [of "snd m"] by (simp add: encode_member_def split_beta)
  then show ?case using Cons by (cases ms) auto
qed simp

lemma length_sorted [simp]: "length (sorted_entries m) = length m"
  by (simp add: sorted_entries_def)

lemma utf8_names:
  "utf8 ''id''" "utf8 ''timestamp''" "utf8 ''received_at''" "utf8 ''zone''" "utf8 ''source_type''"
  "utf8 ''asset_name''" "utf8 ''asset_ip''" "utf8 ''severity''" "utf8 ''protocol''"
  "utf8 ''event_category''" "utf8 ''message''" "utf8 ''raw''" "utf8 ''tags''"
  by (rule utf8_ascii, simp)+

lemma json_parse_Marshal:
  assumes "utf8_event e"
  shows "json_parse (Marshal_event e) = Some (JObj (string_members (event_strings e) @ [(''tags'', tags_json (Tags e))]))"
proof -
  define ms where "ms = event_strings e"
  define body where "body = Join (map encode_member ms) '','' @ CHR '','' # quote_string ''tags'' @ CHR '':'' # encode_tags (Tags e) @ ''}''"
  have body: "Marshal_event e = CHR ''{'' # body"
    by (simp add: Marshal_event_def body_def ms_def)
  have ms: "list_all (\<lambda>(k, v). utf8 k \<and> utf8 v) ms" "ms \<noteq> []" "length ms = 12"
    using assms by (simp_all add: ms_def event_strings_def utf8_event_def utf8_names)
  obtain w where w: "body = CHR 0x22 # w"
    by (simp add: body_def ms_def event_strings_def encode_member_def quote_string_Cons)
  have len: "15 + (case Tags e of None \<Rightarrow> 0 | Some m \<Rightarrow> length m) < length body"
    using length_Join_members [of ms] ms(3) length_Join_members [of "sorted_entries (the (Tags e))"]
    by (auto simp: body_def encode_tags_def quote_string_def split: option.splits)
  define n where "n = length body - 11"
  have n: "Suc (length body) = n + 12" using len by (simp add: n_def)
  then obtain j where j: "n = Suc (Suc j)" and jt: "(case Tags e of None \<Rightarrow> 0 | Some m \<Rightarrow> length m) < j"
    using len by (cases n; cases "n - 1") (auto split: option.splits)
  have "jval (Suc j) 9999 (encode_tags (Tags e) @ CHR ''}'' # []) = Some (tags_json (Tags e), CHR ''}'' # [])"
    using assms jt by (intro jval_tags) (auto simp: utf8_event_def split: option.splits)
  then have "jobj n 9999 (quote_string ''tags'' @ CHR '':'' # encode_tags (Tags e) @ ''}'') = Some ([(''tags'', tags_json (Tags e))], [])"
    unfolding j by (intro jobj_step(2)) (simp_all add: utf8_names)
  then have "jobj (Suc (length body)) 9999 body = Some (string_members ms @ [(''tags'', tags_json (Tags e))], [])"
    using jobj_append [OF ms(1,2), of "Suc (length body)" 9999 "quote_string ''tags'' @ CHR '':'' # encode_tags (Tags e) @ ''}''"]
      ms(3) n \<open>n = Suc (Suc j)\<close> by (simp add: body_def)
  then show ?thesis
    by (simp add: json_parse_def body w ms_def jval.simps)
qed

section \<open>Decoding what was encoded\<close>

lemma string_setters:
  "string_setter (ToLower ''id'') = Some (\<lambda>s e. e\<lparr>ID := s\<rparr>)"
  "string_setter (ToLower ''timestamp'') = Some (\<lambda>s e. e\<lparr>Timestamp := s\<rparr>)"
  "string_setter (ToLower ''received_at'') = Some (\<lambda>s e. e\<lparr>ReceivedAt := s\<rparr>)"
  "string_setter (ToLower ''zone'') = Some (\<lambda>s e. e\<lparr>Zone := s\<rparr>)"
  "string_setter (ToLower ''source_type'') = Some (\<lambda>s e. e\<lparr>SourceType := s\<rparr>)"
  "string_setter (ToLower ''asset_name'') = Some (\<lambda>s e. e\<lparr>AssetName := s\<rparr>)"
  "string_setter (ToLower ''asset_ip'') = Some (\<lambda>s e. e\<lparr>AssetIP := s\<rparr>)"
  "string_setter (ToLower ''severity'') = Some (\<lambda>s e. e\<lparr>Severity := s\<rparr>)"
  "string_setter (ToLower ''protocol'') = Some (\<lambda>s e. e\<lparr>Protocol := s\<rparr>)"
  "string_setter (ToLower ''event_category'') = Some (\<lambda>s e. e\<lparr>EventCategory := s\<rparr>)"
  "string_setter (ToLower ''message'') = Some (\<lambda>s e. e\<lparr>Message := s\<rparr>)"
  "string_setter (ToLower ''raw'') = Some (\<lambda>s e. e\<lparr>Raw := s\<rparr>)"
  "string_setter ''tags'' = None" "ToLower ''tags'' = ''tags''"
  by (simp_all add: string_setter_def ToLower_def)

lemma decode_string_member:
  "string_setter (ToLower k) = Some upd \<Longrightarrow> decode_member (k, JStr v) (e, ok) = (upd v e, ok)"
  by (simp add: decode_member_def)

lemma fold_decode_tag:
  "fold decode_tag (string_members ms) (m, ok) = (fold (\<lambda>(k, v). gput k v) ms m, ok)"
  by (induction ms arbitrary: m) (auto simp: string_members_def decode_tag_def)

lemma gput_new: "k \<notin> fst ` set m \<Longrightarrow> gput k v m = m @ [(k, v)]"
  by (induction m) (auto simp: gput_def)

lemma fold_gput_distinct:
  "distinct (map fst (m @ ms)) \<Longrightarrow> fold (\<lambda>(k, v). gput k v) ms m = m @ ms"
proof (induction ms arbitrary: m)
  case (Cons x ms)
  obtain k v where x: "x = (k, v)" by (cases x)
  have "fold (\<lambda>(k, v). gput k v) ms (m @ [(k, v)]) = (m @ [(k, v)]) @ ms"
    using Cons.prems x by (intro Cons.IH) auto
  moreover have "gput k v m = m @ [(k, v)]" using Cons.prems x by (intro gput_new) auto
  ultimately show ?case by (simp add: x)
qed simp

definition sorted_tags :: "event \<Rightarrow> event" where
  "sorted_tags e = e\<lparr>Tags := map_option sorted_entries (Tags e)\<rparr>"

lemma decode_tags_member:
  assumes "case Tags e of None \<Rightarrow> True | Some m \<Rightarrow> gmap_ok m" and "Tags e' = None"
  shows "decode_member (''tags'', tags_json (Tags e)) (e', True) = (e'\<lparr>Tags := map_option sorted_entries (Tags e)\<rparr>, True)"
proof (cases "Tags e")
  case None
  then show ?thesis using assms by (simp add: decode_member_def string_setters tags_json_def)
next
  case (Some m)
  have "distinct (map fst (sorted_entries m))"
    using assms Some by (simp add: sorted_entries_def gmap_ok_def distinct_map inj_on_def)
  then have "fold decode_tag (string_members (sorted_entries m)) ([], True) = (sorted_entries m, True)"
    by (simp add: fold_decode_tag fold_gput_distinct)
  then show ?thesis using Some assms(2) by (simp add: decode_member_def string_setters tags_json_def)
qed

lemma Unmarshal_Marshal:
  assumes "utf8_event e" and "case Tags e of None \<Rightarrow> True | Some m \<Rightarrow> gmap_ok m"
  shows "Unmarshal_event (Marshal_event e) = Some (sorted_tags e)"
proof -
  have "fold decode_member (string_members (event_strings e)) (zero_event, True) = (e\<lparr>Tags := None\<rparr>, True)"
    by (simp add: string_members_def event_strings_def decode_string_member [OF string_setters(1)]
        decode_string_member [OF string_setters(2)] decode_string_member [OF string_setters(3)]
        decode_string_member [OF string_setters(4)] decode_string_member [OF string_setters(5)]
        decode_string_member [OF string_setters(6)] decode_string_member [OF string_setters(7)]
        decode_string_member [OF string_setters(8)] decode_string_member [OF string_setters(9)]
        decode_string_member [OF string_setters(10)] decode_string_member [OF string_setters(11)]
        decode_string_member [OF string_setters(12)] zero_event_def)
  then have "fold decode_member (string_members (event_strings e) @ [(''tags'', tags_json (Tags e))]) (zero_event, True) =
      (sorted_tags e, True)"
    using decode_tags_member [OF assms(2), of "e\<lparr>Tags := None\<rparr>"] by (simp add: sorted_tags_def)
  then show ?thesis
    by (simp add: Unmarshal_event_def json_parse_Marshal [OF assms(1)] decode_event_def)
qed

text \<open>Sorting the entries of a map changes no lookup.\<close>

lemma sorted_entries_lookup: "gmap_ok m \<Longrightarrow> map_of (sorted_entries m) = map_of m"
  unfolding sorted_entries_def gmap_ok_def
  by (intro map_of_eqI) (auto simp: distinct_map inj_on_def map_of_eq_Some_iff)

section \<open>One line per event\<close>

lemma escape_byte_printable: "(of_char c :: int) < 128 \<Longrightarrow> \<forall>d \<in> set (escape_byte c). 32 \<le> (of_char d :: int)"
proof -
  have "32 \<le> (of_char (hex_digit (of_char c div 16)) :: int)" "32 \<le> (of_char (hex_digit (of_char c mod 16)) :: int)"
    using int_of_char_bounds [of c] by (auto simp: hex_digit_def of_char_byte pos_imp_zdiv_nonneg_iff)
  then show ?thesis by (auto simp: escape_byte_def)
qed

definition printable :: "string \<Rightarrow> bool" where
  "printable s \<longleftrightarrow> (\<forall>c \<in> set s. 32 \<le> (of_char c :: int))"

lemma printable_append [simp]: "printable (s @ t) \<longleftrightarrow> printable s \<and> printable t"
  by (auto simp: printable_def)

lemma printable_Cons [simp]: "printable (c # s) \<longleftrightarrow> 32 \<le> (of_char c :: int) \<and> printable s"
  by (auto simp: printable_def)

lemma printable_Nil [simp]: "printable []"
  by (simp add: printable_def)

lemma printable_escape_string: "printable (escape_string s)"
proof (induction s rule: escape_string.induct)
  case (2 c s)
  obtain r n where rn: "decode_rune (c # s) = (r, n)" by (cases "decode_rune (c # s)")
  show ?case
  proof (cases "(of_char c :: int) < 128")
    case True
    then show ?thesis
      using 2(1) [OF True] escape_byte_printable [OF True]
      by (auto simp: escape_string.simps printable_def)
  next
    case False
    have "printable (take n (c # s))"
    proof (cases "n = 1")
      case True
      then show ?thesis using False by (simp add: printable_def)
    next
      case n: False
      have "\<forall>i < n. i < length (c # s) \<and> 128 \<le> (of_char ((c # s) ! i) :: int)"
        using decode_rune_bytes [OF rn] False n by auto
      then show ?thesis by (fastforce simp: printable_def in_set_conv_nth)
    qed
    with 2 False rn show ?thesis by (simp add: escape_string.simps)
  qed
qed (simp add: escape_string.simps)

lemma printable_quote [simp]: "printable (quote_string s)"
  by (simp add: quote_string_def printable_escape_string)

lemma printable_Join: "(\<forall>x \<in> set xs. printable x) \<Longrightarrow> printable sep \<Longrightarrow> printable (Join xs sep)"
  by (induction xs sep rule: Join.induct) auto

lemma printable_Marshal: "printable (Marshal_event e)"
  by (auto simp: Marshal_event_def encode_tags_def encode_member_def intro!: printable_Join split: option.splits)

lemma Marshal_event_shape: "\<exists>w. Marshal_event e = CHR ''{'' # w @ ''}''"
  by (simp add: Marshal_event_def)

section \<open>Every decoded event is UTF-8\<close>

fun json_utf8 :: "json \<Rightarrow> bool" where
  "json_utf8 (JStr s) = utf8 s"
| "json_utf8 (JArr vs) = (\<forall>v \<in> set vs. json_utf8 v)"
| "json_utf8 (JObj ms) = (\<forall>m \<in> set ms. utf8 (fst m) \<and> json_utf8 (snd m))"
| "json_utf8 _ = True"

lemma parsed_utf8:
  "\<And>v t. jval n d s = Some (v, t) \<Longrightarrow> json_utf8 v"
  "\<And>vs t. jarr n d s = Some (vs, t) \<Longrightarrow> \<forall>v \<in> set vs. json_utf8 v"
  "\<And>ms t. jobj n d s = Some (ms, t) \<Longrightarrow> \<forall>m \<in> set ms. utf8 (fst m) \<and> json_utf8 (snd m)"
proof (induction n d s and n d s and n d s rule: jval_jarr_jobj.induct)
  case (2 n depth s0)
  then show ?case
    by (auto simp: jval.simps intro: jstr_utf8 split: list.splits if_splits)
next
  case (4 n depth s)
  then show ?case
    by (auto simp: jarr.simps split: option.splits list.splits if_splits)
next
  case (6 n depth s)
  then show ?case
    by (auto simp: jobj.simps split: option.splits list.splits if_splits) (fastforce dest: jstr_utf8)+
qed (simp_all add: jval.simps jarr.simps jobj.simps)

definition tags_ok :: "event \<Rightarrow> bool" where
  "tags_ok e \<longleftrightarrow> (case Tags e of None \<Rightarrow> True | Some m \<Rightarrow> gmap_ok m)"

lemma gput_set: "set (gput k v m) \<subseteq> insert (k, v) (set m)"
  by (induction m) (auto simp: gput_def)

definition utf8_map :: "string gomap \<Rightarrow> bool" where
  "utf8_map m \<longleftrightarrow> list_all (\<lambda>(k, v). utf8 k \<and> utf8 v) m \<and> gmap_ok m"

lemma decode_tag_utf8:
  "utf8_map (fst x) \<Longrightarrow> utf8 k \<Longrightarrow> json_utf8 v \<Longrightarrow> utf8_map (fst (decode_tag (k, v) x))"
proof -
  have "utf8_map m \<Longrightarrow> utf8 k \<Longrightarrow> utf8 w \<Longrightarrow> utf8_map (gput k w m)" for m w
    using gput_set [of k w m] by (fastforce simp: utf8_map_def list_all_iff)
  then show "utf8_map (fst x) \<Longrightarrow> utf8 k \<Longrightarrow> json_utf8 v \<Longrightarrow> utf8_map (fst (decode_tag (k, v) x))"
    by (cases x) (auto simp: decode_tag_def split: json.splits)
qed

lemma fold_decode_tag_utf8:
  "\<forall>m \<in> set ms. utf8 (fst m) \<and> json_utf8 (snd m) \<Longrightarrow> utf8_map (fst x) \<Longrightarrow> utf8_map (fst (fold decode_tag ms x))"
proof (induction ms arbitrary: x)
  case (Cons m ms)
  then have "utf8_map (fst (decode_tag (fst m, snd m) x))" by (intro decode_tag_utf8) auto
  with Cons show ?case by simp
qed simp

lemma utf8_event_map:
  "utf8_event e \<and> tags_ok e \<longleftrightarrow> list_all (utf8 \<circ> snd) (event_strings e) \<and>
     (case Tags e of None \<Rightarrow> True | Some m \<Rightarrow> utf8_map m)"
  by (auto simp: utf8_event_def tags_ok_def utf8_map_def split: option.splits)

lemma string_setter_cases:
  "string_setter k = Some upd \<Longrightarrow> list_all (utf8 \<circ> snd) (event_strings e) \<Longrightarrow> utf8 s \<Longrightarrow>
     list_all (utf8 \<circ> snd) (event_strings (upd s e)) \<and> Tags (upd s e) = Tags e"
  by (auto simp: string_setter_def event_strings_def split: if_splits)

lemma decode_member_utf8:
  assumes "utf8_event (fst x) \<and> tags_ok (fst x)" and "utf8 k" and "json_utf8 v"
  shows "utf8_event (fst (decode_member (k, v) x)) \<and> tags_ok (fst (decode_member (k, v) x))"
proof -
  obtain e ok where x: "x = (e, ok)" by (cases x)
  have e: "list_all (utf8 \<circ> snd) (event_strings e)" "case Tags e of None \<Rightarrow> True | Some m \<Rightarrow> utf8_map m"
    using assms(1) by (simp_all add: x utf8_event_map)
  show ?thesis
  proof (cases "string_setter (ToLower k)")
    case (Some upd)
    then show ?thesis
      using assms(1,3) e string_setter_cases [OF Some e(1)]
      by (auto simp: x decode_member_def utf8_event_map split: json.splits)
  next
    case None
    have "utf8_map (case Tags e of None \<Rightarrow> [] | Some m \<Rightarrow> m)"
      using e(2) by (auto simp: utf8_map_def split: option.splits)
    then have "utf8_map (fst (fold decode_tag ms (case Tags e of None \<Rightarrow> [] | Some m \<Rightarrow> m, ok)))"
      if "v = JObj ms" for ms
      using that assms(3) by (intro fold_decode_tag_utf8) auto
    moreover have "event_strings (e\<lparr>Tags := t\<rparr>) = event_strings e" for t
      by (simp add: event_strings_def)
    ultimately show ?thesis
      using assms(1) e None
      by (auto simp: x decode_member_def utf8_event_map Let_def split: json.splits prod.splits)
  qed
qed

lemma Unmarshal_utf8:
  assumes "Unmarshal_event s = Some e" shows "utf8_event e \<and> tags_ok e"
proof -
  obtain v where v: "json_parse s = Some v" "fst (decode_event v) = e"
    using assms by (auto simp: Unmarshal_event_def split: option.splits if_splits prod.splits)
  have z: "utf8_event zero_event \<and> tags_ok zero_event"
    by (simp add: utf8_event_def tags_ok_def zero_event_def event_strings_def)
  have f: "\<forall>m \<in> set ms. utf8 (fst m) \<and> json_utf8 (snd m) \<Longrightarrow> utf8_event (fst x) \<and> tags_ok (fst x) \<Longrightarrow>
      utf8_event (fst (fold decode_member ms x)) \<and> tags_ok (fst (fold decode_member ms x))" for ms x
  proof (induction ms arbitrary: x)
    case (Cons m ms)
    then have "utf8_event (fst (decode_member (fst m, snd m) x)) \<and> tags_ok (fst (decode_member (fst m, snd m) x))"
      by (intro decode_member_utf8) auto
    with Cons show ?case by simp
  qed simp
  have "json_utf8 v"
    using v(1) parsed_utf8(1) by (auto simp: json_parse_def split: option.splits if_splits)
  then show ?thesis
    using v(2) z f by (auto simp: decode_event_def split: json.splits)
qed

end
