(* ===== verification/Jsonl_Facts.thy ===== *)
theory Jsonl_Facts
  imports Jsonl_Store Go_Json_Facts
begin

text \<open>
  The event store over any record codec, its instance for events, and the properties of the store.
\<close>

section \<open>Lines\<close>

lemma lines_of_line: "CHR 0x0A \<notin> set l \<Longrightarrow> lines_of (l @ CHR 0x0A # s) = (l @ [CHR 0x0A]) # lines_of s"
  by (induction l) auto

lemma lines_of_last: "CHR 0x0A \<notin> set l \<Longrightarrow> lines_of l = (if l = [] then [] else [l])"
  by (induction l) auto

lemma concat_lines_of: "concat (lines_of s) = s"
  by (induction s) (auto split: list.splits)

text \<open>A file whose last line is finished.\<close>

definition finished :: "string \<Rightarrow> bool" where
  "finished c \<longleftrightarrow> c = [] \<or> last c = CHR 0x0A"

lemma lines_of_Nil_iff [simp]: "lines_of s = [] \<longleftrightarrow> s = []"
  by (cases s) (auto split: list.splits)

lemma lines_of_append: "finished c \<Longrightarrow> lines_of (c @ s) = lines_of c @ lines_of s"
proof (induction c)
  case (Cons x c)
  show ?case
  proof (cases "c = []")
    case True
    with Cons show ?thesis by (auto simp: finished_def)
  next
    case False
    with Cons have "lines_of (c @ s) = lines_of c @ lines_of s" by (auto simp: finished_def)
    with False show ?thesis by (auto split: list.splits)
  qed
qed simp

section \<open>Records on lines\<close>

text \<open>
  What the store relies on of its codec: an encoded record fits a line and is not touched by the
  trimming of lines, and decoding it gives the record in a canonical form, which is encoded the
  same way. Decoded records can be encoded. Everything below the locale's \<open>events\<close> is about
  the lines of a file.
\<close>

locale record_codec =
  fixes encode :: "'a \<Rightarrow> string"
    and decode :: "string \<Rightarrow> 'a option"
    and ok :: "'a \<Rightarrow> bool"
    and canon :: "'a \<Rightarrow> 'a"
  assumes decode_encode: "ok x \<Longrightarrow> decode (encode x) = Some (canon x)"
    and decode_ok: "decode s = Some x \<Longrightarrow> ok x"
    and canon_ok: "ok x \<Longrightarrow> ok (canon x)"
    and encode_canon: "ok x \<Longrightarrow> encode (canon x) = encode x"
    and one_line: "CHR 0x0A \<notin> set (encode x)"
    and trimmed: "sanitizeJSONLLine (encode x @ [CHR 0x0A]) = encode x"
    and nonempty: "encode x \<noteq> []"
begin

definition events :: "string \<Rightarrow> 'a list" where
  "events c = List.map_filter (parse_line decode) (lines_of c)"

definition write_line :: "'a \<Rightarrow> string" where
  "write_line x = encode x @ [CHR 0x0A]"

definition write_all :: "'a list \<Rightarrow> string" where
  "write_all xs = concat (map write_line xs)"

lemma parse_write_line: "ok x \<Longrightarrow> parse_line decode (write_line x) = Some (canon x)"
  by (simp add: parse_line_def write_line_def trimmed nonempty decode_encode)

lemma lines_of_write: "lines_of (write_line x @ s) = write_line x # lines_of s"
  using lines_of_line [OF one_line] by (simp add: write_line_def)

lemma finished_write: "finished (s @ write_line x)"
  by (simp add: finished_def write_line_def)

lemma events_append:
  "finished c \<Longrightarrow> ok x \<Longrightarrow> events (c @ write_line x) = events c @ [canon x]"
  using lines_of_write [of x "[]"]
  by (simp add: events_def lines_of_append map_filter_append parse_write_line List.map_filter_simps)

lemma lines_of_write_all: "lines_of (write_all xs) = map write_line xs"
  by (induction xs) (simp_all add: write_all_def lines_of_write)

lemma events_write_all: "\<forall>x \<in> set xs. ok x \<Longrightarrow> events (write_all xs) = map canon xs"
  by (induction xs) (simp_all add: events_def lines_of_write_all List.map_filter_simps parse_write_line)

lemma events_ok: "x \<in> set (events c) \<Longrightarrow> ok x"
  by (auto simp: events_def set_map_filter parse_line_def Let_def dest: decode_ok split: if_splits)

lemma canon_canon: "ok x \<Longrightarrow> canon (canon x) = canon x"
  using decode_encode [of x] decode_encode [OF canon_ok, of x] by (simp add: encode_canon)

lemma rewrite_idem: "write_all (events (write_all (events c))) = write_all (events c)"
proof -
  have "write_all (map canon xs) = write_all xs" if "\<forall>x \<in> set xs. ok x" for xs
    using that by (induction xs) (simp_all add: write_all_def write_line_def encode_canon)
  then show ?thesis using events_ok by (simp add: events_write_all)
qed

text \<open>An unfinished last line takes the next record with it.\<close>

lemma torn_line:
  assumes "CHR 0x0A \<notin> set torn" and "parse_line decode (torn @ write_line x) = None" and "finished c"
    and "parse_line decode torn = None"
  shows "events (c @ torn @ write_line x) = events c"
proof -
  have "lines_of (torn @ write_line x) = [torn @ write_line x]"
    using lines_of_line [of "torn @ encode x" "[]"] assms(1) one_line by (simp add: write_line_def)
  then show ?thesis
    using assms by (simp add: events_def lines_of_append map_filter_append List.map_filter_simps)
qed

end

section \<open>Events as records\<close>

definition storable :: "event \<Rightarrow> bool" where
  "storable e \<longleftrightarrow> utf8_event e \<and> tags_ok e"

lemma trim_bounded:
  assumes "s = a # w @ [b]" "\<not> P a" "\<not> P b" "P n" shows "trim_with P (s @ [n]) = s"
  using assms by (simp add: trim_with_def)

lemma sorted_entries_idem [simp]: "sorted_entries (sorted_entries m) = sorted_entries m"
  unfolding sorted_entries_def by (rule sort_key_id_if_sorted) simp

lemma sorted_tags_storable: "storable e \<Longrightarrow> storable (sorted_tags e)"
proof -
  have "gmap_ok m \<Longrightarrow> gmap_ok (sorted_entries m)" for m :: "string gomap"
    by (simp add: gmap_ok_def sorted_entries_def distinct_map inj_on_def)
  then show "storable e \<Longrightarrow> storable (sorted_tags e)"
    by (auto simp: storable_def utf8_event_def tags_ok_def sorted_tags_def event_strings_def list_all_iff
        sorted_entries_def split: option.splits)
qed

interpretation jsonl: record_codec Marshal_event Unmarshal_event storable sorted_tags
proof unfold_locales
  fix x s
  show "storable x \<Longrightarrow> Unmarshal_event (Marshal_event x) = Some (sorted_tags x)"
    by (simp add: storable_def tags_ok_def Unmarshal_Marshal)
  show "Unmarshal_event s = Some x \<Longrightarrow> storable x"
    using Unmarshal_utf8 by (simp add: storable_def)
  show "storable x \<Longrightarrow> storable (sorted_tags x)" by (rule sorted_tags_storable)
  show "Marshal_event (sorted_tags x) = Marshal_event x"
    by (simp add: Marshal_event_def event_strings_def sorted_tags_def encode_tags_def split: option.splits)
  show "CHR 0x0A \<notin> set (Marshal_event x)"
    using printable_Marshal [of x] by (auto simp: printable_def)
  obtain w where w: "Marshal_event x = CHR ''{'' # w @ [CHR ''}'']" using Marshal_event_shape by auto
  show "sanitizeJSONLLine (Marshal_event x @ [CHR 0x0A]) = Marshal_event x"
    unfolding sanitizeJSONLLine_def Trim_def by (rule trim_bounded [OF w]) simp_all
  show "Marshal_event x \<noteq> []" using w by simp
qed

end
