(* ===== verification/Jsonl_Properties.thy ===== *)
theory Jsonl_Properties
  imports Jsonl_Facts
begin

text \<open>
  The guarantees of the event store: what a query returns, that a stored event is found again,
  what a repair keeps and what a failed one leaves alone.
\<close>

section \<open>Facts\<close>

definition file_events :: "jsonl_file \<Rightarrow> event list" where
  "file_events f = jsonl.events (file_bytes f)"

lemma parseLine_eq: "parseLine = parse_line Unmarshal_event"
  by (rule ext) (simp add: parseLine_def)

lemma read_loop_window:
  assumes "0 < limit"
  shows "read_loop q limit ls (take_last (nat limit) w) =
    take_last (nat limit) (w @ filter (\<lambda>e. matchesQuery e q) (List.map_filter parseLine ls))"
proof (induction ls arbitrary: w)
  case Nil
  then show ?case by (simp add: List.map_filter_simps)
next
  case (Cons l ls)
  show ?case
  proof (cases "parseLine l")
    case None
    with Cons show ?thesis by (simp add: List.map_filter_simps)
  next
    case (Some e)
    show ?thesis
    proof (cases "matchesQuery e q")
      case True
      have "(limit < int (length (take_last (nat limit) w @ [e]))) =
          (nat limit < length (take_last (nat limit) w @ [e]))" using assms by linarith
      then have "read_loop q limit (l # ls) (take_last (nat limit) w) =
          read_loop q limit ls (take_last (nat limit) (w @ [e]))"
        using True Some by (simp add: take_last_snoc Let_def)
      with Cons [of "w @ [e]"] Some True show ?thesis by (simp add: List.map_filter_simps)
    next
      case False
      with Cons Some show ?thesis by (simp add: List.map_filter_simps)
    qed
  qed
qed

lemma query_limit_pos: "0 < query_limit q"
  by (simp add: query_limit_def)

lemma ReadFiltered_events:
  assumes "query_limit q \<le> max_cap"
  shows "ReadFiltered max_cap ReadOk q f =
    Some (Inr (take_last (nat (query_limit q)) (filter (\<lambda>e. matchesQuery e q) (file_events f))))"
proof (cases f)
  case None
  then show ?thesis
    by (simp add: ReadFiltered_def file_events_def file_bytes_def jsonl.events_def take_last_def List.map_filter_simps)
next
  case (Some c)
  have "read_loop q (query_limit q) (lines_of c) [] =
      take_last (nat (query_limit q)) (filter (\<lambda>e. matchesQuery e q) (List.map_filter parseLine (lines_of c)))"
    using read_loop_window [OF query_limit_pos [of q], where q = q and ls = "lines_of c" and w = "[]"] by (simp add: take_last_def)
  with Some assms show ?thesis
    by (simp add: ReadFiltered_def file_events_def file_bytes_def jsonl.events_def parseLine_eq)
qed

lemma Append_written:
  "Append (Wrote n None) evt f =
     (if n = length (Marshal_event evt) + 1 then (Some (file_bytes f @ jsonl.write_line evt), None)
      else (Some (file_bytes f @ take n (Marshal_event evt @ [CHR 0x0A])), Some ''short write''))"
  using printable_Marshal [of evt]
  by (auto simp: Append_def Let_def jsonl.write_line_def printable_def)

lemma repair_loop_all:
  "repair_loop None ls report out =
     (report\<lparr>rr_NullLines := rr_NullLines report +
               int (length (filter (\<lambda>l. sanitizeJSONLLine l = [] \<and> CHR 0x00 \<in> set l) ls)),
             rr_InvalidLines := rr_InvalidLines report + int (length (filter (\<lambda>l. parseLine l = None) ls)),
             rr_ValidLines := rr_ValidLines report + int (length (List.map_filter parseLine ls)),
             rr_BytesWritten := rr_BytesWritten report +
               int (length (jsonl.write_all (List.map_filter parseLine ls)))\<rparr>,
      out @ jsonl.write_all (List.map_filter parseLine ls), None)"
proof (induction ls arbitrary: report out)
  case Nil
  then show ?case by (simp add: List.map_filter_simps jsonl.write_all_def)
next
  case (Cons l ls)
  show ?case
  proof (cases "sanitizeJSONLLine l = []")
    case True
    then have "parseLine l = None" by (simp add: parseLine_def parse_line_def)
    with True Cons show ?thesis by (simp add: List.map_filter_simps Let_def algebra_simps)
  next
    case False
    then have p: "parseLine l = Unmarshal_event (sanitizeJSONLLine l)" by (simp add: parseLine_def parse_line_def Let_def)
    show ?thesis
    proof (cases "Unmarshal_event (sanitizeJSONLLine l)")
      case None
      with False p Cons show ?thesis by (simp add: List.map_filter_simps Let_def algebra_simps)
    next
      case (Some e)
      with False p Cons show ?thesis
        by (simp add: List.map_filter_simps Let_def jsonl.write_all_def jsonl.write_line_def algebra_simps)
    qed
  qed
qed

definition repair_ok :: repair_io where
  "repair_ok = \<lparr>io_open = None, io_tmp = None, io_write = None, io_read = None, io_close = None, io_rename = None\<rparr>"

lemma Repair_success:
  "Repair repair_ok path (Some c) =
     (Some (jsonl.write_all (jsonl.events c)),
      (empty_report path)\<lparr>rr_NullLines := int (length (filter (\<lambda>l. sanitizeJSONLLine l = [] \<and> CHR 0x00 \<in> set l) (lines_of c))),
         rr_InvalidLines := int (length (filter (\<lambda>l. parseLine l = None) (lines_of c))),
         rr_ValidLines := int (length (jsonl.events c)),
         rr_BytesWritten := int (length (jsonl.write_all (jsonl.events c)))\<rparr>, None)"
  by (simp add: Repair_def repair_ok_def repair_loop_all first_error_def empty_report_def jsonl.events_def parseLine_eq)

lemma matchesQuery_sorted [simp]: "matchesQuery (sorted_tags e) q = matchesQuery e q"
  by (auto simp: matchesQuery_def search_blob_def sorted_tags_def sorted_entries_def list_ex_iff Let_def split: option.splits)

lemma take_last_map: "take_last n (map f xs) = map f (take_last n xs)"
  by (simp add: take_last_def drop_map)

lemma filter_map_sorted: "filter (\<lambda>e. matchesQuery e q) (map sorted_tags xs) = map sorted_tags (filter (\<lambda>e. matchesQuery e q) xs)"
  by (induction xs) auto

section \<open>Properties\<close>



text \<open>C11: A query returns exactly the last matching events of the file in file order: the newest of the decodable lines that satisfy the filters, as many as the limit allows (100 when it is not positive), whatever bytes the other lines hold.\<close>

theorem query_returns_last_matches:
  assumes "query_limit q \<le> max_cap"
  shows "ReadFiltered max_cap ReadOk q f =
    Some (Inr (take_last (nat (query_limit q)) (filter (\<lambda>e. matchesQuery e q) (file_events f))))"
  by (rule ReadFiltered_events [OF assms])

theorem query_returns_last_matches_witness:
  "ReadFiltered 1000 ReadOk (limit_query 5) None = Some (Inr [])"
  using query_returns_last_matches [of "limit_query 5" 1000 None]
  by (simp add: limit_query_def query_limit_def file_events_def file_bytes_def jsonl.events_def take_last_def List.map_filter_simps)



text \<open>Every event is one line: the encoded record holds no null byte and no newline, so the store never refuses an event, and an append succeeds exactly when the write reports the whole record.\<close>

theorem append_never_refuses:
  "CHR 0x0A \<notin> set (Marshal_event evt) \<and>
   snd (Append (Wrote n None) evt f) = (if n = length (Marshal_event evt) + 1 then None else Some ''short write'')"
  using printable_Marshal [of evt] by (auto simp: Append_written printable_def)


text \<open>C37: A repair keeps every query answer: after a successful repair any query returns the events it returned before, their tags in the order of their keys, for any bytes the file held; the report counts every line once and the bytes written are the new file.\<close>

theorem repair_preserves_queries:
  assumes "Repair repair_ok path (Some c) = (f', report, err)" and "query_limit q \<le> max_cap"
  shows "err = None \<and>
    ReadFiltered max_cap ReadOk q f' =
      Some (Inr (map sorted_tags (take_last (nat (query_limit q)) (filter (\<lambda>e. matchesQuery e q) (jsonl.events c))))) \<and>
    ReadFiltered max_cap ReadOk q (Some c) =
      Some (Inr (take_last (nat (query_limit q)) (filter (\<lambda>e. matchesQuery e q) (jsonl.events c)))) \<and>
    rr_ValidLines report + rr_InvalidLines report = int (length (lines_of c)) \<and>
    rr_BytesWritten report = int (length (file_bytes f'))"
proof -
  have f': "f' = Some (jsonl.write_all (jsonl.events c))" and "err = None"
    and r: "rr_ValidLines report = int (length (jsonl.events c))"
      "rr_InvalidLines report = int (length (filter (\<lambda>l. parseLine l = None) (lines_of c)))"
      "rr_BytesWritten report = int (length (jsonl.write_all (jsonl.events c)))"
    using assms(1) by (auto simp: Repair_success)
  have ev: "jsonl.events (jsonl.write_all (jsonl.events c)) = map sorted_tags (jsonl.events c)"
    using jsonl.events_ok by (simp add: jsonl.events_write_all)
  have "length (List.map_filter p ls) + length (filter (\<lambda>l. p l = None) ls) = length ls"
    for p :: "string \<Rightarrow> event option" and ls
    by (induction ls) (auto simp: List.map_filter_simps split: option.splits)
  then have "rr_ValidLines report + rr_InvalidLines report = int (length (lines_of c))"
    unfolding r by (metis jsonl.events_def of_nat_add parseLine_eq)
  then show ?thesis
    using \<open>err = None\<close> r(3) ReadFiltered_events [OF assms(2), of f'] ReadFiltered_events [OF assms(2), of "Some c"] ev
    by (simp add: f' file_events_def file_bytes_def filter_map_sorted take_last_map)
qed

theorem repair_preserves_queries_witness:
  "rr_ValidLines (fst (snd (Repair repair_ok ''p'' (Some [CHR 0x00, CHR 0x0A])))) +
   rr_InvalidLines (fst (snd (Repair repair_ok ''p'' (Some [CHR 0x00, CHR 0x0A])))) = 1"
  using repair_preserves_queries [of "''p''" "[CHR 0x00, CHR 0x0A]"
      "fst (Repair repair_ok ''p'' (Some [CHR 0x00, CHR 0x0A]))"
      "fst (snd (Repair repair_ok ''p'' (Some [CHR 0x00, CHR 0x0A])))"
      "snd (snd (Repair repair_ok ''p'' (Some [CHR 0x00, CHR 0x0A])))" "limit_query 1" 1000]
  by (simp add: limit_query_def query_limit_def)

text \<open>Repairing twice is repairing once, byte for byte, and the second repair finds no invalid line.\<close>

theorem repair_idempotent:
  assumes "Repair repair_ok path (Some c) = (f1, r1, e1)" and "Repair repair_ok path f1 = (f2, r2, e2)"
  shows "f2 = f1 \<and> rr_InvalidLines r2 = 0 \<and> rr_NullLines r2 = 0 \<and> rr_ValidLines r2 = rr_ValidLines r1"
proof -
  have f1: "f1 = Some (jsonl.write_all (jsonl.events c))" and v: "rr_ValidLines r1 = int (length (jsonl.events c))"
    using assms(1) by (auto simp: Repair_success)
  have ok: "\<forall>x \<in> set (jsonl.events c). storable x" using jsonl.events_ok by blast
  have l: "parseLine (jsonl.write_line x) \<noteq> None" "sanitizeJSONLLine (jsonl.write_line x) \<noteq> []"
    if "storable x" for x
    using jsonl.parse_write_line [OF that] jsonl.trimmed [of x] jsonl.nonempty [of x]
    by (simp_all add: parseLine_eq jsonl.write_line_def)
  have "filter (\<lambda>l. parseLine l = None) (map jsonl.write_line xs) = []"
    "filter (\<lambda>l. sanitizeJSONLLine l = [] \<and> CHR 0x00 \<in> set l) (map jsonl.write_line xs) = []"
    if "\<forall>x \<in> set xs. storable x" for xs
    using that l by (induction xs) auto
  then show ?thesis
    using assms(2) ok jsonl.rewrite_idem [of c]
    by (auto simp: f1 v Repair_success jsonl.lines_of_write_all jsonl.events_write_all)
qed

theorem repair_idempotent_witness:
  "fst (Repair repair_ok ''p'' (fst (Repair repair_ok ''p'' (Some ''junk'')))) = fst (Repair repair_ok ''p'' (Some ''junk''))"
  using repair_idempotent [of "''p''" "''junk''" _ _ _ _ _ _]
  by (metis prod.collapse)

text \<open>A repair that fails changes nothing: whichever file access fails, and with however many records already written, the events file holds the bytes it held.\<close>

theorem failed_repair_changes_nothing:
  assumes "Repair io path f = (f', report, Some e)"
  shows "f' = f"
  using assms by (auto simp: Repair_def Let_def split: option.splits prod.splits)

theorem failed_repair_changes_nothing_witness:
  "fst (Repair (repair_ok\<lparr>io_tmp := Some ''denied''\<rparr>) ''p'' (Some ''junk'')) = Some ''junk''"
  using failed_repair_changes_nothing [of "repair_ok\<lparr>io_tmp := Some ''denied''\<rparr>" "''p''" "Some ''junk''"
      "fst (Repair (repair_ok\<lparr>io_tmp := Some ''denied''\<rparr>) ''p'' (Some ''junk''))" "empty_report ''p''" "''denied''"]
  by (simp add: Repair_def repair_ok_def)

end
