(* ===== verification/Stats.thy ===== *)
theory Stats
  imports Event Go_Time "HOL-Library.Multiset" "HOL-Library.Char_ord" "HOL-Library.List_Lexorder"
begin

text \<open>
  The counters of the collector (\<open>Stats\<close> in \<open>cmd/ot-collector/main.go\<close>). Counters are
  unbounded integers (64-bit in the code, which an event per nanosecond would take centuries to
  fill). The clock is an argument, in nanoseconds. Iterating over a Go map visits its entries in an
  arbitrary order: \<open>iter\<close> is that order, a permutation of the entries; \<open>sort.Slice\<close> after it
  gives, for some order, the stable sort.
\<close>

record sourceStats =
  ss_AssetName :: string
  ss_AssetIP :: string
  ss_SourceType :: string
  ss_EventCount :: int
  ss_LastSeen :: string

definition zero_source :: sourceStats where
  "zero_source = \<lparr>ss_AssetName = '''', ss_AssetIP = '''', ss_SourceType = '''', ss_EventCount = 0, ss_LastSeen = ''''\<rparr>"

record Stats =
  stat_total :: int
  stat_storedCount :: int
  stat_droppedCount :: int
  stat_sampledCount :: int
  stat_forwardedCount :: int
  stat_failedForwardCnt :: int
  stat_bySeverity :: "int gomap"
  stat_bySourceType :: "int gomap"
  stat_byCategory :: "int gomap"
  stat_byAsset :: "int gomap"
  stat_byCommand :: "int gomap"
  stat_byRule :: "int gomap"
  stat_byDecision :: "int gomap"
  stat_bySourceIP :: "int gomap"
  stat_timeline :: "int gomap"
  stat_sources :: "sourceStats gomap"
  stat_lastEventAt :: string
  stat_lastForwardOK :: string
  stat_rateSecond :: int
  stat_rateCount :: int
  stat_rateEPS :: int

definition NewStats :: Stats where
  "NewStats = \<lparr>stat_total = 0, stat_storedCount = 0, stat_droppedCount = 0, stat_sampledCount = 0,
     stat_forwardedCount = 0, stat_failedForwardCnt = 0, stat_bySeverity = [], stat_bySourceType = [],
     stat_byCategory = [], stat_byAsset = [], stat_byCommand = [], stat_byRule = [], stat_byDecision = [],
     stat_bySourceIP = [], stat_timeline = [], stat_sources = [], stat_lastEventAt = '''',
     stat_lastForwardOK = '''', stat_rateSecond = 0, stat_rateCount = 0, stat_rateEPS = 0\<rparr>"

text \<open>\<open>m[k]++\<close>\<close>

definition bump :: "string \<Rightarrow> int gomap \<Rightarrow> int gomap" where
  "bump k m = gput k (gget 0 m k + 1) m"

definition bump_if :: "bool \<Rightarrow> string \<Rightarrow> int gomap \<Rightarrow> int gomap" where
  "bump_if b k m = (if b then bump k m else m)"

definition parseMinuteBucket :: "int \<Rightarrow> string \<Rightarrow> string" where
  "parseMinuteBucket now ts =
     (case Parse_RFC3339Nano ts of None \<Rightarrow> Format_minute now | Some t \<Rightarrow> Format_minute t)"

definition bumpRate :: "int \<Rightarrow> Stats \<Rightarrow> Stats" where
  "bumpRate now s =
     (let sec = now div 1000000000;
          s1 = (if stat_rateSecond s \<noteq> sec
                then s\<lparr>stat_rateSecond := sec, stat_rateEPS := stat_rateCount s, stat_rateCount := 0\<rparr> else s)
      in s1\<lparr>stat_rateCount := stat_rateCount s1 + 1\<rparr>)"

definition source_key :: "event \<Rightarrow> string" where
  "source_key e = (if AssetIP e = '''' then AssetName e else AssetIP e)"

definition seen_source :: "event \<Rightarrow> sourceStats gomap \<Rightarrow> sourceStats gomap" where
  "seen_source e m =
     (let ss = gget zero_source m (source_key e)
      in gput (source_key e)
           \<lparr>ss_AssetName = AssetName e, ss_AssetIP = AssetIP e, ss_SourceType = SourceType e,
            ss_EventCount = ss_EventCount ss + 1, ss_LastSeen = ReceivedAt e\<rparr> m)"

definition AddStored :: "int \<Rightarrow> event \<Rightarrow> Stats \<Rightarrow> Stats" where
  "AddStored now e s =
     bumpRate now (s\<lparr>
       stat_total := stat_total s + 1,
       stat_storedCount := stat_storedCount s + 1,
       stat_bySeverity := bump (Severity e) (stat_bySeverity s),
       stat_bySourceType := bump (SourceType e) (stat_bySourceType s),
       stat_byCategory := bump (EventCategory e) (stat_byCategory s),
       stat_byAsset := bump (AssetName e) (stat_byAsset s),
       stat_bySourceIP := bump_if (AssetIP e \<noteq> '''') (AssetIP e) (stat_bySourceIP s),
       stat_byCommand := bump_if (tag e ''browse_name'' \<noteq> '''') (tag e ''browse_name'') (stat_byCommand s),
       stat_timeline := bump (parseMinuteBucket now (ReceivedAt e)) (stat_timeline s),
       stat_sources := seen_source e (stat_sources s),
       stat_lastEventAt := ReceivedAt e\<rparr>)"

definition AddDecision :: "string \<Rightarrow> string \<Rightarrow> bool \<Rightarrow> Stats \<Rightarrow> Stats" where
  "AddDecision decision ruleID sampled s =
     s\<lparr>stat_byDecision := bump decision (stat_byDecision s),
       stat_byRule := bump_if (ruleID \<noteq> '''') ruleID (stat_byRule s),
       stat_sampledCount := stat_sampledCount s + (if sampled then 1 else 0)\<rparr>"

definition AddDropped :: "int \<Rightarrow> string \<Rightarrow> string \<Rightarrow> bool \<Rightarrow> Stats \<Rightarrow> Stats" where
  "AddDropped now ruleID reason sampled s =
     bumpRate now (s\<lparr>
       stat_total := stat_total s + 1,
       stat_droppedCount := stat_droppedCount s + 1,
       stat_byDecision := bump_if (reason \<noteq> '''') reason (bump ''drop'' (stat_byDecision s)),
       stat_byRule := bump_if (ruleID \<noteq> '''') ruleID (stat_byRule s),
       stat_sampledCount := stat_sampledCount s + (if sampled then 1 else 0)\<rparr>)"

definition AddForwardResult :: "bool \<Rightarrow> string \<Rightarrow> Stats \<Rightarrow> Stats" where
  "AddForwardResult success when s =
     (if success then s\<lparr>stat_forwardedCount := stat_forwardedCount s + 1, stat_lastForwardOK := when\<rparr>
      else s\<lparr>stat_failedForwardCnt := stat_failedForwardCnt s + 1\<rparr>)"

section \<open>Views\<close>

datatype view = VInt int | VStr string | VCounts "int gomap" | VItems "(string \<times> view) list list"

definition cloneMap :: "int gomap \<Rightarrow> int gomap" where
  "cloneMap m = map (\<lambda>(k, v). (k, v)) m"

definition topN :: "(string \<times> int) list \<Rightarrow> nat \<Rightarrow> (string \<times> int) list" where
  "topN items n = take n (sort_key (\<lambda>(k, c). - c) items)"

definition top_view :: "(string \<times> int) list \<Rightarrow> view" where
  "top_view items = VItems (map (\<lambda>(k, c). [(''name'', VStr k), (''count'', VInt c)]) items)"

definition Snapshot :: "Stats \<Rightarrow> (string \<times> view) list" where
  "Snapshot s =
     [(''total_events'', VInt (stat_total s)),
      (''by_severity'', VCounts (cloneMap (stat_bySeverity s))),
      (''by_source_type'', VCounts (cloneMap (stat_bySourceType s))),
      (''by_category'', VCounts (cloneMap (stat_byCategory s))),
      (''by_asset'', VCounts (cloneMap (stat_byAsset s))),
      (''last_event_time'', VStr (stat_lastEventAt s)),
      (''stored_count'', VInt (stat_storedCount s)),
      (''dropped_count'', VInt (stat_droppedCount s)),
      (''sampled_count'', VInt (stat_sampledCount s)),
      (''forwarded_count'', VInt (stat_forwardedCount s)),
      (''failed_forward_count'', VInt (stat_failedForwardCnt s)),
      (''event_rate_per_second'', VInt (stat_rateEPS s)),
      (''last_successful_forward'', VStr (stat_lastForwardOK s))]"

definition Summary :: "((string \<times> int) list \<Rightarrow> (string \<times> int) list) \<Rightarrow> Stats \<Rightarrow> (string \<times> view) list" where
  "Summary iter s =
     [(''total_events'', VInt (stat_total s)),
      (''by_source_type'', VCounts (cloneMap (stat_bySourceType s))),
      (''by_severity'', VCounts (cloneMap (stat_bySeverity s))),
      (''by_category'', VCounts (cloneMap (stat_byCategory s))),
      (''top_assets'', top_view (topN (iter (stat_byAsset s)) 5)),
      (''top_commands'', top_view (topN (iter (stat_byCommand s)) 10)),
      (''stored_count'', VInt (stat_storedCount s)),
      (''dropped_count'', VInt (stat_droppedCount s)),
      (''sampled_count'', VInt (stat_sampledCount s)),
      (''forwarded_count'', VInt (stat_forwardedCount s)),
      (''failed_forward_count'', VInt (stat_failedForwardCnt s)),
      (''by_rule'', VCounts (cloneMap (stat_byRule s))),
      (''by_decision'', VCounts (cloneMap (stat_byDecision s))),
      (''event_rate_per_second'', VInt (stat_rateEPS s)),
      (''last_successful_forward_time'', VStr (stat_lastForwardOK s))]"

definition Timeline :: "Stats \<Rightarrow> (string \<times> int) list" where
  "Timeline s = map (\<lambda>k. (k, gget 0 (stat_timeline s) k)) (sort (map fst (stat_timeline s)))"

definition Sources :: "(sourceStats list \<Rightarrow> sourceStats list) \<Rightarrow> Stats \<Rightarrow> sourceStats list" where
  "Sources iter s = sort_key (\<lambda>x. - ss_EventCount x) (iter (map snd (stat_sources s)))"

definition SourceCounters :: "Stats \<Rightarrow> int gomap" where
  "SourceCounters s = cloneMap (stat_bySourceIP s)"

section \<open>Facts\<close>

definition counts_sum :: "int gomap \<Rightarrow> int" where
  "counts_sum m = sum_list (map snd m)"

lemma counts_sum_gput:
  "gmap_ok m \<Longrightarrow> counts_sum (gput k v m) = counts_sum m - gget 0 m k + v"
proof (induction m)
  case Nil
  then show ?case by (simp add: counts_sum_def gput_def)
next
  case (Cons x m)
  obtain j w where x: "x = (j, w)" by (cases x)
  have m: "gmap_ok m" "j \<notin> fst ` set m" using Cons.prems x by (auto simp: gmap_ok_def)
  show ?case
  proof (cases "j = k")
    case True
    then show ?thesis by (simp add: x counts_sum_def gput_Cons gget_Cons)
  next
    case False
    with Cons.IH [OF m(1)] show ?thesis by (simp add: x counts_sum_def gput_Cons gget_Cons)
  qed
qed

lemma counts_sum_bump: "gmap_ok m \<Longrightarrow> counts_sum (bump k m) = counts_sum m + 1"
  by (simp add: bump_def counts_sum_gput)

lemma gmap_ok_bump [simp]: "gmap_ok m \<Longrightarrow> gmap_ok (bump k m)"
  by (simp add: bump_def)

lemma gmap_ok_bump_if [simp]: "gmap_ok m \<Longrightarrow> gmap_ok (bump_if b k m)"
  by (simp add: bump_if_def)

lemma bumpRate_frame [simp]:
  "stat_total (bumpRate now s) = stat_total s" "stat_storedCount (bumpRate now s) = stat_storedCount s"
  "stat_droppedCount (bumpRate now s) = stat_droppedCount s" "stat_sampledCount (bumpRate now s) = stat_sampledCount s"
  "stat_forwardedCount (bumpRate now s) = stat_forwardedCount s"
  "stat_failedForwardCnt (bumpRate now s) = stat_failedForwardCnt s"
  "stat_bySeverity (bumpRate now s) = stat_bySeverity s" "stat_bySourceType (bumpRate now s) = stat_bySourceType s"
  "stat_byCategory (bumpRate now s) = stat_byCategory s" "stat_byAsset (bumpRate now s) = stat_byAsset s"
  "stat_byCommand (bumpRate now s) = stat_byCommand s" "stat_byRule (bumpRate now s) = stat_byRule s"
  "stat_byDecision (bumpRate now s) = stat_byDecision s" "stat_bySourceIP (bumpRate now s) = stat_bySourceIP s"
  "stat_timeline (bumpRate now s) = stat_timeline s" "stat_sources (bumpRate now s) = stat_sources s"
  "stat_lastEventAt (bumpRate now s) = stat_lastEventAt s"
  by (simp_all add: bumpRate_def Let_def)

text \<open>The counters agree with each other.\<close>

definition source_sum :: "sourceStats gomap \<Rightarrow> int" where
  "source_sum m = sum_list (map (ss_EventCount \<circ> snd) m)"

lemma source_sum_gput:
  "gmap_ok m \<Longrightarrow> source_sum (gput k v m) = source_sum m - ss_EventCount (gget zero_source m k) + ss_EventCount v"
proof (induction m)
  case Nil
  then show ?case by (simp add: source_sum_def gput_def zero_source_def)
next
  case (Cons x m)
  obtain j w where x: "x = (j, w)" by (cases x)
  have m: "gmap_ok m" using Cons.prems x by (auto simp: gmap_ok_def)
  show ?case
    using Cons.IH [OF m] by (cases "j = k") (simp_all add: x source_sum_def gput_Cons gget_Cons)
qed

definition stats_ok :: "Stats \<Rightarrow> bool" where
  "stats_ok s \<longleftrightarrow>
     stat_total s = stat_storedCount s + stat_droppedCount s \<and>
     gmap_ok (stat_bySeverity s) \<and> counts_sum (stat_bySeverity s) = stat_storedCount s \<and>
     gmap_ok (stat_bySourceType s) \<and> counts_sum (stat_bySourceType s) = stat_storedCount s \<and>
     gmap_ok (stat_byCategory s) \<and> counts_sum (stat_byCategory s) = stat_storedCount s \<and>
     gmap_ok (stat_byAsset s) \<and> counts_sum (stat_byAsset s) = stat_storedCount s \<and>
     gmap_ok (stat_timeline s) \<and> counts_sum (stat_timeline s) = stat_storedCount s \<and>
     gmap_ok (stat_sources s) \<and> source_sum (stat_sources s) = stat_storedCount s"

lemma stats_ok_NewStats: "stats_ok NewStats"
  by (simp add: stats_ok_def NewStats_def counts_sum_def source_sum_def)

lemma stats_ok_AddStored: "stats_ok s \<Longrightarrow> stats_ok (AddStored now e s)"
  by (simp add: stats_ok_def AddStored_def counts_sum_bump seen_source_def source_sum_gput Let_def)

lemma stats_ok_AddDropped: "stats_ok s \<Longrightarrow> stats_ok (AddDropped now r d b s)"
  by (simp add: stats_ok_def AddDropped_def)

lemma stats_ok_AddDecision: "stats_ok s \<Longrightarrow> stats_ok (AddDecision d r b s)"
  by (simp add: stats_ok_def AddDecision_def)

lemma stats_ok_AddForwardResult: "stats_ok s \<Longrightarrow> stats_ok (AddForwardResult b w s)"
  by (simp add: stats_ok_def AddForwardResult_def)

lemma topN_spec:
  "length (topN items n) \<le> n"
  "sorted (map (\<lambda>(k, c). - c) (topN items n))"
  "x \<in> set (topN items n) \<Longrightarrow> y \<in># mset items - mset (topN items n) \<Longrightarrow> snd y \<le> snd x"
proof -
  let ?f = "\<lambda>(k :: string, c :: int). - c"
  let ?s = "sort_key ?f items"
  show "length (topN items n) \<le> n" by (simp add: topN_def)
  have so: "sorted (map ?f ?s)" by simp
  have split: "?s = take n ?s @ drop n ?s" by simp
  show "sorted (map ?f (topN items n))"
    unfolding topN_def take_map [symmetric] using so by (rule sorted_wrt_take)
  assume x: "x \<in> set (topN items n)" and "y \<in># mset items - mset (topN items n)"
  moreover have "mset items = mset (take n ?s) + mset (drop n ?s)"
    by (metis split mset_append mset_sort)
  ultimately have y: "y \<in> set (drop n ?s)" by (simp add: topN_def)
  have "sorted (map ?f (take n ?s) @ map ?f (drop n ?s))"
    using so by (metis split map_append)
  then have "?f x \<le> ?f y" using x y by (auto simp: sorted_append topN_def)
  then show "snd y \<le> snd x" by (simp add: split_beta)
qed

end
