(* ===== verification/Stream_Hub.thy ===== *)
theory Stream_Hub
  imports Event "HOL-Library.Sublist"
begin

text \<open>
  The hub of the event stream (\<open>internal/api/stream.go\<close>): numbered clients, each with a buffered
  channel. Publishing never waits: a client whose channel is full misses the event. A channel is
  the list of events in it; the order in which the map of clients is visited does not matter,
  because the channels are independent.
\<close>

record StreamHub =
  hub_nextID :: int
  hub_clients :: "(int \<times> event list) list"

definition NewStreamHub :: StreamHub where
  "NewStreamHub = \<lparr>hub_nextID = 0, hub_clients = []\<rparr>"

definition stream_buffer :: nat where
  "stream_buffer = 256"

definition Subscribe :: "StreamHub \<Rightarrow> StreamHub \<times> int" where
  "Subscribe h =
     (h\<lparr>hub_nextID := hub_nextID h + 1, hub_clients := AList.update (hub_nextID h) [] (hub_clients h)\<rparr>,
      hub_nextID h)"

definition Unsubscribe :: "int \<Rightarrow> StreamHub \<Rightarrow> StreamHub" where
  "Unsubscribe i h = h\<lparr>hub_clients := filter (\<lambda>(j, _). j \<noteq> i) (hub_clients h)\<rparr>"

definition offer :: "event \<Rightarrow> event list \<Rightarrow> event list" where
  "offer evt ch = (if length ch < stream_buffer then ch @ [evt] else ch)"

definition Publish :: "event \<Rightarrow> StreamHub \<Rightarrow> StreamHub" where
  "Publish evt h = h\<lparr>hub_clients := map (\<lambda>(i, ch). (i, offer evt ch)) (hub_clients h)\<rparr>"

text \<open>The receive of a client's handler: nothing when the channel is empty or closed.\<close>

definition take_event :: "int \<Rightarrow> StreamHub \<Rightarrow> StreamHub \<times> event option" where
  "take_event i h =
     (case map_of (hub_clients h) i of
        Some (e # ch) \<Rightarrow> (h\<lparr>hub_clients := AList.update i ch (hub_clients h)\<rparr>, Some e)
      | _ \<Rightarrow> (h, None))"

section \<open>Runs\<close>

datatype hub_op = Publishing event | Subscribing | Unsubscribing int | Receiving int

definition hub_step :: "hub_op \<Rightarrow> StreamHub \<Rightarrow> StreamHub" where
  "hub_step op h =
     (case op of Publishing e \<Rightarrow> Publish e h | Subscribing \<Rightarrow> fst (Subscribe h)
      | Unsubscribing i \<Rightarrow> Unsubscribe i h | Receiving i \<Rightarrow> fst (take_event i h))"

text \<open>What client \<open>i\<close> receives in a run, and what is published in it.\<close>

fun received :: "int \<Rightarrow> hub_op list \<Rightarrow> StreamHub \<Rightarrow> event list" where
  "received i [] h = []"
| "received i (op # ops) h =
     (case op of
        Receiving j \<Rightarrow> (if j = i then (case snd (take_event i h) of None \<Rightarrow> [] | Some e \<Rightarrow> [e]) else [])
      | _ \<Rightarrow> []) @ received i ops (hub_step op h)"

fun published :: "hub_op list \<Rightarrow> event list" where
  "published [] = []"
| "published (op # ops) = (case op of Publishing e \<Rightarrow> [e] | _ \<Rightarrow> []) @ published ops"

fun hub_run :: "hub_op list \<Rightarrow> StreamHub \<Rightarrow> StreamHub" where
  "hub_run [] h = h"
| "hub_run (op # ops) h = hub_run ops (hub_step op h)"

section \<open>Facts\<close>

definition channel :: "StreamHub \<Rightarrow> int \<Rightarrow> event list option" where
  "channel h i = map_of (hub_clients h) i"

definition hub_ok :: "StreamHub \<Rightarrow> bool" where
  "hub_ok h \<longleftrightarrow> distinct (map fst (hub_clients h)) \<and>
     (\<forall>(i, ch) \<in> set (hub_clients h). 0 \<le> i \<and> i < hub_nextID h \<and> length ch \<le> stream_buffer) \<and> 0 \<le> hub_nextID h"

lemma channel_Publish: "channel (Publish e h) i = map_option (offer e) (channel h i)"
proof -
  have "map_of (map (\<lambda>(i, ch). (i, offer e ch)) xs) i = map_option (offer e) (map_of xs i)"
    for xs :: "(int \<times> event list) list"
    by (induction xs) auto
  then show ?thesis by (simp add: channel_def Publish_def)
qed

lemma channel_Subscribe: "channel (fst (Subscribe h)) i = (if i = hub_nextID h then Some [] else channel h i)"
  by (simp add: channel_def Subscribe_def update_conv')

lemma channel_Unsubscribe: "channel (Unsubscribe j h) i = (if i = j then None else channel h i)"
proof -
  have "map_of (filter (\<lambda>(k, _). k \<noteq> j) xs) i = (if i = j then None else map_of xs i)"
    for xs :: "(int \<times> event list) list"
    by (induction xs) auto
  then show ?thesis by (simp add: channel_def Unsubscribe_def)
qed

lemma channel_take:
  "channel (fst (take_event j h)) i =
     (if i = j then map_option tl (channel h i) else channel h i)"
  by (auto simp: channel_def take_event_def update_conv' split: option.splits list.splits)

lemma take_event_snd:
  "snd (take_event i h) = (case channel h i of Some (e # ch) \<Rightarrow> Some e | _ \<Rightarrow> None)"
  by (auto simp: channel_def take_event_def split: option.splits list.splits)

lemma hub_nextID_step: "hub_nextID (hub_step op h) \<ge> hub_nextID h"
  by (auto simp: hub_step_def Publish_def Subscribe_def Unsubscribe_def take_event_def
      split: hub_op.splits option.splits list.splits)

lemma set_filter_fst: "(i, ch) \<in> set (filter P xs) \<Longrightarrow> (i, ch) \<in> set xs" by simp

lemma set_update: "x \<in> set (AList.update k v xs) \<Longrightarrow> x = (k, v) \<or> x \<in> set xs"
  by (induction xs) (auto split: if_splits)

lemma hub_ok_step:
  assumes "hub_ok h" shows "hub_ok (hub_step op h)"
proof (cases op)
  case (Publishing e)
  have m: "map fst (hub_clients (Publish e h)) = map fst (hub_clients h)"
    by (simp add: Publish_def comp_def split_beta)
  have n: "hub_nextID (Publish e h) = hub_nextID h" by (simp add: Publish_def)
  have "\<forall>(i, ch) \<in> set (hub_clients (Publish e h)).
      0 \<le> i \<and> i < hub_nextID h \<and> length ch \<le> stream_buffer"
    using assms by (auto simp: hub_ok_def Publish_def offer_def)
  then show ?thesis
    using assms unfolding Publishing hub_step_def hub_op.case hub_ok_def m n by blast
next
  case Subscribing
  then show ?thesis
    using assms by (auto simp: hub_ok_def hub_step_def Subscribe_def distinct_update dest!: set_update)
next
  case (Unsubscribing i)
  then show ?thesis
    using assms by (auto simp: hub_ok_def hub_step_def Unsubscribe_def distinct_map_filter)
next
  case (Receiving i)
  show ?thesis
  proof (cases "map_of (hub_clients h) i")
    case None
    with Receiving assms show ?thesis by (simp add: hub_step_def take_event_def)
  next
    case (Some ch)
    show ?thesis
    proof (cases ch)
      case Nil
      with Receiving Some assms show ?thesis by (simp add: hub_step_def take_event_def)
    next
      case (Cons e es)
      then have "(i, e # es) \<in> set (hub_clients h)" using Some by (auto dest: map_of_SomeD)
      with assms have "0 \<le> i" "i < hub_nextID h" "length es \<le> stream_buffer" by (auto simp: hub_ok_def)
      with Receiving Some Cons assms show ?thesis
        by (auto simp: hub_ok_def hub_step_def take_event_def distinct_update dest!: set_update)
    qed
  qed
qed

lemma hub_ok_run: "hub_ok h \<Longrightarrow> hub_ok (hub_run ops h)"
  by (induction ops arbitrary: h) (auto intro: hub_ok_step)

text \<open>
  What a client has received, and then finds in its channel, is what was published while it was
  connected, in that order, with some events left out.
\<close>

lemma received_subseq:
  assumes "channel h i = Some ch" and "i < hub_nextID h"
    and "\<forall>op \<in> set ops. op \<noteq> Unsubscribing i"
  shows "\<exists>ch'. channel (hub_run ops h) i = Some ch' \<and> subseq (received i ops h @ ch') (ch @ published ops)"
  using assms
proof (induction ops arbitrary: h ch)
  case Nil
  then show ?case by auto
next
  case (Cons op ops)
  have n: "i < hub_nextID (hub_step op h)" using Cons.prems(2) hub_nextID_step [of h op] by linarith
  have rest: "\<forall>op \<in> set ops. op \<noteq> Unsubscribing i" using Cons.prems(3) by simp
  show ?case
  proof (cases op)
    case (Publishing e)
    have "channel (hub_step op h) i = Some (offer e ch)"
      using Cons.prems(1) by (simp add: Publishing hub_step_def channel_Publish)
    from Cons.IH [OF this n rest] obtain ch' where
      "channel (hub_run ops (hub_step op h)) i = Some ch'"
      "subseq (received i ops (hub_step op h) @ ch') (offer e ch @ published ops)" by blast
    moreover have "subseq (offer e ch @ published ops) (ch @ e # published ops)"
      by (auto simp: offer_def intro: list_emb_append_mono)
    ultimately show ?thesis using Publishing by (auto intro: subseq_order.order_trans)
  next
    case Subscribing
    have "channel (hub_step op h) i = Some ch"
      using Cons.prems(1,2) by (simp add: Subscribing hub_step_def channel_Subscribe)
    from Cons.IH [OF this n rest] show ?thesis using Subscribing by auto
  next
    case (Unsubscribing j)
    have "channel (hub_step op h) i = Some ch"
      using Cons.prems(1,3) Unsubscribing by (auto simp: hub_step_def channel_Unsubscribe)
    from Cons.IH [OF this n rest] show ?thesis using Unsubscribing by auto
  next
    case (Receiving j)
    show ?thesis
    proof (cases "j = i")
      case False
      then have "channel (hub_step op h) i = Some ch"
        using Cons.prems(1) Receiving by (simp add: hub_step_def channel_take)
      from Cons.IH [OF this n rest] show ?thesis using Receiving False by auto
    next
      case True
      have "channel (hub_step op h) i = Some (tl ch)"
        using Cons.prems(1) Receiving True by (simp add: hub_step_def channel_take)
      from Cons.IH [OF this n rest] show ?thesis
        using Receiving True Cons.prems(1) by (cases ch) (auto simp: take_event_snd)
    qed
  qed
qed

end
