(* ===== verification/Syslog_Parser.thy ===== *)
theory Syslog_Parser
  imports Go_Regexp Go_Time
begin

text \<open>
  The syslog parser (\<open>internal/syslog/parser.go\<close>): a raw line is read as RFC 5424, then as
  RFC 3164, and kept as it is when neither fits. The clock is an argument (each path of the code
  reads it once). The zone of the host is a parameter: the year the clock shows there, and the
  instant a wall-clock reading denotes, in seconds, which is what \<open>time.Date\<close> computes.
\<close>

record location =
  local_year :: "int \<Rightarrow> int"
  local_instant :: "int \<Rightarrow> int"

record ParsedMessage =
  pm_Priority :: "int option"
  pm_Facility :: "int option"
  pm_SeverityNumber :: "int option"
  pm_Timestamp :: string
  pm_Hostname :: string
  pm_AppName :: string
  pm_Message :: string
  pm_Raw :: string
  pm_Format :: string

record IncomingLog =
  in_Raw :: string
  in_SourceIP :: string
  in_Transport :: string

definition digits_1_3 :: re where
  "digits_1_3 = RSeq (RCls isDigit) (re_upto 2 isDigit)"

definition rfc5424RE :: re where
  "rfc5424RE = re_seqs [RBol, re_lit ''<'', RCap 1 digits_1_3, re_lit ''>'', RCap 2 (RCls isDigit),
     re_plus ws, RCap 3 (re_plus non_ws), re_plus ws, RCap 4 (re_plus non_ws), re_plus ws,
     RCap 5 (re_plus non_ws), re_plus ws, RCap 6 (re_plus non_ws), re_plus ws,
     RCap 7 (re_plus non_ws), RStar ws, RCap 8 (RStar not_newline), REol]"

definition stampRE :: re where
  "stampRE = re_seqs [RCls is_upper, re_exactly 2 is_lower, re_plus ws, RCls isDigit, ROpt (RCls isDigit),
     re_plus ws, re_exactly 2 isDigit, re_lit '':'', re_exactly 2 isDigit, re_lit '':'',
     re_exactly 2 isDigit]"

definition rfc3164RE :: re where
  "rfc3164RE = re_seqs [RBol, ROpt (re_seqs [re_lit ''<'', RCap 1 digits_1_3, re_lit ''>'']),
     RCap 2 stampRE, re_plus ws, RCap 3 (re_plus non_ws), re_plus ws,
     RCap 4 (re_plus (\<lambda>c. c \<noteq> CHR '':'')), re_lit '':'', RStar ws, RCap 5 (RStar not_newline), REol]"

text \<open>\<open>n, _ := strconv.Atoi(s)\<close> on at most three digits.\<close>

definition Atoi_value :: "string \<Rightarrow> int" where
  "Atoi_value s = (case Atoi s of None \<Rightarrow> 0 | Some n \<Rightarrow> n)"

definition parseRFC3164Timestamp :: "location \<Rightarrow> int \<Rightarrow> string \<Rightarrow> string" where
  "parseRFC3164Timestamp loc now ts =
     (case Parse_stamp ts of
        None \<Rightarrow> Format_RFC3339Nano now
      | Some (m, d, h, mi, s) \<Rightarrow>
          Format_RFC3339Nano (local_instant loc (unix_seconds (local_year loc now) m d h mi s) * 1000000000))"

definition normalizeTime :: "int \<Rightarrow> string \<Rightarrow> string" where
  "normalizeTime now ts =
     (if ts = '''' \<or> ts = ''-'' then Format_RFC3339Nano now
      else (case Parse_RFC3339Nano ts of
              Some t \<Rightarrow> Format_RFC3339Nano t
            | None \<Rightarrow> (case Parse_RFC3339 ts of
                Some t \<Rightarrow> Format_RFC3339Nano t
              | None \<Rightarrow> Format_RFC3339Nano now)))"

definition normalizeAppName :: "string \<Rightarrow> string" where
  "normalizeAppName app0 =
     (let app = TrimSpace app0
      in if app = '''' then app
         else (case Index app ''['' of
                 Some idx \<Rightarrow> if 0 < idx then take idx app else app
               | None \<Rightarrow> app))"

definition raw_message :: "int \<Rightarrow> string \<Rightarrow> ParsedMessage" where
  "raw_message now raw =
     \<lparr>pm_Priority = None, pm_Facility = None, pm_SeverityNumber = None,
      pm_Timestamp = Format_RFC3339Nano now, pm_Hostname = '''', pm_AppName = '''',
      pm_Message = raw, pm_Raw = raw, pm_Format = ''raw''\<rparr>"

definition message_5424 :: "int \<Rightarrow> string \<Rightarrow> caps \<Rightarrow> ParsedMessage" where
  "message_5424 now raw m =
     (let p = Atoi_value (group m 1); msg = TrimSpace (group m 8)
      in \<lparr>pm_Priority = Some p, pm_Facility = Some (p div 8), pm_SeverityNumber = Some (p mod 8),
          pm_Timestamp = normalizeTime now (group m 3), pm_Hostname = group m 4, pm_AppName = group m 5,
          pm_Message = (if msg = '''' then raw else msg), pm_Raw = raw, pm_Format = ''rfc5424''\<rparr>)"

definition message_3164 :: "location \<Rightarrow> int \<Rightarrow> string \<Rightarrow> caps \<Rightarrow> ParsedMessage" where
  "message_3164 loc now raw m =
     (let pri = (if group m 1 \<noteq> '''' then Some (Atoi_value (group m 1)) else None)
      in \<lparr>pm_Priority = pri, pm_Facility = map_option (\<lambda>p. p div 8) pri,
          pm_SeverityNumber = map_option (\<lambda>p. p mod 8) pri,
          pm_Timestamp = parseRFC3164Timestamp loc now (group m 2), pm_Hostname = group m 3,
          pm_AppName = normalizeAppName (group m 4), pm_Message = TrimSpace (group m 5),
          pm_Raw = raw, pm_Format = ''rfc3164''\<rparr>)"

definition Parse :: "location \<Rightarrow> int \<Rightarrow> string \<Rightarrow> ParsedMessage" where
  "Parse loc now raw0 =
     (let raw = TrimSpace raw0
      in if raw = '''' then raw_message now ''''
         else (case FindStringSubmatch rfc5424RE raw of
                 Some m \<Rightarrow> message_5424 now raw m
               | None \<Rightarrow> (case FindStringSubmatch rfc3164RE raw of
                   Some m \<Rightarrow> message_3164 loc now raw m
                 | None \<Rightarrow> raw_message now raw)))"

end
