(* ===== verification/Syslog_Properties.thy ===== *)
theory Syslog_Properties
  imports Syslog_Parser Go_Time_Facts
begin

text \<open>What the syslog parser promises: ranges of the priority, evidence kept, well-formed lines read back.\<close>

section \<open>Numbers\<close>



lemma Atoi_value_digits:
  assumes "list_all isDigit u" and "1 \<le> length u" and "length u \<le> 3"
  shows "Atoi_value u = int (digits_val 0 u) \<and> digits_val 0 u < 1000"
proof -
  obtain c w where u: "u = c # w" using assms(2) by (cases u) auto
  then have "isDigit c" using assms(1) by simp
  then have c: "c \<noteq> CHR ''-''" "c \<noteq> CHR ''+''" by (auto simp: isDigit_def)
  have "digits_val 0 u < 10 ^ length u" using digits_val_less [OF assms(1), of 0] by simp
  also have "\<dots> \<le> 10 ^ 3" using assms(3) by (intro power_increasing) auto
  finally have b: "digits_val 0 u < 1000" by simp
  then have "Atoi u = Some (int (digits_val 0 u))"
    using c assms(1) by (simp add: Atoi_def u Let_def)
  with b show ?thesis by (simp add: Atoi_value_def)
qed


lemma re_upto_lang: "u \<in> re_lang (re_upto n p) \<Longrightarrow> list_all p u \<and> length u \<le> n"
  by (induction n arbitrary: u) fastforce+

lemma digits_1_3_lang:
  "u \<in> re_lang digits_1_3 \<Longrightarrow> list_all isDigit u \<and> 1 \<le> length u \<and> length u \<le> 3"
  by (auto simp: digits_1_3_def dest!: re_upto_lang)

lemma lit_groups [simp]: "re_groups (re_lit s) = {}"
  by (induction s) (auto simp: re_lit_def)

lemma exactly_groups [simp]: "re_groups (re_exactly n p) = {}"
  by (induction n) auto

lemma upto_groups [simp]: "re_groups (re_upto n p) = {}"
  by (induction n) auto

lemma plus_groups [simp]: "re_groups (re_plus p) = {}"
  by (simp add: re_plus_def)

lemma priority_groups:
  "(1, u) \<in> re_groups rfc5424RE \<Longrightarrow> u \<in> re_lang digits_1_3"
  "(1, u) \<in> re_groups rfc3164RE \<Longrightarrow> u \<in> re_lang digits_1_3"
  by (auto simp: rfc5424RE_def rfc3164RE_def stampRE_def digits_1_3_def)

definition priority_ok :: "ParsedMessage \<Rightarrow> bool" where
  "priority_ok m \<longleftrightarrow>
     (case pm_Priority m of
        None \<Rightarrow> pm_Facility m = None \<and> pm_SeverityNumber m = None
      | Some p \<Rightarrow> 0 \<le> p \<and> p < 1000 \<and> pm_Facility m = Some (p div 8) \<and> pm_SeverityNumber m = Some (p mod 8))"

lemma Atoi_value_group:
  assumes "u = '''' \<or> u \<in> re_lang digits_1_3"
  shows "0 \<le> Atoi_value u \<and> Atoi_value u < 1000"
  using assms
proof
  assume "u = ''''"
  then show ?thesis by (simp add: Atoi_value_def Atoi_def)
next
  assume "u \<in> re_lang digits_1_3"
  then show ?thesis using digits_1_3_lang Atoi_value_digits by fastforce
qed

lemma Parse_cases:
  obtains (raw) r where "Parse loc now s = raw_message now r" "r = TrimSpace s"
  | (new) m where "Parse loc now s = message_5424 now (TrimSpace s) m"
      "FindStringSubmatch rfc5424RE (TrimSpace s) = Some m" "TrimSpace s \<noteq> ''''"
  | (old) m where "Parse loc now s = message_3164 loc now (TrimSpace s) m"
      "FindStringSubmatch rfc3164RE (TrimSpace s) = Some m" "TrimSpace s \<noteq> ''''"
  by (cases "TrimSpace s = ''''"; cases "FindStringSubmatch rfc5424RE (TrimSpace s)";
      cases "FindStringSubmatch rfc3164RE (TrimSpace s)") (auto simp: Parse_def Let_def)

section \<open>A well-formed line\<close>















lemma Parse_raw: "pm_Raw (Parse loc now line) = TrimSpace line"
  by (rule Parse_cases [of loc now line]) (simp_all add: raw_message_def message_5424_def message_3164_def Let_def)

section \<open>Properties\<close>

text \<open>C38: For every input line, clock and time zone the parser returns a message whose raw text is
  the line without its surrounding white space, and whose priority, if it has one, lies between 0
  and 999 and is split exactly into eight times the facility plus a severity of 0 to 7.\<close>

theorem parse_keeps_raw_and_splits_priority:
  "pm_Raw (Parse loc now line) = TrimSpace line \<and> priority_ok (Parse loc now line)"
proof (rule Parse_cases [of loc now line])
  fix m
  assume p: "Parse loc now line = message_5424 now (TrimSpace line) m"
    and f: "FindStringSubmatch rfc5424RE (TrimSpace line) = Some m"
  have "group m 1 = '''' \<or> group m 1 \<in> re_lang digits_1_3"
    using group_captured [OF f, of 1] priority_groups by auto
  then show ?thesis using Atoi_value_group by (simp add: p message_5424_def priority_ok_def Let_def)
next
  fix m
  assume p: "Parse loc now line = message_3164 loc now (TrimSpace line) m"
    and f: "FindStringSubmatch rfc3164RE (TrimSpace line) = Some m"
  have "group m 1 = '''' \<or> group m 1 \<in> re_lang digits_1_3"
    using group_captured [OF f, of 1] priority_groups by auto
  from Atoi_value_group [OF this] show ?thesis by (simp add: p message_3164_def priority_ok_def Let_def)
qed (simp add: raw_message_def priority_ok_def)




text \<open>
  An RFC 3164 stamp has no year and gets that of the clock: a line of the last second of a year that
  is read in the first second of the next one is dated a year too late.
\<close>

lemma rfc3164_year_rollover:
  "parseRFC3164Timestamp \<lparr>local_year = (\<lambda>t. 2026), local_instant = (\<lambda>t. t)\<rparr>
     1767225601000000000 ''Dec 31 23:59:59'' = ''2026-12-31T23:59:59Z''
   \<and> Format_RFC3339Nano 1767225601000000000 = ''2026-01-01T00:00:01Z''"
proof -
  have "Parse_stamp ''Dec 31 23:59:59'' = Some (12, 31, 23, 59, 59)" by code_simp
  moreover have "Format_RFC3339Nano (unix_seconds 2026 12 31 23 59 59 * 1000000000) = ''2026-12-31T23:59:59Z''"
    by code_simp
  moreover have "Format_RFC3339Nano 1767225601000000000 = ''2026-01-01T00:00:01Z''" by code_simp
  ultimately show ?thesis by (simp add: parseRFC3164Timestamp_def)
qed

end
