(* ===== verification/Syslog_Input.thy ===== *)
theory Syslog_Input
  imports Syslog_Parser
begin

text \<open>
  The syslog listeners (\<open>internal/syslog/tcp.go\<close>, \<open>udp.go\<close>): what a connection or a datagram puts on
  the channel of incoming logs. A TCP connection is the bytes received until the stream ends;
  \<open>ReadString\<close> returns what it has with the error at the end of the stream, and the handler
  returns without using it.
\<close>

text \<open>The loop of \<open>handleTCPConn\<close> on the bytes not yet read, \<open>acc\<close> being the line read so far.\<close>

fun tcp_loop :: "string \<Rightarrow> string \<Rightarrow> string \<Rightarrow> IncomingLog list" where
  "tcp_loop ip acc [] = []"
| "tcp_loop ip acc (c # s) =
     (if c = CHR 0x0A then
        (let line = TrimSpace (rev (c # acc))
         in if line = '''' then tcp_loop ip [] s
            else \<lparr>in_Raw = line, in_SourceIP = ip, in_Transport = ''tcp''\<rparr> # tcp_loop ip [] s)
      else tcp_loop ip (c # acc) s)"

definition handleTCPConn :: "string \<Rightarrow> string \<Rightarrow> IncomingLog list" where
  "handleTCPConn ip bytes = tcp_loop ip [] bytes"

definition udp_buffer :: nat where
  "udp_buffer = 65536"

definition udp_message :: "string \<Rightarrow> string \<Rightarrow> IncomingLog" where
  "udp_message ip datagram = \<lparr>in_Raw = take udp_buffer datagram, in_SourceIP = ip, in_Transport = ''udp''\<rparr>"

section \<open>Framing\<close>

definition frame_line :: "string \<Rightarrow> string" where
  "frame_line m = m @ [CHR 0x0A]"

lemma frame_line_append: "frame_line m @ s = m @ CHR 0x0A # s"
  by (simp add: frame_line_def)

definition tcp_log :: "string \<Rightarrow> string \<Rightarrow> IncomingLog" where
  "tcp_log ip m = \<lparr>in_Raw = m, in_SourceIP = ip, in_Transport = ''tcp''\<rparr>"

lemma tcp_loop_line:
  "CHR 0x0A \<notin> set m \<Longrightarrow> tcp_loop ip acc (m @ CHR 0x0A # s) =
     (let line = TrimSpace (rev acc @ m @ [CHR 0x0A])
      in if line = '''' then tcp_loop ip [] s else tcp_log ip line # tcp_loop ip [] s)"
  by (induction m arbitrary: acc) (auto simp: tcp_log_def Let_def)

lemma tcp_loop_unfinished: "CHR 0x0A \<notin> set m \<Longrightarrow> tcp_loop ip acc m = []"
  by (induction m arbitrary: acc) auto

lemma TrimSpace_newline: "TrimSpace (m @ [CHR 0x0A]) = TrimSpace m"
proof -
  have n: "is_space (CHR 0x0A)" by (simp add: is_space_def)
  show ?thesis
  proof (cases "dropWhile is_space m = []")
    case True
    then have "\<forall>c \<in> set m. is_space c" by (simp add: dropWhile_eq_Nil_conv)
    then have "dropWhile is_space (m @ [CHR 0x0A]) = []" using n by simp
    then show ?thesis by (simp add: TrimSpace_def trim_with_def True)
  next
    case False
    then have "dropWhile is_space (m @ [CHR 0x0A]) = dropWhile is_space m @ [CHR 0x0A]"
      by (auto simp: dropWhile_append dropWhile_eq_Nil_conv)
    then show ?thesis using n by (simp add: TrimSpace_def trim_with_def)
  qed
qed

text \<open>
  The messages of a stream: the complete lines, trimmed, without the blank ones; what follows the
  last newline is lost.
\<close>

lemma tcp_stream:
  assumes "list_all (\<lambda>m. CHR 0x0A \<notin> set m) ms" and "CHR 0x0A \<notin> set rest"
  shows "handleTCPConn ip (concat (map frame_line ms) @ rest) =
    map (tcp_log ip) (filter (\<lambda>m. m \<noteq> '''') (map TrimSpace ms))"
  using assms(1)
proof (induction ms)
  case Nil
  then show ?case using assms(2) by (simp add: handleTCPConn_def tcp_loop_unfinished)
next
  case (Cons m ms)
  then show ?case
    using tcp_loop_line [of m ip "[]" "concat (map frame_line ms) @ rest"]
    by (simp add: handleTCPConn_def frame_line_append TrimSpace_newline Let_def)
qed

section \<open>Properties\<close>

text \<open>A TCP stream is cut into exactly the messages sent as lines: each complete line gives one
  log with its sender's address, trimmed and in order, blank lines give none, and the bytes after
  the last newline when the connection ends give none either, so a last line sent without its
  newline is lost.\<close>

theorem tcp_framing:
  assumes "list_all (\<lambda>m. CHR 0x0A \<notin> set m) ms" and "CHR 0x0A \<notin> set rest"
  shows "handleTCPConn ip (concat (map frame_line ms) @ rest) =
    map (tcp_log ip) (filter (\<lambda>m. m \<noteq> '''') (map TrimSpace ms))"
  by (rule tcp_stream [OF assms])

theorem tcp_framing_witness:
  "handleTCPConn ''10.0.0.1'' (concat (map frame_line [''<34>a'', '' '', ''b'']) @ ''lost'') =
     [tcp_log ''10.0.0.1'' ''<34>a'', tcp_log ''10.0.0.1'' ''b'']"
proof -
  have t: "TrimSpace ''<34>a'' = ''<34>a''" "TrimSpace '' '' = ''''" "TrimSpace ''b'' = ''b''" by code_simp+
  show ?thesis
    using tcp_framing [of "[''<34>a'', '' '', ''b'']" "''lost''" "''10.0.0.1''"] by (simp add: t)
qed

end
