(* ===== verification/Source_Normalizers.thy ===== *)
theory Source_Normalizers
  imports Event Syslog_Parser
begin

text \<open>
  The source-specific normalisers (\<open>internal/normalizers\<close>). Each Go function mutates the event
  behind its pointer; here it maps the event to the changed one. A write to the tags panics when
  the map is nil, so the functions return options and are chained in the option monad; \<open>Apply\<close>
  allocates the map first. A \<open>switch\<close> over conditions is a chain of \<open>if\<close>s in the same order.
\<close>

record Context =
  ctx_Parsed :: ParsedMessage
  ctx_SourceIP :: string

section \<open>Shared steps (common.go)\<close>

definition parserVersion :: string where
  "parserVersion = ''v2.logs_by_sources_md''"

definition syslogPrefixRE :: re where
  "syslogPrefixRE = re_seqs [RBol, re_lit ''<'', re_plus isDigit, re_lit ''>'', RCls is_upper,
     re_exactly 2 is_lower, re_plus ws, re_plus isDigit, re_plus ws, re_exactly 2 isDigit, re_lit '':'',
     re_exactly 2 isDigit, re_lit '':'', re_exactly 2 isDigit, re_plus ws]"

definition ensureBaseTags :: "event \<Rightarrow> event option" where
  "ensureBaseTags e = do {
     let e = (if Tags e = None then e\<lparr>Tags := Some []\<rparr> else e);
     e \<leftarrow> put_tag ''parser_version'' parserVersion e;
     e \<leftarrow> put_tag ''normalized'' ''true'' e;
     e \<leftarrow> put_tag ''normalization_source'' ''logs_by_sources_md'' e;
     put_tag ''siem_index_hint'' ''ot_security'' e }"

definition identity_guess :: "string \<Rightarrow> string option" where
  "identity_guess h =
     (if Contains h ''opnsense'' \<or> Contains h ''filterlog'' then Some ''firewall''
      else if Contains h ''openplc'' \<or> Contains h ''plc'' then Some ''plc''
      else if Contains h ''fuxa'' then Some ''scada''
      else if Contains h ''engineering'' \<or> Contains h ''ews'' then Some ''ews''
      else if Contains h ''opcua'' then Some ''opcua''
      else if Contains h ''gds'' then Some ''gds_agent''
      else None)"

definition canonicalizeSourceIdentity :: "Context \<Rightarrow> event \<Rightarrow> event" where
  "canonicalizeSourceIdentity ctx e =
     (let st = TrimSpace (ToLower (SourceType e));
          st = (if st = ''gds-agent'' then ''gds_agent'' else if st = ''gds'' then ''gds_agent'' else st);
          st = (if st = ''unknown'' \<or> st = '''' then
                  (case identity_guess (ToLower (pm_Hostname (ctx_Parsed ctx) @ '' '' @
                      pm_AppName (ctx_Parsed ctx) @ '' '' @ Message e)) of
                     Some g \<Rightarrow> g | None \<Rightarrow> st)
                else st)
      in e\<lparr>SourceType := st, AssetIP := (if AssetIP e = '''' then ctx_SourceIP ctx else AssetIP e)\<rparr>)"

definition normal_severity :: "string \<Rightarrow> string" where
  "normal_severity l =
     (if l = ''warn'' \<or> l = ''warning'' \<or> l = ''war'' then ''warning''
      else if l = ''err'' \<or> l = ''error'' then ''error''
      else if l = ''inf'' \<or> l = ''info'' then ''info''
      else if l = ''critical'' then ''critical''
      else if l = '''' then ''info''
      else l)"

definition normalizeSeverity :: "event \<Rightarrow> event option" where
  "normalizeSeverity e =
     (let original = TrimSpace (Severity e); norm = normal_severity (ToLower original);
          e = e\<lparr>Severity := norm\<rparr>
      in if original \<noteq> '''' \<and> \<not> EqualFold original norm then put_tag ''original_severity'' original e
         else Some e)"

definition sourcetype_of :: "string \<Rightarrow> string" where
  "sourcetype_of st =
     (if st = ''firewall'' then ''labshock:net:firewall''
      else if st = ''plc'' then ''labshock:ot:plc''
      else if st = ''scada'' then ''labshock:ot:scada''
      else if st = ''ews'' then ''labshock:ot:ews''
      else if st = ''opcua'' then ''labshock:ot:opcua''
      else if st = ''gds_agent'' then ''labshock:ot:gds''
      else if st = ''scada_gds_client'' then ''labshock:ot:scada:gds''
      else '''')"

definition setSourcetype :: "event \<Rightarrow> event option" where
  "setSourcetype e =
     (let sourcetype = sourcetype_of (SourceType e)
      in if sourcetype \<noteq> '''' then put_tag ''splunk_sourcetype'' sourcetype e else Some e)"

definition setDecisionHint :: "event \<Rightarrow> event option" where
  "setDecisionHint e =
     (if tag e ''collector_decision_hint'' \<noteq> '''' then Some e
      else if Severity e = ''critical'' \<or> Severity e = ''error'' \<or> Severity e = ''warning''
      then put_tag ''collector_decision_hint'' ''store_forward'' e
      else put_tag ''collector_decision_hint'' ''sample_or_drop'' e)"

definition alert_messages :: "string list" where
  "alert_messages =
     [''firewall_block'', ''plc_login_success'', ''plc_login_attempt'', ''plc_stopped'',
      ''scada_opcua_connection_break'', ''scada_script_load_error'', ''scada_user_created'',
      ''scada_settings_updated'', ''scada_runtime_restart'', ''scada_opcua_certificate_san_mismatch'',
      ''ews_suspicious_file_change'', ''private_key_access_attempt_or_skip'', ''unauthorized_write'',
      ''sensitive_write_accepted'', ''modbus_connection_failed'', ''certificate_expiry_critical'',
      ''gds_cert_missing_runtime'', ''trust_signature_invalid'', ''crl_freshness_failed'',
      ''private_key_changed'']"

definition markAlertCandidate :: "event \<Rightarrow> event option" where
  "markAlertCandidate e =
     (if List.member alert_messages (Message e) then put_tag ''alert_candidate'' ''true'' e else Some e)"

definition cleanMessagePrefix :: "string \<Rightarrow> string" where
  "cleanMessagePrefix s = TrimSpace (remove_matches syslogPrefixRE True (TrimSpace s))"

definition rewriteMessage :: "string \<Rightarrow> event \<Rightarrow> event option" where
  "rewriteMessage msg0 e =
     (let msg = TrimSpace msg0
      in if msg = '''' \<or> Message e = msg then Some e
         else do { e \<leftarrow> put_tag ''original_message'' (Message e) e; Some (e\<lparr>Message := msg\<rparr>) })"

text \<open>A rewritten message with its category, and with its severity.\<close>

definition relabel :: "string \<Rightarrow> string \<Rightarrow> event \<Rightarrow> event option" where
  "relabel msg category e = do { e \<leftarrow> rewriteMessage msg e; Some (e\<lparr>EventCategory := category\<rparr>) }"

definition relabel_as :: "string \<Rightarrow> string \<Rightarrow> string \<Rightarrow> event \<Rightarrow> event option" where
  "relabel_as msg category severity e = do { e \<leftarrow> relabel msg category e; Some (e\<lparr>Severity := severity\<rparr>) }"

definition unnamed :: "event \<Rightarrow> bool" where
  "unnamed e \<longleftrightarrow> AssetName e = '''' \<or> EqualFold (AssetName e) ''unknown''"

definition default_ip :: "string \<Rightarrow> event \<Rightarrow> event" where
  "default_ip ip e = (if AssetIP e = '''' then e\<lparr>AssetIP := ip\<rparr> else e)"

definition raise_info :: "string \<Rightarrow> event \<Rightarrow> event" where
  "raise_info severity e = (if Severity e = ''info'' \<or> Severity e = '''' then e\<lparr>Severity := severity\<rparr> else e)"

section \<open>Firewall, PLC, EWS\<close>

definition firewall_action :: "event \<Rightarrow> string" where
  "firewall_action e =
     (let action = ToLower (TrimSpace (tag e ''action''))
      in if action = '''' then
           (let l = ToLower (Message e)
            in if Contains l ''firewall_block'' then ''block''
               else if Contains l ''firewall_reject'' then ''reject''
               else if Contains l ''firewall_pass'' then ''pass''
               else '''')
         else action)"

definition copy_tag :: "string \<Rightarrow> string \<Rightarrow> event \<Rightarrow> event option" where
  "copy_tag k j e = (if tag e k \<noteq> '''' then put_tag j (tag e k) e else Some e)"

definition applyFirewall :: "event \<Rightarrow> event option" where
  "applyFirewall e =
     (if SourceType e \<noteq> ''firewall'' then Some e
      else do {
        let e = (if unnamed e \<or> Contains (ToLower (AssetName e)) ''firewall''
                 then e\<lparr>AssetName := ''OPNsense OT Firewall''\<rparr> else e);
        let action = firewall_action e;
        e \<leftarrow> (if action \<noteq> '''' then put_tag ''action'' action e else Some e);
        e \<leftarrow> (if action = ''block'' then map_option (raise_info ''warning'') (relabel ''firewall_block'' ''security'' e)
              else if action = ''reject'' then map_option (raise_info ''warning'') (relabel ''firewall_reject'' ''security'' e)
              else if action = ''pass'' then
                map_option (\<lambda>e. if EventCategory e = '''' \<or> EventCategory e = ''system''
                              then e\<lparr>EventCategory := ''network_traffic''\<rparr> else e)
                  (rewriteMessage ''firewall_pass'' e)
              else Some e);
        e \<leftarrow> copy_tag ''src_ip'' ''source_ip'' e;
        copy_tag ''dst_ip'' ''destination_ip'' e })"

definition plcUserRE :: re where
  "plcUserRE = re_seqs [re_lit_ci ''login success for user:'', RStar ws, RCls (\<lambda>c. c = CHR 0x27),
     RCap 1 (re_plus (\<lambda>c. c \<noteq> CHR 0x27)), RCls (\<lambda>c. c = CHR 0x27)]"

definition plc_name :: "event \<Rightarrow> event" where
  "plc_name e =
     (if unnamed e \<or> HasPrefix (ToLower (AssetName e)) ''labshock-plc'' then
        (if AssetIP e = ''192.168.1.20'' then e\<lparr>AssetName := ''PLC1''\<rparr>
         else if AssetIP e = ''192.168.1.21'' then e\<lparr>AssetName := ''PLC2''\<rparr>
         else if AssetIP e = ''192.168.1.22'' then e\<lparr>AssetName := ''PLC3''\<rparr>
         else if AssetIP e = ''192.168.1.23'' then e\<lparr>AssetName := ''PLC4''\<rparr>
         else if AssetIP e = ''192.168.1.24'' then e\<lparr>AssetName := ''PLC5''\<rparr>
         else e)
      else e)"

definition applyPLC :: "event \<Rightarrow> event option" where
  "applyPLC e =
     (if SourceType e \<noteq> ''plc'' then Some e
      else (let e = plc_name e;
                clean = ReplaceAll (ToLower (cleanMessagePrefix (Message e))) ''stoped'' ''stopped''
            in if Contains clean ''attempting to login'' then relabel_as ''plc_login_attempt'' ''access_control'' ''info'' e
               else if Contains clean ''login success'' then do {
                 e \<leftarrow> relabel_as ''plc_login_success'' ''access_control'' ''info'' e;
                 case FindStringSubmatch plcUserRE (cleanMessagePrefix (Message e)) of
                   Some m \<Rightarrow> put_tag ''plc_user'' (group m 1) e
                 | None \<Rightarrow> Some e }
               else if Contains clean ''user logout'' then relabel_as ''plc_user_logout'' ''operator_action'' ''info'' e
               else if Contains clean ''plc started'' then relabel_as ''plc_started'' ''system'' ''info'' e
               else if Contains clean ''plc stopped'' then relabel_as ''plc_stopped'' ''system'' ''warning'' e
               else Some e))"

definition applyEWS :: "event \<Rightarrow> event option" where
  "applyEWS e =
     (if SourceType e \<noteq> ''ews'' then Some e
      else (let e = (if unnamed e then e\<lparr>AssetName := ''Engineering Workstation''\<rparr> else e);
                e = default_ip ''192.168.1.50'' e;
                l = ToLower (cleanMessagePrefix (Message e))
            in if Contains l ''suspicious_file_change'' then relabel_as ''ews_suspicious_file_change'' ''security'' ''warning'' e
               else if Contains l ''collector_send_failed'' then relabel_as ''collector_send_failed'' ''error'' ''warning'' e
               else if Contains l ''collector_send_recovered'' then relabel_as ''collector_send_recovered'' ''system_health'' ''info'' e
               else if Contains l ''private_key_access_attempt_or_skip''
               then relabel_as ''private_key_access_attempt_or_skip'' ''security'' ''warning'' e
               else if Contains l ''ews_heartbeat'' then do {
                 e \<leftarrow> relabel ''ews_heartbeat'' ''system_health'' e;
                 put_tag ''noise_hint'' ''sample_candidate'' e }
               else Some e))"

section \<open>OPC UA server and GDS agents\<close>

definition applyOPCUA :: "event \<Rightarrow> event option" where
  "applyOPCUA e =
     (if SourceType e \<noteq> ''opcua'' then Some e
      else do {
        let e = (if unnamed e \<or> AssetName e = ''powergrid_opcua_server''
                 then e\<lparr>AssetName := ''OPC UA Server''\<rparr> else e);
        let msg = ToLower (cleanMessagePrefix (Message e));
        e \<leftarrow> (if tag e ''event_type'' \<noteq> '''' then rewriteMessage (tag e ''event_type'') e else Some e);
        if containsAny msg [''server startup'', ''server_startup''] then relabel ''server_startup'' ''system_health'' e
        else if containsAny msg [''server ready'', ''server_ready''] then relabel ''server_ready'' ''system_health'' e
        else if containsAny msg [''modbus connection failed'', ''modbus_connection_failed'']
        then relabel_as ''modbus_connection_failed'' ''data_collection'' ''error'' e
        else if containsAny msg [''modbus connection recovered'', ''modbus_connection_recovered'']
        then relabel ''modbus_connection_recovered'' ''system_health'' e
        else if containsAny msg [''modbus_write_failed''] then relabel_as ''modbus_write_failed'' ''error'' ''error'' e
        else if containsAny msg [''unauthorized_write'']
        then relabel_as ''unauthorized_write'' ''access_control'' ''warning'' e
        else if containsAny msg [''sensitive_write_accepted'']
        then relabel ''sensitive_write_accepted'' ''sensitive_operator_action'' e
        else if containsAny msg [''opcua_write_rejected''] then relabel_as ''opcua_write_rejected'' ''error'' ''error'' e
        else if containsAny msg [''session_activated''] then relabel ''session_activated'' ''session'' e
        else if containsAny msg [''unexpected_anonymous_session'']
        then relabel_as ''unexpected_anonymous_session'' ''access_control'' ''warning'' e
        else if containsAny msg [''abnormal_session_close'']
        then relabel_as ''abnormal_session_close'' ''session'' ''warning'' e
        else if containsAny msg [''certificate_verified''] then relabel ''certificate_verified'' ''pki_lifecycle'' e
        else if containsAny msg [''pki_load_failed''] then relabel_as ''pki_load_failed'' ''pki_lifecycle'' ''critical'' e
        else Some e })"

definition applyGDSAgent :: "event \<Rightarrow> event option" where
  "applyGDSAgent e =
     (if SourceType e \<noteq> ''gds_agent'' then Some e
      else (let e = (if unnamed e then e\<lparr>AssetName := ''OT GDS Agent''\<rparr> else e);
                l = ToLower (cleanMessagePrefix (Message e))
            in if Contains l ''certificate_expiry_critical''
               then relabel_as ''certificate_expiry_critical'' ''pki_validation'' ''critical'' e
               else if Contains l ''certificate_inventory_drift_detected''
               then relabel ''certificate_inventory_drift_detected'' ''pki_validation'' e
               else if Contains l ''gds_cert_missing_runtime''
               then relabel_as ''gds_cert_missing_runtime'' ''pki_validation'' ''warning'' e
               else if Contains l ''gds_telemetry_pulled'' then do {
                 e \<leftarrow> relabel ''gds_telemetry_pulled'' ''pki_trust_sync'' e;
                 put_tag ''noise_hint'' ''sample_candidate'' e }
               else if Contains l ''sync_cycle_success'' then do {
                 e \<leftarrow> relabel ''sync_cycle_success'' ''pki_trust_sync'' e;
                 put_tag ''noise_hint'' ''rate_limit_candidate'' e }
               else if Contains l ''sync_cycle_failure''
               then relabel_as ''sync_cycle_failure'' ''gds_agent_error'' ''warning'' e
               else if Contains l ''trustlist_diff_detected''
               then relabel ''trustlist_diff_detected'' ''trustlist_diff'' e
               else if Contains l ''critical_diff_detected''
               then relabel_as ''critical_diff_detected'' ''gds_agent_error'' ''critical'' e
               else if Contains l ''ca_chain_changed'' then relabel_as ''ca_chain_changed'' ''pki_validation'' ''warning'' e
               else if Contains l ''crl_changed'' then relabel_as ''crl_changed'' ''pki_validation'' ''warning'' e
               else if Contains l ''activation_gate_ready'' then relabel ''activation_gate_ready'' ''pki_trust_sync'' e
               else if Contains l ''activation_gate_denied''
               then relabel_as ''activation_gate_denied'' ''pki_validation'' ''warning'' e
               else if Contains l ''package_runtime_activated''
               then relabel ''package_runtime_activated'' ''pki_trust_sync'' e
               else if Contains l ''revocation_dry_run_created''
               then relabel ''revocation_dry_run_created'' ''pki_validation'' e
               else Some e))"

definition applyFUXAGDSClient :: "event \<Rightarrow> event option" where
  "applyFUXAGDSClient e =
     (if SourceType e \<noteq> ''scada_gds_client'' then Some e
      else (let e = (if unnamed e then e\<lparr>AssetName := ''FUXA SCADA GDS Client''\<rparr> else e);
                e = default_ip ''192.168.1.60'' e;
                l = ToLower (cleanMessagePrefix (Message e))
            in if Contains l ''trust_signature_invalid'' then relabel_as ''trust_signature_invalid'' ''security'' ''error'' e
               else if Contains l ''crl_freshness_failed''
               then relabel_as ''crl_freshness_failed'' ''pki_lifecycle'' ''error'' e
               else if Contains l ''private_key_changed'' then relabel_as ''private_key_changed'' ''security'' ''critical'' e
               else Some e))"

section \<open>SCADA\<close>

abbreviation quote_char :: char where
  "quote_char \<equiv> CHR 0x27"

definition quotedRE :: "nat \<Rightarrow> char \<Rightarrow> re" where
  "quotedRE n q = re_seqs [RCls (\<lambda>c. c = q), RCap n (re_plus (\<lambda>c. c \<noteq> q)), RCls (\<lambda>c. c = q)]"

definition scadaLinePrefixRE :: re where
  "scadaLinePrefixRE = re_seqs [RBol, re_exactly 4 isDigit, re_lit ''-'', re_exactly 2 isDigit, re_lit ''-'',
     re_exactly 2 isDigit, re_lit ''T'', re_plus non_ws, re_plus ws, re_lit ''['', RCap 1 (re_plus word_char),
     re_lit '']'', re_plus ws]"

definition name_char :: "char \<Rightarrow> bool" where
  "name_char c \<longleftrightarrow> word_char c \<or> c = CHR '' '' \<or> c = CHR ''-''"

definition ip_char :: "char \<Rightarrow> bool" where
  "ip_char c \<longleftrightarrow> isDigit c \<or> c = CHR ''.''"

definition scadaQuotedConnectRE :: re where
  "scadaQuotedConnectRE = re_seqs [RAlt (quotedRE 1 quote_char) (RAlt (quotedRE 2 (CHR 0x22)) (RCap 3 (re_plus name_char))),
     re_plus ws, re_lit_ci ''try'', re_plus ws, re_lit_ci ''to'', re_plus ws, re_lit_ci ''connect'',
     ROpt (re_seqs [re_plus ws, re_lit_ci ''to'']), re_plus ws, RCap 4 (re_plus ip_char)]"

definition scadaQuotedConnectedRE :: re where
  "scadaQuotedConnectedRE = re_seqs [quotedRE 1 quote_char, re_plus ws, re_lit_ci ''connected!'']"

definition scadaReadMemoryErrRE :: re where
  "scadaReadMemoryErrRE = re_seqs [quotedRE 1 quote_char, re_plus ws, re_lit_ci ''_readmemory'', re_plus ws,
     re_lit_ci ''error!'']"

definition scadaECONNRefusedRE :: re where
  "scadaECONNRefusedRE = re_seqs [re_lit_ci ''connect'', re_plus ws, re_lit_ci ''econnrefused'', re_plus ws,
     RCap 1 (re_plus ip_char), re_lit '':'', RCap 2 (re_plus isDigit)]"

definition quoted_opcua :: re where
  "quoted_opcua = re_lit_ci [quote_char, CHR ''o'', CHR ''p'', CHR ''c'', CHR ''u'', CHR ''a'', quote_char]"

definition scadaOPCUASessionRE :: re where
  "scadaOPCUASessionRE = re_seqs [quoted_opcua, re_plus ws, re_lit_ci ''warning'', RStar ws, re_lit ''=>'', RStar ws,
     re_lit_ci ''session'', re_plus ws, re_lit_ci ''closed'']"

definition scadaOPCUASubscribeRE :: re where
  "scadaOPCUASubscribeRE = re_seqs [quoted_opcua, re_plus ws, re_lit_ci ''subscription'', re_plus ws,
     re_lit_ci ''created!'']"

definition scadaOPCUAConnLostRE :: re where
  "scadaOPCUAConnLostRE = re_seqs [quoted_opcua, re_plus ws, re_lit_ci ''connection'', re_plus ws, re_lit_ci ''lost!'']"

text \<open>The line prefix of FUXA: what is matched, the text for captures and the severity it suggests.\<close>

definition scada_prefix :: "string \<Rightarrow> event \<Rightarrow> string \<times> string \<times> event" where
  "scada_prefix rawClean e =
     (let l = ToLower rawClean
      in case FindStringSubmatch scadaLinePrefixRE l of
           None \<Rightarrow> (l, rawClean, e)
         | Some m \<Rightarrow>
             (let level = ToLower (group m 1)
              in (remove_matches scadaLinePrefixRE True l, remove_matches scadaLinePrefixRE True rawClean,
                  if Severity e = ''info'' then
                    (if level = ''error'' \<or> level = ''err'' then e\<lparr>Severity := ''error''\<rparr>
                     else if level = ''warn'' \<or> level = ''warning'' then e\<lparr>Severity := ''warning''\<rparr>
                     else e)
                  else e)))"

definition rule_tag :: "string \<Rightarrow> event option \<Rightarrow> event option" where
  "rule_tag rule r = do { e \<leftarrow> r; put_tag ''scada_match_rule'' rule e }"

definition first_target :: "caps \<Rightarrow> string" where
  "first_target m =
     (case filter (\<lambda>t. t \<noteq> '''') (map (\<lambda>i. TrimSpace (group m i)) [1, 2, 3]) of [] \<Rightarrow> '''' | t # _ \<Rightarrow> t)"

definition scada_connect :: "string \<Rightarrow> event \<Rightarrow> event option" where
  "scada_connect rawNoPrefix e = do {
     e \<leftarrow> (if Message e \<noteq> ''scada_plc_connection_attempt'' then do {
             e \<leftarrow> put_tag ''original_message'' (TrimSpace rawNoPrefix) e;
             Some (e\<lparr>Message := ''scada_plc_connection_attempt''\<rparr>) }
           else Some e);
     e \<leftarrow> put_tag ''scada_match_rule'' ''plc_connection_attempt'' e;
     let e = e\<lparr>EventCategory := ''data_collection''\<rparr>;
     case FindStringSubmatch scadaQuotedConnectRE rawNoPrefix of
       None \<Rightarrow> Some e
     | Some m \<Rightarrow> do {
         e \<leftarrow> (if first_target m \<noteq> '''' then put_tag ''target'' (first_target m) e else Some e);
         put_tag ''target_ip'' (TrimSpace (group m 4)) e } }"

definition scada_connected :: "string \<Rightarrow> event \<Rightarrow> event option" where
  "scada_connected rawNoPrefix e = do {
     let m = FindStringSubmatch scadaQuotedConnectedRE rawNoPrefix;
     let target = (case m of None \<Rightarrow> '''' | Some m \<Rightarrow> TrimSpace (group m 1));
     e \<leftarrow> (case m of None \<Rightarrow> Some e | Some _ \<Rightarrow> put_tag ''target'' target e);
     e \<leftarrow> (if EqualFold target ''opcua'' then rule_tag ''opcua_connected'' (rewriteMessage ''scada_opcua_connected'' e)
           else rule_tag ''plc_connected'' (rewriteMessage ''scada_plc_connected'' e));
     Some (e\<lparr>EventCategory := ''data_collection''\<rparr>) }"

definition scada_read_error :: "string \<Rightarrow> event \<Rightarrow> event option" where
  "scada_read_error rawNoPrefix e = do {
     e \<leftarrow> rule_tag ''plc_read_memory_error'' (relabel ''scada_plc_read_memory_error'' ''data_collection'' e);
     let e = raise_info ''error'' e;
     case FindStringSubmatch scadaReadMemoryErrRE rawNoPrefix of
       None \<Rightarrow> Some e | Some m \<Rightarrow> put_tag ''target'' (TrimSpace (group m 1)) e }"

definition scada_refused :: "string \<Rightarrow> event \<Rightarrow> event option" where
  "scada_refused rawNoPrefix e = do {
     e \<leftarrow> rule_tag ''plc_connection_refused'' (relabel_as ''scada_plc_connection_refused'' ''data_collection'' ''error'' e);
     case FindStringSubmatch scadaECONNRefusedRE rawNoPrefix of
       None \<Rightarrow> Some e
     | Some m \<Rightarrow> do {
         e \<leftarrow> put_tag ''target_ip'' (TrimSpace (group m 1)) e;
         put_tag ''target_port'' (TrimSpace (group m 2)) e } }"

definition scada_switch :: "string \<Rightarrow> string \<Rightarrow> event \<Rightarrow> event option" where
  "scada_switch l rawNoPrefix e =
     (if Contains l ''fuxa started'' then rule_tag ''runtime_started'' (relabel ''scada_runtime_started'' ''system_health'' e)
      else if MatchString scadaReadMemoryErrRE l then scada_read_error rawNoPrefix e
      else if MatchString scadaQuotedConnectRE l then scada_connect rawNoPrefix e
      else if MatchString scadaQuotedConnectedRE l then scada_connected rawNoPrefix e
      else if Contains l ([quote_char] @ ''plc1'' @ [quote_char] @ '' connected'') then do {
        e \<leftarrow> rule_tag ''plc1_connected_legacy'' (relabel ''scada_plc_connected'' ''data_collection'' e);
        put_tag ''target'' ''PLC1'' e }
      else if MatchString scadaOPCUASubscribeRE l \<or>
              Contains l ([quote_char] @ ''opcua'' @ [quote_char] @ '' subscription created'') then do {
        e \<leftarrow> rule_tag ''opcua_subscription_created'' (relabel ''scada_opcua_subscription_created'' ''data_collection'' e);
        put_tag ''target'' ''opcua'' e }
      else if MatchString scadaOPCUAConnLostRE l then do {
        e \<leftarrow> rule_tag ''opcua_connection_lost'' (relabel_as ''scada_opcua_connection_lost'' ''data_collection'' ''error'' e);
        e \<leftarrow> put_tag ''target'' ''opcua'' e;
        put_tag ''alert_candidate'' ''true'' e }
      else if MatchString scadaOPCUASessionRE l then do {
        e \<leftarrow> rule_tag ''opcua_session_closed'' (relabel_as ''scada_opcua_session_closed'' ''data_collection'' ''warning'' e);
        put_tag ''target'' ''opcua'' e }
      else if MatchString scadaECONNRefusedRE l then scada_refused rawNoPrefix e
      else if containsAny l [''working (connection || polling) overload'', ''polling overload''] then do {
        e \<leftarrow> rule_tag ''polling_overload'' (relabel_as ''scada_polling_overload'' ''data_collection'' ''warning'' e);
        put_tag ''noise_hint'' ''sample_candidate'' e }
      else if containsAny l [''load.script'', ''script load error'']
      then rule_tag ''script_load_error'' (relabel_as ''scada_script_load_error'' ''error'' ''error'' e)
      else if containsAny l [''connection_break'', ''opcua connection break'']
      then rule_tag ''opcua_connection_break'' (relabel_as ''scada_opcua_connection_break'' ''pki_validation'' ''warning'' e)
      else if containsAny l [''san mismatch'', ''node-opcua-w06'']
      then rule_tag ''opcua_certificate_san_mismatch''
             (relabel_as ''scada_opcua_certificate_san_mismatch'' ''pki_validation'' ''warning'' e)
      else if containsAny l [''runtime.update-project: restart'', ''runtime restart'']
      then rule_tag ''runtime_restart'' (relabel ''scada_runtime_restart'' ''project_activity'' e)
      else if containsAny l [''settings updated'', ''server settings changed'']
      then rule_tag ''settings_updated'' (relabel ''scada_settings_updated'' ''operator_action'' e)
      else if Contains l ''user created'' then rule_tag ''user_created'' (relabel ''scada_user_created'' ''access_control'' e)
      else if containsAny l [''connection timeout'', ''transaction timeout'']
      then rule_tag ''connection_timeout'' (relabel_as ''scada_connection_timeout'' ''data_collection'' ''warning'' e)
      else if Contains l ''validation ping'' then do {
        e \<leftarrow> rule_tag ''validation_ping'' (Some e);
        e \<leftarrow> put_tag ''test_event'' ''true'' e;
        put_tag ''noise_hint'' ''drop_candidate'' e }
      else Some e)"

definition scada_noise :: "string list" where
  "scada_noise = [''scada_api_heartbeat'', ''scada_forwarder_heartbeat'', ''daqstorage'', ''plugin-installed'',
     ''scada_socket_client_connected'']"

definition applySCADA :: "event \<Rightarrow> event option" where
  "applySCADA e =
     (if SourceType e \<noteq> ''scada'' then Some e
      else do {
        let e = (if unnamed e then e\<lparr>AssetName := ''FUXA SCADA''\<rparr> else e);
        let e = default_ip ''192.168.1.60'' e;
        let (l, rawNoPrefix, e) = scada_prefix (cleanMessagePrefix (Message e)) e;
        e \<leftarrow> scada_switch l rawNoPrefix e;
        if containsAny (Message e) scada_noise then put_tag ''noise_hint'' ''sample_candidate'' e else Some e })"

section \<open>Apply\<close>

definition fill_defaults :: "Context \<Rightarrow> event \<Rightarrow> event" where
  "fill_defaults ctx e =
     e\<lparr>AssetIP := (if AssetIP e = '''' then ctx_SourceIP ctx else AssetIP e),
       Message := (if Message e = '''' then ''unknown_event'' else Message e),
       EventCategory := (if EventCategory e = '''' then ''system'' else EventCategory e),
       SourceType := (if SourceType e = '''' then ''unknown'' else SourceType e),
       AssetName := (if AssetName e = '''' then ''unknown'' else AssetName e),
       Severity := (if Severity e = '''' then ''info'' else Severity e)\<rparr>"

definition apply_sources :: "event \<Rightarrow> event option" where
  "apply_sources e = do {
     e \<leftarrow> applyFirewall e;
     e \<leftarrow> applyPLC e;
     e \<leftarrow> applySCADA e;
     e \<leftarrow> applyEWS e;
     e \<leftarrow> applyOPCUA e;
     e \<leftarrow> applyGDSAgent e;
     applyFUXAGDSClient e }"

definition Apply :: "Context \<Rightarrow> event \<Rightarrow> event option" where
  "Apply ctx e = do {
     e \<leftarrow> ensureBaseTags e;
     e \<leftarrow> normalizeSeverity (canonicalizeSourceIdentity ctx e);
     e \<leftarrow> apply_sources e;
     e \<leftarrow> setSourcetype e;
     e \<leftarrow> markAlertCandidate e;
     e \<leftarrow> setDecisionHint e;
     Some (fill_defaults ctx e) }"

end
