(* ===== verification/Source_Facts.thy ===== *)
theory Source_Facts
  imports Source_Normalizers
begin

text \<open>
  What every normaliser leaves alone (the frame rules of \<open>Event\<close>), and what \<open>Apply\<close> guarantees.
\<close>

definition source_keys :: "string set" where
  "source_keys = {''original_severity'', ''action'', ''original_message'', ''source_ip'', ''destination_ip'',
     ''plc_user'', ''noise_hint'', ''scada_match_rule'', ''target'', ''target_ip'', ''target_port'',
     ''alert_candidate'', ''test_event'', ''splunk_sourcetype'', ''collector_decision_hint''}"

definition base_keys :: "string set" where
  "base_keys = {''parser_version'', ''normalized'', ''normalization_source'', ''siem_index_hint''}"

lemma source_key_members [simp]:
  "''original_severity'' \<in> source_keys" "''action'' \<in> source_keys" "''original_message'' \<in> source_keys"
  "''source_ip'' \<in> source_keys" "''destination_ip'' \<in> source_keys" "''plc_user'' \<in> source_keys"
  "''noise_hint'' \<in> source_keys" "''scada_match_rule'' \<in> source_keys" "''target'' \<in> source_keys"
  "''target_ip'' \<in> source_keys" "''target_port'' \<in> source_keys" "''alert_candidate'' \<in> source_keys"
  "''test_event'' \<in> source_keys" "''splunk_sourcetype'' \<in> source_keys"
  "''collector_decision_hint'' \<in> source_keys"
  by (simp_all add: source_keys_def)

text \<open>No step panics on allocated tags, and each stays inside the frame.\<close>

abbreviation kept :: "event \<Rightarrow> event option \<Rightarrow> bool" where
  "kept \<equiv> keeps source_keys"

lemma kept_rewriteMessage [frame_intros]: "same_except source_keys e e' \<Longrightarrow> kept e (rewriteMessage m e')"
  unfolding rewriteMessage_def Let_def by (intro frame_intros) simp_all

lemma kept_relabel [frame_intros]: "same_except source_keys e e' \<Longrightarrow> kept e (relabel m c e')"
  unfolding relabel_def by (intro frame_intros) simp_all

lemma kept_relabel_as [frame_intros]: "same_except source_keys e e' \<Longrightarrow> kept e (relabel_as m c s e')"
  unfolding relabel_as_def by (intro frame_intros) simp_all

lemma kept_rule_tag [frame_intros]: "kept e r \<Longrightarrow> kept e (rule_tag t r)"
  unfolding rule_tag_def by (intro frame_intros) simp_all

lemma same_except_steps [simp]:
  "same_except K e (default_ip ip e') = same_except K e e'"
  "same_except K e (raise_info s e') = same_except K e e'"
  "same_except K e (plc_name e') = same_except K e e'"
  by (simp_all add: default_ip_def raise_info_def plc_name_def)

lemma kept_case_option [frame_intros]:
  "(x = None \<Longrightarrow> kept e r) \<Longrightarrow> (\<And>y. x = Some y \<Longrightarrow> kept e (s y)) \<Longrightarrow> kept e (case x of None \<Rightarrow> r | Some y \<Rightarrow> s y)"
  by (cases x) auto

lemma kept_copy_tag: "same_except source_keys e e' \<Longrightarrow> j \<in> source_keys \<Longrightarrow> kept e (copy_tag k j e')"
  unfolding copy_tag_def by (intro frame_intros) simp_all

lemma kept_applyFirewall [frame_intros]: "same_except source_keys e e' \<Longrightarrow> kept e (applyFirewall e')"
  unfolding applyFirewall_def Let_def by (intro frame_intros kept_copy_tag) simp_all

lemma kept_applyPLC [frame_intros]: "same_except source_keys e e' \<Longrightarrow> kept e (applyPLC e')"
  unfolding applyPLC_def Let_def by (intro frame_intros) simp_all

lemma kept_applyEWS [frame_intros]: "same_except source_keys e e' \<Longrightarrow> kept e (applyEWS e')"
  unfolding applyEWS_def Let_def by (intro frame_intros) simp_all

lemma kept_applyOPCUA [frame_intros]: "same_except source_keys e e' \<Longrightarrow> kept e (applyOPCUA e')"
  unfolding applyOPCUA_def Let_def by (intro frame_intros) simp_all

lemma kept_applyGDSAgent [frame_intros]: "same_except source_keys e e' \<Longrightarrow> kept e (applyGDSAgent e')"
  unfolding applyGDSAgent_def Let_def by (intro frame_intros) simp_all

lemma kept_applyFUXAGDSClient [frame_intros]: "same_except source_keys e e' \<Longrightarrow> kept e (applyFUXAGDSClient e')"
  unfolding applyFUXAGDSClient_def Let_def by (intro frame_intros) simp_all

lemma kept_scada_parts [frame_intros]:
  assumes "same_except source_keys e e'"
  shows "kept e (scada_connect r e')" "kept e (scada_connected r e')" "kept e (scada_read_error r e')"
    "kept e (scada_refused r e')"
  unfolding scada_connect_def scada_connected_def scada_read_error_def scada_refused_def Let_def
  by (intro frame_intros; use assms in simp)+

lemma kept_scada_switch [frame_intros]: "same_except source_keys e e' \<Longrightarrow> kept e (scada_switch l r e')"
  unfolding scada_switch_def by (intro frame_intros) simp_all

lemma scada_prefix_frame:
  "scada_prefix raw e' = (l, r, e'') \<Longrightarrow> same_except K e e'' = same_except K e e'"
  by (auto simp: scada_prefix_def Let_def split: option.splits if_splits)

lemma kept_applySCADA [frame_intros]:
  assumes "same_except source_keys e e'"
  shows "kept e (applySCADA e')"
proof -
  let ?e = "default_ip ''192.168.1.60'' (if unnamed e' then e'\<lparr>AssetName := ''FUXA SCADA''\<rparr> else e')"
  obtain l r e2 where p: "scada_prefix (cleanMessagePrefix (Message ?e)) ?e = (l, r, e2)"
    by (metis prod_cases3)
  have "same_except source_keys e e2" using scada_prefix_frame [OF p] assms by simp
  then show ?thesis
    unfolding applySCADA_def Let_def p split by (intro frame_intros) (use assms in simp_all)
qed

lemma kept_apply_sources [frame_intros]: "same_except source_keys e e' \<Longrightarrow> kept e (apply_sources e')"
  unfolding apply_sources_def by (intro frame_intros) simp_all

lemma kept_tail [frame_intros]:
  assumes "same_except source_keys e e'"
  shows "kept e (setSourcetype e')" "kept e (markAlertCandidate e')" "kept e (setDecisionHint e')"
    "kept e (normalizeSeverity e')"
  unfolding setSourcetype_def markAlertCandidate_def setDecisionHint_def normalizeSeverity_def Let_def
  by (intro frame_intros; use assms in simp)+

text \<open>The parts of \<open>Apply\<close> before and after the frame.\<close>

lemma ensureBaseTags_result:
  obtains e' where "ensureBaseTags e = Some e'" and "Tags e' \<noteq> None" and "same_evidence e e'"
    and "tag_lookup e' |` (- base_keys) = tag_lookup e |` (- base_keys)"
    and "tag e' ''normalized'' = ''true''" and "tag e' ''parser_version'' = parserVersion"
    and "tag e' ''normalization_source'' = ''logs_by_sources_md''" and "tag e' ''siem_index_hint'' = ''ot_security''"
    and "SourceType e' = SourceType e" and "Message e' = Message e" and "AssetIP e' = AssetIP e"
proof -
  define m where "m = (case Tags e of None \<Rightarrow> [] | Some m \<Rightarrow> m)"
  define m' where "m' = gput ''siem_index_hint'' ''ot_security'' (gput ''normalization_source'' ''logs_by_sources_md''
    (gput ''normalized'' ''true'' (gput ''parser_version'' parserVersion m)))"
  have r: "ensureBaseTags e = Some (e\<lparr>Tags := Some m'\<rparr>)"
    by (cases "Tags e") (simp_all add: ensureBaseTags_def m_def m'_def)
  have l: "(case Tags e of None \<Rightarrow> None | Some t \<Rightarrow> map_of t k) = map_of m k" for k
    by (simp add: m_def split: option.split)
  show ?thesis
    by (rule that [OF r]) (auto simp: tag_def m'_def tag_lookup_def l base_keys_def restrict_map_def fun_eq_iff
        simp del: not_None_eq)
qed

lemma canonical_frame:
  "same_evidence e (canonicalizeSourceIdentity ctx e)" "Tags (canonicalizeSourceIdentity ctx e) = Tags e"
  by (simp_all add: canonicalizeSourceIdentity_def Let_def)

lemma fill_defaults_frame [simp]:
  "same_evidence e (fill_defaults ctx e') = same_evidence e e'" "Tags (fill_defaults ctx e) = Tags e"
  "tag (fill_defaults ctx e) k = tag e k" "tag_lookup (fill_defaults ctx e) = tag_lookup e"
  by (simp_all add: fill_defaults_def same_evidence_def tag_def tag_lookup_def fun_eq_iff)

lemma fill_defaults_filled:
  "Message (fill_defaults ctx e) \<noteq> ''''" "EventCategory (fill_defaults ctx e) \<noteq> ''''"
  "SourceType (fill_defaults ctx e) \<noteq> ''''" "AssetName (fill_defaults ctx e) \<noteq> ''''"
  "Severity (fill_defaults ctx e) \<noteq> ''''"
  by (simp_all add: fill_defaults_def)

lemma same_except_tag: "same_except K e e' \<Longrightarrow> k \<notin> K \<Longrightarrow> tag e' k = tag e k"
proof -
  assume a: "same_except K e e'" "k \<notin> K"
  then have "(tag_lookup e' |` (- K)) k = (tag_lookup e |` (- K)) k" by (simp add: same_except_def)
  with a(2) have "tag_lookup e' k = tag_lookup e k" by simp
  then show ?thesis by (auto simp: tag_def tag_lookup_def gget_def split: option.splits)
qed

lemma base_not_source:
  "''normalized'' \<notin> source_keys" "''parser_version'' \<notin> source_keys" "''normalization_source'' \<notin> source_keys"
  "''siem_index_hint'' \<notin> source_keys"
  by (simp_all add: source_keys_def)

lemma re_needs_members [simp]:
  "re_needs P (re_lit s) = list_ex P s" "re_needs P (re_plus p) = (\<forall>c. p c \<longrightarrow> P c)"
  by (induction s) (auto simp: re_lit_def re_plus_def)

lemma FindStringSubmatch_needs: "re_needs P r \<Longrightarrow> (\<forall>c \<in> set s. \<not> P c) \<Longrightarrow> FindStringSubmatch r s = None"
  by (simp add: FindStringSubmatch_def re_find_needs_None)

lemma cleanMessagePrefix_plain:
  assumes "CHR ''<'' \<notin> set s" shows "cleanMessagePrefix s = TrimSpace s"
proof -
  have "set (TrimSpace s) \<subseteq> set s"
    by (auto simp: TrimSpace_def trim_with_def dest!: set_dropWhileD)
  then have "\<forall>c \<in> set (TrimSpace s). c \<noteq> CHR ''<''" using assms by blast
  then have "re_find syslogPrefixRE True (TrimSpace s) = None"
    by (intro re_find_needs_None [of "\<lambda>c. c = CHR ''<''"]) (simp_all add: syslogPrefixRE_def)
  then show ?thesis by (simp add: cleanMessagePrefix_def remove_matches_None)
qed

text \<open>
  The user of a PLC login is looked for in the message after its rewriting, where it no longer is:
  the tag is never written. The prefix of a SCADA line asks for a capital T in a text that has just
  been lowered: it is never found, and the severity in it never used.
\<close>

lemma plc_user_never_set:
  "map_option (\<lambda>out. tag_lookup out ''plc_user'') (applyPLC e) \<in> {None, Some (tag_lookup e ''plc_user'')}"
proof -
  have w: "tag_lookup out ''plc_user'' = tag_lookup e' ''plc_user'' \<and> Message out = m"
    if "relabel_as m c s e' = Some out" "TrimSpace m = m" "m \<noteq> ''''" for out m c s e'
    using that
    by (auto simp: relabel_as_def relabel_def rewriteMessage_def Let_def put_tag_eq_Some tag_lookup_put
        bind_Some_iff split: if_splits)
  have c: "cleanMessagePrefix ''plc_login_success'' = ''plc_login_success''"
    by (subst cleanMessagePrefix_plain) (simp, code_simp)
  have f: "FindStringSubmatch plcUserRE ''plc_login_success'' = None"
    by (rule FindStringSubmatch_needs [of "\<lambda>c. c = quote_char"]) (simp_all add: plcUserRE_def)
  have n: "tag_lookup (plc_name e) = tag_lookup e" by (simp add: plc_name_def)
  have t: "TrimSpace ''plc_login_attempt'' = ''plc_login_attempt''" "TrimSpace ''plc_login_success'' = ''plc_login_success''"
    "TrimSpace ''plc_user_logout'' = ''plc_user_logout''" "TrimSpace ''plc_started'' = ''plc_started''"
    "TrimSpace ''plc_stopped'' = ''plc_stopped''" by code_simp+
  show ?thesis
    by (cases "applyPLC e")
      (auto simp: applyPLC_def Let_def bind_Some_iff c f n t split: if_splits dest!: w)
qed

lemma scada_prefix_never_matches: "scada_prefix raw e = (ToLower raw, raw, e)"
proof -
  have l: "lower_char c \<noteq> CHR ''T''" for c by (cases c) auto
  have "FindStringSubmatch scadaLinePrefixRE (ToLower raw) = None"
    by (rule FindStringSubmatch_needs [of "\<lambda>c. c = CHR ''T''"])
      (auto simp: scadaLinePrefixRE_def ToLower_def l)
  then show ?thesis by (simp add: scada_prefix_def Let_def)
qed

definition canonical_source :: "Context \<Rightarrow> event \<Rightarrow> string" where
  "canonical_source ctx e = SourceType (canonicalizeSourceIdentity ctx e)"

lemma Apply_result:
  "\<exists>out. Apply ctx e = Some out \<and> same_evidence e out \<and>
     tag_lookup out |` (- (base_keys \<union> source_keys)) = tag_lookup e |` (- (base_keys \<union> source_keys)) \<and>
     tag out ''normalized'' = ''true'' \<and> tag out ''parser_version'' = parserVersion \<and>
     tag out ''normalization_source'' = ''logs_by_sources_md'' \<and> tag out ''siem_index_hint'' = ''ot_security'' \<and>
     SourceType out = (if canonical_source ctx e = '''' then ''unknown'' else canonical_source ctx e) \<and>
     Message out \<noteq> '''' \<and> EventCategory out \<noteq> '''' \<and> AssetName out \<noteq> '''' \<and> Severity out \<noteq> ''''"
proof -
  obtain b where b: "ensureBaseTags e = Some b" "Tags b \<noteq> None" "same_evidence e b"
    "tag_lookup b |` (- base_keys) = tag_lookup e |` (- base_keys)"
    "tag b ''normalized'' = ''true''" "tag b ''parser_version'' = parserVersion"
    "tag b ''normalization_source'' = ''logs_by_sources_md''" "tag b ''siem_index_hint'' = ''ot_security''"
    "SourceType b = SourceType e" "Message b = Message e" "AssetIP b = AssetIP e"
    by (rule ensureBaseTags_result [of e])
  let ?c = "canonicalizeSourceIdentity ctx b"
  have c: "same_evidence e ?c" "Tags ?c = Tags b" "SourceType ?c = canonical_source ctx e"
    using canonical_frame(1) [of b ctx] canonical_frame(2) [of ctx b] same_evidence_trans [OF b(3)] b(9,10)
    by (auto simp: canonical_source_def canonicalizeSourceIdentity_def Let_def)
  have "kept ?c (do { e \<leftarrow> normalizeSeverity ?c; e \<leftarrow> apply_sources e; e \<leftarrow> setSourcetype e;
      e \<leftarrow> markAlertCandidate e; setDecisionHint e })"
    using b(2) c(2) by (intro frame_intros) (simp_all add: same_except_refl)
  then obtain d where d: "do { e \<leftarrow> normalizeSeverity ?c; e \<leftarrow> apply_sources e; e \<leftarrow> setSourcetype e;
      e \<leftarrow> markAlertCandidate e; setDecisionHint e } = Some d" "same_except source_keys ?c d"
    by (auto simp: keeps_def)
  then have a: "Apply ctx e = Some (fill_defaults ctx d)"
    by (auto simp: Apply_def b(1) bind_Some_iff)
  have t: "tag d k = tag b k" if "k \<notin> source_keys" for k
    using same_except_tag [OF d(2) that] c(2) by (simp add: tag_def)
  have l: "tag_lookup ?c = tag_lookup b" using c(2) by (simp add: tag_lookup_def fun_eq_iff)
  have "tag_lookup d |` (- (base_keys \<union> source_keys)) = (tag_lookup d |` (- source_keys)) |` (- base_keys)"
    by (simp add: Int_commute)
  also have "\<dots> = (tag_lookup b |` (- base_keys)) |` (- source_keys)"
    using d(2) by (simp add: same_except_def l Int_commute)
  also have "\<dots> = tag_lookup e |` (- (base_keys \<union> source_keys))" by (simp add: b(4) Int_commute)
  finally have tl: "tag_lookup d |` (- (base_keys \<union> source_keys)) = tag_lookup e |` (- (base_keys \<union> source_keys))" .
  have ev: "same_evidence e d" using c(1) d(2) same_evidence_trans by (auto simp: same_except_def)
  have st: "SourceType d = canonical_source ctx e" using d(2) c(3) by (simp add: same_except_def)
  have sd: "SourceType (fill_defaults ctx d) =
      (if canonical_source ctx e = '''' then ''unknown'' else canonical_source ctx e)"
    using st by (simp add: fill_defaults_def)
  show ?thesis
    unfolding a
    by (rule exI, intro conjI, rule refl)
      (simp_all only: fill_defaults_frame ev tl t base_not_source b fill_defaults_filled sd not_False_eq_True)
qed

section \<open>Properties\<close>

text \<open>C19: Normalisation never panics, whatever the event and the parsed line, even when the event has
  no tag map. Identifier, times, zone, protocol and raw text are untouched, every tag outside the
  fixed list of keys the normalisers own is kept as it was, the base tags are set, the source type is
  the canonical one, and no classification field is left empty.\<close>

theorem normalisation_is_total_and_keeps_evidence:
  "\<exists>out. Apply ctx e = Some out \<and> same_evidence e out \<and>
     tag_lookup out |` (- (base_keys \<union> source_keys)) = tag_lookup e |` (- (base_keys \<union> source_keys)) \<and>
     tag out ''normalized'' = ''true'' \<and> tag out ''parser_version'' = parserVersion \<and>
     tag out ''normalization_source'' = ''logs_by_sources_md'' \<and> tag out ''siem_index_hint'' = ''ot_security'' \<and>
     SourceType out = (if canonical_source ctx e = '''' then ''unknown'' else canonical_source ctx e) \<and>
     Message out \<noteq> '''' \<and> EventCategory out \<noteq> '''' \<and> AssetName out \<noteq> '''' \<and> Severity out \<noteq> ''''"
  by (rule Apply_result)

end
