(* ===== verification/Go_Float_Text.thy ===== *)
theory Go_Float_Text
  imports Go_Float Go_Json
begin

text \<open>
  JSON numbers as float64 values and their text under \<open>%v\<close>: the shortest decimal that reads back
  as the same float, in exponent form when the decimal exponent is below -4 or at least 6. A float
  is a sign and a magnitude.
\<close>

section \<open>Reading a literal\<close>

definition literal_sign :: "string \<Rightarrow> bool" where
  "literal_sign s = (case s of c # _ \<Rightarrow> c = CHR ''-'' | [] \<Rightarrow> False)"

text \<open>The exact magnitude of a literal of the JSON grammar.\<close>

definition literal_value :: "string \<Rightarrow> rat" where
  "literal_value s =
     (let s1 = (if literal_sign s then tl s else s);
          (ip, s2) = digits_of s1;
          (dot, s3) = take_if (\<lambda>c. c = CHR ''.'') s2;
          (fp, s4) = (if dot = [] then ([], s3) else digits_of s3);
          (e, s5) = take_if (\<lambda>c. c = CHR ''e'' \<or> c = CHR ''E'') s4;
          (es, s6) = take_if (\<lambda>c. c = CHR ''+'' \<or> c = CHR ''-'') s5;
          x = digits_val 0 (fst (digits_of s6));
          m = of_nat (digits_val 0 (ip @ fp)) / 10 ^ length fp
      in if es = ''-'' then m / 10 ^ x else m * 10 ^ x)"

text \<open>\<open>strconv.ParseFloat\<close>: \<open>None\<close> when the value is out of range.\<close>

definition parse_float :: "string \<Rightarrow> (bool \<times> rat) option" where
  "parse_float s = map_option (\<lambda>v. (literal_sign s, v)) (f64 (literal_value s))"

section \<open>Writing a float\<close>

definition pow10 :: "int \<Rightarrow> rat" where
  "pow10 e = (if 0 \<le> e then 10 ^ nat e else 1 / 10 ^ nat (- e))"

text \<open>The decimal exponent: \<open>10^(k-1) \<le> q < 10^k\<close>.\<close>

definition decimal_exponent :: "rat \<Rightarrow> int" where
  "decimal_exponent q =
     (if 1 \<le> q then int (length (Itoa (nat \<lfloor>q\<rfloor>)))
      else 1 - int (length (Itoa (nat (\<lceil>1 / q\<rceil> - 1)))))"

text \<open>Of the decimals with \<open>n\<close> digits on either side, the nearest that reads back as \<open>q\<close>.\<close>

definition decimal_candidate :: "rat \<Rightarrow> nat \<Rightarrow> (int \<times> int) option" where
  "decimal_candidate q n =
     (let k = decimal_exponent q - int n; u = pow10 k; lo = \<lfloor>q / u\<rfloor>; hi = \<lceil>q / u\<rceil>;
          ok = (\<lambda>c. f64 (of_int c * u) = Some q);
          near = round_half_even (q / u)
      in if ok near then Some (near, k) else if ok lo then Some (lo, k) else if ok hi then Some (hi, k) else None)"

fun first_candidate :: "rat \<Rightarrow> nat list \<Rightarrow> int \<times> int" where
  "first_candidate q [] = (round_half_even (q / pow10 (decimal_exponent q - 17)), decimal_exponent q - 17)"
| "first_candidate q (n # ns) = (case decimal_candidate q n of Some c \<Rightarrow> c | None \<Rightarrow> first_candidate q ns)"

text \<open>Digits without trailing zeros and the position of the decimal point.\<close>

definition shortest_digits :: "rat \<Rightarrow> string \<times> int" where
  "shortest_digits q =
     (if q = 0 then ([], 0)
      else (let (c, k) = first_candidate q [1 ..< 18]; ds = Itoa (nat c)
            in (rev (dropWhile (\<lambda>d. d = CHR ''0'') (rev ds)), int (length ds) + k)))"

definition exponent_text :: "int \<Rightarrow> string" where
  "exponent_text e =
     (let ds = Itoa (nat \<bar>e\<bar>)
      in (if e < 0 then ''-'' else ''+'') @ (if length ds < 2 then ''0'' @ ds else ds))"

definition float_e :: "string \<Rightarrow> int \<Rightarrow> string" where
  "float_e ds dp =
     take 1 ds @ (if length ds \<le> 1 then '''' else ''.'' @ drop 1 ds) @ ''e'' @ exponent_text (dp - 1)"

definition zeros :: "nat \<Rightarrow> string" where
  "zeros n = replicate n (CHR ''0'')"

definition float_f :: "string \<Rightarrow> int \<Rightarrow> string" where
  "float_f ds dp =
     (if dp \<le> 0 then ''0'' @ (if ds = [] then '''' else ''.'' @ zeros (nat (- dp)) @ ds)
      else if int (length ds) \<le> dp then ds @ zeros (nat dp - length ds)
      else take (nat dp) ds @ ''.'' @ drop (nat dp) ds)"

definition float_text :: "bool \<times> rat \<Rightarrow> string" where
  "float_text = (\<lambda>(neg, q).
     (let (ds, dp) = shortest_digits q
      in (if neg then ''-'' else '''') @
         (if dp - 1 < - 4 \<or> 6 \<le> dp - 1 then float_e ds dp else float_f ds dp)))"

end
