(* ===== verification/Opcua_Patterns.thy ===== *)
theory Opcua_Patterns
  imports Go_Regexp
begin

text \<open>
  Classification of free-text messages (\<open>internal/normalizer/patterns.go\<close>): severity, category,
  the tags of OPC UA messages and the key=value pairs in them.
\<close>

definition keyValueRE :: re where
  "keyValueRE = re_seqs [RCap 1 (re_plus (\<lambda>c. is_upper c \<or> is_lower c \<or> c = CHR ''_'')), re_lit ''='',
     RCap 2 (RAlt (re_seqs [RCls (\<lambda>c. c = CHR 0x22), RCap 3 (RStar (\<lambda>c. c \<noteq> CHR 0x22)), RCls (\<lambda>c. c = CHR 0x22)])
                  (re_plus non_ws))]"

definition classifyOPCUASeverity :: "string \<Rightarrow> string option" where
  "classifyOPCUASeverity msg =
     (let u = ToUpper msg; l = ToLower msg
      in if Contains u ''[ERROR]'' then Some ''error''
         else if Contains u ''[SHUTDOWN]'' \<or> Contains u ''[STARTUP]'' then Some ''info''
         else if Contains u ''[SECURITY]'' \<or>
                 containsAny l [''rejected connection'', ''rejected'', ''unauthorized'', ''denied'', ''invalid certificate'']
         then Some ''warning''
         else if containsAny l [''authentication failed'', ''bad user''] then Some ''error''
         else if Contains u ''[CMD]'' \<and> containsAny u [''MODE=PULSE'', ''MODE=MAINTAINED''] then
           (if containsAny l [''protected tag'', ''safety tag'', ''emergency'', ''reset'', ''unauthorized'', ''guest'', ''failed'']
            then Some ''warning'' else Some ''info'')
         else if containsAny l [''protected tag'', ''safety tag'', ''emergency'', ''reset''] then Some ''warning''
         else None)"

definition severity_of_number :: "int option \<Rightarrow> string" where
  "severity_of_number sevNum =
     (case sevNum of
        None \<Rightarrow> ''info''
      | Some n \<Rightarrow>
          if n = 0 \<or> n = 1 \<or> n = 2 then ''critical''
          else if n = 3 then ''error''
          else if n = 4 then ''warning''
          else if n = 5 \<or> n = 6 then ''info''
          else if n = 7 then ''debug''
          else ''info'')"

definition classifySeverity :: "string \<Rightarrow> int option \<Rightarrow> string" where
  "classifySeverity msg sevNum =
     (case classifyOPCUASeverity msg of
        Some sev \<Rightarrow> sev
      | None \<Rightarrow>
          (let m = ToLower msg
           in if Contains m ''[critical]'' \<or> Contains m ''fatal'' \<or> Contains m ''critical'' then ''critical''
              else if Contains m ''[error]'' \<or> Contains m '' error'' then ''error''
              else if Contains m ''[warn]'' \<or> Contains m ''warning'' \<or> Contains m '' warn'' then ''warning''
              else if Contains m ''[debug]'' \<or> Contains m ''debug'' then ''debug''
              else if Contains m ''[info]'' \<or> Contains m '' info'' then ''info''
              else severity_of_number sevNum))"

definition isOPCUAMessage :: "string \<Rightarrow> bool" where
  "isOPCUAMessage msg \<longleftrightarrow> Contains (ToUpper msg) ''[OPCUA]''"

definition classifyOPCUACategory :: "string \<Rightarrow> string" where
  "classifyOPCUACategory msg =
     (let u = ToUpper msg; l = ToLower msg
      in if Contains u ''[READ][CMD]'' then ''operator_read''
         else if Contains u ''[WRITE][CMD]'' then ''operator_write''
         else if Contains u ''[CMD]'' then ''operator_action''
         else if Contains u ''[SESSION]'' then ''network''
         else if Contains u ''[SECURITY]'' then ''security''
         else if Contains u ''[STARTUP]'' \<or> Contains u ''[SHUTDOWN]'' then ''runtime''
         else if Contains u ''[ERROR]'' then
           (if containsAny l [''rejected'', ''unauthorized'', ''invalid certificate'', ''bad user'', ''denied''] then ''security''
            else if containsAny l [''timeout'', ''disconnected'', ''connection failed''] then ''communication''
            else ''system'')
         else if containsAny l [''rejected connection''] then ''security''
         else if containsAny l [''client session created'', ''client session closed''] then ''network''
         else ''system'')"

definition classifyCategory :: "string \<Rightarrow> string" where
  "classifyCategory msg =
     (if isOPCUAMessage msg then classifyOPCUACategory msg
      else (let m = ToLower msg
            in if containsAny m [''failed login'', ''unauthorized'', ''protected tag'', ''illegal data address'',
                    ''illegal function'', ''rejected connection'', ''rejected'', ''invalid command'']
               then ''security''
               else if containsAny m [''user '', '' wrote value'', ''set tag'', '' command'', ''operator'']
               then ''operator_action''
               else if containsAny m [''timeout'', ''retry'', ''max retry'', ''connection failed'', ''polling error'']
               then ''communication''
               else if containsAny m [''client accepted'', ''client connected'', ''new client connected'',
                    ''closed the connection'', ''disconnected'']
               then ''network''
               else if containsAny m [''scan cycle time exceeded'', ''runtime'', ''program started'', ''server started'',
                    ''version'', ''starting'']
               then ''runtime''
               else if containsAny m [''alarm'', ''high priority'', ''threshold''] then ''alarm''
               else ''system''))"

text \<open>The first key=value pair of the text whose key is the given one, up to case.\<close>

definition extractKeyValue :: "string \<Rightarrow> string \<Rightarrow> string" where
  "extractKeyValue msg key =
     (case find (\<lambda>m. EqualFold (group m 1) key) (FindAllStringSubmatch keyValueRE msg) of
        Some m \<Rightarrow> Trim (group m 2) [CHR 0x22]
      | None \<Rightarrow> '''')"

definition detectSensitiveAction :: "string \<Rightarrow> bool" where
  "detectSensitiveAction msg = containsAny (ToLower msg)
     [''reset'', ''emergency'', ''stop'', ''start'', ''commandedemarrage'', ''safety'', ''relay'', ''valve'',
      ''vanne'', ''switch'', ''dcy'']"

definition put_if :: "bool \<Rightarrow> string \<Rightarrow> string \<Rightarrow> string gomap \<Rightarrow> string gomap" where
  "put_if b k v m = (if b then gput k v m else m)"

definition opcua_event_tags :: "string \<Rightarrow> string gomap \<Rightarrow> string gomap" where
  "opcua_event_tags u t =
     (if Contains u ''[READ][CMD]'' then gput ''opcua_event_type'' ''CMD'' (gput ''opcua_operation'' ''READ'' t)
      else if Contains u ''[WRITE][CMD]'' then gput ''opcua_event_type'' ''CMD'' (gput ''opcua_operation'' ''WRITE'' t)
      else (let t = put_if (Contains u ''[CMD]'') ''opcua_event_type'' ''CMD'' t;
                t = put_if (Contains u ''[SESSION]'') ''opcua_event_type'' ''SESSION'' t;
                t = put_if (Contains u ''[SECURITY]'') ''opcua_event_type'' ''SECURITY'' t;
                t = put_if (Contains u ''[ERROR]'') ''opcua_event_type'' ''ERROR'' t;
                t = put_if (Contains u ''[STARTUP]'') ''opcua_event_type'' ''STARTUP'' t
            in put_if (Contains u ''[SHUTDOWN]'') ''opcua_event_type'' ''SHUTDOWN'' t))"

definition put_value :: "string \<Rightarrow> string \<Rightarrow> string \<Rightarrow> string gomap \<Rightarrow> string gomap" where
  "put_value msg key k m = (let v = extractKeyValue msg key in put_if (v \<noteq> '''') k v m)"

definition enrichOPCUATags :: "string \<Rightarrow> string gomap \<Rightarrow> string gomap" where
  "enrichOPCUATags msg t =
     (if \<not> isOPCUAMessage msg then t
      else (let u = ToUpper msg; l = ToLower msg;
                t = opcua_event_tags u t;
                t = put_value msg ''User'' ''user'' t;
                t = put_value msg ''NodeId'' ''node_id'' t;
                t = put_value msg ''Browse'' ''browse_name'' t;
                t = put_value msg ''Display'' ''display_name'' t;
                t = put_value msg ''Mode'' ''mode'' t;
                t = put_value msg ''Value'' ''value'' t;
                t = put_if (detectSensitiveAction msg) ''sensitive_action'' ''true'' t;
                t = (if Contains u ''[CMD]''
                     then gput ''mitre_ics_technique_hint'' ''Manipulation of Control''
                            (gput ''mitre_ics_tactic'' ''Impair Process Control'' t)
                     else t)
            in if containsAny l [''rejected'', ''unauthorized'', ''invalid certificate'', ''bad user'', ''denied''] \<or>
                  Contains u ''[SECURITY]''
               then gput ''mitre_ics_technique_hint'' ''Unauthorized Access Attempt''
                      (gput ''mitre_ics_tactic'' ''Initial Access / Defense Evasion'' t)
               else t))"

section \<open>Facts\<close>

definition severities :: "string list" where
  "severities = [''critical'', ''error'', ''warning'', ''info'', ''debug'']"

definition known_severity :: "string \<Rightarrow> bool" where
  "known_severity s \<longleftrightarrow> List.member severities s"

lemma known_severity_literals [simp]:
  "known_severity ''critical''" "known_severity ''error''" "known_severity ''warning''" "known_severity ''info''"
  "known_severity ''debug''"
  by (simp_all add: known_severity_def severities_def)

lemma known_severity_if:
  "known_severity s \<Longrightarrow> known_severity t \<Longrightarrow> known_severity (if b then s else t)"
  "pred_option known_severity x \<Longrightarrow> pred_option known_severity y \<Longrightarrow> pred_option known_severity (if b then x else y)"
  by simp_all

lemma severity_of_number_known: "known_severity (severity_of_number n)"
  by (cases n) (auto simp: severity_of_number_def intro!: known_severity_if)

lemma classifyOPCUASeverity_known: "pred_option known_severity (classifyOPCUASeverity msg)"
  unfolding classifyOPCUASeverity_def Let_def by (intro known_severity_if) simp_all

lemma classifySeverity_known: "known_severity (classifySeverity msg sevNum)"
proof (cases "classifyOPCUASeverity msg")
  case None
  show ?thesis
    unfolding classifySeverity_def None Let_def option.case
    by (intro known_severity_if) (simp_all add: severity_of_number_known)
next
  case (Some s)
  with classifyOPCUASeverity_known [of msg] show ?thesis by (simp add: classifySeverity_def)
qed

end
