(* ===== verification/Telemetry.thy ===== *)
theory Telemetry
  imports Go_Float_Text Opcua_Patterns Syslog_Parser Sources_Config
begin

text \<open>
  Structured telemetry (the first half of \<open>internal/normalizer/normalizer.go\<close>): a JSON object in
  the message becomes an event. A payload is a Go map from keys to JSON values; \<open>iter\<close> is the order
  in which a \<open>range\<close> over it visits its entries. The identifier and the clock are arguments.
\<close>

type_synonym payload = "json gomap"

section \<open>Values\<close>

definition scalarToString :: "json \<Rightarrow> string option" where
  "scalarToString v =
     (case v of
        JStr s \<Rightarrow> Some s
      | JBool b \<Rightarrow> Some (if b then ''true'' else ''false'')
      | JNum lit \<Rightarrow> map_option float_text (parse_float lit)
      | _ \<Rightarrow> None)"

text \<open>\<open>x, _ := scalarToString(payload[k])\<close> and the form with the flag; a missing key reads as nil.\<close>

definition payload_scalar :: "payload \<Rightarrow> string \<Rightarrow> string option" where
  "payload_scalar p k = (case map_of p k of None \<Rightarrow> None | Some v \<Rightarrow> scalarToString v)"

definition payload_string :: "payload \<Rightarrow> string \<Rightarrow> string" where
  "payload_string p k = (case payload_scalar p k of None \<Rightarrow> '''' | Some s \<Rightarrow> s)"

text \<open>Decoding into \<open>interface{}\<close> fails when a number, at any depth, is outside the range of float64.\<close>

primrec numbers_ok :: "json \<Rightarrow> bool" where
  "numbers_ok JNull = True"
| "numbers_ok (JBool b) = True"
| "numbers_ok (JNum lit) = (parse_float lit \<noteq> None)"
| "numbers_ok (JStr s) = True"
| "numbers_ok (JArr vs) = list_all id (map numbers_ok vs)"
| "numbers_ok (JObj ms) = list_all snd (map (map_prod id numbers_ok) ms)"

definition Unmarshal_map :: "string \<Rightarrow> payload option" where
  "Unmarshal_map s =
     (case json_parse s of
        Some v \<Rightarrow>
          if \<not> numbers_ok v then None
          else (case v of
                  JObj ms \<Rightarrow> Some (fold (\<lambda>(k, v). gput k v) ms [])
                | JNull \<Rightarrow> Some []
                | _ \<Rightarrow> None)
      | None \<Rightarrow> None)"

definition extractStructuredTelemetryJSON :: "string \<Rightarrow> payload option" where
  "extractStructuredTelemetryJSON message =
     (case Index message ''{'' of
        None \<Rightarrow> None
      | Some idx \<Rightarrow>
          (case Unmarshal_map (drop idx message) of
             None \<Rightarrow> None
           | Some payload \<Rightarrow>
               if payload = [] then None
               else if list_ex (\<lambda>key. map_of payload key \<noteq> None)
                         [''source_type'', ''component'', ''event_type'', ''event_category'']
               then Some payload
               else None))"

section \<open>Classification\<close>

definition isRFC3164Envelope :: "string \<Rightarrow> bool" where
  "isRFC3164Envelope message =
     (if length message < 3 then False
      else List.member [''Jan'', ''Feb'', ''Mar'', ''Apr'', ''May'', ''Jun'', ''Jul'', ''Aug'', ''Sep'', ''Oct'', ''Nov'',
             ''Dec''] (take 3 message))"

definition isISOEnvelope :: "string \<Rightarrow> bool" where
  "isISOEnvelope message =
     (if length message < 19 then False
      else 11 \<le> length message \<and> message ! 4 = CHR ''-'' \<and> message ! 7 = CHR ''-'' \<and> message ! 10 = CHR ''T'')"

definition normalizedSyslogFormat :: "ParsedMessage \<Rightarrow> string \<Rightarrow> string" where
  "normalizedSyslogFormat p message =
     (if pm_Format p = ''rfc5424'' \<or> pm_Format p = ''rfc3164'' then pm_Format p
      else if pm_Format p = ''raw'' then
        (let trimmed = TrimSpace message
         in if trimmed = '''' then ''unknown''
            else if HasPrefix trimmed ''{'' then ''raw_json''
            else if HasPrefix trimmed ''<'' then
              (case Index trimmed ''>'' of
                 Some end \<Rightarrow>
                   if 0 < end then
                     (let rest = TrimSpace (drop (end + 1) trimmed)
                      in if isRFC3164Envelope rest then ''rfc3164''
                         else if isISOEnvelope rest then ''iso_syslog''
                         else ''unknown'')
                   else ''unknown''
               | None \<Rightarrow> ''unknown'')
            else ''unknown'')
      else ''unknown'')"

text \<open>The zero time, 1 January of year 1, is refused.\<close>

definition parseTelemetryTimestamp :: "string \<Rightarrow> string option" where
  "parseTelemetryTimestamp v =
     (case Parse_RFC3339Nano v of
        Some t \<Rightarrow> if t = unix_seconds 1 1 1 0 0 0 * 1000000000 then None else Some (Format_RFC3339Nano t)
      | None \<Rightarrow>
          (case Parse_RFC3339 v of
             Some t \<Rightarrow> if t = unix_seconds 1 1 1 0 0 0 * 1000000000 then None else Some (Format_RFC3339Nano t)
           | None \<Rightarrow> None))"

definition normalizeSeverityText :: "string \<Rightarrow> string" where
  "normalizeSeverityText s0 =
     (let s = ToLower (TrimSpace s0)
      in if s = ''debug'' \<or> s = ''trace'' then ''debug''
         else if s = ''info'' \<or> s = ''notice'' \<or> s = '''' then ''info''
         else if s = ''warn'' \<or> s = ''warning'' then ''warn''
         else if s = ''error'' \<or> s = ''err'' then ''error''
         else if s = ''critical'' \<or> s = ''crit'' \<or> s = ''alert'' \<or> s = ''emergency'' \<or> s = ''fatal'' then ''critical''
         else ''info'')"

definition normalizeSyslogSeverity :: "int \<Rightarrow> string" where
  "normalizeSyslogSeverity priority =
     (if priority < 0 then ''info''
      else (let n = priority mod 8
            in if n = 0 \<or> n = 1 \<or> n = 2 then ''critical''
               else if n = 3 then ''error''
               else if n = 4 then ''warn''
               else if n = 5 \<or> n = 6 then ''info''
               else if n = 7 then ''debug''
               else ''info''))"

definition inferSourceTypeFromComponent :: "string \<Rightarrow> string" where
  "inferSourceTypeFromComponent component =
     (let lower = ToLower component
      in if Contains lower ''opcua'' then ''opcua''
         else if Contains lower ''gds_agent'' \<or> Contains lower ''gds-agent'' then ''gds_agent''
         else if Contains lower ''gds'' then ''gds''
         else if Contains lower ''fuxa'' \<or> Contains lower ''scada'' then ''scada''
         else if Contains lower ''opnsense'' \<or> Contains lower ''firewall'' then ''firewall''
         else if Contains lower ''openplc'' \<or> Contains lower ''plc'' then ''plc''
         else if Contains lower ''ews'' then ''ews''
         else if Contains lower ''ids'' \<or> Contains lower ''nozomi'' then ''ids''
         else if Contains lower ''vault'' then ''vault''
         else ''unknown'')"

definition inferAssetNameFromComponent :: "string \<Rightarrow> string" where
  "inferAssetNameFromComponent component =
     (let lower = ToLower component
      in if component = ''powergrid_opcua_server'' then ''OPC UA Server''
         else if component = ''labshock_ot_gds_agent'' then ''OT GDS Agent''
         else if Contains lower ''fuxa'' \<or> Contains lower ''scada'' then ''FUXA SCADA''
         else if Contains lower ''opnsense'' then ''OPNsense OT Firewall''
         else if Contains lower ''vault'' then ''Vault''
         else if Contains lower ''gds'' then ''GDS''
         else if Contains lower ''plc'' then ''PLC''
         else if Contains lower ''ews'' then ''EWS''
         else if Contains lower ''ids'' \<or> Contains lower ''nozomi'' then ''IDS''
         else component)"

definition category_of_type :: "string \<Rightarrow> bool \<Rightarrow> string" where
  "category_of_type t firewallSource =
     (if containsAny t [''renewal'', ''renew''] then ''certificate_lifecycle''
      else if containsAny t [''certificate'', ''pki'', ''crl'', ''trust''] then ''pki_lifecycle''
      else if containsAny t [''session''] then ''session''
      else if containsAny t [''auth'', ''login'', ''unauthorized'', ''denied'', ''rejected''] then ''access_control''
      else if containsAny t [''firewall'', ''flow'', ''packet''] then ''network''
      else if Contains t ''connection'' \<and> firewallSource then ''network''
      else if containsAny t [''modbus'', ''plc''] then ''data_collection''
      else if containsAny t [''policy'', ''approval'', ''runtime_write''] then ''policy_audit''
      else if containsAny t [''failed'', ''failure'', ''error''] then ''error''
      else if containsAny t [''server'', ''health'', ''heartbeat'', ''recovered''] then ''system_health''
      else ''system_health'')"

definition inferEventCategory :: "string \<Rightarrow> payload \<Rightarrow> string" where
  "inferEventCategory eventType p =
     (if payload_string p ''event_category'' \<noteq> '''' then payload_string p ''event_category''
      else if (case payload_scalar p ''sensitive_action'' of None \<Rightarrow> False | Some a \<Rightarrow> EqualFold a ''true'')
      then ''sensitive_operator_action''
      else (let componentLower = ToLower (payload_string p ''component'')
            in category_of_type (ToLower eventType)
                 (EqualFold (payload_string p ''source_type'') ''firewall'' \<or> Contains componentLower ''firewall'' \<or>
                  Contains componentLower ''opnsense'')))"

section \<open>Copying the payload to the tags\<close>

definition isStructuredCoreField :: "string \<Rightarrow> bool" where
  "isStructuredCoreField key \<longleftrightarrow> List.member
     [''source_type'', ''zone'', ''severity'', ''event_category'', ''message'', ''timestamp''] key"

definition sensitive_needles :: "string list" where
  "sensitive_needles = [''token'', ''secret'', ''password'', ''passwd'', ''private_key'', ''unseal_key'',
     ''client_secret'', ''secret_id'', ''refresh_token'', ''access_token'', ''authorization'', ''cookie'', ''api_key'']"

definition isSensitiveKey :: "string \<Rightarrow> bool" where
  "isSensitiveKey key = list_ex (Contains (ToLower key)) sensitive_needles"

definition copy_entry :: "string \<times> json \<Rightarrow> string gomap \<Rightarrow> string gomap" where
  "copy_entry = (\<lambda>(key, v) tags.
     if isSensitiveKey key then tags
     else (case scalarToString v of
             None \<Rightarrow> tags
           | Some s \<Rightarrow>
               if s = '''' then tags
               else (let target = (if isStructuredCoreField key then ''json_'' @ key else key);
                         target = (if map_of tags target \<noteq> None then ''json_'' @ key else target)
                     in if map_of tags target \<noteq> None then tags else gput target s tags)))"

definition copySafeJSONFieldsToTags :: "(string \<times> json) list \<Rightarrow> string gomap \<Rightarrow> string gomap" where
  "copySafeJSONFieldsToTags entries tags = fold copy_entry entries tags"

end
