(* ===== verification/Go_Csv.thy ===== *)
theory Go_Csv
  imports Go_Strings
begin

text \<open>
  One record of package \<open>encoding/csv\<close> with its default settings and any number of fields: blank
  lines are skipped, a carriage return before a newline or at the end of the text is dropped, a
  quoted field may contain commas, newlines and doubled quotes, a quote inside a plain field is an
  error. \<open>None\<close> is an error, the end of the text included.
\<close>

abbreviation csv_quote :: char where
  "csv_quote \<equiv> CHR 0x22"

abbreviation newline :: char where
  "newline \<equiv> CHR 0x0A"

abbreviation carriage_return :: char where
  "carriage_return \<equiv> CHR 0x0D"

fun normalize_newlines :: "string \<Rightarrow> string" where
  "normalize_newlines [] = []"
| "normalize_newlines [c] = (if c = carriage_return then [] else [c])"
| "normalize_newlines (c # d # s) =
     (if c = carriage_return \<and> d = newline then newline # normalize_newlines s
      else c # normalize_newlines (d # s))"

fun csv_plain :: "string \<Rightarrow> string \<Rightarrow> string list option"
  and csv_quoted :: "string \<Rightarrow> string \<Rightarrow> string list option"
  and csv_field :: "string \<Rightarrow> string list option"
where
  "csv_plain acc [] = Some [rev acc]"
| "csv_plain acc (c # s) =
     (if c = CHR '','' then map_option ((#) (rev acc)) (csv_field s)
      else if c = newline then Some [rev acc]
      else if c = csv_quote then None
      else csv_plain (c # acc) s)"
| "csv_quoted acc [] = None"
| "csv_quoted acc [c] = (if c = csv_quote then Some [rev acc] else None)"
| "csv_quoted acc (c # d # s) =
     (if c = csv_quote then
        (if d = csv_quote then csv_quoted (csv_quote # acc) s
         else if d = CHR '','' then map_option ((#) (rev acc)) (csv_field s)
         else if d = newline then Some [rev acc]
         else None)
      else csv_quoted (c # acc) (d # s))"
| "csv_field [] = Some ['''']"
| "csv_field (c # s) = (if c = csv_quote then csv_quoted [] s else csv_plain [] (c # s))"

definition csv_read :: "string \<Rightarrow> string list option" where
  "csv_read s =
     (case dropWhile (\<lambda>c. c = newline) (normalize_newlines s) of
        [] \<Rightarrow> None
      | c # t \<Rightarrow> csv_field (c # t))"

section \<open>Reading a line of plain fields\<close>

definition plain_char :: "char \<Rightarrow> bool" where
  "plain_char c \<longleftrightarrow> c \<noteq> CHR '','' \<and> c \<noteq> csv_quote \<and> c \<noteq> newline \<and> c \<noteq> carriage_return"

lemma normalize_newlines_plain: "carriage_return \<notin> set s \<Longrightarrow> normalize_newlines s = s"
  by (induction s rule: normalize_newlines.induct) auto

lemma csv_plain_run:
  "list_all plain_char f \<Longrightarrow> csv_plain acc (f @ s) = csv_plain (rev f @ acc) s"
  by (induction f arbitrary: acc) (auto simp: plain_char_def)

lemma csv_plain_end: "list_all plain_char f \<Longrightarrow> csv_plain acc f = Some [rev acc @ f]"
  using csv_plain_run [of f acc "[]"] by simp

lemma csv_field_plain:
  assumes "list_all plain_char f" and "s = [] \<or> hd s \<noteq> csv_quote"
  shows "csv_field (f @ s) = csv_plain (rev f) s"
proof (cases f)
  case Nil
  then show ?thesis using assms(2) by (cases s) auto
next
  case (Cons c f')
  with assms(1) have "c \<noteq> csv_quote" by (simp add: plain_char_def)
  with Cons have "csv_field (f @ s) = csv_plain [] (f @ s)" by simp
  then show ?thesis by (simp add: csv_plain_run [OF assms(1)])
qed

lemma csv_field_Join:
  "fs \<noteq> [] \<Longrightarrow> list_all (list_all plain_char) fs \<Longrightarrow> csv_field (Join fs '','') = Some fs"
proof (induction fs rule: induct_list012)
  case (2 f)
  then show ?case using csv_field_plain [of f "[]"] by simp
next
  case (3 f g gs)
  then have "csv_field (Join (f # g # gs) '','') = csv_plain (rev f) (CHR '','' # Join (g # gs) '','')"
    using csv_field_plain [of f "CHR '','' # Join (g # gs) '',''"] by simp
  with 3 show ?case by simp
qed simp

lemma set_Join: "set (Join fs sep) \<subseteq> \<Union> (set ` set fs) \<union> set sep"
  by (induction fs sep rule: Join.induct) auto

lemma csv_read_Join:
  assumes "fs \<noteq> []" and p: "list_all (list_all plain_char) fs" and "hd fs \<noteq> ''''"
  shows "csv_read (Join fs '','') = Some fs"
proof -
  have "carriage_return \<notin> set (Join fs '','')"
    using set_Join [of fs "'',''"] p by (auto simp: list_all_iff plain_char_def)
  then have n: "normalize_newlines (Join fs '','') = Join fs '',''" by (rule normalize_newlines_plain)
  obtain c f' gs where fs: "fs = (c # f') # gs" using assms(1,3) by (cases fs; cases "hd fs") auto
  then have "c \<noteq> newline" using p by (simp add: plain_char_def)
  moreover obtain t where t: "Join fs '','' = c # t" using fs by (cases gs) auto
  ultimately show ?thesis
    using csv_field_Join [OF assms(1) p] n by (simp add: csv_read_def t del: csv_field.simps)
qed

end
