(* ===== verification/Filterlog.thy ===== *)
theory Filterlog
  imports Go_Csv Syslog_Parser Sources_Config
begin

text \<open>
  Packet-filter records of the OPNsense firewall (the second half of
  \<open>internal/normalizer/normalizer.go\<close>): the comma-separated record and its tags. An index outside
  the record reads as the empty string here exactly where the code tests the length first.
\<close>

definition stripFilterlogStructuredData :: "string \<Rightarrow> string" where
  "stripFilterlogStructuredData message =
     (let trimmed = TrimSpace message
      in case LastIndex trimmed '']'' of
           None \<Rightarrow> trimmed
         | Some lastBracket \<Rightarrow>
             (case LastIndex (take lastBracket trimmed) ''['' of
                None \<Rightarrow> trimmed
              | Some _ \<Rightarrow> TrimSpace (drop (lastBracket + 1) trimmed)))"

definition starts_with_digit :: "string \<Rightarrow> bool" where
  "starts_with_digit s = (case s of [] \<Rightarrow> False | c # _ \<Rightarrow> isDigit c)"

definition looksLikeFilterlog :: "ParsedMessage \<Rightarrow> bool" where
  "looksLikeFilterlog p =
     (if Contains (ToLower (pm_AppName p)) ''filterlog'' \<or> Contains (ToLower (pm_Hostname p)) ''opnsense'' then True
      else (let body = stripFilterlogStructuredData (pm_Message p)
            in if body = '''' \<or> \<not> starts_with_digit body then False
               else (case csv_read body of
                       None \<Rightarrow> False
                     | Some record \<Rightarrow>
                         if length record < 9 then False
                         else (let action = ToLower (record ! 6)
                               in action = ''pass'' \<or> action = ''block'' \<or> action = ''reject''))))"

record filterlogParseResult =
  fl_action :: string
  fl_reason :: string
  fl_direction :: string
  fl_tags :: "string gomap"

text \<open>The closure \<open>put(index, key)\<close>, and a table of calls of it in order.\<close>

definition put_index :: "string list \<Rightarrow> nat \<times> string \<Rightarrow> string gomap \<Rightarrow> string gomap" where
  "put_index cols = (\<lambda>(i, key) m. if i < length cols \<and> cols ! i \<noteq> '''' then gput key (cols ! i) m else m)"

definition put_table :: "string list \<Rightarrow> (nat \<times> string) list \<Rightarrow> string gomap \<Rightarrow> string gomap" where
  "put_table cols table m = fold (put_index cols) table m"

text \<open>The loops that number the fields from \<open>from\<close> on.\<close>

definition put_numbered :: "string list \<Rightarrow> nat \<Rightarrow> string \<Rightarrow> string gomap \<Rightarrow> string gomap" where
  "put_numbered cols start prefix m =
     fold (\<lambda>i. put_index cols (i, prefix @ Itoa (i - start))) [start ..< length cols] m"

definition put_options :: "string list \<Rightarrow> nat \<Rightarrow> string gomap \<Rightarrow> string gomap" where
  "put_options cols start m =
     (if start < length cols then
        (let options = TrimSpace (Join (drop start cols) '','')
         in if options \<noteq> '''' then gput ''tcp_options'' options m else m)
      else m)"

definition ipv4_table :: "(nat \<times> string) list" where
  "ipv4_table = [(9, ''tos''), (10, ''ecn''), (11, ''ttl''), (12, ''ip_id''), (13, ''offset''), (14, ''ip_flags''),
     (15, ''protocol_id''), (16, ''protocol_name''), (17, ''packet_length''), (18, ''src_ip''), (19, ''dst_ip''),
     (20, ''src_port''), (21, ''dst_port''), (22, ''data_length'')]"

definition parseFilterlogIPv4 :: "string list \<Rightarrow> string gomap \<Rightarrow> string gomap" where
  "parseFilterlogIPv4 cols m =
     (let protocolName = (if 16 < length cols then ToLower (cols ! 16) else '''');
          m = put_table cols ipv4_table m;
          m = (if 23 < length cols \<and> protocolName = ''tcp'' then
                 put_options cols 28
                   (put_table cols [(23, ''tcp_flags''), (24, ''tcp_sequence''), (25, ''tcp_ack''), (26, ''tcp_window''),
                      (27, ''tcp_urg'')] m)
               else m)
      in if protocolName = ''icmp'' then
           put_numbered cols 23 ''icmp_detail_''
             (put_table cols [(20, ''icmp_type''), (21, ''icmp_id''), (22, ''icmp_sequence'')] m)
         else m)"

definition ipv6_table :: "(nat \<times> string) list" where
  "ipv6_table = [(9, ''traffic_class''), (10, ''flow_label''), (11, ''hop_limit''), (12, ''protocol_name''),
     (13, ''protocol_id''), (14, ''packet_length''), (15, ''src_ip''), (16, ''dst_ip''), (17, ''src_port''),
     (18, ''dst_port''), (19, ''data_length'')]"

definition parseFilterlogIPv6 :: "string list \<Rightarrow> string gomap \<Rightarrow> string gomap" where
  "parseFilterlogIPv6 cols m =
     (let protocolName = (if 12 < length cols then ToLower (cols ! 12) else '''');
          m = put_table cols ipv6_table m;
          m = (if 20 < length cols \<and> protocolName = ''tcp'' then
                 put_options cols 25
                   (put_table cols [(20, ''tcp_flags''), (21, ''tcp_sequence''), (22, ''tcp_ack''), (23, ''tcp_window''),
                      (24, ''tcp_urg'')] m)
               else m)
      in if protocolName = ''icmpv6'' then
           put_numbered cols 18 ''icmp_detail_'' (put_table cols [(17, ''icmp_type'')] m)
         else m)"

definition head_table :: "(nat \<times> string) list" where
  "head_table = [(0, ''rule_number''), (1, ''sub_rule_number''), (2, ''anchor''), (3, ''tracker''), (4, ''interface''),
     (8, ''ip_version'')]"

definition parseFilterlogCSV :: "string \<Rightarrow> filterlogParseResult \<times> string" where
  "parseFilterlogCSV body =
     (let none = \<lparr>fl_action = '''', fl_reason = '''', fl_direction = '''', fl_tags = []\<rparr>
      in case csv_read body of
           None \<Rightarrow> (none, ''invalid filterlog csv'')
         | Some record \<Rightarrow>
             if length record < 9 then
               (none\<lparr>fl_tags := put_numbered record 0 ''field_'' []\<rparr>, ''short filterlog csv'')
             else
               (let result = \<lparr>fl_action = record ! 6, fl_reason = record ! 5, fl_direction = record ! 7,
                              fl_tags = put_table record head_table []\<rparr>
                in if record ! 8 = ''4'' then (result\<lparr>fl_tags := parseFilterlogIPv4 record (fl_tags result)\<rparr>, '''')
                   else if record ! 8 = ''6'' then (result\<lparr>fl_tags := parseFilterlogIPv6 record (fl_tags result)\<rparr>, '''')
                   else (result, ''unknown ip_version'')))"

definition protocolHintFromPort :: "string \<Rightarrow> string" where
  "protocolHintFromPort port =
     (if port = ''4840'' then ''opcua''
      else if port = ''502'' then ''modbus''
      else if port = ''102'' then ''s7comm''
      else if port = ''20000'' then ''dnp3''
      else if port = ''44818'' then ''enip''
      else if port = ''22'' then ''ssh''
      else if port = ''443'' \<or> port = ''8443'' then ''https''
      else if port = ''53'' then ''dns''
      else if port = ''80'' \<or> port = ''8080'' then ''http''
      else if port = ''8200'' then ''vault''
      else if port = ''8088'' then ''collector''
      else if port = ''1883'' \<or> port = ''1884'' then ''mqtt''
      else '''')"

definition isHighValueFirewallEvent :: "string \<Rightarrow> string \<Rightarrow> string \<Rightarrow> bool" where
  "isHighValueFirewallEvent action dstPort direction =
     (if direction \<noteq> ''in'' then False
      else if action \<noteq> ''block'' \<and> action \<noteq> ''reject'' then False
      else List.member [''4840'', ''502'', ''22'', ''443'', ''8443'', ''8200'', ''8088'', ''1883'', ''1884'', ''102'',
             ''20000'', ''44818''] dstPort)"

definition set_nonempty :: "string \<Rightarrow> string \<Rightarrow> string gomap \<Rightarrow> string gomap" where
  "set_nonempty k v m = (if v \<noteq> '''' then gput k v m else m)"

text \<open>The event before the record is read, and what the record makes of it.\<close>

definition firewall_event ::
  "string \<Rightarrow> int \<Rightarrow> string \<Rightarrow> ParsedMessage \<Rightarrow> string \<Rightarrow> SourceInfo \<Rightarrow> event" where
  "firewall_event new_id now zone p sourceIP resolved =
     (let tags = [(''firewall_vendor'', ''opnsense''), (''firewall_backend'', ''pf''), (''firewall_daemon'', ''filterlog''),
                  (''structured_json'', ''false''), (''syslog_format'', pm_Format p)];
          tags = set_nonempty ''hostname'' (pm_Hostname p) tags;
          tags = set_nonempty ''app_name'' (pm_AppName p) tags
      in \<lparr>ID = new_id, Timestamp = pm_Timestamp p, ReceivedAt = Format_RFC3339Nano now,
          Zone = (if zone = '''' then ''OT'' else zone), SourceType = ''firewall'',
          AssetName = (if si_AssetName resolved = '''' then ''OPNsense OT Firewall'' else si_AssetName resolved),
          AssetIP = (if si_AssetIP resolved = '''' then sourceIP else si_AssetIP resolved),
          Severity = ''info'', Protocol = ''syslog'', EventCategory = '''', Message = ''firewall_event'',
          Raw = pm_Raw p, Tags = Some tags\<rparr>)"

definition set_tags :: "string gomap \<Rightarrow> event \<Rightarrow> event" where
  "set_tags m e = e\<lparr>Tags := Some m\<rparr>"

definition apply_filterlog :: "filterlogParseResult \<Rightarrow> string \<Rightarrow> string gomap \<Rightarrow> event \<Rightarrow> event" where
  "apply_filterlog parsed warning tags evt =
     (let tags = fold (\<lambda>(k, v). gput k v) (fl_tags parsed) tags;
          tags = set_nonempty ''action'' (fl_action parsed) tags;
          tags = set_nonempty ''direction'' (fl_direction parsed) tags;
          tags = set_nonempty ''reason'' (fl_reason parsed) tags;
          tags = set_nonempty ''parse_warning'' warning tags;
          action = ToLower (fl_action parsed); direction = ToLower (fl_direction parsed);
          reason = ToLower (fl_reason parsed); dstPort = gget '''' (fl_tags parsed) ''dst_port'';
          evt = (if action = ''block'' \<or> action = ''reject'' then
                   evt\<lparr>EventCategory := ''security'', Severity := ''warn'',
                       Message := (if action = ''reject'' then ''firewall_reject'' else ''firewall_block'')\<rparr>
                 else evt\<lparr>EventCategory := ''network'', Severity := ''info'', Message := ''firewall_pass''\<rparr>);
          evt = (if Contains reason ''bad'' \<or> warning \<noteq> '''' then
                   evt\<lparr>EventCategory := ''error'', Severity := ''error'', Message := ''firewall_event''\<rparr>
                 else evt);
          tags = set_nonempty ''protocol_hint'' (protocolHintFromPort dstPort) tags;
          tags = (if isHighValueFirewallEvent action dstPort direction then
                    gput ''mitre_ics_technique_hint'' ''Unauthorized Access Attempt''
                      (gput ''mitre_ics_tactic'' ''Initial Access'' (gput ''high_value_firewall_event'' ''true'' tags))
                  else tags)
      in set_tags tags evt)"

definition parseOPNsenseFilterlog ::
  "string \<Rightarrow> int \<Rightarrow> string \<Rightarrow> ParsedMessage \<Rightarrow> string \<Rightarrow> SourceInfo \<Rightarrow> event option" where
  "parseOPNsenseFilterlog new_id now zone p sourceIP resolved =
     (if \<not> looksLikeFilterlog p \<and> si_SourceType resolved \<noteq> ''firewall'' then None
      else (let trimmedBody = TrimSpace (stripFilterlogStructuredData (pm_Message p));
                evt = firewall_event new_id now zone p sourceIP resolved;
                tags = (case Tags evt of None \<Rightarrow> [] | Some m \<Rightarrow> m)
            in if trimmedBody = '''' \<or> \<not> starts_with_digit trimmedBody then
                 Some (set_tags (gput ''parse_warning'' ''missing filterlog csv payload'' tags)
                   (evt\<lparr>EventCategory := ''error'', Severity := ''error''\<rparr>))
               else (case parseFilterlogCSV trimmedBody of
                       (parsed, warning) \<Rightarrow> Some (apply_filterlog parsed warning tags evt))))"

end
