(* ===== verification/Normalizer.thy ===== *)
theory Normalizer
  imports Telemetry Filterlog Source_Normalizers
begin

text \<open>
  From a parsed line to an event (\<open>FromParsed\<close> in \<open>internal/normalizer/normalizer.go\<close>):
  structured telemetry, a packet-filter record, or free text, then the source normalisers. What the
  code takes from its surroundings is in \<open>norm_env\<close>: the fresh identifier, the two readings of the
  clock, the order in which the payload map is visited and the default resolver of sources.
\<close>

record norm_env =
  ne_id :: string
  ne_clock :: int
  ne_received :: int
  ne_iter :: "payload \<Rightarrow> payload"
  ne_resolver :: "SourceStore option"

definition event_type_of :: "payload \<Rightarrow> string" where
  "event_type_of payload =
     (let t = payload_string payload ''event_type''; m = payload_string payload ''message''
      in if t \<noteq> '''' then t else if m \<noteq> '''' then m else ''structured_telemetry'')"

definition structured_source_type :: "payload \<Rightarrow> SourceInfo \<Rightarrow> string" where
  "structured_source_type payload resolved =
     (let st = payload_string payload ''source_type'';
          inferred = inferSourceTypeFromComponent (payload_string payload ''component'')
      in if st \<noteq> '''' then st
         else if inferred \<noteq> ''unknown'' then inferred
         else if si_SourceType resolved \<noteq> '''' then si_SourceType resolved
         else ''unknown'')"

definition structured_severity :: "ParsedMessage \<Rightarrow> payload \<Rightarrow> string" where
  "structured_severity p payload =
     (let ps = payload_string payload ''severity'';
          severity = (if ps \<noteq> '''' then normalizeSeverityText ps else '''');
          severity = (if severity = '''' then
                        (case pm_Priority p of None \<Rightarrow> '''' | Some n \<Rightarrow> normalizeSyslogSeverity n) else severity);
          severity = (if severity = '''' then classifySeverity (pm_Message p) (pm_SeverityNumber p) else severity)
      in if severity = '''' then ''info'' else severity)"

definition structured_timestamp :: "int \<Rightarrow> ParsedMessage \<Rightarrow> payload \<Rightarrow> string" where
  "structured_timestamp now p payload =
     (let ts = (case payload_scalar payload ''timestamp'' of
                  Some v \<Rightarrow> if v \<noteq> '''' then
                              (case parseTelemetryTimestamp v of Some t \<Rightarrow> t | None \<Rightarrow> pm_Timestamp p)
                            else pm_Timestamp p
                | None \<Rightarrow> pm_Timestamp p)
      in if ts = '''' then Format_RFC3339Nano now else ts)"

definition structured_tags :: "norm_env \<Rightarrow> ParsedMessage \<Rightarrow> payload \<Rightarrow> string gomap" where
  "structured_tags env p payload =
     (let tags = [(''structured_json'', ''true''), (''syslog_format'', normalizedSyslogFormat p (pm_Message p))];
          tags = set_nonempty ''hostname'' (pm_Hostname p) tags;
          tags = set_nonempty ''app_name'' (pm_AppName p) tags;
          tags = set_nonempty ''component'' (payload_string payload ''component'') tags;
          tags = set_nonempty ''event_type'' (event_type_of payload) tags;
          tags = set_nonempty ''collector_decision_hint'' (payload_string payload ''collector_decision'') tags
      in copySafeJSONFieldsToTags (ne_iter env payload) tags)"

definition fromStructuredTelemetryJSON ::
  "norm_env \<Rightarrow> string \<Rightarrow> string \<Rightarrow> ParsedMessage \<Rightarrow> payload \<Rightarrow> event" where
  "fromStructuredTelemetryJSON env sourceIP zone p payload =
     (let resolved = Resolve (ne_resolver env) sourceIP (pm_Hostname p) (pm_AppName p) (pm_Message p);
          component = payload_string payload ''component'';
          assetName = (if si_AssetName resolved = '''' then inferAssetNameFromComponent component
                       else si_AssetName resolved);
          assetIP = si_AssetIP resolved;
          assetIP = (if assetIP = '''' \<and> sourceIP \<noteq> '''' then sourceIP else assetIP);
          assetIP = (if assetIP = '''' \<and> sourceIP = '''' \<and> payload_string payload ''asset_ip'' \<noteq> ''''
                     then payload_string payload ''asset_ip'' else assetIP);
          eventZone = payload_string payload ''zone'';
          eventZone = (if eventZone = '''' then zone else eventZone);
          eventZone = (if eventZone = '''' then ''OT'' else eventZone);
          eventType = event_type_of payload;
          category = payload_string payload ''event_category'';
          category = (if category = '''' then inferEventCategory eventType payload else category);
          category = (if category = '''' then ''system_health'' else category)
      in \<lparr>ID = ne_id env, Timestamp = structured_timestamp (ne_clock env) p payload,
          ReceivedAt = Format_RFC3339Nano (ne_received env), Zone = eventZone,
          SourceType = structured_source_type payload resolved, AssetName = assetName, AssetIP = assetIP,
          Severity = structured_severity p payload, Protocol = ''syslog'', EventCategory = category,
          Message = eventType, Raw = pm_Raw p, Tags = Some (structured_tags env p payload)\<rparr>)"

definition plain_event :: "norm_env \<Rightarrow> string \<Rightarrow> ParsedMessage \<Rightarrow> string \<Rightarrow> SourceInfo \<Rightarrow> event" where
  "plain_event env zone p sourceIP src =
     \<lparr>ID = ne_id env, Timestamp = pm_Timestamp p, ReceivedAt = Format_RFC3339Nano (ne_received env), Zone = zone,
      SourceType = si_SourceType src, AssetName = si_AssetName src,
      AssetIP = (if si_AssetIP src = '''' then sourceIP else si_AssetIP src),
      Severity = classifySeverity (pm_Message p) (pm_SeverityNumber p), Protocol = ''syslog'',
      EventCategory = classifyCategory (pm_Message p), Message = pm_Message p, Raw = pm_Raw p,
      Tags = Some (enrichOPCUATags (pm_Message p)
        [(''syslog_format'', pm_Format p), (''hostname'', pm_Hostname p), (''app_name'', pm_AppName p)])\<rparr>"

definition base_event :: "norm_env \<Rightarrow> string \<Rightarrow> ParsedMessage \<Rightarrow> string \<Rightarrow> event" where
  "base_event env zone p sourceIP =
     (let resolved = Resolve (ne_resolver env) sourceIP (pm_Hostname p) (pm_AppName p) (pm_Message p)
      in case extractStructuredTelemetryJSON (pm_Message p) of
           Some payload \<Rightarrow> fromStructuredTelemetryJSON env sourceIP zone p payload
         | None \<Rightarrow>
             (case parseOPNsenseFilterlog (ne_id env) (ne_received env) zone p sourceIP resolved of
                Some evt \<Rightarrow> evt
              | None \<Rightarrow> plain_event env zone p sourceIP resolved))"

definition FromParsed :: "norm_env \<Rightarrow> string \<Rightarrow> ParsedMessage \<Rightarrow> string \<Rightarrow> event option" where
  "FromParsed env zone p sourceIP =
     Apply \<lparr>ctx_Parsed = p, ctx_SourceIP = sourceIP\<rparr> (base_event env zone p sourceIP)"

end
