(* ===== verification/Tag_Keys.thy ===== *)
theory Tag_Keys
  imports Normalizer Source_Facts "HOL-Library.Multiset"
begin

text \<open>
  Which keys the tags of a normalised event can have: none that names a secret. And what the copying
  of a payload to the tags amounts to, whatever the order in which the payload is visited.
\<close>

section \<open>Keys that name no secret\<close>

definition public_tags :: "'v gomap \<Rightarrow> bool" where
  "public_tags m \<longleftrightarrow> list_all (\<lambda>(k, v). \<not> isSensitiveKey k) m"

lemma public_Nil [simp]: "public_tags []"
  by (simp add: public_tags_def)

lemma public_Cons [simp]: "public_tags ((k, v) # m) \<longleftrightarrow> \<not> isSensitiveKey k \<and> public_tags m"
  by (simp add: public_tags_def)

lemma public_gput [simp]: "public_tags m \<Longrightarrow> \<not> isSensitiveKey k \<Longrightarrow> public_tags (gput k v m)"
  by (induction m) (auto simp: gput_def public_tags_def)

lemma public_lookup: "public_tags m \<longleftrightarrow> (\<forall>k. map_of m k \<noteq> None \<longrightarrow> \<not> isSensitiveKey k)"
  by (auto simp: public_tags_def list_all_iff map_of_eq_None_iff image_iff split_beta)

lemma public_set_nonempty [simp]: "public_tags m \<Longrightarrow> \<not> isSensitiveKey k \<Longrightarrow> public_tags (set_nonempty k v m)"
  by (simp add: set_nonempty_def)

lemma public_put_if [simp]: "public_tags m \<Longrightarrow> \<not> isSensitiveKey k \<Longrightarrow> public_tags (put_if b k v m)"
  by (simp add: put_if_def)

lemma public_put_value [simp]: "public_tags m \<Longrightarrow> \<not> isSensitiveKey k \<Longrightarrow> public_tags (put_value msg key k m)"
  by (simp add: put_value_def Let_def)

lemma public_put_index [simp]: "public_tags m \<Longrightarrow> \<not> isSensitiveKey k \<Longrightarrow> public_tags (put_index cols (i, k) m)"
  by (simp add: put_index_def)

lemma public_put_table [simp]:
  "public_tags m \<Longrightarrow> list_all (\<lambda>(i, k). \<not> isSensitiveKey k) table \<Longrightarrow> public_tags (put_table cols table m)"
  unfolding put_table_def by (induction table arbitrary: m) auto

lemma public_fold [simp]: "public_tags m \<Longrightarrow> public_tags n \<Longrightarrow> public_tags (fold (\<lambda>(k, v). gput k v) n m)"
  by (induction n arbitrary: m) auto

text \<open>The keys the normalisers write.\<close>

lemma normaliser_keys [simp]:
  "list_all (\<lambda>k. \<not> isSensitiveKey k)
     [''structured_json'', ''syslog_format'', ''hostname'', ''app_name'', ''component'', ''event_type'',
      ''collector_decision_hint'', ''firewall_vendor'', ''firewall_backend'', ''firewall_daemon'', ''parse_warning'',
      ''action'', ''direction'', ''reason'', ''protocol_hint'', ''high_value_firewall_event'', ''mitre_ics_tactic'',
      ''mitre_ics_technique_hint'', ''tcp_options'', ''opcua_event_type'', ''opcua_operation'', ''user'', ''node_id'',
      ''browse_name'', ''display_name'', ''mode'', ''value'', ''sensitive_action'']"
  by code_simp

lemmas plain_keys [simp] = normaliser_keys [unfolded list.pred_inject]

lemma table_keys [simp]:
  "list_all (\<lambda>(i, k). \<not> isSensitiveKey k) head_table" "list_all (\<lambda>(i, k). \<not> isSensitiveKey k) ipv4_table"
  "list_all (\<lambda>(i, k). \<not> isSensitiveKey k) ipv6_table"
  "list_all (\<lambda>(i, k). \<not> isSensitiveKey k) [(23, ''tcp_flags''), (24, ''tcp_sequence''), (25, ''tcp_ack''),
     (26, ''tcp_window''), (27, ''tcp_urg'')]"
  "list_all (\<lambda>(i, k). \<not> isSensitiveKey k) [(20, ''tcp_flags''), (21, ''tcp_sequence''), (22, ''tcp_ack''),
     (23, ''tcp_window''), (24, ''tcp_urg'')]"
  "list_all (\<lambda>(i, k). \<not> isSensitiveKey k) [(20, ''icmp_type''), (21, ''icmp_id''), (22, ''icmp_sequence'')]"
  "list_all (\<lambda>(i, k). \<not> isSensitiveKey k) [(17, ''icmp_type'')]"
  by code_simp+

lemmas table_plain_keys [simp] = table_keys(4-7) [unfolded list.pred_inject prod.case]

lemma source_keys_public: "k \<in> base_keys \<union> source_keys \<Longrightarrow> \<not> isSensitiveKey k"
proof -
  have "list_all (\<lambda>k. \<not> isSensitiveKey k) [''original_severity'', ''action'', ''original_message'', ''source_ip'',
      ''destination_ip'', ''plc_user'', ''noise_hint'', ''scada_match_rule'', ''target'', ''target_ip'',
      ''target_port'', ''alert_candidate'', ''test_event'', ''splunk_sourcetype'', ''collector_decision_hint'',
      ''parser_version'', ''normalized'', ''normalization_source'', ''siem_index_hint'']"
    by code_simp
  then show "k \<in> base_keys \<union> source_keys \<Longrightarrow> \<not> isSensitiveKey k"
    unfolding source_keys_def base_keys_def by auto
qed

text \<open>A prefix cannot complete a needle with what follows it.\<close>

lemma json_prefix_public: "isSensitiveKey (''json_'' @ k) = isSensitiveKey k"
  by (simp add: isSensitiveKey_def sensitive_needles_def ToLower_Cons eval_simps)

lemma Contains_chars: "Contains s n \<Longrightarrow> set n \<subseteq> set s"
  by (auto simp: Contains_iff)

lemma digits_public: "list_all isDigit ds \<Longrightarrow> n \<in> set sensitive_needles \<Longrightarrow> \<not> Contains (ToLower ds) n"
proof
  assume ds: "list_all isDigit ds" and n: "n \<in> set sensitive_needles" and c: "Contains (ToLower ds) n"
  have "list_all (\<lambda>n. list_ex (\<lambda>c. \<not> isDigit c \<and> is_lower c) n) sensitive_needles" by code_simp
  then obtain x where x: "x \<in> set n" "\<not> isDigit x" using n by (auto simp: list_all_iff list_ex_iff)
  have "lower_char y = y" if "isDigit y" for y using that by (cases y) (auto simp: isDigit_def)
  then have "ToLower ds = ds" using ds by (simp add: ToLower_def list_all_iff map_idI)
  then show False using Contains_chars [OF c] x ds by (auto simp: list_all_iff)
qed

lemma numbered_public [simp]:
  "\<not> isSensitiveKey (''field_'' @ Itoa i)" "\<not> isSensitiveKey (''icmp_detail_'' @ Itoa i)"
proof -
  have d: "\<not> Contains (ToLower (Itoa i)) n" if "n \<in> set sensitive_needles" for n
    using digits_public [OF _ that] Itoa_digits by blast
  have "\<not> isSensitiveKey (Itoa i)" using d by (auto simp: isSensitiveKey_def list_ex_iff)
  moreover have "isSensitiveKey (''field_'' @ s) = isSensitiveKey s"
    "isSensitiveKey (''icmp_detail_'' @ s) = isSensitiveKey s" for s
    by (simp_all add: isSensitiveKey_def sensitive_needles_def ToLower_Cons eval_simps)
  ultimately show "\<not> isSensitiveKey (''field_'' @ Itoa i)" "\<not> isSensitiveKey (''icmp_detail_'' @ Itoa i)"
    by simp_all
qed

lemma public_put_numbered [simp]:
  assumes "public_tags m" and "\<And>i. \<not> isSensitiveKey (pre @ Itoa i)"
  shows "public_tags (put_numbered cols start pre m)"
proof -
  have "public_tags (fold (\<lambda>i. put_index cols (i, pre @ Itoa (i - start))) is m)" if "public_tags m" for "is" m
    using that assms(2) by (induction "is" arbitrary: m) simp_all
  then show ?thesis using assms(1) by (simp add: put_numbered_def)
qed

lemma public_put_options [simp]: "public_tags m \<Longrightarrow> public_tags (put_options cols start m)"
  by (simp add: put_options_def Let_def)

section \<open>The three kinds of events\<close>

lemma public_parseFilterlogIPv4: "public_tags m \<Longrightarrow> public_tags (parseFilterlogIPv4 cols m)"
  unfolding parseFilterlogIPv4_def Let_def by (simp split: if_split del: append.simps)

lemma public_parseFilterlogIPv6: "public_tags m \<Longrightarrow> public_tags (parseFilterlogIPv6 cols m)"
  unfolding parseFilterlogIPv6_def Let_def by (simp split: if_split del: append.simps)

lemma public_parseFilterlogCSV: "public_tags (fl_tags (fst (parseFilterlogCSV body)))"
  unfolding parseFilterlogCSV_def Let_def
  by (auto simp: public_parseFilterlogIPv4 public_parseFilterlogIPv6 simp del: append.simps split: option.split)

lemma public_apply_filterlog:
  "public_tags (fl_tags parsed) \<Longrightarrow> public_tags m \<Longrightarrow> \<exists>m'. Tags (apply_filterlog parsed w m e) = Some m' \<and> public_tags m'"
  unfolding apply_filterlog_def Let_def set_tags_def by simp

lemma public_enrichOPCUATags: "public_tags m \<Longrightarrow> public_tags (enrichOPCUATags msg m)"
  unfolding enrichOPCUATags_def opcua_event_tags_def Let_def by simp

lemma public_copy_entry: "public_tags m \<Longrightarrow> public_tags (copy_entry (k, v) m)"
  unfolding copy_entry_def Let_def by (simp add: json_prefix_public del: append.simps split: option.split)

lemma public_copySafe: "public_tags m \<Longrightarrow> public_tags (copySafeJSONFieldsToTags entries m)"
  unfolding copySafeJSONFieldsToTags_def
proof (induction entries arbitrary: m)
  case (Cons e entries)
  then show ?case by (cases e) (simp add: public_copy_entry)
qed simp

lemma public_structured_tags: "public_tags (structured_tags env p payload)"
  unfolding structured_tags_def Let_def by (rule public_copySafe) simp

lemma public_parseOPNsenseFilterlog:
  "parseOPNsenseFilterlog i now zone p ip src = Some e \<Longrightarrow> \<exists>m. Tags e = Some m \<and> public_tags m"
proof -
  assume e: "parseOPNsenseFilterlog i now zone p ip src = Some e"
  obtain m0 where m0: "Tags (firewall_event i now zone p ip src) = Some m0" "public_tags m0"
    unfolding firewall_event_def Let_def by simp
  obtain parsed w where pw: "parseFilterlogCSV (TrimSpace (stripFilterlogStructuredData (pm_Message p))) = (parsed, w)"
    by fastforce
  have "public_tags (fl_tags parsed)" using public_parseFilterlogCSV pw by (metis fst_conv)
  from public_apply_filterlog [OF this m0(2)] show ?thesis
    using e m0 by (auto simp: parseOPNsenseFilterlog_def Let_def pw set_tags_def split: if_splits)
qed

lemma base_event_public: "\<exists>m. Tags (base_event env zone p ip) = Some m \<and> public_tags m"
  unfolding base_event_def Let_def
  by (auto simp: fromStructuredTelemetryJSON_def plain_event_def public_structured_tags public_enrichOPCUATags Let_def
      dest: public_parseOPNsenseFilterlog split: option.split)

section \<open>Copying a payload\<close>

text \<open>
  What one entry adds to tags that start as \<open>m\<close>: nothing for a secret, a value that is no scalar,
  an empty one or a key taken twice; the key itself, or prefixed when it names a field of the event or
  is taken.
\<close>

definition copy_target :: "string gomap \<Rightarrow> string \<Rightarrow> string" where
  "copy_target m k = (if isStructuredCoreField k \<or> map_of m k \<noteq> None then ''json_'' @ k else k)"

definition contribution :: "string gomap \<Rightarrow> string \<times> json \<Rightarrow> (string \<times> string) option" where
  "contribution m = (\<lambda>(k, v).
     if isSensitiveKey k then None
     else (case scalarToString v of
             None \<Rightarrow> None
           | Some s \<Rightarrow> if s = '''' \<or> map_of m (copy_target m k) \<noteq> None then None else Some (copy_target m k, s)))"

lemma copy_entry_contribution:
  "copy_entry (k, v) m = (case contribution m (k, v) of None \<Rightarrow> m | Some (t, s) \<Rightarrow> gput t s m)"
  unfolding copy_entry_def contribution_def copy_target_def Let_def by (auto split: option.split)

definition unprefixed :: "(string \<times> json) list \<Rightarrow> bool" where
  "unprefixed entries \<longleftrightarrow> list_all (\<lambda>(k, v). \<not> HasPrefix k ''json_'') entries"

lemma contribution_target:
  assumes "contribution m (k, v) = Some (t, s)" shows "t = k \<or> t = ''json_'' @ k"
  using assms by (auto simp: contribution_def copy_target_def split: if_splits option.splits)

lemma contribution_free: "contribution m e = Some (t, s) \<Longrightarrow> map_of m t = None"
  by (cases e) (auto simp: contribution_def simp del: map_of_eq_None_iff not_None_eq split: if_splits option.splits)

text \<open>Entries do not get in each other's way, so each adds what it adds to the initial tags.\<close>

lemma copy_all:
  assumes "distinct (map fst entries)" and "unprefixed entries"
    and "\<And>k v. (k, v) \<in> set entries \<Longrightarrow>
      map_of m' k = map_of m k \<and> map_of m' (''json_'' @ k) = map_of m (''json_'' @ k)"
  shows "copySafeJSONFieldsToTags entries m' = fold (\<lambda>(k, v). gput k v) (List.map_filter (contribution m) entries) m'"
  using assms unfolding copySafeJSONFieldsToTags_def
proof (induction entries arbitrary: m')
  case Nil
  then show ?case by (simp add: List.map_filter_simps)
next
  case (Cons e entries)
  obtain k v where e: "e = (k, v)" by (cases e)
  have here: "map_of m' k = map_of m k" "map_of m' (''json_'' @ k) = map_of m (''json_'' @ k)"
    using Cons.prems(3) e by auto
  have "copy_target m' k = copy_target m k" "map_of m' (copy_target m k) = map_of m (copy_target m k)"
    using here by (simp_all add: copy_target_def del: append.simps)
  then have same: "contribution m' (k, v) = contribution m (k, v)" by (simp add: contribution_def split: option.split)
  have k: "\<not> HasPrefix k ''json_''" using Cons.prems(2) e by (simp add: unprefixed_def)
  have ne: "k' \<noteq> k" "''json_'' @ k' \<noteq> k" "k' \<noteq> ''json_'' @ k" "''json_'' @ k' \<noteq> ''json_'' @ k"
    if "(k', v') \<in> set entries" for k' v'
  proof -
    have p: "\<not> HasPrefix k' ''json_''" using Cons.prems(2) that by (auto simp: unprefixed_def list_all_iff)
    show "k' \<noteq> k" using Cons.prems(1) e that by (auto simp: image_iff)
    then show "''json_'' @ k' \<noteq> ''json_'' @ k" by simp
    show "''json_'' @ k' \<noteq> k" "k' \<noteq> ''json_'' @ k" using k p HasPrefix_append by metis+
  qed
  have IH: "fold copy_entry entries m'' = fold (\<lambda>(k, v). gput k v) (List.map_filter (contribution m) entries) m''"
    if m'': "\<And>t. t = k \<or> t = ''json_'' @ k \<or> map_of m'' t = map_of m' t" for m''
  proof (rule Cons.IH)
    show "distinct (map fst entries)" "unprefixed entries"
      using Cons.prems(1,2) by (simp_all add: unprefixed_def)
    fix k' v' assume e': "(k', v') \<in> set entries"
    have "map_of m'' k' = map_of m' k'" "map_of m'' (''json_'' @ k') = map_of m' (''json_'' @ k')"
      using m'' ne [OF e'] by blast+
    moreover have "map_of m' k' = map_of m k' \<and> map_of m' (''json_'' @ k') = map_of m (''json_'' @ k')"
      using Cons.prems(3) [of k' v'] e' by simp
    ultimately show "map_of m'' k' = map_of m k' \<and> map_of m'' (''json_'' @ k') = map_of m (''json_'' @ k')"
      by simp
  qed
  show ?case
  proof (cases "contribution m (k, v)")
    case None
    then show ?thesis using IH [of m'] by (simp add: e copy_entry_contribution same map_filter_Cons)
  next
    case (Some ts)
    obtain t s where ts: "ts = (t, s)" by (cases ts)
    have "fold copy_entry entries (gput t s m') =
        fold (\<lambda>(k, v). gput k v) (List.map_filter (contribution m) entries) (gput t s m')"
      using contribution_target [OF Some [unfolded ts]] by (intro IH) auto
    then show ?thesis by (simp add: e copy_entry_contribution same Some ts map_filter_Cons)
  qed
qed

lemma contributions_distinct:
  assumes "distinct (map fst entries)" and "unprefixed entries"
  shows "distinct (map fst (List.map_filter (contribution m) entries))"
  using assms
proof (induction entries)
  case (Cons e entries)
  obtain k v where e: "e = (k, v)" by (cases e)
  have "t \<notin> fst ` set (List.map_filter (contribution m) entries)" if c: "contribution m (k, v) = Some (t, s)" for t s
  proof
    assume "t \<in> fst ` set (List.map_filter (contribution m) entries)"
    then obtain k' v' s' where kv: "(k', v') \<in> set entries" and c': "contribution m (k', v') = Some (t, s')"
      by (auto simp: set_map_filter)
    have "k' \<noteq> k" using Cons.prems(1) e kv by (auto simp: image_iff)
    moreover have "\<not> HasPrefix k' ''json_''" "\<not> HasPrefix k ''json_''"
      using Cons.prems(2) e kv by (auto simp: unprefixed_def list_all_iff)
    ultimately show False
      using contribution_target [OF c] contribution_target [OF c'] HasPrefix_append by (metis append_same_eq same_append_eq)
  qed
  then show ?case using Cons by (auto simp: e map_filter_Cons unprefixed_def split: option.split)
qed (simp add: List.map_filter_simps)

section \<open>Properties\<close>

text \<open>C5: No secret reaches the tags: whatever line arrives, over whichever of the three ways it is
  normalised and in whatever order the payload is visited, no tag of the event has a key that contains
  the name of a credential (token, password, secret, private or API key, cookie and so on, in any
  case). Only the keys are examined: the raw text keeps the line as it came.\<close>

theorem secrets_never_become_tags:
  "\<exists>out m. FromParsed env zone p sourceIP = Some out \<and> Tags out = Some m \<and>
     list_all (\<lambda>(k, v). \<not> isSensitiveKey k) m"
proof -
  obtain m0 where m0: "Tags (base_event env zone p sourceIP) = Some m0" "public_tags m0"
    using base_event_public by blast
  obtain out where out: "FromParsed env zone p sourceIP = Some out"
    and frame: "tag_lookup out |` (- (base_keys \<union> source_keys)) =
      tag_lookup (base_event env zone p sourceIP) |` (- (base_keys \<union> source_keys))"
    and base: "tag out ''normalized'' = ''true''"
    using Apply_result [of "\<lparr>ctx_Parsed = p, ctx_SourceIP = sourceIP\<rparr>" "base_event env zone p sourceIP"]
    by (auto simp: FromParsed_def)
  from base obtain m where m: "Tags out = Some m" by (cases "Tags out") (auto simp: tag_def)
  have "map_of m k = map_of m0 k" if "k \<notin> base_keys \<union> source_keys" for k
    using fun_cong [OF frame, of k] that m m0(1) by (simp add: tag_lookup_def restrict_map_def)
  then have "public_tags m"
    using m0(2) source_keys_public unfolding public_lookup by metis
  then show ?thesis using out m by (auto simp: public_tags_def)
qed

text \<open>C40: The order in which Go visits the payload map does not show: as long as no key of the payload
  starts with json_, any two visiting orders give the same tags, and the tags set before the copying
  are never overwritten by it.\<close>

theorem payload_order_irrelevant:
  assumes "mset entries' = mset entries" and "distinct (map fst entries)" and "unprefixed entries"
  shows "map_of (copySafeJSONFieldsToTags entries' m) = map_of (copySafeJSONFieldsToTags entries m) \<and>
    map_of m \<subseteq>\<^sub>m map_of (copySafeJSONFieldsToTags entries m)"
proof -
  let ?c = "List.map_filter (contribution m)"
  have s: "set entries' = set entries" using assms(1) by (rule mset_eq_setD)
  have d: "distinct (map fst entries')" using assms(1,2) by (metis mset_map mset_eq_imp_distinct_iff)
  have u: "unprefixed entries'" using assms(3) s by (simp add: unprefixed_def list_all_iff)
  have "map_of (rev (?c entries')) = map_of (rev (?c entries))"
    using contributions_distinct [OF d u, of m] contributions_distinct [OF assms(2,3), of m] s
    by (intro map_of_inject_set [THEN iffD2]) (simp_all add: rev_map [symmetric] set_map_filter)
  moreover have "map_of (rev (?c entries)) t = None" if "map_of m t \<noteq> None" for t
  proof -
    have "t \<notin> fst ` set (?c entries)" using that contribution_free by (fastforce simp: set_map_filter)
    then show ?thesis by (simp add: map_of_eq_None_iff)
  qed
  ultimately show ?thesis
    by (auto simp: copy_all [OF d u] copy_all [OF assms(2,3)] map_of_fold_gput map_le_def map_add_def split: option.split)
qed

theorem payload_order_irrelevant_witness:
  "map_of (copySafeJSONFieldsToTags [(''b'', JStr ''2''), (''a'', JStr ''1'')] [(''a'', ''0'')]) =
   map_of (copySafeJSONFieldsToTags [(''a'', JStr ''1''), (''b'', JStr ''2'')] [(''a'', ''0'')])"
  using payload_order_irrelevant [of "[(''b'', JStr ''2''), (''a'', JStr ''1'')]" "[(''a'', JStr ''1''), (''b'', JStr ''2'')]"
      "[(''a'', ''0'')]"]
  by (simp add: unprefixed_def)

text \<open>Without that condition it does show.\<close>

lemma payload_order_matters:
  "map_of (copySafeJSONFieldsToTags [(''zone'', JStr ''a''), (''json_zone'', JStr ''b'')] []) ''json_zone'' = Some ''a'' \<and>
   map_of (copySafeJSONFieldsToTags [(''json_zone'', JStr ''b''), (''zone'', JStr ''a'')] []) ''json_zone'' = Some ''b''"
  by code_simp

end
