(* ===== verification/Filterlog_Properties.thy ===== *)
theory Filterlog_Properties
  imports Tag_Keys
begin

text \<open>
  A packet-filter record from the line to the normalised event: reading the record back, the tags it
  gives and what the firewall normaliser makes of a blocked packet.
\<close>

section \<open>Reading a record\<close>







section \<open>The tags of an IPv4 record\<close>





lemma put_table_Nil_keys: "snd ` set table \<subseteq> K \<Longrightarrow> fst ` set m \<subseteq> K \<Longrightarrow> fst ` set (put_table cols table m) \<subseteq> K"
  unfolding put_table_def
proof (induction table arbitrary: m)
  case (Cons e table)
  then show ?case by (cases e) (simp add: put_index_def fst_set_gput)
qed simp







section \<open>A blocked packet\<close>



lemma literal_folds [simp]:
  "ToLower ''block'' = ''block''" "ToLower ''reject'' = ''reject''" "ToLower ''in'' = ''in''"
  by (simp_all add: ToLower_def)



section \<open>The firewall normaliser on it\<close>




lemma firewall_literals [simp]:
  "TrimSpace ''firewall'' = ''firewall''" "ToLower ''firewall'' = ''firewall''"
  "TrimSpace ''warn'' = ''warn''" "ToLower ''warn'' = ''warn''" "EqualFold ''warn'' ''warning'' = False"
  "TrimSpace ''block'' = ''block''" "TrimSpace ''reject'' = ''reject''"
  "TrimSpace ''firewall_block'' = ''firewall_block''" "TrimSpace ''firewall_reject'' = ''firewall_reject''"
  by code_simp+







section \<open>Properties\<close>




end
