(* ===== verification/Event_Id.thy ===== *)
theory Event_Id
  imports Go_Time Go_Json_Strings
begin

text \<open>
  Identifiers (\<open>NewID\<close> in \<open>internal/event/model.go\<close>): sixteen random bytes in hexadecimal, or the
  time to the nanosecond when the random source fails (\<open>None\<close>).
\<close>

definition hex_byte :: "char \<Rightarrow> string" where
  "hex_byte c = [hex_digit (of_char c div 16), hex_digit (of_char c mod 16)]"

definition EncodeToString :: "string \<Rightarrow> string" where
  "EncodeToString b = concat (map hex_byte b)"

text \<open>The layout \<open>20060102150405.000000000\<close>.\<close>

definition Format_id :: "int \<Rightarrow> string" where
  "Format_id t =
     (let sec = t div 1000000000; s = sec mod 86400; (y, m, d) = civil (sec div 86400)
      in pad_int 4 y @ pad_int 2 (int m) @ pad_int 2 d @ pad_int 2 (s div 3600) @ pad_int 2 (s mod 3600 div 60) @
         pad_int 2 (s mod 60) @ ''.'' @ int_digits 9 (t mod 1000000000))"

definition NewID :: "string option \<Rightarrow> int \<Rightarrow> string" where
  "NewID random now = (case random of None \<Rightarrow> Format_id now | Some b \<Rightarrow> EncodeToString b)"

lemma hex_byte_inj: "hex_byte c = hex_byte d \<Longrightarrow> c = d"
proof -
  have v: "hex_value (hex_digit n) = Some n" if "0 \<le> n" "n < 16" for n
    using hex_value_digit that by simp
  have b: "0 \<le> (of_char x :: int) div 16" "(of_char x :: int) div 16 < 16" "0 \<le> (of_char x :: int) mod 16"
    "(of_char x :: int) mod 16 < 16" for x :: char
  proof -
    have "0 \<le> n div 16 \<and> n div 16 < 16 \<and> 0 \<le> n mod 16 \<and> n mod 16 < 16" if "0 \<le> n" "n < 256" for n :: int
      using that by auto
    from this [OF int_of_char_bounds] show "0 \<le> (of_char x :: int) div 16" "(of_char x :: int) div 16 < 16"
      "0 \<le> (of_char x :: int) mod 16" "(of_char x :: int) mod 16 < 16" by blast+
  qed
  have inj: "m = n" if "hex_digit m = hex_digit n" "0 \<le> m" "m < 16" "0 \<le> n" "n < 16" for m n
    by (metis option.inject v that)
  assume "hex_byte c = hex_byte d"
  then have h: "hex_digit (of_char c div 16) = hex_digit (of_char d div 16)"
    "hex_digit (of_char c mod 16) = hex_digit (of_char d mod 16)"
    by (simp_all add: hex_byte_def)
  have "(of_char c :: int) div 16 = of_char d div 16" by (rule inj [OF h(1)]) (rule b)+
  moreover have "(of_char c :: int) mod 16 = of_char d mod 16" by (rule inj [OF h(2)]) (rule b)+
  ultimately have "(of_char c :: int) = of_char d"
    using div_mult_mod_eq [of "of_char c :: int" 16] div_mult_mod_eq [of "of_char d :: int" 16] by linarith
  then show "c = d" by (simp only: of_char_eq_iff)
qed

lemma EncodeToString_inj: "length a = length b \<Longrightarrow> EncodeToString a = EncodeToString b \<Longrightarrow> a = b"
proof (induction a b rule: list_induct2)
  case (Cons x xs y ys)
  then have "hex_byte x = hex_byte y \<and> EncodeToString xs = EncodeToString ys"
    by (simp add: EncodeToString_def hex_byte_def)
  with Cons.IH show ?case using hex_byte_inj by blast
qed simp

lemma length_EncodeToString: "length (EncodeToString b) = 2 * length b"
  by (induction b) (auto simp: EncodeToString_def hex_byte_def)

end
