(* ===== verification/Processor.thy ===== *)
theory Processor
  imports Filter_Engine Forward_Queue Forwarding_Config Jsonl_Store Stats Stream_Hub Normalizer
begin

text \<open>
  The processing core (\<open>Processor\<close> in \<open>cmd/ot-collector/main.go\<close>): what it does with one event,
  composed of the rule engine, the event store, the counters, the stream hub, the forwarding
  settings and the forwarding queue. An operation takes the outcomes of its file accesses, its
  clock readings and its random choices in a record and returns the new state; \<open>None\<close> is a
  panic. The queue operations are the uninterrupted ones: nothing else touches the state of the
  processor between the parts of one operation.
\<close>

record Processor =
  pr_zone :: string
  pr_store :: jsonl_file
  pr_forwarder :: Forwarder
  pr_queue :: "ForwardQueue option"
  pr_stats :: Stats
  pr_engine :: Engine
  pr_hub :: StreamHub
  pr_cfg :: ForwardingStore
  pr_timeout :: int

record ingest_env =
  ie_id :: string
  ie_now :: int
  ie_eval :: int
  ie_stats :: int
  ie_enqueued :: int
  ie_oob :: int
  ie_append :: append_io

section \<open>Labels\<close>

definition normalizeSourceType :: "string \<Rightarrow> string" where
  "normalizeSourceType s0 =
     (let s = ReplaceAll (ToLower (TrimSpace s0)) ''-'' ''_''
      in if s = ''opnsense'' then ''firewall''
         else if s = ''fuxa'' then ''scada''
         else if s = ''fuxa_gds_client'' \<or> s = ''scada_gds'' \<or> s = ''scada_gds_helper'' then ''scada_gds_client''
         else if s = ''openplc'' then ''plc''
         else if s = ''nozomi'' then ''ids''
         else s)"

definition siemIndexHint :: "string \<Rightarrow> string" where
  "siemIndexHint sourceType = ''ot_security''"

definition splunkSourcetype :: "string \<Rightarrow> string" where
  "splunkSourcetype st =
     (if st = ''firewall'' then ''labshock:net:firewall''
      else if st = ''opcua'' then ''labshock:ot:opcua''
      else if st = ''gds_agent'' then ''labshock:ot:gds''
      else if st = ''scada_gds_client'' then ''labshock:ot:scada:gds''
      else if st = ''scada'' then ''labshock:ot:scada''
      else if st = ''plc'' then ''labshock:ot:plc''
      else if st = ''ids'' then ''labshock:ot:ids''
      else if st = ''ews'' then ''labshock:ot:ews''
      else if st = ''vault'' then ''labshock:ot:vault''
      else ''labshock:ot:unknown'')"

definition decisionLabel :: "Decision \<Rightarrow> bool \<Rightarrow> string" where
  "decisionLabel d willForward =
     (if d_Drop d then ''drop''
      else if d_Store d \<and> willForward then ''store_and_forward''
      else if \<not> d_Store d \<and> willForward then ''forward_only''
      else if d_Store d then (if d_Sampled d then ''sample'' else ''store_only'')
      else ''store_only'')"

definition decisionHint :: "Decision \<Rightarrow> string" where
  "decisionHint d =
     (if d_Drop d then ''drop''
      else if d_Store d \<and> d_Forward d then ''store_forward''
      else if d_Store d then ''store_only''
      else if d_Forward d then ''forward_only''
      else ''store_only'')"

section \<open>Ingestion\<close>

definition baseline :: "ingest_env \<Rightarrow> string \<Rightarrow> event \<Rightarrow> event" where
  "baseline env zone evt =
     (let evt = (if ID evt = '''' then evt\<lparr>ID := ie_id env\<rparr> else evt);
          evt = (if ReceivedAt evt = '''' then evt\<lparr>ReceivedAt := Format_RFC3339Nano (ie_now env)\<rparr> else evt);
          evt = (if Timestamp evt = '''' then evt\<lparr>Timestamp := ReceivedAt evt\<rparr> else evt);
          evt = (if Zone evt = '''' then evt\<lparr>Zone := zone\<rparr> else evt);
          evt = (if Protocol evt = '''' then evt\<lparr>Protocol := ''json''\<rparr> else evt);
          evt = (if Tags evt = None then evt\<lparr>Tags := Some []\<rparr> else evt)
      in evt\<lparr>SourceType := normalizeSourceType (SourceType evt)\<rparr>)"

definition fwd_enabled :: "Processor \<Rightarrow> bool" where
  "fwd_enabled p \<longleftrightarrow> fc_Enabled (ForwardingStore_Get (pr_cfg p)) \<and> Forwarder_Enabled (pr_forwarder p)"

definition will_forward :: "Decision \<Rightarrow> Processor \<Rightarrow> bool" where
  "will_forward d p = (if \<not> d_Drop d then d_Forward d \<and> fwd_enabled p else False)"

definition enrich :: "string \<Rightarrow> Decision \<Rightarrow> bool \<Rightarrow> event \<Rightarrow> event option" where
  "enrich path d willForward evt = do {
     evt \<leftarrow> put_tag ''ingestion_path'' path evt;
     evt \<leftarrow> put_tag ''collector_decision'' (decisionLabel d willForward) evt;
     evt \<leftarrow> put_tag ''collector_decision_hint'' (decisionHint d) evt;
     evt \<leftarrow> put_tag ''decision_reason'' (d_Reason d) evt;
     evt \<leftarrow> put_tag ''siem_index_hint'' (siemIndexHint (SourceType evt)) evt;
     evt \<leftarrow> put_tag ''splunk_sourcetype'' (splunkSourcetype (SourceType evt)) evt;
     evt \<leftarrow> (if d_MatchedRuleID d \<noteq> '''' then put_tag ''matched_rule_id'' (d_MatchedRuleID d) evt else Some evt);
     if willForward then put_tag ''forwarding_status'' ''queued'' evt else Some evt }"

definition ingest_dropped :: "ingest_env \<Rightarrow> Decision \<Rightarrow> event \<Rightarrow> Processor \<Rightarrow> Processor" where
  "ingest_dropped env d evt p =
     (let p = (if d_Store d then
                 (case Append (ie_append env) evt (pr_store p) of
                    (f, Some err) \<Rightarrow> p\<lparr>pr_store := f\<rparr>
                  | (f, None) \<Rightarrow> p\<lparr>pr_store := f, pr_hub := (if d_Show d then Publish evt (pr_hub p) else pr_hub p)\<rparr>)
               else p)
      in p\<lparr>pr_stats := AddDropped (ie_stats env) (d_MatchedRuleID d) (d_Reason d) (d_Sampled d) (pr_stats p)\<rparr>)"

definition ingest_stored :: "ingest_env \<Rightarrow> Decision \<Rightarrow> event \<Rightarrow> Processor \<Rightarrow> Processor" where
  "ingest_stored env d evt p =
     (if d_Store d then
        (case Append (ie_append env) evt (pr_store p) of
           (f, Some err) \<Rightarrow> p\<lparr>pr_store := f\<rparr>
         | (f, None) \<Rightarrow> p\<lparr>pr_store := f, pr_stats := AddStored (ie_stats env) evt (pr_stats p),
                          pr_hub := (if d_Show d then Publish evt (pr_hub p) else pr_hub p)\<rparr>)
      else p)"

definition ingest_queued :: "ingest_env \<Rightarrow> bool \<Rightarrow> string \<Rightarrow> event \<Rightarrow> Processor \<Rightarrow> Processor" where
  "ingest_queued env willForward path evt p =
     (if willForward then
        (case pr_queue p of
           None \<Rightarrow> p
         | Some q \<Rightarrow> p\<lparr>pr_queue := Some (fst (Enqueue
             \<lparr>t_Evt = evt, t_IngestionPath = path, t_EnqueuedAt = ie_enqueued env\<rparr> q))\<rparr>)
      else p)"

definition ingest :: "ingest_env \<Rightarrow> event \<Rightarrow> string \<Rightarrow> Processor \<Rightarrow> Processor option" where
  "ingest env evt path p = do {
     let evt = baseline env (pr_zone p) evt;
     let (e, d) = Evaluate (ie_oob env) (ie_eval env) (Some evt) (pr_engine p);
     let p = p\<lparr>pr_engine := e\<rparr>;
     let willForward = will_forward d p;
     evt \<leftarrow> enrich path d willForward evt;
     if d_Drop d then Some (ingest_dropped env d evt p)
     else do {
       let p = p\<lparr>pr_stats := AddDecision (decisionLabel d willForward) (d_MatchedRuleID d) (d_Sampled d) (pr_stats p)\<rparr>;
       let p = ingest_stored env d evt p;
       Some (ingest_queued env willForward path evt p) } }"

definition ProcessRaw ::
  "location \<Rightarrow> int \<Rightarrow> norm_env \<Rightarrow> ingest_env \<Rightarrow> string \<Rightarrow> string \<Rightarrow> string \<Rightarrow> Processor \<Rightarrow> Processor option" where
  "ProcessRaw loc now nenv env raw sourceIP transport p = do {
     evt \<leftarrow> FromParsed nenv (pr_zone p) (Parse loc now raw) sourceIP;
     ingest env evt (''syslog_'' @ transport) p }"

definition ProcessNormalized :: "ingest_env \<Rightarrow> event \<Rightarrow> Processor \<Rightarrow> Processor option" where
  "ProcessNormalized env evt p = ingest env evt ''api'' p"

definition ProcessTestEvent :: "ingest_env \<Rightarrow> event \<Rightarrow> Processor \<Rightarrow> Processor option" where
  "ProcessTestEvent env evt p = ingest env evt ''api_test_event'' p"

section \<open>Forwarding\<close>

definition handleForwardResult ::
  "int \<Rightarrow> ForwardingConfig write_result \<Rightarrow> ForwardResult \<Rightarrow> Processor \<Rightarrow> Processor" where
  "handleForwardResult now w result p =
     (let ts = Format_RFC3339Nano now
      in if fr_Skipped result then p
         else (case fr_Err result of
                 Some err \<Rightarrow>
                   p\<lparr>pr_stats := AddForwardResult False '''' (pr_stats p),
                     pr_cfg := fst (ForwardingStore_UpdateForwardResult False ts (send_error_text err)
                       (fr_EventID result) (pr_cfg p) w)\<rparr>
               | None \<Rightarrow>
                   p\<lparr>pr_stats := AddForwardResult True ts (pr_stats p),
                     pr_cfg := fst (ForwardingStore_UpdateForwardResult True ts ''''
                       (fr_EventID result) (pr_cfg p) w)\<rparr>))"

text \<open>The closure \<open>doSend\<close> of \<open>main\<close>, and one turn of a worker with the callback.\<close>

definition doSend :: "http_outcome \<Rightarrow> Processor \<Rightarrow> event \<Rightarrow> int \<times> send_error option" where
  "doSend net p evt = SendWithStatus (pr_forwarder p) net"

definition forward_next ::
  "int \<Rightarrow> http_outcome \<Rightarrow> int \<Rightarrow> ForwardingConfig write_result \<Rightarrow> Processor \<Rightarrow> Processor" where
  "forward_next now net elapsed w p =
     (case pr_queue p of
        None \<Rightarrow> p
      | Some q \<Rightarrow>
          (case worker_turn now (doSend net p) elapsed q of
             (q', None) \<Rightarrow> p
           | (q', Some r) \<Rightarrow> handleForwardResult now w r (p\<lparr>pr_queue := Some q'\<rparr>)))"

section \<open>Administration\<close>

definition CurrentFilterConfig :: "(string \<times> string) list" where
  "CurrentFilterConfig = [(''mode'', ''rule_matrix'')]"

definition UpdateFilterConfig :: "'a \<Rightarrow> (string \<times> string) list" where
  "UpdateFilterConfig cfg = CurrentFilterConfig"

definition CurrentRules :: "Processor \<Rightarrow> RuleConfig list" where
  "CurrentRules p = Rules (pr_engine p)"

definition Processor_SetRules :: "RuleConfig list \<Rightarrow> Processor \<Rightarrow> Processor" where
  "Processor_SetRules rs p = p\<lparr>pr_engine := SetRules rs (pr_engine p)\<rparr>"

definition RuleTest :: "int \<Rightarrow> int \<Rightarrow> event \<Rightarrow> Processor \<Rightarrow> Processor \<times> Decision" where
  "RuleTest oob now evt p =
     (case Evaluate oob now (Some (evt\<lparr>SourceType := normalizeSourceType (SourceType evt)\<rparr>)) (pr_engine p) of
        (e, d) \<Rightarrow> (p\<lparr>pr_engine := e\<rparr>, d))"

definition Processor_ForwardingConfig :: "Processor \<Rightarrow> ForwardingConfig" where
  "Processor_ForwardingConfig p =
     (let cfg = ForwardingStore_Get (pr_cfg p)
      in case pr_queue p of
           None \<Rightarrow> cfg
         | Some q \<Rightarrow> cfg\<lparr>fc_QueuedCount := QueuedCount q, fc_InFlightCount := InFlightCount q\<rparr>)"

definition UpdateForwardingConfig ::
  "ForwardingConfig \<Rightarrow> ForwardingConfig write_result \<Rightarrow> Processor \<Rightarrow> Processor \<times> string option" where
  "UpdateForwardingConfig cfg w p =
     (case ForwardingStore_Replace cfg (pr_cfg p) w of
        (s, Some err) \<Rightarrow> (p\<lparr>pr_cfg := s\<rparr>, Some err)
      | (s, None) \<Rightarrow>
          (p\<lparr>pr_cfg := s, pr_forwarder := New_Forwarder (fc_DMZCollectorURL cfg) (pr_timeout p)\<rparr>, None))"

definition ForwardQueueStats :: "Processor \<Rightarrow> int \<times> int" where
  "ForwardQueueStats p =
     (case pr_queue p of None \<Rightarrow> (0, 0) | Some q \<Rightarrow> (QueuedCount q, InFlightCount q))"

definition ResetForwardQueue :: "Processor \<Rightarrow> Processor \<times> int" where
  "ResetForwardQueue p =
     (case pr_queue p of
        None \<Rightarrow> (p, 0)
      | Some q \<Rightarrow> (case Drain q of (q', n) \<Rightarrow> (p\<lparr>pr_queue := Some q'\<rparr>, n)))"

section \<open>Start-up\<close>

text \<open>The part of \<open>main\<close> that builds the processor from the configuration and the stores.\<close>

definition initial_url :: "Config \<Rightarrow> ForwardingConfig \<Rightarrow> string" where
  "initial_url cfg fcfg = (if fc_DMZCollectorURL fcfg \<noteq> '''' then fc_DMZCollectorURL fcfg else c_DMZCollectorURL cfg)"

definition start_processor :: "Config \<Rightarrow> RuleStore \<Rightarrow> ForwardingStore \<Rightarrow> jsonl_file \<Rightarrow> Processor" where
  "start_processor cfg rules fwd file =
     \<lparr>pr_zone = c_Zone cfg, pr_store = file,
      pr_forwarder = New_Forwarder (initial_url cfg (ForwardingStore_Get fwd)) (c_ForwardTimeoutSeconds cfg),
      pr_queue = Some (NewForwardQueue (c_ForwardWorkers cfg) (c_ForwardQueueSize cfg)
        (seconds_duration (c_ForwardMaxAgeSecs cfg))),
      pr_stats = NewStats, pr_engine = SetRules (RuleStore_All rules) New, pr_hub = NewStreamHub,
      pr_cfg = fwd, pr_timeout = c_ForwardTimeoutSeconds cfg\<rparr>"

text \<open>\<open>net.SplitHostPort\<close> for the addresses used here, then the fallback on the last colon.\<close>

definition last_part :: "string \<Rightarrow> string" where
  "last_part addr = (case LastIndex addr '':'' of None \<Rightarrow> addr | Some i \<Rightarrow> drop (i + 1) addr)"

definition extractPort :: "string \<Rightarrow> int" where
  "extractPort addr = (case Atoi (last_part addr) of None \<Rightarrow> 0 | Some n \<Rightarrow> n)"

end
