(* ===== verification/Processor_Facts.thy ===== *)
theory Processor_Facts
  imports Processor Forward_Queue_Facts Engine_Defaults Jsonl_Facts
begin

text \<open>
  Facts about the processing core: what the enrichment writes, that ingestion always returns, the
  runs of a processor and what holds after any of them.
\<close>

section \<open>Enrichment\<close>

definition decision_keys :: "string set" where
  "decision_keys = set [''ingestion_path'', ''collector_decision'', ''collector_decision_hint'', ''decision_reason'',
     ''siem_index_hint'', ''splunk_sourcetype'', ''matched_rule_id'', ''forwarding_status'']"

lemma baseline_tags: "\<exists>m. Tags (baseline env zone evt) = Some m"
  by (cases "Tags evt") (simp_all add: baseline_def Let_def)

text \<open>The enrichment is a list of writes, under its own keys.\<close>

definition decision_writes :: "string \<Rightarrow> Decision \<Rightarrow> bool \<Rightarrow> string \<Rightarrow> (string \<times> string) list" where
  "decision_writes path d fwd st =
     [(''ingestion_path'', path), (''collector_decision'', decisionLabel d fwd),
      (''collector_decision_hint'', decisionHint d), (''decision_reason'', d_Reason d),
      (''siem_index_hint'', siemIndexHint st), (''splunk_sourcetype'', splunkSourcetype st)] @
     (if d_MatchedRuleID d \<noteq> '''' then [(''matched_rule_id'', d_MatchedRuleID d)] else []) @
     (if fwd then [(''forwarding_status'', ''queued'')] else [])"

lemma enrich_eq:
  assumes "Tags evt = Some m"
  shows "enrich path d fwd evt =
     Some (evt\<lparr>Tags := Some (fold (\<lambda>(k, v). gput k v) (decision_writes path d fwd (SourceType evt)) m)\<rparr>)"
proof -
  have p: "put_tag k v (evt\<lparr>Tags := Some m'\<rparr>) = Some (evt\<lparr>Tags := Some (gput k v m')\<rparr>)" for k v m'
    by (simp add: put_tag_def)
  have "enrich path d fwd (evt\<lparr>Tags := Some m\<rparr>) =
      Some (evt\<lparr>Tags := Some (fold (\<lambda>(k, v). gput k v) (decision_writes path d fwd (SourceType evt)) m)\<rparr>)"
    unfolding enrich_def decision_writes_def by (simp add: p)
  moreover have "evt\<lparr>Tags := Some m\<rparr> = evt" using assms by simp
  ultimately show ?thesis by simp
qed

lemma decision_writes_keys: "fst ` set (decision_writes path d fwd st) \<subseteq> decision_keys"
  unfolding decision_writes_def decision_keys_def by auto

lemma decision_writes_lookup:
  "map_of (rev (decision_writes path d fwd st)) ''ingestion_path'' = Some path"
  "map_of (rev (decision_writes path d fwd st)) ''collector_decision'' = Some (decisionLabel d fwd)"
  "map_of (rev (decision_writes path d fwd st)) ''decision_reason'' = Some (d_Reason d)"
  "fwd \<Longrightarrow> map_of (rev (decision_writes path d fwd st)) ''forwarding_status'' = Some ''queued''"
  unfolding decision_writes_def by simp_all

lemma enrich_frame:
  assumes "enrich path d fwd evt = Some evt'"
  shows "\<exists>m'. evt' = evt\<lparr>Tags := Some m'\<rparr>"
    and "tag_lookup evt' |` (- decision_keys) = tag_lookup evt |` (- decision_keys)"
proof -
  from assms obtain m where m: "Tags evt = Some m" by (cases "Tags evt") (auto simp: enrich_def put_tag_def)
  from enrich_eq [OF m, of path d fwd] assms show "\<exists>m'. evt' = evt\<lparr>Tags := Some m'\<rparr>" by auto
  have "map_of (rev (decision_writes path d fwd (SourceType evt))) k = None" if "k \<notin> decision_keys" for k
    using decision_writes_keys [of path d fwd "SourceType evt"] that by (auto simp: map_of_eq_None_iff image_iff)
  then show "tag_lookup evt' |` (- decision_keys) = tag_lookup evt |` (- decision_keys)"
    using enrich_eq [OF m, of path d fwd] assms m
    by (auto simp: tag_lookup_def map_of_fold_gput restrict_map_def fun_eq_iff map_add_def)
qed

lemma enrich_tags:
  assumes "enrich path d fwd evt = Some evt'"
  shows "tag evt' ''ingestion_path'' = path" "tag evt' ''collector_decision'' = decisionLabel d fwd"
    "fwd \<Longrightarrow> tag evt' ''forwarding_status'' = ''queued''"
proof -
  from assms obtain m where m: "Tags evt = Some m" by (cases "Tags evt") (auto simp: enrich_def put_tag_def)
  from enrich_eq [OF this, of path d fwd] assms
  show "tag evt' ''ingestion_path'' = path" "tag evt' ''collector_decision'' = decisionLabel d fwd"
    "fwd \<Longrightarrow> tag evt' ''forwarding_status'' = ''queued''"
    by (auto simp: tag_def gget_def map_of_fold_gput map_add_def decision_writes_lookup)
qed

text \<open>Ingestion never writes to a nil map, so it always returns.\<close>

lemma ingest_total: "\<exists>p'. ingest env evt path p = Some p'"
proof -
  let ?evt = "baseline env (pr_zone p) evt"
  let ?r = "Evaluate (ie_oob env) (ie_eval env) (Some ?evt) (pr_engine p)"
  let ?fwd = "will_forward (snd ?r) (p\<lparr>pr_engine := fst ?r\<rparr>)"
  obtain m where m: "Tags ?evt = Some m" using baseline_tags by blast
  obtain evt' where "enrich path (snd ?r) ?fwd ?evt = Some evt'" using enrich_eq [OF m] by blast
  then show ?thesis by (cases "d_Drop (snd ?r)") (simp_all add: ingest_def Let_def split_beta)
qed

section \<open>Runs of a processor\<close>

text \<open>
  Every operation of the processor, in any order and with any outcome of its surroundings; the
  stream clients use its hub, and a repair replaces the contents of its file.
\<close>

inductive pstep :: "Processor \<Rightarrow> Processor \<Rightarrow> bool" where
  ingested: "ingest env evt path p = Some p' \<Longrightarrow> pstep p p'"
| forwarded: "pstep p (forward_next now net elapsed w p)"
| rules_set: "pstep p (Processor_SetRules rs p)"
| rule_tested: "pstep p (fst (RuleTest oob now evt p))"
| forwarding_updated: "pstep p (fst (UpdateForwardingConfig cfg w p))"
| queue_reset: "pstep p (fst (ResetForwardQueue p))"
| streamed: "pstep p (p\<lparr>pr_hub := hub_step op (pr_hub p)\<rparr>)"
| repaired: "pstep p (p\<lparr>pr_store := fst (Repair io path (pr_store p))\<rparr>)"

inductive preachable :: "Processor \<Rightarrow> bool" where
  started: "preachable (start_processor cfg rules fwd file)"
| continued: "preachable p \<Longrightarrow> pstep p p' \<Longrightarrow> preachable p'"

inductive_cases pstep_cases: "pstep p p'"

text \<open>What the queue holds when its calls are not interrupted.\<close>

definition idle_workers :: "ForwardQueue \<Rightarrow> bool" where
  "idle_workers q \<longleftrightarrow> (\<exists>n. 0 < n \<and> workers q = replicate_mset n Waiting) \<and> enq_open q = 0 \<and> drain_open q = 0"

definition sent_results :: "ForwardQueue \<Rightarrow> ForwardResult list" where
  "sent_results q = filter (\<lambda>r. \<not> fr_Skipped r) (map (\<lambda>(t, s, r). r) (h_results q))"

definition forward_decided :: "ForwardTask \<Rightarrow> bool" where
  "forward_decided t \<longleftrightarrow>
     tag (t_Evt t) ''collector_decision'' \<in> {''store_and_forward'', ''forward_only''} \<and>
     tag (t_Evt t) ''forwarding_status'' = ''queued'' \<and> tag (t_Evt t) ''ingestion_path'' = t_IngestionPath t"

definition fq_ok :: "Stats \<Rightarrow> ForwardQueue \<Rightarrow> bool" where
  "fq_ok s q \<longleftrightarrow> queue_ok q \<and> idle_workers q \<and> list_all forward_decided (h_accepted q) \<and>
     stat_forwardedCount s = int (length (filter (\<lambda>r. fr_Err r = None) (sent_results q))) \<and>
     stat_failedForwardCnt s = int (length (filter (\<lambda>r. fr_Err r \<noteq> None) (sent_results q)))"

definition proc_ok :: "Processor \<Rightarrow> bool" where
  "proc_ok p \<longleftrightarrow> stats_ok (pr_stats p) \<and> hub_ok (pr_hub p) \<and>
     (\<exists>q. pr_queue p = Some q \<and> fq_ok (pr_stats p) q)"

lemma queue_ok_run: "qstep\<^sup>*\<^sup>* q q' \<Longrightarrow> queue_ok q \<Longrightarrow> queue_ok q'"
  by (induction rule: rtranclp_induct) (auto intro: queue_ok_step)

lemma hub_ok_Publish: "hub_ok h \<Longrightarrow> hub_ok (Publish e h)"
  using hub_ok_step [of h "Publishing e"] by (simp add: hub_step_def)

lemma forward_counts [simp]:
  "stat_forwardedCount (AddStored t e s) = stat_forwardedCount s"
  "stat_failedForwardCnt (AddStored t e s) = stat_failedForwardCnt s"
  "stat_forwardedCount (AddDecision d r b s) = stat_forwardedCount s"
  "stat_failedForwardCnt (AddDecision d r b s) = stat_failedForwardCnt s"
  "stat_forwardedCount (AddDropped t r d b s) = stat_forwardedCount s"
  "stat_failedForwardCnt (AddDropped t r d b s) = stat_failedForwardCnt s"
  by (simp_all add: AddStored_def AddDecision_def AddDropped_def)

lemma fq_ok_stats [simp]:
  "fq_ok (AddStored t e s) q = fq_ok s q" "fq_ok (AddDecision d r b s) q = fq_ok s q"
  "fq_ok (AddDropped t r d b s) q = fq_ok s q"
  by (simp_all add: fq_ok_def)

subsection \<open>Each operation keeps the invariant\<close>

lemma will_forward_engine [simp]: "will_forward d (p\<lparr>pr_engine := e\<rparr>) = will_forward d p"
  by (simp add: will_forward_def fwd_enabled_def)

lemma ingest_cases:
  assumes "ingest env evt path p = Some p'"
  obtains e d evt' where
    "Evaluate (ie_oob env) (ie_eval env) (Some (baseline env (pr_zone p) evt)) (pr_engine p) = (e, d)"
    and "enrich path d (will_forward d p) (baseline env (pr_zone p) evt) = Some evt'"
    and "p' = (if d_Drop d then ingest_dropped env d evt' (p\<lparr>pr_engine := e\<rparr>)
       else ingest_queued env (will_forward d p) path evt' (ingest_stored env d evt'
         (p\<lparr>pr_engine := e, pr_stats := AddDecision (decisionLabel d (will_forward d p)) (d_MatchedRuleID d)
              (d_Sampled d) (pr_stats p)\<rparr>)))"
proof -
  obtain e d where ev: "Evaluate (ie_oob env) (ie_eval env) (Some (baseline env (pr_zone p) evt)) (pr_engine p) = (e, d)"
    by fastforce
  obtain m where m: "Tags (baseline env (pr_zone p) evt) = Some m" using baseline_tags by blast
  obtain evt' where en: "enrich path d (will_forward d p) (baseline env (pr_zone p) evt) = Some evt'"
    using enrich_eq [OF m] by blast
  show thesis
  proof (rule that [OF ev en])
    show "p' = (if d_Drop d then ingest_dropped env d evt' (p\<lparr>pr_engine := e\<rparr>)
       else ingest_queued env (will_forward d p) path evt' (ingest_stored env d evt'
         (p\<lparr>pr_engine := e, pr_stats := AddDecision (decisionLabel d (will_forward d p)) (d_MatchedRuleID d)
              (d_Sampled d) (pr_stats p)\<rparr>)))"
      using assms ev en by (cases "d_Drop d") (simp_all add: ingest_def Let_def)
  qed
qed

lemma ingest_parts_frame:
  "pr_queue (ingest_dropped env d e p) = pr_queue p"
  "pr_stats (ingest_dropped env d e p) = AddDropped (ie_stats env) (d_MatchedRuleID d) (d_Reason d) (d_Sampled d) (pr_stats p)"
  "pr_hub (ingest_dropped env d e p) \<in> {pr_hub p, Publish e (pr_hub p)}"
  "pr_queue (ingest_stored env d e p) = pr_queue p"
  "pr_stats (ingest_stored env d e p) \<in> {pr_stats p, AddStored (ie_stats env) e (pr_stats p)}"
  "pr_hub (ingest_stored env d e p) \<in> {pr_hub p, Publish e (pr_hub p)}"
  by (simp_all add: ingest_dropped_def ingest_stored_def Let_def split: prod.split option.split)

lemma fq_ok_Enqueue: "fq_ok s q \<Longrightarrow> forward_decided t \<Longrightarrow> fq_ok s (fst (Enqueue t q))"
  using queue_ok_run [OF Enqueue_run]
  by (auto simp: fq_ok_def Enqueue_def idle_workers_def sent_results_def)

lemma drain_loop_frame:
  "h_accepted (fst (drain_loop ts n q)) = h_accepted q" "h_results (fst (drain_loop ts n q)) = h_results q"
  "workers (fst (drain_loop ts n q)) = workers q" "enq_open (fst (drain_loop ts n q)) = enq_open q"
  "drain_open (fst (drain_loop ts n q)) = drain_open q"
  by (induction ts arbitrary: n q) simp_all

lemma fq_ok_Drain: "fq_ok s q \<Longrightarrow> fq_ok s (fst (Drain q))"
  using queue_ok_run drain_loop_run [of q "tasks q" 0]
  by (auto simp: fq_ok_def Drain_def idle_workers_def sent_results_def drain_loop_frame)

definition count_result :: "string \<Rightarrow> ForwardResult \<Rightarrow> Stats \<Rightarrow> Stats" where
  "count_result ts r s =
     (if fr_Skipped r then s
      else case fr_Err r of Some _ \<Rightarrow> AddForwardResult False '''' s | None \<Rightarrow> AddForwardResult True ts s)"

lemma fq_ok_worker_turn:
  assumes "fq_ok s q" and "worker_turn now f elapsed q = (q', Some r)"
  shows "fq_ok (count_result ts r s) q'"
proof -
  from assms(1) obtain n where "0 < n" "workers q = replicate_mset n Waiting" by (auto simp: fq_ok_def idle_workers_def)
  then have "workers q = add_mset Waiting (replicate_mset (n - 1) Waiting)" by (cases n) simp_all
  from worker_turn_run [OF this, of now f elapsed] have "queue_ok q'"
    using assms queue_ok_run by (fastforce simp: fq_ok_def)
  moreover have "idle_workers q'" "h_accepted q' = h_accepted q"
    "sent_results q' = sent_results q @ (if fr_Skipped r then [] else [r])"
    using assms
    by (auto simp: worker_turn_def fq_ok_def idle_workers_def sent_results_def split: list.splits prod.splits)
  ultimately show ?thesis
    using assms(1)
    by (auto simp: fq_ok_def count_result_def AddForwardResult_def split: option.splits)
qed

lemma proc_ok_engine [simp]: "proc_ok (p\<lparr>pr_engine := e\<rparr>) = proc_ok p"
  by (simp add: proc_ok_def)

lemma proc_ok_queued:
  assumes "proc_ok p"
    and "fwd \<Longrightarrow> forward_decided \<lparr>t_Evt = evt, t_IngestionPath = path, t_EnqueuedAt = ie_enqueued env\<rparr>"
  shows "proc_ok (ingest_queued env fwd path evt p)"
proof (cases fwd)
  case True
  from assms(1) obtain q where q: "pr_queue p = Some q" "fq_ok (pr_stats p) q" by (auto simp: proc_ok_def)
  from fq_ok_Enqueue [OF q(2) assms(2) [OF True]] show ?thesis
    using assms(1) True q by (simp add: proc_ok_def ingest_queued_def)
qed (simp add: ingest_queued_def assms(1))

lemma proc_ok_ingest:
  assumes "proc_ok p" and "ingest env evt path p = Some p'"
  shows "proc_ok p'"
proof -
  from assms(2) obtain e d evt' where
    en: "enrich path d (will_forward d p) (baseline env (pr_zone p) evt) = Some evt'"
    and p': "p' = (if d_Drop d then ingest_dropped env d evt' (p\<lparr>pr_engine := e\<rparr>)
       else ingest_queued env (will_forward d p) path evt' (ingest_stored env d evt'
         (p\<lparr>pr_engine := e, pr_stats := AddDecision (decisionLabel d (will_forward d p)) (d_MatchedRuleID d)
              (d_Sampled d) (pr_stats p)\<rparr>)))"
    by (rule ingest_cases)
  have dropped: "proc_ok (ingest_dropped env d evt' p0)" if "proc_ok p0" for p0
    using that ingest_parts_frame(3) [of env d evt' p0]
    by (auto simp: proc_ok_def ingest_parts_frame stats_ok_AddDropped hub_ok_Publish)
  have stored: "proc_ok (ingest_stored env d evt' p0)" if "proc_ok p0" for p0
    using that ingest_parts_frame(5,6) [of env d evt' p0]
    by (auto simp: proc_ok_def ingest_parts_frame(4) stats_ok_AddStored hub_ok_Publish)
  have label: "decisionLabel d (will_forward d p) \<in> {''store_and_forward'', ''forward_only''}" if "will_forward d p"
    using that by (auto simp: decisionLabel_def will_forward_def split: if_splits)
  have queued: "proc_ok (ingest_queued env (will_forward d p) path evt' p0)" if "proc_ok p0" for p0
    using that label enrich_tags [OF en] by (intro proc_ok_queued) (simp_all add: forward_decided_def)
  have counted: "proc_ok (p\<lparr>pr_engine := e, pr_stats := AddDecision l i b (pr_stats p)\<rparr>)" for l i b
    using assms(1) by (simp add: proc_ok_def stats_ok_AddDecision)
  show ?thesis
    unfolding p' by (cases "d_Drop d") (simp_all add: assms(1) dropped queued stored counted)
qed

lemma proc_ok_forward_next: "proc_ok p \<Longrightarrow> proc_ok (forward_next now net elapsed w p)"
proof -
  assume ok: "proc_ok p"
  then obtain q where q: "pr_queue p = Some q" and fq: "fq_ok (pr_stats p) q" by (auto simp: proc_ok_def)
  show "proc_ok (forward_next now net elapsed w p)"
  proof (cases "worker_turn now (doSend net p) elapsed q")
    case (Pair q' r)
    show ?thesis
    proof (cases r)
      case None
      with Pair q ok show ?thesis by (simp add: forward_next_def)
    next
      case (Some r)
      have "fq_ok (count_result (Format_RFC3339Nano now) r (pr_stats p)) q'"
        using fq_ok_worker_turn [OF fq, of now "doSend net p" elapsed] Pair Some by simp
      then show ?thesis
        using Pair Some q ok
        by (auto simp: forward_next_def handleForwardResult_def count_result_def proc_ok_def Let_def
            stats_ok_AddForwardResult split: option.splits if_splits)
    qed
  qed
qed

lemma proc_ok_start: "proc_ok (start_processor cfg rules fwd file)"
proof -
  have "idle_workers (NewForwardQueue a b c)" for a b c
    unfolding idle_workers_def
    by (intro conjI exI [of _ "nat (if a \<le> 0 then 4 else a)"]) (simp_all add: NewForwardQueue_def Let_def)
  then have "fq_ok NewStats (NewForwardQueue a b c)" for a b c
    using queue_ok_initial [of a b c]
    by (auto simp: fq_ok_def NewForwardQueue_def sent_results_def Let_def NewStats_def)
  then show ?thesis
    by (simp add: proc_ok_def start_processor_def stats_ok_NewStats hub_ok_def NewStreamHub_def)
qed

lemma proc_ok_step: "pstep p p' \<Longrightarrow> proc_ok p \<Longrightarrow> proc_ok p'"
proof (induction rule: pstep.induct)
  case (ingested env evt path p p')
  then show ?case using proc_ok_ingest by blast
next
  case (forwarding_updated p cfg w)
  then show ?case by (auto simp: UpdateForwardingConfig_def proc_ok_def split: prod.splits option.splits)
next
  case (queue_reset p)
  then show ?case
    using fq_ok_Drain by (auto simp: ResetForwardQueue_def proc_ok_def split: prod.splits) (metis fst_conv)
next
  case (streamed p op)
  then show ?case by (simp add: proc_ok_def hub_ok_step)
next
  case (repaired p io path)
  then show ?case by (simp add: proc_ok_def)
qed (simp_all add: proc_ok_forward_next Processor_SetRules_def RuleTest_def split_beta)

lemma preachable_ok: "preachable p \<Longrightarrow> proc_ok p"
  by (induction rule: preachable.induct) (auto intro: proc_ok_start proc_ok_step)

end
