(* ===== verification/Processor_Properties.thy ===== *)
theory Processor_Properties
  imports Processor_Facts Source_Facts Syslog_Properties
begin

text \<open>
  Properties of the processing core: ingestion always returns, its counters, store and queue stay
  consistent in every run, what a security event goes through, and what is forwarded.
\<close>

section \<open>A processor for the witnesses\<close>

definition probe_config :: Config where
  "probe_config = Load [(''DMZ_COLLECTOR_URL'', ''http://dmz'')]"

definition probe_processor :: Processor where
  "probe_processor = start_processor probe_config \<lparr>st_data = defaultRules, st_disk = None\<rparr>
     \<lparr>st_data = zero_forwarding\<lparr>fc_Enabled := True\<rparr>, st_disk = None\<rparr> None"

definition probe_env :: ingest_env where
  "probe_env = \<lparr>ie_id = ''i1'', ie_now = 0, ie_eval = 0, ie_stats = 0, ie_enqueued = 5, ie_oob = 0,
     ie_append = OpenFails ''denied''\<rparr>"

definition probe_security :: event where
  "probe_security = zero_event\<lparr>ID := ''e1'', Message := ''m'', Raw := ''m'', EventCategory := ''security'',
     ReceivedAt := ''t'', Timestamp := ''t'', Zone := ''OT'', Protocol := ''syslog''\<rparr>"

lemma probe_url: "TrimSpace ''http://dmz'' = ''http://dmz''" "gget '''' [(''DMZ_COLLECTOR_URL'', ''http://dmz'')] ''DMZ_COLLECTOR_URL'' = ''http://dmz''"
  by code_simp+

lemma probe_sizes: "gget '''' [(''DMZ_COLLECTOR_URL'', ''http://dmz'')] ''FORWARD_WORKERS'' = ''''"
  "gget '''' [(''DMZ_COLLECTOR_URL'', ''http://dmz'')] ''FORWARD_QUEUE_SIZE'' = ''''"
  "gget '''' [(''DMZ_COLLECTOR_URL'', ''http://dmz'')] ''FORWARD_MAX_AGE_SECONDS'' = ''''"
  by code_simp+

lemma probe_state_fields:
  "eng_rules (pr_engine probe_processor) = defaultRules" "fwd_enabled probe_processor"
  "pr_store probe_processor = None"
  "pr_queue probe_processor = Some (NewForwardQueue 4 2048 (seconds_duration 30))"
  by (simp_all add: probe_processor_def start_processor_def SetRules_def RuleStore_All_def fwd_enabled_def
      ForwardingStore_Get_def New_Forwarder_Enabled initial_url_def zero_forwarding_def probe_config_def Load_def
      getenv_def parseIntEnv_def probe_url probe_sizes Let_def)

lemma apply_filterlog_Raw: "Raw (apply_filterlog parsed warning m evt) = Raw evt"
  unfolding apply_filterlog_def Let_def set_tags_def by simp

lemma parseOPNsenseFilterlog_Raw: "parseOPNsenseFilterlog i now zone p ip src = Some e \<Longrightarrow> Raw e = pm_Raw p"
  unfolding parseOPNsenseFilterlog_def Let_def
  by (auto simp: apply_filterlog_Raw firewall_event_def set_tags_def split: if_splits prod.splits)

lemma base_event_Raw: "Raw (base_event nenv zone p ip) = pm_Raw p"
  unfolding base_event_def Let_def
  by (auto simp: fromStructuredTelemetryJSON_def plain_event_def parseOPNsenseFilterlog_Raw Let_def split: option.split)

lemma probe_reachable: "preachable probe_processor"
  unfolding probe_processor_def by (rule preachable.started)

lemma probe_ingested:
  obtains p' where "ingest probe_env probe_security ''api'' probe_processor = Some p'" and "preachable p'"
  using ingest_total preachable.continued [OF probe_reachable pstep.ingested] by blast

section \<open>Properties\<close>

lemma ProcessRaw_result:
  "\<exists>evt p'. FromParsed nenv (pr_zone p) (Parse loc now raw) sourceIP = Some evt \<and> Raw evt = TrimSpace raw \<and>
     ingest env evt (''syslog_'' @ transport) p = Some p' \<and>
     ProcessRaw loc now nenv env raw sourceIP transport p = Some p'"
proof -
  let ?b = "base_event nenv (pr_zone p) (Parse loc now raw) sourceIP"
  have "Raw ?b = pm_Raw (Parse loc now raw)" by (rule base_event_Raw)
  moreover obtain out where "Apply \<lparr>ctx_Parsed = Parse loc now raw, ctx_SourceIP = sourceIP\<rparr> ?b = Some out"
    and "same_evidence ?b out"
    using Apply_result by blast
  moreover obtain p' where "ingest env out (''syslog_'' @ transport) p = Some p'" using ingest_total by blast
  ultimately show ?thesis
    by (auto simp: ProcessRaw_def FromParsed_def same_evidence_def Parse_raw)
qed

lemma ProcessRaw_total: "\<exists>p'. ProcessRaw loc now nenv env raw ip transport p = Some p'"
  using ProcessRaw_result by blast


lemma proc_ok_accounts:
  assumes "proc_ok p" and "pr_queue p = Some q"
  shows "stat_total (pr_stats p) = stat_storedCount (pr_stats p) + stat_droppedCount (pr_stats p) \<and>
    counts_sum (stat_bySeverity (pr_stats p)) = stat_storedCount (pr_stats p) \<and>
    counts_sum (stat_byCategory (pr_stats p)) = stat_storedCount (pr_stats p) \<and>
    source_sum (stat_sources (pr_stats p)) = stat_storedCount (pr_stats p) \<and>
    length (tasks q) \<le> cap q \<and> fst (ForwardQueueStats p) = int (length (tasks q)) \<and>
    mset (h_accepted q) = mset (tasks q) + mset (h_drained q) + mset (map fst (h_results q)) \<and>
    stat_forwardedCount (pr_stats p) + stat_failedForwardCnt (pr_stats p) = int (length (sent_results q)) \<and>
    list_all (\<lambda>(i, ch). length ch \<le> stream_buffer) (hub_clients (pr_hub p))"
proof -
  from assms
  have s: "stats_ok (pr_stats p)" and h: "hub_ok (pr_hub p)" and q: "fq_ok (pr_stats p) q"
    by (auto simp: proc_ok_def)
  then obtain n where w: "workers q = replicate_mset n Waiting" "enq_open q = 0" "drain_open q = 0"
    by (auto simp: fq_ok_def idle_workers_def)
  have n: "length (filter P xs) + length (filter (\<lambda>x. \<not> P x) xs) = length xs" for P and xs :: "ForwardResult list"
    by (rule sum_length_filter_compl)
  show ?thesis
    using s h q w n [of "\<lambda>r. fr_Err r = None" "sent_results q"]
    by (auto simp: stats_ok_def hub_ok_def fq_ok_def queue_ok_def conserved_def counters_exact_def
        ForwardQueueStats_def QueuedCount_def assms(2) list_all_iff)
qed

text \<open>In every state the processor can reach, its counters account for its events: the total is
  stored plus dropped, every breakdown adds up to the stored count, the queue never exceeds its
  capacity and reports its exact length, each task it ever accepted is waiting, was drained by a reset
  or has one result, each result that was not skipped is counted once as forwarded or failed, and no
  stream client holds more than its buffer.\<close>

theorem processor_accounts_for_events:
  assumes "preachable p" and "pr_queue p = Some q"
  shows "stat_total (pr_stats p) = stat_storedCount (pr_stats p) + stat_droppedCount (pr_stats p) \<and>
    counts_sum (stat_bySeverity (pr_stats p)) = stat_storedCount (pr_stats p) \<and>
    counts_sum (stat_byCategory (pr_stats p)) = stat_storedCount (pr_stats p) \<and>
    source_sum (stat_sources (pr_stats p)) = stat_storedCount (pr_stats p) \<and>
    length (tasks q) \<le> cap q \<and> fst (ForwardQueueStats p) = int (length (tasks q)) \<and>
    mset (h_accepted q) = mset (tasks q) + mset (h_drained q) + mset (map fst (h_results q)) \<and>
    stat_forwardedCount (pr_stats p) + stat_failedForwardCnt (pr_stats p) = int (length (sent_results q)) \<and>
    list_all (\<lambda>(i, ch). length ch \<le> stream_buffer) (hub_clients (pr_hub p))"
  by (rule proc_ok_accounts [OF preachable_ok [OF assms(1)] assms(2)])

theorem processor_accounts_for_events_witness:
  "\<exists>p'. ingest probe_env probe_security ''api'' probe_processor = Some p' \<and>
     stat_total (pr_stats p') = stat_storedCount (pr_stats p') + stat_droppedCount (pr_stats p')"
proof -
  obtain p' where p': "ingest probe_env probe_security ''api'' probe_processor = Some p'" "preachable p'"
    by (rule probe_ingested)
  moreover obtain q where "pr_queue p' = Some q" using preachable_ok [OF p'(2)] by (auto simp: proc_ok_def)
  ultimately show ?thesis using processor_accounts_for_events [of p' q] by blast
qed

lemma proc_ok_decided:
  assumes "proc_ok p" and "pr_queue p = Some q" and "t \<in> set (h_accepted q)"
  shows "(tag (t_Evt t) ''collector_decision'' = ''store_and_forward'' \<or>
      tag (t_Evt t) ''collector_decision'' = ''forward_only'') \<and>
    tag (t_Evt t) ''forwarding_status'' = ''queued'' \<and> tag (t_Evt t) ''ingestion_path'' = t_IngestionPath t"
  using assms by (auto simp: proc_ok_def fq_ok_def list_all_iff forward_decided_def)

text \<open>Only events the rules decided to forward ever enter the forwarding queue: in every reachable
  state each task it accepted carries the decision to forward, is marked as queued and names the path
  it came in by; whatever is switched, reset or reloaded in between, no dropped, stored-only or
  sampled-out event is among them.\<close>

theorem only_decided_events_are_forwarded:
  assumes "preachable p" and "pr_queue p = Some q" and "t \<in> set (h_accepted q)"
  shows "(tag (t_Evt t) ''collector_decision'' = ''store_and_forward'' \<or>
      tag (t_Evt t) ''collector_decision'' = ''forward_only'') \<and>
    tag (t_Evt t) ''forwarding_status'' = ''queued'' \<and> tag (t_Evt t) ''ingestion_path'' = t_IngestionPath t"
  by (rule proc_ok_decided [OF preachable_ok [OF assms(1)] assms(2,3)])

lemma fwd_enabled_engine [simp]: "fwd_enabled (p\<lparr>pr_engine := e\<rparr>) = fwd_enabled p"
  by (simp add: fwd_enabled_def)

lemma baseline_frame [simp]:
  "EventCategory (baseline env zone evt) = EventCategory evt" "Severity (baseline env zone evt) = Severity evt"
  "Message (baseline env zone evt) = Message evt" "Raw (baseline env zone evt) = Raw evt"
  "AssetIP (baseline env zone evt) = AssetIP evt"
  by (simp_all add: baseline_def Let_def)

lemma security_decision:
  assumes "comparableValue (EventCategory evt) = ''security'' \<or> comparableValue (Severity evt) = ''critical''"
    and "eng_rules e = defaultRules" and "Evaluate oob now (Some evt) e = (e', d)"
  shows "e' = e" "d_Store d" "d_Forward d" "\<not> d_Drop d"
proof -
  have "\<exists>r \<in> set (take 4 defaultRules). rule_matches evt (operationFor evt) r"
  proof -
    have "4 \<le> length defaultRules" by (simp add: defaultRules_def)
    then have "defaultRules ! 2 \<in> set (take 4 defaultRules)" "defaultRules ! 3 \<in> set (take 4 defaultRules)"
      by (auto simp: in_set_conv_nth intro: exI [where x = 2] exI [where x = 3])
    then show ?thesis using assms(1) default_security_rule default_critical_rule by blast
  qed
  then obtain r where "r \<in> set (take 4 defaultRules)" "rule_matches evt (operationFor evt) r" by blast
  moreover have "eng_rules e = take 4 defaultRules @ drop 4 defaultRules" using assms(2) by simp
  ultimately show "e' = e" "d_Store d" "d_Forward d" "\<not> d_Drop d"
    using forwarded_by_prefix [of e "take 4 defaultRules" "drop 4 defaultRules" r evt oob now, OF _ default_prefix_forwards]
    by (simp_all add: assms(3))
qed

text \<open>What ingestion does with an event of the rules' first class.\<close>

lemma security_ingest:
  assumes "eng_rules (pr_engine p) = defaultRules"
    and "comparableValue (EventCategory evt) = ''security'' \<or> comparableValue (Severity evt) = ''critical''"
    and "fwd_enabled p" and "pr_queue p = Some q" and "length (tasks q) < cap q"
  shows "\<exists>p' evt' q'. ingest env evt path p = Some p' \<and>
    Message evt' = Message evt \<and> Raw evt' = Raw evt \<and> EventCategory evt' = EventCategory evt \<and>
    Severity evt' = Severity evt \<and> tag evt' ''collector_decision'' = ''store_and_forward'' \<and>
    pr_store p' = fst (Append (ie_append env) evt' (pr_store p)) \<and>
    stat_storedCount (pr_stats p') = stat_storedCount (pr_stats p) +
      (if snd (Append (ie_append env) evt' (pr_store p)) = None then 1 else 0) \<and>
    stat_droppedCount (pr_stats p') = stat_droppedCount (pr_stats p) \<and>
    pr_queue p' = Some q' \<and>
    tasks q' = tasks q @ [\<lparr>t_Evt = evt', t_IngestionPath = path, t_EnqueuedAt = ie_enqueued env\<rparr>] \<and>
    h_accepted q' = h_accepted q @ [\<lparr>t_Evt = evt', t_IngestionPath = path, t_EnqueuedAt = ie_enqueued env\<rparr>]"
proof -
  obtain p' where ing: "ingest env evt path p = Some p'" using ingest_total by blast
  then obtain e d evt' where
    ev: "Evaluate (ie_oob env) (ie_eval env) (Some (baseline env (pr_zone p) evt)) (pr_engine p) = (e, d)"
    and en: "enrich path d (will_forward d p) (baseline env (pr_zone p) evt) = Some evt'"
    and p': "p' = (if d_Drop d then ingest_dropped env d evt' (p\<lparr>pr_engine := e\<rparr>)
       else ingest_queued env (will_forward d p) path evt' (ingest_stored env d evt'
         (p\<lparr>pr_engine := e, pr_stats := AddDecision (decisionLabel d (will_forward d p)) (d_MatchedRuleID d)
              (d_Sampled d) (pr_stats p)\<rparr>)))"
    by (rule ingest_cases)
  have d: "e = pr_engine p" "d_Store d" "d_Forward d" "\<not> d_Drop d"
    using security_decision [OF _ assms(1) ev] assms(2) by simp_all
  then have fwd: "will_forward d p" using assms(3) by (simp add: will_forward_def)
  obtain m' where evt': "evt' = (baseline env (pr_zone p) evt)\<lparr>Tags := Some m'\<rparr>"
    using enrich_frame(1) [OF en] by blast
  have st: "pr_store (ingest_stored env d evt' p0) = fst (Append (ie_append env) evt' (pr_store p0))"
    "stat_storedCount (pr_stats (ingest_stored env d evt' p0)) = stat_storedCount (pr_stats p0) +
       (if snd (Append (ie_append env) evt' (pr_store p0)) = None then 1 else 0)"
    "stat_droppedCount (pr_stats (ingest_stored env d evt' p0)) = stat_droppedCount (pr_stats p0)" for p0
    using d by (simp_all add: ingest_stored_def AddStored_def split: prod.split option.split)
  have q: "pr_store (ingest_queued env True path evt' p0) = pr_store p0"
    "pr_stats (ingest_queued env True path evt' p0) = pr_stats p0"
    "pr_queue p0 = Some q \<Longrightarrow> pr_queue (ingest_queued env True path evt' p0) =
       Some (fst (Enqueue \<lparr>t_Evt = evt', t_IngestionPath = path, t_EnqueuedAt = ie_enqueued env\<rparr> q))" for p0
    by (simp_all add: ingest_queued_def split: option.split)
  have "tag evt' ''collector_decision'' = ''store_and_forward''"
    using enrich_tags(2) [OF en] d fwd by (simp add: decisionLabel_def)
  then show ?thesis
    using ing d fwd assms(4,5)
    by (intro exI [of _ p'] exI [of _ evt']) (simp add: p' evt' [symmetric] st q ingest_parts_frame AddDecision_def Enqueue_def, simp add: evt')
qed

lemma probe_security_ok:
  "comparableValue (EventCategory probe_security) = ''security''"
  "length (tasks (NewForwardQueue 4 2048 (seconds_duration 30))) < cap (NewForwardQueue 4 2048 (seconds_duration 30))"
  by (simp_all add: probe_security_def NewForwardQueue_def Let_def)

theorem only_decided_events_are_forwarded_witness:
  "\<exists>p' q' t. ingest probe_env probe_security ''api'' probe_processor = Some p' \<and> pr_queue p' = Some q' \<and>
     h_accepted q' = [t] \<and> tag (t_Evt t) ''forwarding_status'' = ''queued''"
proof -
  obtain p' q' t where p': "ingest probe_env probe_security ''api'' probe_processor = Some p'"
    and q': "pr_queue p' = Some q'" and t: "h_accepted q' = [t]"
    using security_ingest [OF probe_state_fields(1) disjI1 [OF probe_security_ok(1)] probe_state_fields(2,4) probe_security_ok(2),
        of probe_env "''api''"]
    by (auto simp: NewForwardQueue_def Let_def)
  have "preachable p'" using preachable.continued [OF probe_reachable pstep.ingested [OF p']] .
  from only_decided_events_are_forwarded [OF this q', of t] p' q' t show ?thesis by auto
qed



section \<open>Switching forwarding off\<close>

lemma turned_off:
  assumes "snd (UpdateForwardingConfig cfg w p) = None" and "TrimSpace (fc_DMZCollectorURL cfg) = ''''"
  shows "\<not> Forwarder_Enabled (pr_forwarder (fst (UpdateForwardingConfig cfg w p)))"
    and "pr_queue (fst (UpdateForwardingConfig cfg w p)) = pr_queue p"
    and "pr_stats (fst (UpdateForwardingConfig cfg w p)) = pr_stats p"
  using assms
  by (auto simp: UpdateForwardingConfig_def New_Forwarder_Enabled split: prod.splits option.splits)

text \<open>C39: Clearing the URL of the DMZ collector loses the events already queued without a trace: after
  a successful change of the settings to an empty URL, each task a worker takes that is not stale is
  counted as successfully forwarded although nothing is sent, whatever the network would have
  answered.\<close>

theorem cleared_url_counts_unsent_as_forwarded:
  assumes "snd (UpdateForwardingConfig cfg w p) = None" and "TrimSpace (fc_DMZCollectorURL cfg) = ''''"
    and "pr_queue p = Some q" and "tasks q = t # ts" and "\<not> stale (maxAge q) now t"
    and "p' = forward_next now net elapsed w' (fst (UpdateForwardingConfig cfg w p))"
  shows "stat_forwardedCount (pr_stats p') = stat_forwardedCount (pr_stats p) + 1 \<and>
    stat_failedForwardCnt (pr_stats p') = stat_failedForwardCnt (pr_stats p) \<and>
    stat_lastForwardOK (pr_stats p') = Format_RFC3339Nano now \<and>
    (\<exists>q'. pr_queue p' = Some q' \<and> tasks q' = ts)"
proof -
  have w: "worker_turn now f elapsed q = (fst (worker_turn now f elapsed q), Some (sent_result t elapsed (f (t_Evt t))))"
    "tasks (fst (worker_turn now f elapsed q)) = ts" for f
    using assms(4,5) by (simp_all add: worker_turn_def process_def)
  have off: "doSend net (fst (UpdateForwardingConfig cfg w p)) e = (0, None)" for e
    using turned_off(1) [OF assms(1,2)] by (simp add: doSend_def SendWithStatus_def)
  show ?thesis
    using w [of "doSend net (fst (UpdateForwardingConfig cfg w p))"]
    by (auto simp: assms(3,6) forward_next_def turned_off [OF assms(1,2)] handleForwardResult_def sent_result_def
        task_result_def off AddForwardResult_def Let_def split: prod.splits)
qed

theorem cleared_url_counts_unsent_as_forwarded_witness:
  "stat_forwardedCount (pr_stats (forward_next 8 (ExchangeFailed ''down'') 1 Written
     (fst (UpdateForwardingConfig zero_forwarding Written (probe_processor\<lparr>pr_queue := Some probe_queue\<rparr>))))) = 1"
proof -
  have "stat_forwardedCount (pr_stats probe_processor) = 0"
    by (simp add: probe_processor_def start_processor_def NewStats_def)
  moreover have "TrimSpace '''' = ''''" by code_simp
  ultimately show ?thesis
    using cleared_url_counts_unsent_as_forwarded [of zero_forwarding Written "probe_processor\<lparr>pr_queue := Some probe_queue\<rparr>"
        probe_queue probe_task "[]" 8 _ "ExchangeFailed ''down''" 1 Written]
    by (simp add: probe_queue_fields stale_def probe_task_def zero_forwarding_def UpdateForwardingConfig_def
        ForwardingStore_Replace_def ForwardingStore_persistLocked_def persist_def)
qed

end
