(* ===== verification/Api.thy ===== *)
theory Api
  imports Processor Rules_Config Event_Id
begin

text \<open>
  The HTTP handlers (\<open>internal/api/handlers.go\<close>, \<open>server.go\<close>). A handler maps the state, the
  request and the outcomes of its surroundings to the new state and a response: a status and a
  body. Requests are a method, the query parameters and the bytes of the body (\<open>None\<close> when
  reading it fails); the configuration payloads come decoded (\<open>None\<close> when they do not decode;
  \<open>Requests\<close> decodes them).
  \<open>None\<close> as a result is a panic, which the server turns into a closed connection.
\<close>

record API =
  api_zone :: string
  api_udpPort :: int
  api_tcpPort :: int
  api_apiPort :: int
  api_eventsFile :: string
  api_dmzEnabled :: bool
  api_proc :: Processor
  api_sources :: SourceStore
  api_rules :: RuleStore
  api_known :: "SourceInfo gomap"

datatype body =
    BError string
  | BEvents "event list"
  | BFields "(string \<times> view) list"
  | BAccepted nat "string list"
  | BSeen "sourceStats list"
  | BTimeline "(string \<times> int) list"
  | BReport RepairReport
  | BSources "SourceConfig list"
  | BSource SourceConfig
  | BRules "RuleConfig list"
  | BRule RuleConfig
  | BDecision Decision
  | BForwarding ForwardingConfig

type_synonym response = "int \<times> body"

definition method_not_allowed :: response where
  "method_not_allowed = (405, BError ''method not allowed'')"

definition New_API :: "Config \<Rightarrow> Processor \<Rightarrow> SourceStore \<Rightarrow> RuleStore \<Rightarrow> API" where
  "New_API cfg p srcs rules =
     \<lparr>api_zone = c_Zone cfg, api_udpPort = extractPort (c_UDPSyslogAddr cfg),
      api_tcpPort = extractPort (c_TCPSyslogAddr cfg), api_apiPort = extractPort (c_APIAddr cfg),
      api_eventsFile = c_EventsFile cfg, api_dmzEnabled = Forwarder_Enabled (pr_forwarder p),
      api_proc = p, api_sources = srcs, api_rules = rules, api_known = Known (Some srcs)\<rparr>"

section \<open>Health, statistics, events\<close>

definition VBool :: "bool \<Rightarrow> view" where
  "VBool b = VStr (if b then ''true'' else ''false'')"

definition handleHealth :: "API \<Rightarrow> response" where
  "handleHealth a =
     (200, BFields [(''status'', VStr ''ok''), (''service'', VStr ''ot_collector''), (''zone'', VStr (api_zone a)),
        (''udp_syslog_port'', VInt (api_udpPort a)), (''tcp_syslog_port'', VInt (api_tcpPort a)),
        (''api_port'', VInt (api_apiPort a)), (''events_file'', VStr (api_eventsFile a)),
        (''dmz_forwarding_enabled'', VBool (api_dmzEnabled a))])"

definition parsePositiveInt :: "string \<Rightarrow> int \<Rightarrow> int" where
  "parsePositiveInt raw fallback =
     (if raw = '''' then fallback
      else (case Atoi raw of None \<Rightarrow> fallback | Some v \<Rightarrow> if v \<le> 0 then fallback else v))"

definition events_query :: "string gomap \<Rightarrow> EventQuery" where
  "events_query params =
     \<lparr>q_Limit = parsePositiveInt (gget '''' params ''limit'') 100,
      q_SourceType = TrimSpace (gget '''' params ''source_type''),
      q_Severity = TrimSpace (gget '''' params ''severity''),
      q_Category = TrimSpace (gget '''' params ''category''),
      q_AssetIP = TrimSpace (gget '''' params ''asset_ip''),
      q_Search = TrimSpace (gget '''' params ''search'')\<rparr>"

definition handleGetEvents :: "int \<Rightarrow> read_io \<Rightarrow> string gomap \<Rightarrow> API \<Rightarrow> response option" where
  "handleGetEvents max_cap io params a =
     (case ReadFiltered max_cap io (events_query params) (pr_store (api_proc a)) of
        None \<Rightarrow> None
      | Some (Inl err) \<Rightarrow> Some (500, BError ''failed to read events'')
      | Some (Inr events) \<Rightarrow> Some (200, BEvents events))"

text \<open>The defaults of a posted event; \<open>new_id\<close> and \<open>now\<close> are its identifier source and clock.\<close>

definition normalizePostedEvent :: "string \<Rightarrow> int \<Rightarrow> string \<Rightarrow> event \<Rightarrow> event" where
  "normalizePostedEvent new_id now zone e =
     \<lparr>ID = (if ID e = '''' then new_id else ID e),
      Timestamp = (if Timestamp e = '''' then Format_RFC3339Nano now else Timestamp e),
      ReceivedAt = (if ReceivedAt e = '''' then Format_RFC3339Nano now else ReceivedAt e),
      Zone = (if Zone e = '''' then zone else Zone e),
      SourceType = (if SourceType e = '''' then ''unknown'' else SourceType e),
      AssetName = (if AssetName e = '''' then ''unknown'' else AssetName e),
      AssetIP = AssetIP e,
      Severity = (if Severity e = '''' then ''info'' else Severity e),
      Protocol = (if Protocol e = '''' then ''json'' else Protocol e),
      EventCategory = (if EventCategory e = '''' then ''system'' else EventCategory e),
      Message = Message e, Raw = Raw e,
      Tags = (case Tags e of None \<Rightarrow> Some [] | Some m \<Rightarrow> Some m)\<rparr>"

record post_env =
  pe_id :: string
  pe_now :: int
  pe_ingest :: ingest_env

text \<open>A JSON array of events: null elements are zero events; any type mismatch is an error.\<close>

definition Unmarshal_events :: "string \<Rightarrow> event list option" where
  "Unmarshal_events s =
     (case json_parse s of
        Some (JArr vs) \<Rightarrow> if list_all (\<lambda>v. snd (decode_event v)) vs then Some (map (\<lambda>v. fst (decode_event v)) vs) else None
      | _ \<Rightarrow> None)"

fun post_all :: "(nat \<Rightarrow> post_env) \<Rightarrow> nat \<Rightarrow> string \<Rightarrow> event list \<Rightarrow> Processor \<Rightarrow> (Processor \<times> string list) option" where
  "post_all env i zone [] p = Some (p, [])"
| "post_all env i zone (e # es) p = do {
     let e = normalizePostedEvent (pe_id (env i)) (pe_now (env i)) zone e;
     p \<leftarrow> ProcessNormalized (pe_ingest (env i)) e p;
     (p, ids) \<leftarrow> post_all env (Suc i) zone es p;
     Some (p, ID e # ids) }"

definition max_events_body :: nat where
  "max_events_body = 10485760"

definition decode_batch :: "string \<Rightarrow> string + event list" where
  "decode_batch body =
     (if hd body = CHR ''['' then
        (case Unmarshal_events body of None \<Rightarrow> Inl ''invalid event array'' | Some es \<Rightarrow> Inr es)
      else (case Unmarshal_event body of None \<Rightarrow> Inl ''invalid event object'' | Some e \<Rightarrow> Inr [e]))"

definition handlePostEvents :: "(nat \<Rightarrow> post_env) \<Rightarrow> string option \<Rightarrow> API \<Rightarrow> (API \<times> response) option" where
  "handlePostEvents env raw a =
     (case raw of
        None \<Rightarrow> Some (a, 400, BError ''invalid request body'')
      | Some bytes \<Rightarrow>
          (let body = TrimSpace (take max_events_body bytes)
           in if body = '''' then Some (a, 400, BError ''empty request body'')
              else (case decode_batch body of
                      Inl err \<Rightarrow> Some (a, 400, BError err)
                    | Inr batch \<Rightarrow>
                        (case post_all env 0 (api_zone a) batch (api_proc a) of
                           None \<Rightarrow> None
                         | Some (p, ids) \<Rightarrow> Some (a\<lparr>api_proc := p\<rparr>, 200, BAccepted (length batch) ids)))))"

definition handleEvents ::
  "string \<Rightarrow> int \<Rightarrow> read_io \<Rightarrow> string gomap \<Rightarrow> (nat \<Rightarrow> post_env) \<Rightarrow> string option \<Rightarrow> API \<Rightarrow> (API \<times> response) option" where
  "handleEvents meth max_cap io params env raw a =
     (if meth = ''POST'' then handlePostEvents env raw a
      else if meth \<noteq> ''GET'' then Some (a, method_not_allowed)
      else map_option (Pair a) (handleGetEvents max_cap io params a))"

definition configured_source :: "sourceStats gomap \<Rightarrow> SourceConfig \<Rightarrow> sourceStats" where
  "configured_source byIP src =
     (let seen = gget zero_source byIP (s_IP src)
      in \<lparr>ss_AssetName = s_Name src, ss_AssetIP = s_IP src, ss_SourceType = s_Type src,
          ss_EventCount = ss_EventCount seen, ss_LastSeen = ss_LastSeen seen\<rparr>)"

definition handleSources :: "(sourceStats list \<Rightarrow> sourceStats list) \<Rightarrow> API \<Rightarrow> response" where
  "handleSources iter a =
     (let byIP = fold (\<lambda>s m. if ss_AssetIP s \<noteq> '''' then gput (ss_AssetIP s) s m else m)
                   (Sources iter (pr_stats (api_proc a))) [];
          byIP = fold (\<lambda>src m. gput (s_IP src) (configured_source m src) m) (SourceStore_All (api_sources a)) byIP
      in (200, BSeen (map snd byIP)))"

definition handleStats :: "API \<Rightarrow> response" where
  "handleStats a = (200, BFields (Snapshot (pr_stats (api_proc a))))"

definition handleStatsSummary :: "((string \<times> int) list \<Rightarrow> (string \<times> int) list) \<Rightarrow> API \<Rightarrow> response" where
  "handleStatsSummary iter a = (200, BFields (Summary iter (pr_stats (api_proc a))))"

definition handleStatsTimeline :: "API \<Rightarrow> response" where
  "handleStatsTimeline a = (200, BTimeline (Timeline (pr_stats (api_proc a))))"

text \<open>The event stream: opening it, one turn of its loop, closing it.\<close>

definition set_hub :: "StreamHub \<Rightarrow> API \<Rightarrow> API" where
  "set_hub h a = a\<lparr>api_proc := (api_proc a)\<lparr>pr_hub := h\<rparr>\<rparr>"

definition blank_line :: string where
  "blank_line = [CHR 0x0A, CHR 0x0A]"

definition stream_frame :: "event \<Rightarrow> string" where
  "stream_frame e = ''event: event'' @ [CHR 0x0A] @ ''data: '' @ Marshal_event e @ blank_line"

definition open_stream :: "API \<Rightarrow> API \<times> int" where
  "open_stream a = (case Subscribe (pr_hub (api_proc a)) of (h, i) \<Rightarrow> (set_hub h a, i))"

definition stream_turn :: "int \<Rightarrow> API \<Rightarrow> API \<times> string" where
  "stream_turn i a =
     (case take_event i (pr_hub (api_proc a)) of
        (h, None) \<Rightarrow> (a, '''')
      | (h, Some e) \<Rightarrow> (set_hub h a, stream_frame e))"

definition close_stream :: "int \<Rightarrow> API \<Rightarrow> API" where
  "close_stream i a = set_hub (Unsubscribe i (pr_hub (api_proc a))) a"

definition handleStorageRepair :: "string \<Rightarrow> repair_io \<Rightarrow> API \<Rightarrow> API \<times> response" where
  "handleStorageRepair meth io a =
     (if meth \<noteq> ''POST'' then (a, method_not_allowed)
      else (case Repair io (api_eventsFile a) (pr_store (api_proc a)) of
              (f, report, err) \<Rightarrow>
                (a\<lparr>api_proc := (api_proc a)\<lparr>pr_store := f\<rparr>\<rparr>,
                 (case err of Some e \<Rightarrow> (500, BError ''storage repair failed'') | None \<Rightarrow> (200, BReport report)))))"

end
