(* ===== verification/Api_Config.thy ===== *)
theory Api_Config
  imports Api
begin

text \<open>
  The rest of the HTTP interface (\<open>internal/api/handlers.go\<close>, \<open>server.go\<close>): configuration of sources,
  rules and forwarding, connectivity tests, test events, and the routes.
\<close>

section \<open>Sources and rules\<close>

definition sourcesKnownFromConfig :: "SourceConfig list \<Rightarrow> SourceInfo gomap" where
  "sourcesKnownFromConfig all =
     fold (\<lambda>s m. gput (s_IP s) (source_info (s_Name s) (s_Type s) (s_IP s)) m) all []"

definition handleFilterConfig :: "string \<Rightarrow> 'a option \<Rightarrow> response" where
  "handleFilterConfig meth payload =
     (let shown = (\<lambda>c. (200, BFields (map (\<lambda>(k, v). (k, VStr v)) c)))
      in if meth = ''GET'' then shown CurrentFilterConfig
         else if meth \<noteq> ''POST'' then method_not_allowed
         else (case payload of
                 None \<Rightarrow> (400, BError ''invalid filter config payload'')
               | Some cfg \<Rightarrow> shown (UpdateFilterConfig cfg)))"

definition handleConfigSources ::
  "string \<Rightarrow> SourceConfig list option \<Rightarrow> SourceConfig list write_result \<Rightarrow> API \<Rightarrow> API \<times> response" where
  "handleConfigSources meth payload w a =
     (if meth = ''GET'' then (a, 200, BSources (SourceStore_All (api_sources a)))
      else if meth = ''POST'' then
        (case payload of
           None \<Rightarrow> (a, 400, BError ''invalid source payload'')
         | Some all \<Rightarrow>
             (case SourceStore_Replace all (api_sources a) w of
                (s, Some err) \<Rightarrow> (a\<lparr>api_sources := s\<rparr>, 500, BError ''failed to persist sources'')
              | (s, None) \<Rightarrow> (a\<lparr>api_sources := s, api_known := sourcesKnownFromConfig all\<rparr>, 200, BSources all)))
      else (a, method_not_allowed))"

definition handleConfigSourceByID ::
  "string \<Rightarrow> string \<Rightarrow> SourceConfig option \<Rightarrow> SourceConfig list write_result \<Rightarrow> API \<Rightarrow> API \<times> response" where
  "handleConfigSourceByID meth path payload w a =
     (let i = TrimPrefix path ''/config/sources/''
      in if i = '''' then (a, 400, BError ''missing id'')
         else if meth = ''PUT'' then
           (case payload of
              None \<Rightarrow> (a, 400, BError ''invalid source payload'')
            | Some one \<Rightarrow>
                (let one = one\<lparr>s_ID := i\<rparr>
                 in case SourceStore_Upsert one (api_sources a) w of
                      (s, Some err) \<Rightarrow> (a\<lparr>api_sources := s\<rparr>, 500, BError ''failed to update source'')
                    | (s, None) \<Rightarrow>
                        (a\<lparr>api_sources := s, api_known := sourcesKnownFromConfig (SourceStore_All s)\<rparr>,
                         200, BSource one)))
         else if meth = ''DELETE'' then
           (case SourceStore_Delete i (api_sources a) w of
              (s, Some err) \<Rightarrow> (a\<lparr>api_sources := s\<rparr>, 500, BError ''failed to delete source'')
            | (s, None) \<Rightarrow>
                (a\<lparr>api_sources := s, api_known := sourcesKnownFromConfig (SourceStore_All s)\<rparr>,
                 200, BFields [(''status'', VStr ''deleted'')]))
         else (a, method_not_allowed))"

definition install_rules :: "RuleConfig list \<Rightarrow> API \<Rightarrow> API" where
  "install_rules rs a = a\<lparr>api_proc := Processor_SetRules rs (api_proc a)\<rparr>"

definition handleConfigRules ::
  "string \<Rightarrow> RuleConfig list option \<Rightarrow> RuleConfig list write_result \<Rightarrow> API \<Rightarrow> API \<times> response" where
  "handleConfigRules meth payload w a =
     (if meth = ''GET'' then (a, 200, BRules (RuleStore_All (api_rules a)))
      else if meth = ''POST'' then
        (case payload of
           None \<Rightarrow> (a, 400, BError ''invalid rules payload'')
         | Some all \<Rightarrow>
             (case RuleStore_Replace all (api_rules a) w of
                (s, Some err) \<Rightarrow> (a\<lparr>api_rules := s\<rparr>, 500, BError ''failed to save rules'')
              | (s, None) \<Rightarrow> (install_rules all (a\<lparr>api_rules := s\<rparr>), 200, BRules all)))
      else (a, method_not_allowed))"

definition handleConfigRuleByID ::
  "string \<Rightarrow> string \<Rightarrow> RuleConfig option \<Rightarrow> RuleConfig list write_result \<Rightarrow> API \<Rightarrow> API \<times> response" where
  "handleConfigRuleByID meth path payload w a =
     (let i = TrimPrefix path ''/config/rules/''
      in if i = '''' then (a, 400, BError ''missing id'')
         else if meth = ''PUT'' then
           (case payload of
              None \<Rightarrow> (a, 400, BError ''invalid rule payload'')
            | Some one \<Rightarrow>
                (let one = one\<lparr>r_ID := i\<rparr>
                 in case RuleStore_Upsert one (api_rules a) w of
                      (s, Some err) \<Rightarrow> (a\<lparr>api_rules := s\<rparr>, 500, BError ''failed to update rule'')
                    | (s, None) \<Rightarrow> (install_rules (RuleStore_All s) (a\<lparr>api_rules := s\<rparr>), 200, BRule one)))
         else if meth = ''DELETE'' then
           (case RuleStore_Delete i (api_rules a) w of
              (s, Some err) \<Rightarrow> (a\<lparr>api_rules := s\<rparr>, 500, BError ''failed to delete rule'')
            | (s, None) \<Rightarrow>
                (install_rules (RuleStore_All s) (a\<lparr>api_rules := s\<rparr>), 200,
                 BFields [(''status'', VStr ''deleted'')]))
         else (a, method_not_allowed))"

definition handleConfigRulesTest :: "string \<Rightarrow> event option \<Rightarrow> int \<Rightarrow> int \<Rightarrow> API \<Rightarrow> API \<times> response" where
  "handleConfigRulesTest meth payload oob now a =
     (if meth \<noteq> ''POST'' then (a, method_not_allowed)
      else (case payload of
              None \<Rightarrow> (a, 400, BError ''invalid test payload'')
            | Some evt \<Rightarrow>
                (case RuleTest oob now evt (api_proc a) of (p, d) \<Rightarrow> (a\<lparr>api_proc := p\<rparr>, 200, BDecision d))))"

section \<open>Forwarding\<close>

definition handleConfigForwarding ::
  "string \<Rightarrow> ForwardingConfig option \<Rightarrow> ForwardingConfig write_result \<Rightarrow> API \<Rightarrow> API \<times> response" where
  "handleConfigForwarding meth payload w a =
     (if meth = ''GET'' then (a, 200, BForwarding (Processor_ForwardingConfig (api_proc a)))
      else if meth = ''POST'' then
        (case payload of
           None \<Rightarrow> (a, 400, BError ''invalid forwarding config'')
         | Some cfg \<Rightarrow>
             (case UpdateForwardingConfig cfg w (api_proc a) of
                (p, Some err) \<Rightarrow> (a\<lparr>api_proc := p\<rparr>, 500, BError ''failed to save forwarding config'')
              | (p, None) \<Rightarrow> (a\<lparr>api_proc := p\<rparr>, 200, BForwarding cfg)))
      else (a, method_not_allowed))"

definition test_event_skeleton :: "string \<Rightarrow> int \<Rightarrow> string \<Rightarrow> string \<Rightarrow> string \<Rightarrow> event" where
  "test_event_skeleton pre now zone msg kind =
     \<lparr>ID = pre @ Itoa_int now, Timestamp = Format_RFC3339Nano now, ReceivedAt = Format_RFC3339Nano now,
      Zone = zone, SourceType = ''ot_collector'', AssetName = ''ot_collector'', AssetIP = '''', Severity = ''info'',
      Protocol = ''json'', EventCategory = ''system'', Message = msg, Raw = '''', Tags = Some [(''kind'', kind)]\<rparr>"

text \<open>The direct test: the body posted, if a request is made, and the answer.\<close>

definition handleForwardingTest :: "string \<Rightarrow> int \<Rightarrow> http_outcome \<Rightarrow> int \<Rightarrow> API \<Rightarrow> string option \<times> response" where
  "handleForwardingTest meth now net elapsed a =
     (if meth \<noteq> ''POST'' then (None, method_not_allowed)
      else if TrimSpace (fc_DMZCollectorURL (Processor_ForwardingConfig (api_proc a))) = '''' then
        (None, 200, BFields [(''success'', VBool False), (''error'', VStr ''forwarding URL not configured'')])
      else
        (let sent = Marshal_event (test_event_skeleton ''fwdtest-'' now (api_zone a) ''forwarding connectivity test''
               ''forwarding_test'')
         in case net of
              BadRequest e \<Rightarrow> (None, 200, BFields [(''success'', VBool False), (''error'', VStr e)])
            | ExchangeFailed e \<Rightarrow>
                (Some sent, 200, BFields [(''success'', VBool False), (''elapsed_ms'', VInt elapsed), (''error'', VStr e)])
            | Response code bytes \<Rightarrow>
                (Some sent, 200, BFields [(''success'', VBool (200 \<le> code \<and> code < 300)), (''status_code'', VInt code),
                   (''elapsed_ms'', VInt elapsed), (''response_body'', VStr (TrimSpace (take 200 bytes))),
                   (''error'', VStr '''')])))"

definition handleForwardingResetQueue :: "string \<Rightarrow> API \<Rightarrow> API \<times> response" where
  "handleForwardingResetQueue meth a =
     (if meth \<noteq> ''POST'' then (a, method_not_allowed)
      else (case ResetForwardQueue (api_proc a) of
              (p, drained) \<Rightarrow>
                (a\<lparr>api_proc := p\<rparr>, 200, BFields [(''status'', VStr ''ok''), (''drained_count'', VInt drained),
                   (''note'', VStr ''in-flight sends were not interrupted; only pending queue items were removed'')])))"

definition handleForwardingTestPipeline :: "string \<Rightarrow> int \<Rightarrow> ingest_env \<Rightarrow> API \<Rightarrow> (API \<times> response) option" where
  "handleForwardingTestPipeline meth now env a =
     (if meth \<noteq> ''POST'' then Some (a, method_not_allowed)
      else do {
        let evt = test_event_skeleton ''fwdpipeline-'' now (api_zone a) ''forwarding pipeline test''
              ''forwarding_pipeline_test'';
        p \<leftarrow> ProcessNormalized env evt (api_proc a);
        Some (a\<lparr>api_proc := p\<rparr>, 200, BFields [(''status'', VStr ''injected''), (''event_id'', VStr (ID evt)),
          (''note'', VStr (''event passed through ingest pipeline; DMZ forwarding is async '' @
             [CHR 0xE2, CHR 0x80, CHR 0x94] @ '' poll /events?search='' @ ID evt))]) })"

section \<open>Test events\<close>

definition fillTestEventDefaults :: "string \<Rightarrow> string \<Rightarrow> event \<Rightarrow> event" where
  "fillTestEventDefaults new_id zone e =
     (let e = (if ID e = '''' then e\<lparr>ID := new_id\<rparr> else e);
          e = (if Zone e = '''' then e\<lparr>Zone := zone\<rparr> else e);
          e = (if Protocol e = '''' then e\<lparr>Protocol := ''json''\<rparr> else e)
      in if Tags e = None then e\<lparr>Tags := Some []\<rparr> else e)"

record wrapped =
  w_Raw :: string
  w_SourceIP :: string
  w_Event :: "event option"

text \<open>
  One member of the wrapper. A value that is not null allocates the event behind the pointer even
  when it is not an object; the type mismatch is reported but the handler ignores errors.
\<close>

definition decode_wrapped_member :: "string \<times> json \<Rightarrow> wrapped \<Rightarrow> wrapped" where
  "decode_wrapped_member = (\<lambda>(k, v) w.
     if ToLower k = ''raw'' then (case v of JStr s \<Rightarrow> w\<lparr>w_Raw := s\<rparr> | _ \<Rightarrow> w)
     else if ToLower k = ''source_ip'' then (case v of JStr s \<Rightarrow> w\<lparr>w_SourceIP := s\<rparr> | _ \<Rightarrow> w)
     else if ToLower k = ''event'' then
       (case v of
          JNull \<Rightarrow> w\<lparr>w_Event := None\<rparr>
        | JObj ms \<Rightarrow>
            w\<lparr>w_Event := Some (fst (fold decode_member ms
                (case w_Event w of None \<Rightarrow> zero_event | Some e \<Rightarrow> e, True)))\<rparr>
        | _ \<Rightarrow> w\<lparr>w_Event := Some (case w_Event w of None \<Rightarrow> zero_event | Some e \<Rightarrow> e)\<rparr>)
     else w)"

definition Unmarshal_wrapped :: "string \<Rightarrow> wrapped" where
  "Unmarshal_wrapped body =
     (let zero = \<lparr>w_Raw = '''', w_SourceIP = '''', w_Event = None\<rparr>
      in case json_parse body of
           Some (JObj ms) \<Rightarrow> fold decode_wrapped_member ms zero
         | _ \<Rightarrow> zero)"

definition flat_event :: "string \<Rightarrow> event option" where
  "flat_event body =
     (if hd body = CHR ''{'' then
        (case Unmarshal_event body of
           Some e \<Rightarrow> if ID e \<noteq> '''' \<or> SourceType e \<noteq> '''' \<or> Message e \<noteq> '''' then Some e else None
         | None \<Rightarrow> None)
      else None)"

definition accept_test_event :: "string \<Rightarrow> ingest_env \<Rightarrow> event \<Rightarrow> API \<Rightarrow> (API \<times> response) option" where
  "accept_test_event new_id env e a = do {
     let evt = fillTestEventDefaults new_id (api_zone a) e;
     p \<leftarrow> ProcessTestEvent env evt (api_proc a);
     Some (a\<lparr>api_proc := p\<rparr>, 202, BFields [(''status'', VStr ''accepted''), (''id'', VStr (ID evt)),
       (''source_type'', VStr (SourceType evt)), (''ingestion_path'', VStr ''api_test_event'')]) }"

definition max_body :: nat where
  "max_body = 1048576"

definition handleTestEvent ::
  "location \<Rightarrow> int \<Rightarrow> norm_env \<Rightarrow> string \<Rightarrow> ingest_env \<Rightarrow> string option \<Rightarrow> API \<Rightarrow> (API \<times> response) option" where
  "handleTestEvent loc now nenv new_id env raw_body a =
     (case raw_body of
        None \<Rightarrow> Some (a, 400, BError ''invalid request body'')
      | Some bytes \<Rightarrow>
          (let body = TrimSpace (take max_body bytes); w = Unmarshal_wrapped body
           in if body = '''' then Some (a, 400, BError ''empty request body'')
              else (case w_Event w of
                      Some e \<Rightarrow> accept_test_event new_id env e a
                    | None \<Rightarrow>
                        (case flat_event body of
                           Some e \<Rightarrow> accept_test_event new_id env e a
                         | None \<Rightarrow>
                             (let raw = TrimSpace (w_Raw w); raw = (if raw = '''' then TrimSpace body else raw);
                                  src = TrimSpace (w_SourceIP w); src = (if src = '''' then ''127.0.0.1'' else src)
                              in if raw = '''' then Some (a, 400, BError ''provide raw or event'')
                                 else do {
                                   p \<leftarrow> ProcessRaw loc now nenv env raw src ''api'' (api_proc a);
                                   Some (a\<lparr>api_proc := p\<rparr>, 202, BFields [(''status'', VStr ''accepted'')]) })))))"

section \<open>Routes\<close>

text \<open>
  The patterns of \<open>Run\<close>: one that ends in a slash matches every path below it, the others only
  themselves, and the longest pattern that matches wins.
\<close>

definition routes :: "(string \<times> string) list" where
  "routes = [(''/health'', ''handleHealth''), (''/events'', ''handleEvents''), (''/events/stream'', ''handleEventStream''),
     (''/storage/repair'', ''handleStorageRepair''), (''/sources'', ''handleSources''), (''/stats'', ''handleStats''),
     (''/stats/summary'', ''handleStatsSummary''), (''/stats/timeline'', ''handleStatsTimeline''),
     (''/filter/config'', ''handleFilterConfig''), (''/config/sources'', ''handleConfigSources''),
     (''/config/sources/'', ''handleConfigSourceByID''), (''/config/rules'', ''handleConfigRules''),
     (''/config/rules/'', ''handleConfigRuleByID''), (''/config/rules/test'', ''handleConfigRulesTest''),
     (''/config/forwarding'', ''handleConfigForwarding''), (''/forwarding/test'', ''handleForwardingTest''),
     (''/forwarding/test-direct'', ''handleForwardingTest''),
     (''/forwarding/test-pipeline'', ''handleForwardingTestPipeline''),
     (''/forwarding/reset-queue'', ''handleForwardingResetQueue''), (''/test-event'', ''handleTestEvent''),
     (''/'', ''FileServer'')]"

definition pattern_matches :: "string \<Rightarrow> string \<Rightarrow> bool" where
  "pattern_matches path pat \<longleftrightarrow> path = pat \<or> (last pat = CHR ''/'' \<and> HasPrefix path pat)"

definition route :: "string \<Rightarrow> string option" where
  "route path =
     (case sort_key (\<lambda>(pat, h). - int (length pat)) (filter (\<lambda>(pat, h). pattern_matches path pat) routes) of
        [] \<Rightarrow> None | (pat, h) # _ \<Rightarrow> Some h)"

end
