(* ===== verification/Api_Properties.thy ===== *)
theory Api_Properties
  imports Api_Config Processor_Properties Jsonl_Properties
begin

text \<open>
  Properties of the HTTP interface: what posting events answers, what a rejected request leaves
  behind, editing rules, the routes, and the event stream.
\<close>

section \<open>Posting events\<close>

lemma post_all_total:
  "\<exists>p'. post_all env i zone es p = Some (p', map (\<lambda>(j, e). if ID e = '''' then pe_id (env j) else ID e) (enumerate i es))"
proof (induction es arbitrary: i p)
  case (Cons e es)
  obtain p1 where p1: "ingest (pe_ingest (env i)) (normalizePostedEvent (pe_id (env i)) (pe_now (env i)) zone e) ''api'' p = Some p1"
    using ingest_total by blast
  from Cons.IH [of "Suc i" p1] obtain p' where
    "post_all env (Suc i) zone es p1 = Some (p', map (\<lambda>(j, e). if ID e = '''' then pe_id (env j) else ID e) (enumerate (Suc i) es))"
    by blast
  then show ?case by (simp add: ProcessNormalized_def p1) (simp add: normalizePostedEvent_def)
qed simp

definition posted_ids :: "(nat \<Rightarrow> post_env) \<Rightarrow> event list \<Rightarrow> string list" where
  "posted_ids env batch = map (\<lambda>(i, e). if ID e = '''' then pe_id (env i) else ID e) (enumerate 0 batch)"

section \<open>An interface for the witnesses\<close>

definition probe_api :: API where
  "probe_api = New_API probe_config probe_processor \<lparr>st_data = defaultSources, st_disk = None\<rparr>
     \<lparr>st_data = defaultRules, st_disk = None\<rparr>"

section \<open>Properties\<close>

text \<open>C25: Posting events never fails halfway and never panics: either the body does not decode, the
  answer is a client error and nothing has changed, or every event of the batch has been ingested and
  the answer lists, in order, one identifier per event, its own if it has one and a fresh one
  otherwise.\<close>

theorem posted_batch_is_all_or_nothing:
  "(\<exists>err. handlePostEvents env raw a = Some (a, 400, BError err)) \<or>
   (\<exists>bytes batch a'. raw = Some bytes \<and> decode_batch (TrimSpace (take max_events_body bytes)) = Inr batch \<and>
      post_all env 0 (api_zone a) batch (api_proc a) = Some (api_proc a', posted_ids env batch) \<and>
      handlePostEvents env raw a = Some (a', 200, BAccepted (length batch) (posted_ids env batch)))"
proof (cases raw)
  case None
  then show ?thesis by (simp add: handlePostEvents_def)
next
  case (Some bytes)
  show ?thesis
  proof (cases "TrimSpace (take max_events_body bytes) = ''''")
    case True
    with Some show ?thesis by (simp add: handlePostEvents_def)
  next
    case ne: False
    show ?thesis
    proof (cases "decode_batch (TrimSpace (take max_events_body bytes))")
      case (Inl err)
      with Some ne show ?thesis by (simp add: handlePostEvents_def)
    next
      case (Inr batch)
      obtain p' where "post_all env 0 (api_zone a) batch (api_proc a) = Some (p', posted_ids env batch)"
        using post_all_total unfolding posted_ids_def by blast
      with Some ne Inr show ?thesis
        by (intro disjI2 exI [of _ bytes] exI [of _ batch] exI [of _ "a\<lparr>api_proc := p'\<rparr>"]) (simp add: handlePostEvents_def)
    qed
  qed
qed

definition client_error :: "API \<times> response \<Rightarrow> bool" where
  "client_error r \<longleftrightarrow> 400 \<le> fst (snd r) \<and> fst (snd r) < 500"

lemma client_error_pair: "client_error (x, n, b) \<longleftrightarrow> 400 \<le> n \<and> n < 500"
  by (simp add: client_error_def)

lemma refused_handleConfigSources:
  "client_error (handleConfigSources meth srcs w1 a) \<Longrightarrow> fst (handleConfigSources meth srcs w1 a) = a"
  unfolding handleConfigSources_def Let_def
  by (cases "meth = ''POST''"; cases srcs; cases "SourceStore_Replace (the srcs) (api_sources a) w1")
    (auto simp: client_error_pair split: option.splits)

lemma refused_handleConfigSourceByID:
  "client_error (handleConfigSourceByID meth path src w1 a) \<Longrightarrow> fst (handleConfigSourceByID meth path src w1 a) = a"
  unfolding handleConfigSourceByID_def Let_def
  by (cases "TrimPrefix path ''/config/sources/'' = ''''"; cases "meth = ''PUT''"; cases src;
      cases "SourceStore_Upsert (the src\<lparr>s_ID := TrimPrefix path ''/config/sources/''\<rparr>) (api_sources a) w1";
      cases "SourceStore_Delete (TrimPrefix path ''/config/sources/'') (api_sources a) w1")
    (auto simp: client_error_pair split: option.splits)

lemma refused_handleConfigRules:
  "client_error (handleConfigRules meth rs w2 a) \<Longrightarrow> fst (handleConfigRules meth rs w2 a) = a"
  unfolding handleConfigRules_def Let_def
  by (cases "meth = ''POST''"; cases rs; cases "RuleStore_Replace (the rs) (api_rules a) w2")
    (auto simp: client_error_pair split: option.splits)

lemma refused_handleConfigRuleByID:
  "client_error (handleConfigRuleByID meth path one w2 a) \<Longrightarrow> fst (handleConfigRuleByID meth path one w2 a) = a"
  unfolding handleConfigRuleByID_def Let_def
  by (cases "TrimPrefix path ''/config/rules/'' = ''''"; cases "meth = ''PUT''"; cases one;
      cases "RuleStore_Upsert (the one\<lparr>r_ID := TrimPrefix path ''/config/rules/''\<rparr>) (api_rules a) w2";
      cases "RuleStore_Delete (TrimPrefix path ''/config/rules/'') (api_rules a) w2")
    (auto simp: client_error_pair split: option.splits)

lemma refused_handleConfigRulesTest:
  "client_error (handleConfigRulesTest meth evt oob now a) \<Longrightarrow> fst (handleConfigRulesTest meth evt oob now a) = a"
  unfolding handleConfigRulesTest_def Let_def
  by (cases "meth = ''POST''"; cases evt; cases "RuleTest oob now (the evt) (api_proc a)")
    (auto simp: client_error_pair split: option.splits)

lemma refused_handleConfigForwarding:
  "client_error (handleConfigForwarding meth cfg w3 a) \<Longrightarrow> fst (handleConfigForwarding meth cfg w3 a) = a"
  unfolding handleConfigForwarding_def Let_def
  by (cases "meth = ''POST''"; cases cfg; cases "UpdateForwardingConfig (the cfg) w3 (api_proc a)")
    (auto simp: client_error_pair split: option.splits)

lemma refused_handleForwardingResetQueue:
  "client_error (handleForwardingResetQueue meth a) \<Longrightarrow> fst (handleForwardingResetQueue meth a) = a"
  unfolding handleForwardingResetQueue_def Let_def
  by (cases "meth = ''POST''"; cases "ResetForwardQueue (api_proc a)")
    (auto simp: client_error_pair split: option.splits)

lemma refused_handleStorageRepair:
  "client_error (handleStorageRepair meth io a) \<Longrightarrow> fst (handleStorageRepair meth io a) = a"
  unfolding handleStorageRepair_def Let_def
  by (cases "meth = ''POST''"; cases "Repair io (api_eventsFile a) (pr_store (api_proc a))")
    (auto simp: client_error_pair split: option.splits)

lemmas refused_frame = refused_handleConfigSources refused_handleConfigSourceByID refused_handleConfigRules refused_handleConfigRuleByID refused_handleConfigRulesTest refused_handleConfigForwarding refused_handleForwardingResetQueue refused_handleStorageRepair

text \<open>A request that is refused as a client error leaves no trace: whichever configuration or
  maintenance handler answers with a status from 400 to 499, sources, rules, settings, engine, queue,
  counters and store are what they were.\<close>

theorem refused_requests_change_nothing:
  "(client_error (handleConfigSources meth srcs w1 a) \<longrightarrow> fst (handleConfigSources meth srcs w1 a) = a) \<and>
   (client_error (handleConfigSourceByID meth path src w1 a) \<longrightarrow> fst (handleConfigSourceByID meth path src w1 a) = a) \<and>
   (client_error (handleConfigRules meth rs w2 a) \<longrightarrow> fst (handleConfigRules meth rs w2 a) = a) \<and>
   (client_error (handleConfigRuleByID meth path r w2 a) \<longrightarrow> fst (handleConfigRuleByID meth path r w2 a) = a) \<and>
   (client_error (handleConfigRulesTest meth evt oob now a) \<longrightarrow> fst (handleConfigRulesTest meth evt oob now a) = a) \<and>
   (client_error (handleConfigForwarding meth cfg w3 a) \<longrightarrow> fst (handleConfigForwarding meth cfg w3 a) = a) \<and>
   (client_error (handleForwardingResetQueue meth a) \<longrightarrow> fst (handleForwardingResetQueue meth a) = a) \<and>
   (client_error (handleStorageRepair meth io a) \<longrightarrow> fst (handleStorageRepair meth io a) = a)"
  by (intro conjI impI; rule refused_frame)

theorem refused_requests_change_nothing_witness:
  "fst (handleConfigSources ''PATCH'' None Written probe_api) = probe_api \<and>
   fst (handleConfigSourceByID ''PATCH'' ''/config/sources/x'' None Written probe_api) = probe_api \<and>
   fst (handleConfigRules ''PATCH'' None Written probe_api) = probe_api \<and>
   fst (handleConfigRuleByID ''PATCH'' ''/config/sources/x'' None Written probe_api) = probe_api \<and>
   fst (handleConfigRulesTest ''PATCH'' None 0 0 probe_api) = probe_api \<and>
   fst (handleConfigForwarding ''PATCH'' None Written probe_api) = probe_api \<and>
   fst (handleForwardingResetQueue ''PATCH'' probe_api) = probe_api \<and>
   fst (handleStorageRepair ''PATCH'' repair_ok probe_api) = probe_api"
proof -
  have c: "client_error (handleConfigSources ''PATCH'' None Written probe_api)"
    "client_error (handleConfigSourceByID ''PATCH'' ''/config/sources/x'' None Written probe_api)"
    "client_error (handleConfigRules ''PATCH'' None Written probe_api)"
    "client_error (handleConfigRuleByID ''PATCH'' ''/config/sources/x'' None Written probe_api)"
    "client_error (handleConfigRulesTest ''PATCH'' None 0 0 probe_api)"
    "client_error (handleConfigForwarding ''PATCH'' None Written probe_api)"
    "client_error (handleForwardingResetQueue ''PATCH'' probe_api)"
    "client_error (handleStorageRepair ''PATCH'' repair_ok probe_api)"
    by (simp_all add: client_error_def handleConfigSources_def handleConfigSourceByID_def handleConfigRules_def
        handleConfigRuleByID_def handleConfigRulesTest_def handleConfigForwarding_def handleForwardingResetQueue_def
        handleStorageRepair_def method_not_allowed_def TrimPrefix_def)
  show ?thesis
    using refused_requests_change_nothing [of "''PATCH''" None Written probe_api "''/config/sources/x''" None None Written
        None None 0 0 None Written repair_ok] c by blast
qed

section \<open>Editing rules\<close>

text \<open>C22: Editing a rule takes effect everywhere at once: after a successful PUT the store holds the
  sanitised rule under the identifier of the path and every other rule as before, the file holds what
  memory holds, the engine evaluates exactly those rules, and the store stays well formed without
  duplicate identifiers.\<close>

theorem rule_edit_takes_effect:
  assumes "handleConfigRuleByID ''PUT'' (''/config/rules/'' @ i) (Some one) w a = (a', 200, b)" and "i \<noteq> ''''"
    and "rules.well_formed (RuleStore_All (api_rules a))" and "distinct (map r_ID (RuleStore_All (api_rules a)))"
    and "j \<noteq> ''''"
  shows "find (\<lambda>r. r_ID r = j) (RuleStore_All (api_rules a')) =
      (if j = i then sanitizeRule (one\<lparr>r_ID := i\<rparr>) else find (\<lambda>r. r_ID r = j) (RuleStore_All (api_rules a))) \<and>
    st_disk (api_rules a') = Some (RuleStore_All (api_rules a')) \<and>
    CurrentRules (api_proc a') = RuleStore_All (api_rules a') \<and>
    rules.well_formed (RuleStore_All (api_rules a')) \<and> distinct (map r_ID (RuleStore_All (api_rules a')))"
proof -
  have p: "TrimPrefix (''/config/rules/'' @ i) ''/config/rules/'' = i" by (simp add: TrimPrefix_def)
  obtain s where s: "RuleStore_Upsert (one\<lparr>r_ID := i\<rparr>) (api_rules a) w = (s, None)"
    and a': "a' = install_rules (RuleStore_All s) (a\<lparr>api_rules := s\<rparr>)"
    using assms(1,2) unfolding handleConfigRuleByID_def p
    by (auto simp: Let_def split: prod.splits option.splits)
  have d: "st_data s = rules_upsert (one\<lparr>r_ID := i\<rparr>) (st_data (api_rules a))" "st_disk s = Some (st_data s)"
    using s persist_data [of "(api_rules a)\<lparr>st_data := rules_upsert (one\<lparr>r_ID := i\<rparr>) (st_data (api_rules a))\<rparr>" w]
      persist_ok [of "(api_rules a)\<lparr>st_data := rules_upsert (one\<lparr>r_ID := i\<rparr>) (st_data (api_rules a))\<rparr>" w]
    by (simp_all add: RuleStore_Upsert_def RuleStore_persistLocked_def)
  have wf: "rules.well_formed (st_data (api_rules a))" using assms(3) by (simp add: RuleStore_All_def)
  show ?thesis
    using rules.upsert_view [OF wf, of "one\<lparr>r_ID := i\<rparr>" j] rules.upsert_well_formed
      rules.upsert_distinct [of "st_data (api_rules a)" "one\<lparr>r_ID := i\<rparr>"] assms(2,4,5) d
    by (simp add: a' install_rules_def Processor_SetRules_def CurrentRules_def Rules_def SetRules_def RuleStore_All_def
        rules.view_def)
qed

theorem rule_edit_takes_effect_witness:
  "find (\<lambda>r. r_ID r = ''x1'') (RuleStore_All (api_rules (fst (handleConfigRuleByID ''PUT'' (''/config/rules/'' @ ''x1'')
     (Some base_rule) Written probe_api)))) = sanitizeRule (base_rule\<lparr>r_ID := ''x1''\<rparr>)"
proof -
  have r: "RuleStore_All (api_rules probe_api) = defaultRules"
    by (simp add: probe_api_def New_API_def RuleStore_All_def)
  have "snd (RuleStore_Upsert one s Written) = None" for one s
    by (simp add: RuleStore_Upsert_def RuleStore_persistLocked_def persist_def)
  then obtain s where "RuleStore_Upsert (base_rule\<lparr>r_ID := ''x1''\<rparr>) (api_rules probe_api) Written = (s, None)"
    by (metis prod.collapse)
  then have "fst (snd (handleConfigRuleByID ''PUT'' (''/config/rules/'' @ ''x1'') (Some base_rule) Written probe_api)) = 200"
    by (simp add: handleConfigRuleByID_def TrimPrefix_def)
  then have h: "handleConfigRuleByID ''PUT'' (''/config/rules/'' @ ''x1'') (Some base_rule) Written probe_api =
      (fst (handleConfigRuleByID ''PUT'' (''/config/rules/'' @ ''x1'') (Some base_rule) Written probe_api), 200,
       snd (snd (handleConfigRuleByID ''PUT'' (''/config/rules/'' @ ''x1'') (Some base_rule) Written probe_api)))"
    by (metis prod.collapse)
  show ?thesis
    using rule_edit_takes_effect [OF h, of "''x1''"] default_rules_sanitized default_rules_distinct
    by (simp add: r base_rule_def)
qed

section \<open>The event stream\<close>

text \<open>A client whose channel has room for everything published loses nothing.\<close>

lemma received_all:
  assumes "channel h i = Some ch" and "i < hub_nextID h" and "list_all (\<lambda>op. op \<noteq> Unsubscribing i) ops"
    and "length ch + length (published ops) \<le> stream_buffer"
  shows "\<exists>ch'. channel (hub_run ops h) i = Some ch' \<and> received i ops h @ ch' = ch @ published ops"
  using assms
proof (induction ops arbitrary: h ch)
  case (Cons op ops)
  have n: "i < hub_nextID (hub_step op h)" using Cons.prems(2) hub_nextID_step [of h op] by linarith
  have r: "list_all (\<lambda>op. op \<noteq> Unsubscribing i) ops" using Cons.prems(3) by simp
  note IH = Cons.IH [OF _ n r]
  show ?case
  proof (cases op)
    case (Publishing e)
    then have "channel (hub_step op h) i = Some (ch @ [e])"
      using Cons.prems(1,4) by (simp add: hub_step_def channel_Publish offer_def)
    from IH [OF this] show ?thesis using Publishing Cons.prems(4) by simp
  next
    case Subscribing
    then have "channel (hub_step op h) i = Some ch"
      using Cons.prems(1,2) by (simp add: hub_step_def channel_Subscribe)
    from IH [OF this] show ?thesis using Subscribing Cons.prems(4) by simp
  next
    case (Unsubscribing j)
    then have "channel (hub_step op h) i = Some ch"
      using Cons.prems(1,3) by (simp add: hub_step_def channel_Unsubscribe)
    from IH [OF this] show ?thesis using Unsubscribing Cons.prems(4) by simp
  next
    case (Receiving j)
    then have c: "channel (hub_step op h) i = Some (if i = j then tl ch else ch)"
      using Cons.prems(1) by (auto simp: hub_step_def channel_take)
    have "length (if i = j then tl ch else ch) + length (published ops) \<le> stream_buffer"
      using Cons.prems(4) Receiving by (cases ch) auto
    from IH [OF c this] show ?thesis
      using Receiving Cons.prems(1) by (cases ch) (auto simp: take_event_snd split: if_splits)
  qed
qed simp

lemma subscribed:
  assumes "Subscribe h = (h', i)"
  shows "channel h' i = Some []" and "i < hub_nextID h'"
  using assms channel_Subscribe [of h i] by (auto simp: Subscribe_def)

text \<open>A stream client sees events in the order they were published and never one twice: in any run
  of publishing, subscribing, unsubscribing others and receiving, what it has received and what still
  waits for it is a subsequence of what was published since it subscribed, and all of it as long as no
  more than 256 events were published.\<close>

theorem stream_clients_see_published_in_order:
  assumes "Subscribe h = (h', i)" and "list_all (\<lambda>op. op \<noteq> Unsubscribing i) ops"
  shows "\<exists>ch. channel (hub_run ops h') i = Some ch \<and> subseq (received i ops h' @ ch) (published ops) \<and>
    (if length (published ops) \<le> stream_buffer then received i ops h' @ ch = published ops else True)"
proof -
  obtain ch where ch: "channel (hub_run ops h') i = Some ch" "subseq (received i ops h' @ ch) (published ops)"
    using received_subseq [OF subscribed [OF assms(1)], of ops] assms(2) by (auto simp: list_all_iff)
  moreover have "received i ops h' @ ch = published ops" if "length (published ops) \<le> stream_buffer"
    using received_all [OF subscribed [OF assms(1)] assms(2)] that ch(1) by auto
  ultimately show ?thesis by auto
qed

theorem stream_clients_see_published_in_order_witness:
  "received 0 [Publishing probe_security, Receiving 0] (fst (Subscribe NewStreamHub)) = [probe_security]"
proof -
  have s: "Subscribe NewStreamHub = (fst (Subscribe NewStreamHub), 0)" by (simp add: Subscribe_def NewStreamHub_def)
  have "channel (hub_run [Publishing probe_security, Receiving 0] (fst (Subscribe NewStreamHub))) 0 = Some []"
    by (simp add: channel_def hub_step_def Subscribe_def NewStreamHub_def Publish_def offer_def stream_buffer_def take_event_def)
  then show ?thesis
    using stream_clients_see_published_in_order [OF s, of "[Publishing probe_security, Receiving 0]"]
    by (auto simp: stream_buffer_def)
qed

section \<open>Discrepancies\<close>

text \<open>
  A rule or a source is addressed by its identifier in the path, but one path is taken: a rule with
  the identifier test is answered by the rule tester.
\<close>

lemma rule_named_test_unreachable:
  "route ''/config/rules/test'' = Some ''handleConfigRulesTest'' \<and>
   route ''/config/rules/rule-1'' = Some ''handleConfigRuleByID'' \<and>
   route ''/config/sources/test'' = Some ''handleConfigSourceByID''"
  by code_simp

text \<open>Replacing all rules gives the engine the rules as posted, the store the sanitised ones.\<close>

lemma posted_rules_not_sanitized:
  "handleConfigRules ''POST'' (Some [zero_rule]) Written a = (a', r) \<Longrightarrow> zero_rule = base_rule\<lparr>r_SampleRate := 0\<rparr> \<Longrightarrow>
     CurrentRules (api_proc a') = [zero_rule] \<and> RuleStore_All (api_rules a') = []"
  by (auto simp: handleConfigRules_def RuleStore_Replace_def RuleStore_persistLocked_def persist_def install_rules_def
      Processor_SetRules_def CurrentRules_def Rules_def SetRules_def RuleStore_All_def sanitizeRules_def
      sanitizeRule_def base_rule_def map_filter_Cons List.map_filter_simps)

text \<open>A write that fails is answered as an error, but memory already holds the change.\<close>

lemma failed_save_keeps_change:
  "handleConfigRules ''POST'' (Some all) (WriteFailed err d) a = (a', r) \<Longrightarrow>
     fst r = 500 \<and> RuleStore_All (api_rules a') = sanitizeRules all \<and> api_proc a' = api_proc a"
  by (auto simp: handleConfigRules_def RuleStore_Replace_def RuleStore_persistLocked_def persist_def RuleStore_All_def)

text \<open>Changing the forwarding settings overwrites the counters with those of the request.\<close>

lemma settings_reset_counters:
  "handleConfigForwarding ''POST'' (Some zero_forwarding) Written a = (a', r) \<Longrightarrow>
     fc_SuccessfulForwardCount (ForwardingStore_Get (pr_cfg (api_proc a'))) = 0"
  by (auto simp: handleConfigForwarding_def UpdateForwardingConfig_def ForwardingStore_Replace_def
      ForwardingStore_persistLocked_def persist_def ForwardingStore_Get_def queue_status_ok_def zero_forwarding_def)

end
