(* ===== verification/Go_Json_Fuel.thy ===== *)
theory Go_Json_Fuel
  imports Go_Json_Facts
begin

text \<open>
  The fuel of the JSON parser is enough: a value some amount of fuel can parse is parsed with one
  unit for each byte it takes. So \<open>json_parse\<close> answers \<open>None\<close> only for texts that are not JSON
  within the nesting the library accepts.
\<close>

section \<open>What each part of the parser consumes\<close>

lemma length_skip_ws: "skip_ws s = c # t \<Longrightarrow> length t < length s"
  using length_dropWhile_le [of json_space s] by (simp add: skip_ws_def)

lemma length_jstr: "jstr s = Some (x, t) \<Longrightarrow> length t < length s"
proof (induction "length s" arbitrary: s x rule: less_induct)
  case less
  have IH: "length t < length u" if "prepend p (jstr u) = Some (y, t)" "length u < length s" for p u y
    using less.hyps [OF that(2)] that(1) by (auto simp: prepend_def)
  show ?case
  proof (cases s)
    case Nil
    then show ?thesis using less.prems by (simp add: jstr.simps)
  next
    case (Cons c y)
    show ?thesis
      using less.prems unfolding Cons jstr.simps(2) [of c y]
      by (auto simp: Cons split: if_splits list.splits option.splits dest!: IH)
  qed
qed

lemma length_take_if: "take_if P s = (a, t) \<Longrightarrow> length s = length a + length t"
  by (auto simp: take_if_def split: list.splits if_splits)

lemma length_digits_of: "digits_of s = (a, t) \<Longrightarrow> length s = length a + length t"
  unfolding digits_of_def by (metis length_append prod.inject takeWhile_dropWhile_id)

lemma length_jnum: "jnum s = Some (x, t) \<Longrightarrow> length t < length s"
  by (auto simp: jnum_def Let_def split: prod.splits if_splits list.splits dest!: length_take_if length_digits_of)

section \<open>One unit of fuel for each byte\<close>

lemma json_fuel:
  "\<And>v t. jval n d s = Some (v, t) \<Longrightarrow>
     length t < length s \<and> (\<forall>m. length s \<le> length t + m \<longrightarrow> jval m d s = Some (v, t))"
  "\<And>vs t. jarr n d s = Some (vs, t) \<Longrightarrow>
     length t < length s \<and> (\<forall>m. length s \<le> length t + m \<longrightarrow> jarr m d s = Some (vs, t))"
  "\<And>ms t. jobj n d s = Some (ms, t) \<Longrightarrow>
     length t < length s \<and> (\<forall>m. length s \<le> length t + m \<longrightarrow> jobj m d s = Some (ms, t))"
proof (induction n d s and n d s and n d s rule: jval_jarr_jobj.induct)
  case (2 n d s0)
  obtain c s where c: "skip_ws s0 = c # s" using "2.prems" by (cases "skip_ws s0") (simp_all add: jval.simps)
  note len = length_skip_ws [OF c]
  have goal: ?case if "length t < length s0"
    and "\<And>m. length s \<le> length t + m \<Longrightarrow> jval (Suc m) d s0 = Some (v, t)"
  proof -
    have "jval m d s0 = Some (v, t)" if "length s0 \<le> length t + m" for m
      using that \<open>length t < length s0\<close> len \<open>\<And>m. length s \<le> length t + m \<Longrightarrow> jval (Suc m) d s0 = Some (v, t)\<close> [of "m - 1"]
      by (cases m) auto
    with that(1) show ?thesis by blast
  qed
  consider "c = CHR ''{''" | "c = CHR ''[''" | "c \<noteq> CHR ''{''" "c \<noteq> CHR ''[''" by blast
  then show ?case
  proof cases
    case 1
    then obtain e u where e: "skip_ws s = e # u" and d: "\<not> d \<le> 0"
      using "2.prems" c by (auto simp: jval.simps split: if_splits list.splits)
    note le = length_skip_ws [OF e]
    show ?thesis
    proof (cases "e = CHR ''}''")
      case True
      then have "v = JObj []" "t = u" using "2.prems" c 1 e d by (simp_all add: jval.simps)
      then show ?thesis using True c 1 e d le len by (intro goal) (simp_all add: jval.simps)
    next
      case False
      then obtain ms where ms: "jobj n (d - 1) s = Some (ms, t)" "v = JObj ms"
        using "2.prems" c 1 e d by (auto simp: jval.simps)
      from "2.IH"(1) [OF c 1 d e False ms(1)] show ?thesis
        using c 1 e d False ms(2) len by (intro goal) (simp_all add: jval.simps)
    qed
  next
    case 2
    then obtain e u where e: "skip_ws s = e # u" and d: "\<not> d \<le> 0"
      using "2.prems" c by (auto simp: jval.simps split: if_splits list.splits)
    note le = length_skip_ws [OF e]
    show ?thesis
    proof (cases "e = CHR '']''")
      case True
      then have "v = JArr []" "t = u" using "2.prems" c 2 e d by (simp_all add: jval.simps)
      then show ?thesis using True c 2 e d le len by (intro goal) (simp_all add: jval.simps)
    next
      case False
      have c1: "c \<noteq> CHR ''{''" using 2 by simp
      obtain vs where vs: "jarr n (d - 1) s = Some (vs, t)" "v = JArr vs"
        using "2.prems" c 2 e d False by (auto simp: jval.simps)
      from "2.IH"(2) [OF c c1 2 d e False vs(1)] show ?thesis
        using c 2 e d False vs(2) len by (intro goal) (simp_all add: jval.simps)
    qed
  next
    case 3
    then have scalar: "jval (Suc m) d s0 = jval (Suc n) d s0" for m using c by (simp add: jval.simps)
    have "length t < length (c # s)"
      using "2.prems" unfolding jval.simps c list.case if_not_P [OF 3(1)] if_not_P [OF 3(2)]
      by (auto split: if_splits dest!: length_jnum length_jstr)
    then have "length t < length s0" using len by simp
    then show ?thesis by (rule goal) (rule trans [OF scalar "2.prems"])
  qed
next
  case (4 n d s)
  obtain v u where v: "jval n d s = Some (v, u)" using "4.prems" by (auto simp: jarr.simps split: option.splits)
  obtain c w where c: "skip_ws u = c # w" using "4.prems" v by (cases "skip_ws u") (auto simp: jarr.simps)
  note IH1 = "4.IH"(1) [OF v] and len = length_skip_ws [OF c]
  have goal: ?case if "length t \<le> length w"
    and "\<And>m. length w \<le> length t + m \<Longrightarrow> jval m d s = Some (v, u) \<Longrightarrow> jarr (Suc m) d s = Some (vs, t)"
  proof -
    have "jarr m d s = Some (vs, t)" if "length s \<le> length t + m" for m
    proof (cases m)
      case (Suc k)
      with that IH1 len \<open>length t \<le> length w\<close> have "length w \<le> length t + k" "jval k d s = Some (v, u)" by auto
      with Suc \<open>\<And>m. length w \<le> length t + m \<Longrightarrow> jval m d s = Some (v, u) \<Longrightarrow> jarr (Suc m) d s = Some (vs, t)\<close>
      show ?thesis by simp
    qed (use that IH1 len \<open>length t \<le> length w\<close> in simp)
    with IH1 len that(1) show ?thesis by simp
  qed
  show ?case
  proof (cases "c = CHR '',''")
    case True
    then obtain vs' where r: "jarr n d w = Some (vs', t)" "vs = v # vs'"
      using "4.prems" v c by (auto simp: jarr.simps)
    from "4.IH"(2) [OF v refl c True r(1)] show ?thesis
      using True c r(2) by (intro goal) (simp_all add: jarr.simps)
  next
    case False
    then have "c = CHR '']''" "t = w" "vs = [v]" using "4.prems" v c by (auto simp: jarr.simps split: if_splits)
    then show ?thesis using c by (intro goal) (simp_all add: jarr.simps)
  qed
next
  case (6 n d s)
  obtain q s1 where q: "skip_ws s = q # s1" and quote: "\<not> q \<noteq> CHR 0x22"
    using "6.prems" by (cases "skip_ws s") (auto simp: jobj.simps split: if_splits)
  obtain k s2 where k: "jstr s1 = Some (k, s2)"
    using "6.prems" q quote by (cases "jstr s1") (auto simp: jobj.simps)
  obtain l s3 where l: "skip_ws s2 = l # s3" and colon: "\<not> l \<noteq> CHR '':''"
    using "6.prems" q quote k by (cases "skip_ws s2") (auto simp: jobj.simps split: if_splits)
  obtain v s4 where v: "jval n d s3 = Some (v, s4)"
    using "6.prems" q quote k l colon by (cases "jval n d s3") (auto simp: jobj.simps)
  obtain c w where c: "skip_ws s4 = c # w"
    using "6.prems" q quote k l colon v by (cases "skip_ws s4") (auto simp: jobj.simps)
  note IH1 = "6.IH"(1) [OF q quote k refl l colon v]
  note len = length_skip_ws [OF q] length_jstr [OF k] length_skip_ws [OF l] length_skip_ws [OF c]
  have goal: ?case if "length t \<le> length w"
    and "\<And>m. length w \<le> length t + m \<Longrightarrow> jval m d s3 = Some (v, s4) \<Longrightarrow> jobj (Suc m) d s = Some (ms, t)"
  proof -
    have "jobj m d s = Some (ms, t)" if "length s \<le> length t + m" for m
    proof (cases m)
      case (Suc j)
      with that IH1 len \<open>length t \<le> length w\<close> have "length w \<le> length t + j" "jval j d s3 = Some (v, s4)" by auto
      with Suc \<open>\<And>m. length w \<le> length t + m \<Longrightarrow> jval m d s3 = Some (v, s4) \<Longrightarrow> jobj (Suc m) d s = Some (ms, t)\<close>
      show ?thesis by simp
    qed (use that IH1 len \<open>length t \<le> length w\<close> in simp)
    with IH1 len that(1) show ?thesis by simp
  qed
  show ?case
  proof (cases "c = CHR '',''")
    case True
    then obtain ms' where r: "jobj n d w = Some (ms', t)" "ms = (k, v) # ms'"
      using "6.prems" q quote k l colon v c by (auto simp: jobj.simps)
    from "6.IH"(2) [OF q quote k refl l colon v refl c True r(1)] show ?thesis
      using q quote k l colon True c r(2) by (intro goal) (simp_all add: jobj.simps)
  next
    case False
    then have "c = CHR ''}''" "t = w" "ms = [(k, v)]"
      using "6.prems" q quote k l colon v c by (auto simp: jobj.simps split: if_splits)
    then show ?thesis using q quote k l colon c by (intro goal) (simp_all add: jobj.simps)
  qed
qed (simp_all add: jval.simps jarr.simps jobj.simps)

lemma json_parse_complete:
  assumes "jval n 10000 s = Some (v, t)" and "skip_ws t = []"
  shows "json_parse s = Some v"
proof -
  have "jval (length s + 1) 10000 s = Some (v, t)" using json_fuel(1) [OF assms(1)] by simp
  then show ?thesis using assms(2) by (simp add: json_parse_def)
qed

end
