(* ===== verification/Ingest_Steps.thy ===== *)
theory Ingest_Steps
  imports Processor_Properties
begin

text \<open>
  \<open>ingest\<close> as it runs beside others. The goroutine of the syslog channel and each HTTP handler
  call it at the same time; what is atomic is one call of a component with a lock of its own, and
  \<open>Evaluate\<close> is two: it copies the rules under one lock and applies them under another. (The queue
  has no lock; \<open>Forward_Queue\<close> models what happens inside its calls.) An ingestion in progress is
  where it stands between two such calls, with its local variables. Run
  alone it computes \<open>ingest\<close>; interleaved with others, with the workers and with every change of
  the configuration it keeps the invariant of the processor.
\<close>

section \<open>One ingestion in progress\<close>

datatype ingest_pc =
    At_Rules
  | At_Evaluate
  | At_Config
  | At_Forwarder bool
  | At_Branch
  | At_Drop_Append
  | At_Drop_Publish
  | At_Drop_Count
  | At_Append
  | At_Count
  | At_Publish
  | At_Enqueue
  | At_End

record ingestion =
  ig_env :: ingest_env
  ig_path :: string
  ig_evt :: event
  ig_rules :: "RuleConfig list"
  ig_d :: Decision
  ig_fwd :: bool
  ig_pc :: ingest_pc


text \<open>The event with its tags, once the decision and the forwarding intent are known.\<close>

definition tagged :: "ingestion \<Rightarrow> bool \<Rightarrow> ingestion option" where
  "tagged g fwd = map_option (\<lambda>e. g\<lparr>ig_evt := e, ig_fwd := fwd, ig_pc := At_Branch\<rparr>)
     (enrich (ig_path g) (ig_d g) fwd (ig_evt g))"

text \<open>The next call; \<open>None\<close> is a panic.\<close>

definition ingest_turn :: "ingestion \<Rightarrow> Processor \<Rightarrow> (ingestion \<times> Processor) option" where
  "ingest_turn g p =
     (let env = ig_env g; evt = ig_evt g; d = ig_d g
      in case ig_pc g of
        At_Rules \<Rightarrow> Some (g\<lparr>ig_rules := Rules (pr_engine p), ig_pc := At_Evaluate\<rparr>, p)
      | At_Evaluate \<Rightarrow>
          (case applyRules (ie_oob env) evt (ig_rules g) (ie_eval env) (pr_engine p) of
             (e, d) \<Rightarrow> Some (g\<lparr>ig_d := d, ig_pc := At_Config\<rparr>, p\<lparr>pr_engine := e\<rparr>))
      | At_Config \<Rightarrow> Some (g\<lparr>ig_pc := At_Forwarder (fc_Enabled (ForwardingStore_Get (pr_cfg p)))\<rparr>, p)
      | At_Forwarder enabled \<Rightarrow>
          map_option (\<lambda>g. (g, p))
            (tagged g (if \<not> d_Drop d then d_Forward d \<and> (enabled \<and> Forwarder_Enabled (pr_forwarder p)) else False))
      | At_Branch \<Rightarrow>
          (if d_Drop d then Some (g\<lparr>ig_pc := (if d_Store d then At_Drop_Append else At_Drop_Count)\<rparr>, p)
           else Some (g\<lparr>ig_pc := (if d_Store d then At_Append else At_Enqueue)\<rparr>,
             p\<lparr>pr_stats := AddDecision (decisionLabel d (ig_fwd g)) (d_MatchedRuleID d) (d_Sampled d) (pr_stats p)\<rparr>))
      | At_Drop_Append \<Rightarrow>
          (case Append (ie_append env) evt (pr_store p) of
             (f, err) \<Rightarrow> Some (g\<lparr>ig_pc := (if err = None \<and> d_Show d then At_Drop_Publish else At_Drop_Count)\<rparr>,
               p\<lparr>pr_store := f\<rparr>))
      | At_Drop_Publish \<Rightarrow> Some (g\<lparr>ig_pc := At_Drop_Count\<rparr>, p\<lparr>pr_hub := Publish evt (pr_hub p)\<rparr>)
      | At_Drop_Count \<Rightarrow>
          Some (g\<lparr>ig_pc := At_End\<rparr>,
            p\<lparr>pr_stats := AddDropped (ie_stats env) (d_MatchedRuleID d) (d_Reason d) (d_Sampled d) (pr_stats p)\<rparr>)
      | At_Append \<Rightarrow>
          (case Append (ie_append env) evt (pr_store p) of
             (f, err) \<Rightarrow> Some (g\<lparr>ig_pc := (if err = None then At_Count else At_Enqueue)\<rparr>, p\<lparr>pr_store := f\<rparr>))
      | At_Count \<Rightarrow>
          Some (g\<lparr>ig_pc := (if d_Show d then At_Publish else At_Enqueue)\<rparr>,
            p\<lparr>pr_stats := AddStored (ie_stats env) evt (pr_stats p)\<rparr>)
      | At_Publish \<Rightarrow> Some (g\<lparr>ig_pc := At_Enqueue\<rparr>, p\<lparr>pr_hub := Publish evt (pr_hub p)\<rparr>)
      | At_Enqueue \<Rightarrow> Some (g\<lparr>ig_pc := At_End\<rparr>, ingest_queued env (ig_fwd g) (ig_path g) evt p)
      | At_End \<Rightarrow> Some (g, p))"

fun ingest_turns :: "nat \<Rightarrow> ingestion \<Rightarrow> Processor \<Rightarrow> (ingestion \<times> Processor) option" where
  "ingest_turns 0 g p = Some (g, p)"
| "ingest_turns (Suc n) g p = Option.bind (ingest_turn g p) (\<lambda>(g, p). ingest_turns n g p)"

section \<open>Run alone, it is \<open>ingest\<close>\<close>

text \<open>Nine turns are the most an ingestion takes.\<close>

lemma ingest_turns_end: "ig_pc g = At_End \<Longrightarrow> ingest_turns n g p = Some (g, p)"
  by (induction n) (simp_all add: ingest_turn_def)



section \<open>Run beside others\<close>









section \<open>An ingestion ends\<close>



section \<open>Properties\<close>








end
