(* ===== verification/Event_Stream.thy ===== *)
theory Event_Stream
  imports Api_Properties
begin

text \<open>
  The handler of the event stream (\<open>handleEventStream\<close> in \<open>internal/api/handlers.go\<close>) as it runs:
  one session per client, its text in the format of server-sent events. What a client reads back is
  the list of events it received, whatever pings are interleaved.
\<close>

section \<open>A session\<close>







section \<open>Reading the stream\<close>















section \<open>Sessions among other users of the hub\<close>





lemma hub_set_hub [simp]: "pr_hub (api_proc (set_hub h a)) = h"
  by (simp add: set_hub_def)







section \<open>Properties\<close>





end
