(* ===== verification/Rule_Edits.thy ===== *)
theory Rule_Edits
  imports Api_Properties
begin

text \<open>
  Two edits of the rules at the same time. \<open>handleConfigRuleByID\<close> takes the lock of the store, of
  the store again and of the engine, one after the other; between them another request may run.
  An edit in progress is where it stands between these calls.
\<close>

datatype edit_pc =
    Storing RuleConfig
  | Reading_Rules RuleConfig
  | Installing RuleConfig "RuleConfig list"
  | Answered response

text \<open>The next call of an edit (a PUT whose body decodes), with the outcome of its write.\<close>

definition edit_turn :: "RuleConfig list write_result \<Rightarrow> edit_pc \<Rightarrow> API \<Rightarrow> edit_pc \<times> API" where
  "edit_turn w pc a =
     (case pc of
        Storing one \<Rightarrow>
          (case RuleStore_Upsert one (api_rules a) w of
             (s, Some err) \<Rightarrow> (Answered (500, BError ''failed to update rule''), a\<lparr>api_rules := s\<rparr>)
           | (s, None) \<Rightarrow> (Reading_Rules one, a\<lparr>api_rules := s\<rparr>))
      | Reading_Rules one \<Rightarrow> (Installing one (RuleStore_All (api_rules a)), a)
      | Installing one rs \<Rightarrow> (Answered (200, BRule one), install_rules rs a)
      | Answered r \<Rightarrow> (Answered r, a))"

text \<open>A schedule names the edit that moves next.\<close>

fun run_edits :: "RuleConfig list write_result \<Rightarrow> bool list \<Rightarrow> edit_pc \<times> edit_pc \<Rightarrow> API \<Rightarrow> (edit_pc \<times> edit_pc) \<times> API" where
  "run_edits w [] pcs a = (pcs, a)"
| "run_edits w (second # turns) (x, y) a =
     (if second then (case edit_turn w y a of (y, a) \<Rightarrow> run_edits w turns (x, y) a)
      else (case edit_turn w x a of (x, a) \<Rightarrow> run_edits w turns (x, y) a))"

text \<open>Alone, an edit is the handler.\<close>

lemma edit_alone:
  assumes "i \<noteq> ''''"
  shows "(case run_edits w [False, False, False] (Storing (one\<lparr>r_ID := i\<rparr>), y) a of ((x, _), a') \<Rightarrow> (x, a')) =
    (case handleConfigRuleByID ''PUT'' (''/config/rules/'' @ i) (Some one) w a of (a', r) \<Rightarrow> (Answered r, a'))"
proof -
  have p: "TrimPrefix (''/config/rules/'' @ i) ''/config/rules/'' = i" by (simp add: TrimPrefix_def)
  show ?thesis
  proof (cases "RuleStore_Upsert (one\<lparr>r_ID := i\<rparr>) (api_rules a) w")
    case (Pair s err)
    then show ?thesis
      using assms unfolding handleConfigRuleByID_def p
      by (cases err) (simp_all add: edit_turn_def install_rules_def)
  qed
qed

lemma upsert_written:
  "RuleStore_Upsert one s Written = (\<lparr>st_data = rules_upsert one (st_data s), st_disk = Some (rules_upsert one (st_data s))\<rparr>, None)"
  by (cases s) (simp add: RuleStore_Upsert_def RuleStore_persistLocked_def persist_def)

section \<open>Properties\<close>

text \<open>C23: Two edits at the same time can lose one of them: when the first request reads the store
  before the second one writes and installs its rules after the second one has, both are answered
  with success, the store and its file hold both rules, and the engine does not know the second one.\<close>

theorem concurrent_edits_lose_rule:
  assumes "rules.well_formed (RuleStore_All (api_rules a))" and "r_ID one \<noteq> ''''" and "r_ID two \<noteq> ''''"
    and "r_ID one \<noteq> r_ID two" and "find (\<lambda>r. r_ID r = r_ID two) (RuleStore_All (api_rules a)) = None"
  shows "\<exists>turns a'. run_edits Written turns (Storing one, Storing two) a =
      ((Answered (200, BRule one), Answered (200, BRule two)), a') \<and>
    find (\<lambda>r. r_ID r = r_ID one) (RuleStore_All (api_rules a')) = sanitizeRule one \<and>
    find (\<lambda>r. r_ID r = r_ID two) (RuleStore_All (api_rules a')) = sanitizeRule two \<and>
    st_disk (api_rules a') = Some (RuleStore_All (api_rules a')) \<and>
    find (\<lambda>r. r_ID r = r_ID two) (CurrentRules (api_proc a')) = None"
proof -
  let ?d = "st_data (api_rules a)"
  define a' where "a' = (a\<lparr>api_rules := \<lparr>st_data = rules_upsert two (rules_upsert one ?d),
      st_disk = Some (rules_upsert two (rules_upsert one ?d))\<rparr>\<rparr>)
    \<lparr>api_proc := Processor_SetRules (rules_upsert one ?d) (Processor_SetRules (rules_upsert two (rules_upsert one ?d)) (api_proc a))\<rparr>"
  have run: "run_edits Written [False, False, True, True, True, False] (Storing one, Storing two) a =
      ((Answered (200, BRule one), Answered (200, BRule two)), a')"
    by (simp add: edit_turn_def upsert_written RuleStore_All_def install_rules_def a'_def)
  have wf: "rules.well_formed ?d" "rules.well_formed (rules_upsert one ?d)"
    using assms(1) by (simp_all add: RuleStore_All_def rules.upsert_well_formed)
  have "find (\<lambda>r. r_ID r = r_ID two) (rules_upsert one ?d) = None"
    using rules.upsert_view [OF wf(1) assms(2,3)] assms(4,5) by (simp add: rules.view_def RuleStore_All_def)
  moreover have "find (\<lambda>r. r_ID r = r_ID two) (rules_upsert two (rules_upsert one ?d)) = sanitizeRule two"
    using rules.upsert_view [OF wf(2) assms(3,3)] by (simp add: rules.view_def)
  moreover have "find (\<lambda>r. r_ID r = r_ID one) (rules_upsert two (rules_upsert one ?d)) = sanitizeRule one"
    using rules.upsert_view [OF wf(2) assms(3,2)] rules.upsert_view [OF wf(1) assms(2,2)] assms(4)
    by (simp add: rules.view_def)
  ultimately show ?thesis
    using run
    by (intro exI [of _ "[False, False, True, True, True, False]"] exI [of _ a'])
      (simp add: a'_def RuleStore_All_def CurrentRules_def Processor_SetRules_def Rules_def SetRules_def)
qed

theorem concurrent_edits_lose_rule_witness:
  "\<exists>turns a'. run_edits Written turns (Storing (base_rule\<lparr>r_ID := ''x1''\<rparr>), Storing (base_rule\<lparr>r_ID := ''x2''\<rparr>)) probe_api =
      ((Answered (200, BRule (base_rule\<lparr>r_ID := ''x1''\<rparr>)), Answered (200, BRule (base_rule\<lparr>r_ID := ''x2''\<rparr>))), a') \<and>
    find (\<lambda>r. r_ID r = ''x2'') (CurrentRules (api_proc a')) = None"
proof -
  have r: "RuleStore_All (api_rules probe_api) = defaultRules"
    by (simp add: probe_api_def New_API_def RuleStore_All_def)
  define one two where "one = base_rule\<lparr>r_ID := ''x1''\<rparr>" and "two = base_rule\<lparr>r_ID := ''x2''\<rparr>"
  have ids: "r_ID one = ''x1''" "r_ID two = ''x2''" by (simp_all add: one_def two_def)
  have n: "r_ID one \<noteq> ''''" "r_ID two \<noteq> ''''" "r_ID one \<noteq> r_ID two" by (simp_all add: ids)
  have w: "rules.well_formed (RuleStore_All (api_rules probe_api))" unfolding r by (rule default_rules_sanitized)
  have f: "find (\<lambda>r. r_ID r = r_ID two) (RuleStore_All (api_rules probe_api)) = None"
    unfolding ids r by (simp add: defaultRules_def base_rule_def)
  from concurrent_edits_lose_rule [OF w n f] obtain turns a' where
    "run_edits Written turns (Storing one, Storing two) probe_api = ((Answered (200, BRule one), Answered (200, BRule two)), a')"
    "find (\<lambda>r. r_ID r = r_ID two) (CurrentRules (api_proc a')) = None"
    by blast
  note run = this(1) this(2) [unfolded ids]
  show ?thesis using run unfolding one_def two_def by blast
qed

end
