(* ===== verification/Api_Steps.thy ===== *)
theory Api_Steps
  imports Api_Properties
begin

text \<open>
  The HTTP interface as a transition system: every request that can change the state, with any
  method, body and outcome of its file accesses. Each request is a run of the processor of
  \<open>Processor_Facts\<close>, so what holds in every reachable processor holds behind the interface.
\<close>

text \<open>The resolver the normaliser uses is the one \<open>main\<close> installs: it reads the live store of sources.\<close>

definition resolves_by :: "API \<Rightarrow> norm_env \<Rightarrow> bool" where
  "resolves_by a nenv \<longleftrightarrow> ne_resolver nenv = Some (api_sources a)"

inductive api_step :: "API \<Rightarrow> API \<Rightarrow> bool" where
  events: "handleEvents meth max_cap io params env raw a = Some (a', r) \<Longrightarrow> api_step a a'"
| config_sources: "handleConfigSources meth srcs w a = (a', r) \<Longrightarrow> api_step a a'"
| config_source: "handleConfigSourceByID meth path src w a = (a', r) \<Longrightarrow> api_step a a'"
| config_rules: "handleConfigRules meth rs v a = (a', r) \<Longrightarrow> api_step a a'"
| config_rule: "handleConfigRuleByID meth path one v a = (a', r) \<Longrightarrow> api_step a a'"
| rules_test: "handleConfigRulesTest meth evt oob now a = (a', r) \<Longrightarrow> api_step a a'"
| config_forwarding: "handleConfigForwarding meth cfg u a = (a', r) \<Longrightarrow> api_step a a'"
| reset_queue: "handleForwardingResetQueue meth a = (a', r) \<Longrightarrow> api_step a a'"
| test_pipeline: "handleForwardingTestPipeline meth now ienv a = Some (a', r) \<Longrightarrow> api_step a a'"
| test_event: "handleTestEvent loc now nenv new_id ienv raw a = Some (a', r) \<Longrightarrow> resolves_by a nenv \<Longrightarrow> api_step a a'"
| repair: "handleStorageRepair meth rio a = (a', r) \<Longrightarrow> api_step a a'"
| stream_opened: "open_stream a = (a', i) \<Longrightarrow> api_step a a'"
| stream_turned: "stream_turn i a = (a', t) \<Longrightarrow> api_step a a'"
| stream_closed: "api_step a (close_stream i a)"

inductive_cases api_step_cases: "api_step a a'"

section \<open>Requests run the processor\<close>

abbreviation psteps :: "Processor \<Rightarrow> Processor \<Rightarrow> bool" where
  "psteps \<equiv> pstep\<^sup>*\<^sup>*"

lemma psteps_ingest: "ingest env evt path p = Some p' \<Longrightarrow> psteps p p'"
  by (rule r_into_rtranclp) (rule pstep.ingested)

lemma psteps_post_all: "post_all env i zone es p = Some (p', ids) \<Longrightarrow> psteps p p'"
proof (induction es arbitrary: i p ids)
  case (Cons e es)
  then obtain p1 ids' where
    "ingest (pe_ingest (env i)) (normalizePostedEvent (pe_id (env i)) (pe_now (env i)) zone e) ''api'' p = Some p1"
    "post_all env (Suc i) zone es p1 = Some (p', ids')"
    by (auto simp: ProcessNormalized_def Option.bind_eq_Some_conv Let_def)
  then show ?case using psteps_ingest Cons.IH by (meson rtranclp_trans)
qed simp

lemma psteps_ProcessRaw: "ProcessRaw loc now nenv env raw ip transport p = Some p' \<Longrightarrow> psteps p p'"
  by (auto simp: ProcessRaw_def Option.bind_eq_Some_conv intro: psteps_ingest)

lemma psteps_SetRules: "psteps p (Processor_SetRules rs p)"
  by (rule r_into_rtranclp) (rule pstep.rules_set)

lemma psteps_hub: "psteps p (p\<lparr>pr_hub := hub_step op (pr_hub p)\<rparr>)"
  by (rule r_into_rtranclp) (rule pstep.streamed)

lemma psteps_set_hub: "hub_step op (pr_hub (api_proc a)) = h \<Longrightarrow> psteps (api_proc a) (api_proc (set_hub h a))"
  using psteps_hub [of "api_proc a" op] by (simp add: set_hub_def)

text \<open>What a request leaves of the two stores and of the rules in force.\<close>

lemma api_step_psteps: "api_step a a' \<Longrightarrow> psteps (api_proc a) (api_proc a')"
proof (induction rule: api_step.induct)
  case (events meth max_cap io params env raw a a' r)
  then show ?case
    by (auto simp: handleEvents_def handlePostEvents_def Let_def intro: psteps_post_all
        split: if_splits option.splits sum.splits prod.splits)
next
  case (config_sources meth srcs w a a' r)
  then show ?case by (auto simp: handleConfigSources_def split: if_splits option.splits prod.splits)
next
  case (config_source meth path src w a a' r)
  then show ?case by (auto simp: handleConfigSourceByID_def Let_def split: if_splits option.splits prod.splits)
next
  case (config_rules meth rs v a a' r)
  then show ?case
    by (auto simp: handleConfigRules_def install_rules_def intro: psteps_SetRules split: if_splits option.splits prod.splits)
next
  case (config_rule meth path one v a a' r)
  then show ?case
    by (auto simp: handleConfigRuleByID_def install_rules_def Let_def intro: psteps_SetRules
        split: if_splits option.splits prod.splits)
next
  case (rules_test meth evt oob now a a' r)
  have "psteps p (fst (RuleTest oob now e p))" for e p by (rule r_into_rtranclp) (rule pstep.rule_tested)
  with rules_test show ?case
    by (auto simp: handleConfigRulesTest_def split: if_splits option.splits prod.splits) (metis fst_conv)
next
  case (config_forwarding meth cfg u a a' r)
  have "psteps p (fst (UpdateForwardingConfig c u p))" for c p
    by (rule r_into_rtranclp) (rule pstep.forwarding_updated)
  with config_forwarding show ?case
    by (auto simp: handleConfigForwarding_def split: if_splits option.splits prod.splits) (metis fst_conv)+
next
  case (reset_queue meth a a' r)
  have "psteps p (fst (ResetForwardQueue p))" for p by (rule r_into_rtranclp) (rule pstep.queue_reset)
  with reset_queue show ?case
    by (auto simp: handleForwardingResetQueue_def split: if_splits prod.splits) (metis fst_conv)
next
  case (test_pipeline meth now ienv a a' r)
  then show ?case
    by (auto simp: handleForwardingTestPipeline_def ProcessNormalized_def Let_def Option.bind_eq_Some_conv
        intro: psteps_ingest split: if_splits)
next
  case (test_event loc now nenv new_id ienv raw a a' r)
  have "psteps (api_proc a) (api_proc a')" if "accept_test_event i e ev a = Some (a', r)" for i e ev
    using that by (auto simp: accept_test_event_def ProcessTestEvent_def Let_def Option.bind_eq_Some_conv intro: psteps_ingest)
  with test_event show ?case
    by (auto simp: handleTestEvent_def Let_def Option.bind_eq_Some_conv
        intro: psteps_ProcessRaw split: if_splits option.splits)
next
  case (repair meth rio a a' r)
  have "psteps p (p\<lparr>pr_store := fst (Repair rio path (pr_store p))\<rparr>)" for path p
    by (rule r_into_rtranclp) (rule pstep.repaired)
  with repair show ?case
    by (auto simp: handleStorageRepair_def split: if_splits prod.splits) (metis fst_conv)
next
  case (stream_opened a a' i)
  then show ?case
    using psteps_set_hub [of Subscribing a] by (auto simp: open_stream_def hub_step_def split: prod.splits)
next
  case (stream_turned i a a' t)
  then show ?case
    using psteps_set_hub [of "Receiving i" a]
    by (auto simp: stream_turn_def hub_step_def split: prod.splits option.splits)
next
  case (stream_closed a i)
  then show ?case
    using psteps_set_hub [of "Unsubscribing i" a] by (simp add: close_stream_def hub_step_def)
qed

lemma preachable_psteps: "psteps p p' \<Longrightarrow> preachable p \<Longrightarrow> preachable p'"
  by (induction rule: rtranclp_induct) (auto intro: preachable.continued)

end
