(* ===== verification/Listeners.thy ===== *)
theory Listeners
  imports Syslog_Input "HOL-Library.Sublist"
begin

text \<open>
  The syslog listeners as they run (\<open>RunUDPServer\<close> and \<open>RunTCPServer\<close> with \<open>handleTCPConn\<close> in
  \<open>internal/syslog\<close>): each is a loop that waits for its socket, for room in the channel of
  incoming logs or for the end of the context. A step takes whether the context is done, and says
  which log it puts on the channel, if any; the channel itself belongs to the collector.
\<close>

section \<open>A TCP connection\<close>

text \<open>
  The phases of the loop of \<open>handleTCPConn\<close>: before the test of the context, in \<open>ReadString\<close>, in
  the send, returned. \<open>cn_pending\<close> holds the bytes received and not yet read, \<open>cn_ended\<close> says
  that the peer has closed the stream or that reading it fails. The last two fields record history:
  all bytes received, and the logs put on the channel.
\<close>

datatype conn_phase = Checking | Reading | Offering IncomingLog | Returned

record tcp_conn =
  cn_IP :: string
  cn_pending :: string
  cn_ended :: bool
  cn_phase :: conn_phase
  h_bytes :: string
  h_logs :: "IncomingLog list"

definition new_conn :: "string \<Rightarrow> tcp_conn" where
  "new_conn ip = \<lparr>cn_IP = ip, cn_pending = '''', cn_ended = False, cn_phase = Checking, h_bytes = '''', h_logs = []\<rparr>"

text \<open>\<open>ReadString\<close>: the line up to the newline, and the rest; nothing while there is no newline.\<close>

fun ReadString :: "string \<Rightarrow> (string \<times> string) option" where
  "ReadString [] = None"
| "ReadString (c # s) =
     (if c = CHR 0x0A then Some ([c], s) else map_option (\<lambda>(l, r). (c # l, r)) (ReadString s))"

inductive conn_step :: "bool \<Rightarrow> tcp_conn \<Rightarrow> IncomingLog option \<Rightarrow> tcp_conn \<Rightarrow> bool" where
  arrive: "\<not> cn_ended c \<Longrightarrow>
    conn_step ctx c None (c\<lparr>cn_pending := cn_pending c @ bytes, h_bytes := h_bytes c @ bytes\<rparr>)"
| hang_up: "conn_step ctx c None (c\<lparr>cn_ended := True\<rparr>)"
| check: "cn_phase c = Checking \<Longrightarrow>
    conn_step ctx c None (c\<lparr>cn_phase := (if ctx then Returned else Reading)\<rparr>)"
| read_blank: "cn_phase c = Reading \<Longrightarrow> ReadString (cn_pending c) = Some (line, rest) \<Longrightarrow> TrimSpace line = '''' \<Longrightarrow>
    conn_step ctx c None (c\<lparr>cn_pending := rest, cn_phase := Checking\<rparr>)"
| read_line: "cn_phase c = Reading \<Longrightarrow> ReadString (cn_pending c) = Some (line, rest) \<Longrightarrow> TrimSpace line \<noteq> '''' \<Longrightarrow>
    conn_step ctx c None (c\<lparr>cn_pending := rest,
      cn_phase := Offering \<lparr>in_Raw = TrimSpace line, in_SourceIP = cn_IP c, in_Transport = ''tcp''\<rparr>\<rparr>)"
| read_end: "cn_phase c = Reading \<Longrightarrow> ReadString (cn_pending c) = None \<Longrightarrow> cn_ended c \<Longrightarrow>
    conn_step ctx c None (c\<lparr>cn_phase := Returned\<rparr>)"
| send: "cn_phase c = Offering m \<Longrightarrow>
    conn_step ctx c (Some m) (c\<lparr>cn_phase := Checking, h_logs := h_logs c @ [m]\<rparr>)"
| give_up: "cn_phase c = Offering m \<Longrightarrow> ctx \<Longrightarrow> conn_step ctx c None (c\<lparr>cn_phase := Returned\<rparr>)"

section \<open>The UDP server\<close>

datatype udp_phase = Receiving_Packet | Offering_Packet IncomingLog | Udp_Returned "string option"

text \<open>
  \<open>Udp_Returned (Some e)\<close> is a return with an error, \<open>Udp_Returned None\<close> one without. A read fails
  at any time; the server returns when the context is done or its socket closed, and goes on otherwise.
\<close>

inductive udp_step :: "bool \<Rightarrow> udp_phase \<Rightarrow> IncomingLog option \<Rightarrow> udp_phase \<Rightarrow> bool" where
  packet: "udp_step ctx Receiving_Packet None (Offering_Packet (udp_message ip datagram))"
| read_failed: "udp_step ctx Receiving_Packet None
    (if ctx \<or> closed then Udp_Returned None else Receiving_Packet)"
| send_packet: "udp_step ctx (Offering_Packet m) (Some m) Receiving_Packet"
| drop_packet: "ctx \<Longrightarrow> udp_step ctx (Offering_Packet m) None (Udp_Returned None)"

section \<open>The TCP server\<close>

datatype tcp_phase = Accepting | Tcp_Returned "string option"

text \<open>One turn of the accept loop: the new connection, if there is one.\<close>

inductive accept_step :: "bool \<Rightarrow> tcp_phase \<Rightarrow> tcp_conn option \<Rightarrow> tcp_phase \<Rightarrow> bool" where
  accept: "accept_step ctx Accepting (Some (new_conn ip)) Accepting"
| accept_failed: "accept_step ctx Accepting None
    (if ctx \<or> closed then Tcp_Returned None else Accepting)"

inductive_cases conn_step_cases: "conn_step ctx c out c'"
inductive_cases udp_step_cases: "udp_step ctx u out u'"
inductive_cases accept_step_cases: "accept_step ctx t out t'"

text \<open>\<open>net.Listen\<close> and \<open>net.ListenPacket\<close> come first: an error is returned at once.\<close>

definition listen_udp :: "string option \<Rightarrow> udp_phase" where
  "listen_udp err = (case err of None \<Rightarrow> Receiving_Packet | Some e \<Rightarrow> Udp_Returned (Some e))"

definition listen_tcp :: "string option \<Rightarrow> tcp_phase" where
  "listen_tcp err = (case err of None \<Rightarrow> Accepting | Some e \<Rightarrow> Tcp_Returned (Some e))"

section \<open>What a connection delivers\<close>

lemma ReadString_None: "ReadString s = None \<longleftrightarrow> CHR 0x0A \<notin> set s"
  by (induction s) auto

lemma ReadString_Some: "ReadString s = Some (line, rest) \<Longrightarrow> \<exists>m. line = m @ [CHR 0x0A] \<and> s = line @ rest \<and> CHR 0x0A \<notin> set m"
proof (induction s arbitrary: line)
  case (Cons c s)
  show ?case
  proof (cases "c = CHR 0x0A")
    case False
    with Cons.prems obtain l where l: "ReadString s = Some (l, rest)" "line = c # l" by auto
    from Cons.IH [OF l(1)] obtain m where "l = m @ [CHR 0x0A]" "s = l @ rest" "CHR 0x0A \<notin> set m" by blast
    with False l(2) show ?thesis by (intro exI [of _ "c # m"]) simp
  qed (use Cons.prems in simp)
qed simp

lemma ReadString_line: "CHR 0x0A \<notin> set m \<Longrightarrow> ReadString (m @ CHR 0x0A # s) = Some (m @ [CHR 0x0A], s)"
  by (induction m) auto

lemma handleTCPConn_line:
  assumes "ReadString s = Some (line, rest)"
  shows "handleTCPConn ip s =
    (if TrimSpace line = '''' then handleTCPConn ip rest
     else \<lparr>in_Raw = TrimSpace line, in_SourceIP = ip, in_Transport = ''tcp''\<rparr> # handleTCPConn ip rest)"
proof -
  obtain m where m: "line = m @ [CHR 0x0A]" "s = m @ CHR 0x0A # rest" "CHR 0x0A \<notin> set m"
    using ReadString_Some [OF assms] by auto
  then show ?thesis using tcp_loop_line [of m ip "[]" rest] by (simp add: handleTCPConn_def tcp_log_def Let_def)
qed

lemma tcp_loop_append: "\<exists>more. tcp_loop ip acc (s @ t) = tcp_loop ip acc s @ more"
  by (induction s arbitrary: acc) (auto simp: Let_def)

text \<open>What is offered now.\<close>

definition offered :: "conn_phase \<Rightarrow> IncomingLog list" where
  "offered p = (case p of Offering m \<Rightarrow> [m] | _ \<Rightarrow> [])"

text \<open>
  A connection delivers what \<open>handleTCPConn\<close> makes of the bytes received: so far a prefix, and all
  of it once it has returned without the context being done. While it runs, the bytes before those
  that are pending end with a line and account for what was put on the channel and is offered.
\<close>

definition accounted :: "tcp_conn \<Rightarrow> string \<Rightarrow> bool" where
  "accounted c seen \<longleftrightarrow> h_bytes c = seen @ cn_pending c \<and>
     (\<forall>more. handleTCPConn (cn_IP c) (seen @ more) =
        h_logs c @ offered (cn_phase c) @ handleTCPConn (cn_IP c) more)"

definition conn_ok :: "bool \<Rightarrow> tcp_conn \<Rightarrow> bool" where
  "conn_ok ctx c \<longleftrightarrow>
     (if cn_phase c = Returned then
        prefix (h_logs c) (handleTCPConn (cn_IP c) (h_bytes c)) \<and>
        (ctx \<or> (cn_ended c \<and> h_logs c = handleTCPConn (cn_IP c) (h_bytes c)))
      else \<exists>seen. accounted c seen)"

lemma conn_ok_new: "conn_ok ctx (new_conn ip)"
proof -
  have "accounted (new_conn ip) ''''" by (simp add: accounted_def new_conn_def offered_def handleTCPConn_def)
  then show ?thesis by (auto simp: conn_ok_def new_conn_def)
qed

lemma conn_ok_cancel: "conn_ok ctx c \<Longrightarrow> conn_ok True c"
  by (auto simp: conn_ok_def split: if_splits)

lemma handleTCPConn_unfinished: "ReadString s = None \<Longrightarrow> handleTCPConn ip s = []"
  by (simp add: handleTCPConn_def ReadString_None tcp_loop_unfinished)

lemma conn_ok_prefix:
  assumes "conn_ok ctx c" shows "prefix (h_logs c) (handleTCPConn (cn_IP c) (h_bytes c))"
proof (cases "cn_phase c = Returned")
  case False
  then obtain seen where "accounted c seen" using assms by (auto simp: conn_ok_def)
  then show ?thesis by (auto simp: accounted_def)
qed (use assms in \<open>simp add: conn_ok_def\<close>)

lemma accounted_read:
  assumes "accounted c seen" and "ReadString (cn_pending c) = Some (line, rest)" and "cn_phase c = Reading"
    and "ph = (if TrimSpace line = '''' then Checking
           else Offering \<lparr>in_Raw = TrimSpace line, in_SourceIP = cn_IP c, in_Transport = ''tcp''\<rparr>)"
  shows "accounted (c\<lparr>cn_pending := rest, cn_phase := ph\<rparr>) (seen @ line)"
proof -
  have pending: "cn_pending c = line @ rest" using ReadString_Some [OF assms(2)] by blast
  have "ReadString (line @ more) = Some (line, more)" for more
    using ReadString_Some [OF assms(2)] ReadString_line by fastforce
  from handleTCPConn_line [OF this] show ?thesis
    using assms(1,3,4) pending by (auto simp: accounted_def offered_def)
qed

lemma accounted_frame:
  assumes "accounted c seen" and "cn_IP c' = cn_IP c" and "cn_pending c' = cn_pending c" and "h_bytes c' = h_bytes c"
    and "h_logs c' @ offered (cn_phase c') = h_logs c @ offered (cn_phase c)"
  shows "accounted c' seen"
  using assms(1-4) arg_cong [OF assms(5), of "\<lambda>l. l @ x" for x] by (simp add: accounted_def)

lemma conn_ok_frame:
  assumes "conn_ok ctx c" and "cn_phase c \<noteq> Returned" and "cn_phase c' \<noteq> Returned"
    and "cn_IP c' = cn_IP c" and "cn_pending c' = cn_pending c" and "h_bytes c' = h_bytes c"
    and "h_logs c' @ offered (cn_phase c') = h_logs c @ offered (cn_phase c)"
  shows "conn_ok ctx c'"
  using assms accounted_frame [of c _ c'] by (auto simp: conn_ok_def)

lemma conn_ok_step:
  assumes "conn_step ctx c out c'" and "conn_ok ctx c"
  shows "conn_ok ctx c' \<and> h_logs c' = h_logs c @ (case out of None \<Rightarrow> [] | Some m \<Rightarrow> [m])"
  using assms
proof (induction rule: conn_step.induct)
  case (arrive c ctx bytes)
  have "prefix (handleTCPConn (cn_IP c) (h_bytes c)) (handleTCPConn (cn_IP c) (h_bytes c @ bytes))"
    using tcp_loop_append [of "cn_IP c" "[]" "h_bytes c" bytes] by (auto simp: handleTCPConn_def)
  moreover have "accounted (c\<lparr>cn_pending := cn_pending c @ bytes, h_bytes := h_bytes c @ bytes\<rparr>) seen"
    if "accounted c seen" for seen
    using that by (simp add: accounted_def)
  ultimately show ?case
    using arrive by (auto simp: conn_ok_def intro: prefix_order.trans split: if_splits)
next
  case (hang_up ctx c)
  then show ?case
    using conn_ok_frame [of ctx c "c\<lparr>cn_ended := True\<rparr>"] by (cases "cn_phase c = Returned") (auto simp: conn_ok_def)
next
  case (check c ctx)
  then show ?case
    using conn_ok_frame [of ctx c "c\<lparr>cn_phase := Reading\<rparr>"] conn_ok_prefix [OF check.prems]
    by (auto simp: offered_def) (simp add: conn_ok_def)
next
  case (read_blank c line rest ctx)
  then obtain seen where "accounted c seen" by (auto simp: conn_ok_def)
  from accounted_read [OF this read_blank.hyps(2,1)] read_blank show ?case by (auto simp: conn_ok_def)
next
  case (read_line c line rest ctx)
  then obtain seen where "accounted c seen" by (auto simp: conn_ok_def)
  from accounted_read [OF this read_line.hyps(2,1)] read_line show ?case by (auto simp: conn_ok_def)
next
  case (read_end c ctx)
  then show ?case by (auto simp: conn_ok_def accounted_def offered_def handleTCPConn_unfinished)
next
  case (send c m ctx)
  then show ?case
    using conn_ok_frame [of ctx c "c\<lparr>cn_phase := Checking, h_logs := h_logs c @ [m]\<rparr>"] by (simp add: offered_def)
next
  case (give_up c m ctx)
  then show ?case using conn_ok_prefix [OF give_up.prems] by (simp add: conn_ok_def)
qed

end
