(* ===== verification/Collector.thy ===== *)
theory Collector
  imports Api_Steps Listeners "HOL-Library.Multiset"
begin

text \<open>
  The running collector (\<open>main\<close> in \<open>cmd/ot-collector/main.go\<close> with \<open>Run\<close> in
  \<open>internal/api/server.go\<close>): start-up, the goroutines around the channel of incoming logs, and the
  end of the process. A step is one turn of one goroutine between two of its blocking operations.
\<close>

definition incoming_size :: nat where
  "incoming_size = 2048"

datatype consumer = Idle | Processing IncomingLog | Consumer_Returned

text \<open>
  \<open>Draining\<close>: \<open>Serve\<close> has returned because of \<open>Shutdown\<close>; handlers that were running may go on.
\<close>

datatype http_phase = Serving | Draining | Http_Failed string

text \<open>
  \<open>co_panicked\<close> is the end of the process by a panic in the goroutine that consumes the channel (the
  HTTP server recovers those of its handlers). The last three fields record history: the logs put
  on the channel, those of them that came over UDP, and those processed.
\<close>

record Collector =
  co_done :: bool
  co_incoming :: "IncomingLog list"
  co_consumer :: consumer
  co_udp :: udp_phase
  co_tcp :: tcp_phase
  co_conns :: "tcp_conn list"
  co_http :: http_phase
  co_api :: API
  co_panicked :: bool
  h_sent :: "IncomingLog list"
  h_udp :: "IncomingLog list"
  h_processed :: "IncomingLog list"

section \<open>Start-up\<close>

text \<open>The outcomes of the file accesses and of the listens at start-up, and the file of events as it is.\<close>

record start_io =
  io_source_mkdir :: "string option"
  io_source_read :: "SourceConfig list file_read"
  io_source_write :: "SourceConfig list write_result"
  io_rule_mkdir :: "string option"
  io_rule_read :: "RuleConfig list file_read"
  io_rule_write :: "RuleConfig list write_result"
  io_fwd_mkdir :: "string option"
  io_fwd_read :: "ForwardingConfig file_read"
  io_fwd_write :: "ForwardingConfig write_result"
  io_events :: jsonl_file
  io_listen_udp :: "string option"
  io_listen_tcp :: "string option"
  io_listen_http :: "string option"

definition listen_http :: "string option \<Rightarrow> http_phase" where
  "listen_http err = (case err of None \<Rightarrow> Serving | Some e \<Rightarrow> Http_Failed e)"

definition launch :: "start_io \<Rightarrow> API \<Rightarrow> Collector" where
  "launch io a =
     \<lparr>co_done = False, co_incoming = [], co_consumer = Idle, co_udp = listen_udp (io_listen_udp io),
      co_tcp = listen_tcp (io_listen_tcp io), co_conns = [], co_http = listen_http (io_listen_http io),
      co_api = a, co_panicked = False, h_sent = [], h_udp = [], h_processed = []\<rparr>"

text \<open>A store that cannot be opened ends \<open>main\<close> before anything runs: the message it logs.\<close>

definition start_collector :: "Config \<Rightarrow> start_io \<Rightarrow> string + Collector" where
  "start_collector cfg io =
     (case NewSourceStore (io_source_mkdir io) (io_source_read io) (io_source_write io) of
        Inl e \<Rightarrow> Inl ''failed to init source store''
      | Inr srcs \<Rightarrow>
          (case NewRuleStore (io_rule_mkdir io) (io_rule_read io) (io_rule_write io) of
             Inl e \<Rightarrow> Inl ''failed to init rule store''
           | Inr rules \<Rightarrow>
               (case NewForwardingStore (io_fwd_mkdir io) (io_fwd_read io) (io_fwd_write io) of
                  Inl e \<Rightarrow> Inl ''failed to init forwarding store''
                | Inr fwd \<Rightarrow>
                    Inr (launch io (New_API cfg (start_processor cfg rules fwd (io_events io)) srcs rules)))))"

section \<open>Steps\<close>

definition room :: "IncomingLog option \<Rightarrow> Collector \<Rightarrow> bool" where
  "room out c \<longleftrightarrow> (out \<noteq> None \<longrightarrow> length (co_incoming c) < incoming_size)"

definition log_list :: "IncomingLog option \<Rightarrow> IncomingLog list" where
  "log_list out = (case out of None \<Rightarrow> [] | Some m \<Rightarrow> [m])"

definition deliver :: "IncomingLog option \<Rightarrow> Collector \<Rightarrow> Collector" where
  "deliver out c = c\<lparr>co_incoming := co_incoming c @ log_list out, h_sent := h_sent c @ log_list out\<rparr>"

definition set_proc :: "Processor \<Rightarrow> Collector \<Rightarrow> Collector" where
  "set_proc p c = c\<lparr>co_api := (co_api c)\<lparr>api_proc := p\<rparr>\<rparr>"

definition process_log ::
  "location \<Rightarrow> int \<Rightarrow> norm_env \<Rightarrow> ingest_env \<Rightarrow> IncomingLog \<Rightarrow> Collector \<Rightarrow> Processor option" where
  "process_log loc now nenv env m c =
     ProcessRaw loc now nenv env (in_Raw m) (in_SourceIP m) (in_Transport m) (api_proc (co_api c))"

inductive cstep :: "Collector \<Rightarrow> Collector \<Rightarrow> bool" where
  signal: "cstep c (c\<lparr>co_done := True\<rparr>)"
| udp: "udp_step (co_done c) (co_udp c) out u \<Longrightarrow> room out c \<Longrightarrow>
    cstep c (deliver out (c\<lparr>co_udp := u, h_udp := h_udp c @ log_list out\<rparr>))"
| udp_failed: "co_udp c = Udp_Returned (Some e) \<Longrightarrow> cstep c (c\<lparr>co_done := True\<rparr>)"
| accepted: "accept_step (co_done c) (co_tcp c) new t \<Longrightarrow>
    cstep c (c\<lparr>co_tcp := t, co_conns := co_conns c @ (case new of None \<Rightarrow> [] | Some k \<Rightarrow> [k])\<rparr>)"
| tcp_failed: "co_tcp c = Tcp_Returned (Some e) \<Longrightarrow> cstep c (c\<lparr>co_done := True\<rparr>)"
| conn: "i < length (co_conns c) \<Longrightarrow> conn_step (co_done c) (co_conns c ! i) out k \<Longrightarrow> room out c \<Longrightarrow>
    cstep c (deliver out (c\<lparr>co_conns := (co_conns c)[i := k]\<rparr>))"
| receive_log: "co_consumer c = Idle \<Longrightarrow> co_incoming c = m # ms \<Longrightarrow>
    cstep c (c\<lparr>co_incoming := ms, co_consumer := Processing m\<rparr>)"
| process_done: "co_consumer c = Processing m \<Longrightarrow> resolves_by (co_api c) nenv \<Longrightarrow>
    process_log loc now nenv env m c = Some p \<Longrightarrow>
    cstep c (set_proc p (c\<lparr>co_consumer := Idle, h_processed := h_processed c @ [m]\<rparr>))"
| panic: "co_consumer c = Processing m \<Longrightarrow> resolves_by (co_api c) nenv \<Longrightarrow>
    process_log loc now nenv env m c = None \<Longrightarrow> cstep c (c\<lparr>co_panicked := True\<rparr>)"
| consumer_returns: "co_consumer c = Idle \<Longrightarrow> co_done c \<Longrightarrow> cstep c (c\<lparr>co_consumer := Consumer_Returned\<rparr>)"
| request: "co_http c \<in> {Serving, Draining} \<Longrightarrow> api_step (co_api c) a \<Longrightarrow> cstep c (c\<lparr>co_api := a\<rparr>)"
| forward: "cstep c (set_proc (forward_next now net elapsed w (api_proc (co_api c))) c)"
| shutdown: "co_http c = Serving \<Longrightarrow> co_done c \<Longrightarrow> cstep c (c\<lparr>co_http := Draining\<rparr>)"
| serve_failed: "co_http c = Serving \<Longrightarrow> cstep c (c\<lparr>co_http := Http_Failed e\<rparr>)"
| http_failed: "co_http c = Http_Failed e \<Longrightarrow> cstep c (c\<lparr>co_done := True\<rparr>)"

inductive creachable :: "Collector \<Rightarrow> bool" where
  launched: "start_collector cfg io = Inr c \<Longrightarrow> creachable c"
| stepped: "creachable c \<Longrightarrow> cstep c c' \<Longrightarrow> creachable c'"

text \<open>\<open>main\<close> returns when the context is done and the four goroutines it waits for have returned.\<close>

definition exited :: "Collector \<Rightarrow> bool" where
  "exited c \<longleftrightarrow> co_done c \<and> co_consumer c = Consumer_Returned \<and> (\<exists>r. co_udp c = Udp_Returned r) \<and>
     (\<exists>r. co_tcp c = Tcp_Returned r) \<and> co_http c \<noteq> Serving"

end
