(* ===== verification/Collector_Facts.thy ===== *)
theory Collector_Facts
  imports Collector
begin

text \<open>
  What holds in every state the collector can reach, and the runs that empty its channel and end it.
\<close>

section \<open>The invariant\<close>

definition in_hand :: "consumer \<Rightarrow> IncomingLog list" where
  "in_hand k = (case k of Processing m \<Rightarrow> [m] | _ \<Rightarrow> [])"

definition channel_ok :: "Collector \<Rightarrow> bool" where
  "channel_ok c \<longleftrightarrow> h_sent c = h_processed c @ in_hand (co_consumer c) @ co_incoming c \<and>
     length (co_incoming c) \<le> incoming_size \<and> (co_consumer c = Consumer_Returned \<longrightarrow> co_done c)"

definition senders_ok :: "Collector \<Rightarrow> bool" where
  "senders_ok c \<longleftrightarrow> (\<forall>k \<in> set (co_conns c). conn_ok (co_done c) k \<and> subseq (h_logs k) (h_sent c)) \<and>
     mset (h_sent c) = mset (h_udp c) + (\<Sum>k\<leftarrow>co_conns c. mset (h_logs k))"

definition stores_ok :: "API \<Rightarrow> bool" where
  "stores_ok a \<longleftrightarrow> rules.well_formed (RuleStore_All (api_rules a)) \<and> srcs.well_formed (SourceStore_All (api_sources a))"

definition coll_ok :: "Collector \<Rightarrow> bool" where
  "coll_ok c \<longleftrightarrow> channel_ok c \<and> senders_ok c \<and> preachable (api_proc (co_api c)) \<and> stores_ok (co_api c) \<and> \<not> co_panicked c"

subsection \<open>The channel\<close>

lemma deliver_fields [simp]:
  "co_incoming (deliver out c) = co_incoming c @ log_list out" "h_sent (deliver out c) = h_sent c @ log_list out"
  "co_consumer (deliver out c) = co_consumer c" "h_processed (deliver out c) = h_processed c"
  "co_done (deliver out c) = co_done c" "co_conns (deliver out c) = co_conns c" "h_udp (deliver out c) = h_udp c"
  "co_api (deliver out c) = co_api c" "co_panicked (deliver out c) = co_panicked c" "co_udp (deliver out c) = co_udp c"
  "co_tcp (deliver out c) = co_tcp c" "co_http (deliver out c) = co_http c"
  by (simp_all add: deliver_def)

lemma set_proc_fields [simp]:
  "co_incoming (set_proc p c) = co_incoming c" "h_sent (set_proc p c) = h_sent c"
  "co_consumer (set_proc p c) = co_consumer c" "h_processed (set_proc p c) = h_processed c"
  "co_done (set_proc p c) = co_done c" "co_conns (set_proc p c) = co_conns c" "h_udp (set_proc p c) = h_udp c"
  "co_api (set_proc p c) = (co_api c)\<lparr>api_proc := p\<rparr>" "co_panicked (set_proc p c) = co_panicked c"
  "co_udp (set_proc p c) = co_udp c" "co_tcp (set_proc p c) = co_tcp c" "co_http (set_proc p c) = co_http c"
  by (simp_all add: set_proc_def)

lemma log_list_simps [simp]: "log_list None = []" "log_list (Some m) = [m]"
  by (simp_all add: log_list_def)

lemma in_hand_simps [simp]: "in_hand Idle = []" "in_hand (Processing m) = [m]" "in_hand Consumer_Returned = []"
  by (simp_all add: in_hand_def)

lemma room_length: "room out c \<Longrightarrow> length (co_incoming c) \<le> incoming_size \<Longrightarrow>
  length (co_incoming c) + length (log_list out) \<le> incoming_size"
  by (cases out) (simp_all add: room_def)

lemma channel_ok_step: "cstep c c' \<Longrightarrow> channel_ok c \<Longrightarrow> channel_ok c'"
  by (induction rule: cstep.induct) (auto simp: channel_ok_def dest: room_length)

subsection \<open>The senders\<close>

lemma sum_list_update_add:
  fixes f :: "'a \<Rightarrow> 'b::comm_monoid_add"
  assumes "i < length xs" and "f y = f (xs ! i) + d"
  shows "(\<Sum>x\<leftarrow>xs[i := y]. f x) = (\<Sum>x\<leftarrow>xs. f x) + d"
  using assms by (induction xs arbitrary: i) (auto simp: ac_simps split: nat.splits)

lemma senders_ok_mono:
  assumes "senders_ok c" and "co_conns c' = co_conns c" and "co_done c \<longrightarrow> co_done c'"
    and "h_sent c' = h_sent c @ out" and "h_udp c' = h_udp c @ out"
  shows "senders_ok c'"
proof -
  have "conn_ok (co_done c') k" if "conn_ok (co_done c) k" for k
    using that assms(3) conn_ok_cancel by (cases "co_done c'") auto
  then show ?thesis
    using assms by (auto simp: senders_ok_def intro: subseq_rev_drop_many)
qed

lemma senders_ok_conn:
  assumes "senders_ok c" and "i < length (co_conns c)" and "conn_step (co_done c) (co_conns c ! i) out k"
  shows "senders_ok (deliver out (c\<lparr>co_conns := (co_conns c)[i := k]\<rparr>))"
proof -
  let ?old = "co_conns c ! i"
  have old: "conn_ok (co_done c) ?old" "subseq (h_logs ?old) (h_sent c)"
    using assms(1,2) by (auto simp: senders_ok_def)
  have new: "conn_ok (co_done c) k" "h_logs k = h_logs ?old @ log_list out"
    using conn_ok_step [OF assms(3) old(1)] by (auto simp: log_list_def)
  have "subseq (h_logs k) (h_sent c @ log_list out)" using old(2) new(2) by simp
  moreover have "(\<Sum>x\<leftarrow>(co_conns c)[i := k]. mset (h_logs x)) = (\<Sum>x\<leftarrow>co_conns c. mset (h_logs x)) + mset (log_list out)"
    using assms(2) new(2) by (intro sum_list_update_add) simp_all
  ultimately show ?thesis
    using assms(1) new(1) by (auto simp: senders_ok_def intro: subseq_rev_drop_many dest!: set_update_subset_insert [THEN subsetD])
qed

lemma senders_ok_step: "cstep c c' \<Longrightarrow> senders_ok c \<Longrightarrow> senders_ok c'"
proof (induction rule: cstep.induct)
  case (udp c out u)
  then show ?case using senders_ok_mono [of c _ "log_list out"] by simp
next
  case (accepted c new t)
  have "new = None \<or> (\<exists>ip. new = Some (new_conn ip))" using accepted.hyps by (auto elim: accept_step_cases)
  then show ?case
    using accepted.prems conn_ok_new by (auto simp: senders_ok_def) (simp_all add: new_conn_def)
next
  case (conn i c out k)
  then show ?case by (intro senders_ok_conn)
qed (erule senders_ok_mono [where out = "[]"]; simp)+

subsection \<open>The stores\<close>

lemma RuleStore_ops_well_formed:
  "RuleStore_Replace all s w = (s', e) \<Longrightarrow> rules.well_formed (RuleStore_All s')"
  "RuleStore_Upsert one s w = (s', e) \<Longrightarrow> rules.well_formed (RuleStore_All s')"
  "RuleStore_Delete i s w = (s', e) \<Longrightarrow> rules.well_formed (RuleStore_All s) \<Longrightarrow> rules.well_formed (RuleStore_All s')"
  by (auto simp: RuleStore_Replace_def RuleStore_Upsert_def RuleStore_Delete_def RuleStore_persistLocked_def
      RuleStore_All_def persist_def rules.replace_well_formed rules.upsert_well_formed rules.delete_well_formed
      split: write_result.splits)

lemma SourceStore_ops_well_formed:
  "SourceStore_Replace all s w = (s', e) \<Longrightarrow> srcs.well_formed (SourceStore_All s')"
  "SourceStore_Upsert one s w = (s', e) \<Longrightarrow> srcs.well_formed (SourceStore_All s')"
  "SourceStore_Delete i s w = (s', e) \<Longrightarrow> srcs.well_formed (SourceStore_All s) \<Longrightarrow> srcs.well_formed (SourceStore_All s')"
  by (auto simp: SourceStore_Replace_def SourceStore_Upsert_def SourceStore_Delete_def SourceStore_persistLocked_def
      SourceStore_All_def persist_def srcs.replace_well_formed srcs.upsert_well_formed srcs.delete_well_formed
      split: write_result.splits)

lemma stores_ok_proc [simp]: "stores_ok (a\<lparr>api_proc := p\<rparr>) = stores_ok a"
  by (simp add: stores_ok_def)

lemma stores_ok_set_hub [simp]: "stores_ok (set_hub h a) = stores_ok a"
  by (simp add: set_hub_def)

lemma stores_ok_step: "api_step a a' \<Longrightarrow> stores_ok a \<Longrightarrow> stores_ok a'"
proof (induction rule: api_step.induct)
  case (config_sources meth srcs w a a' r)
  then show ?case
    by (auto simp: handleConfigSources_def stores_ok_def dest: SourceStore_ops_well_formed
        split: if_splits option.splits prod.splits)
next
  case (config_source meth path src w a a' r)
  then show ?case
    by (auto simp: handleConfigSourceByID_def stores_ok_def Let_def dest: SourceStore_ops_well_formed
        split: if_splits option.splits prod.splits)
next
  case (config_rules meth rs v a a' r)
  then show ?case
    by (auto simp: handleConfigRules_def install_rules_def stores_ok_def dest: RuleStore_ops_well_formed
        split: if_splits option.splits prod.splits)
next
  case (config_rule meth path one v a a' r)
  then show ?case
    by (auto simp: handleConfigRuleByID_def install_rules_def stores_ok_def Let_def dest: RuleStore_ops_well_formed
        split: if_splits option.splits prod.splits)
next
  case (test_event loc now nenv new_id ienv raw a a' r)
  then show ?case
    by (auto simp: handleTestEvent_def accept_test_event_def Let_def Option.bind_eq_Some_conv
        split: if_splits option.splits)
qed (auto simp: handleEvents_def handlePostEvents_def handleConfigRulesTest_def handleConfigForwarding_def
    handleForwardingResetQueue_def handleForwardingTestPipeline_def handleStorageRepair_def open_stream_def
    stream_turn_def close_stream_def Let_def Option.bind_eq_Some_conv
    split: if_splits option.splits sum.splits prod.splits)

section \<open>Every reachable state\<close>

lemma NewRuleStore_well_formed: "NewRuleStore mk rd w = Inr s \<Longrightarrow> rules.well_formed (RuleStore_All s)"
  by (auto simp: NewRuleStore_def RuleStore_loadOrInit_def RuleStore_persistLocked_def RuleStore_All_def persist_def
      Let_def default_rules_sanitized rules.replace_well_formed
      split: option.splits file_read.splits write_result.splits prod.splits)

lemma default_sources_sanitized: "srcs.well_formed defaultSources"
  by (simp add: srcs.well_formed_def defaultSources_def base_source_def sanitizeSource_def)

lemma NewSourceStore_well_formed: "NewSourceStore mk rd w = Inr s \<Longrightarrow> srcs.well_formed (SourceStore_All s)"
  by (auto simp: NewSourceStore_def SourceStore_loadOrInit_def SourceStore_persistLocked_def SourceStore_All_def persist_def
      Let_def default_sources_sanitized srcs.replace_well_formed
      split: option.splits file_read.splits write_result.splits prod.splits)

lemma coll_ok_start:
  assumes "start_collector cfg io = Inr c" shows "coll_ok c"
proof -
  obtain sources rules fwd where
    s: "NewSourceStore (io_source_mkdir io) (io_source_read io) (io_source_write io) = Inr sources"
    and r: "NewRuleStore (io_rule_mkdir io) (io_rule_read io) (io_rule_write io) = Inr rules"
    and c: "c = launch io (New_API cfg (start_processor cfg rules fwd (io_events io)) sources rules)"
    using assms by (auto simp: start_collector_def split: sum.splits)
  then show ?thesis
    using NewRuleStore_well_formed [OF r] NewSourceStore_well_formed [OF s]
    by (simp add: coll_ok_def launch_def channel_ok_def senders_ok_def stores_ok_def New_API_def preachable.started)
qed

lemma coll_ok_step:
  assumes "cstep c c'" and "coll_ok c" shows "coll_ok c'"
proof -
  have ok: "channel_ok c'" "senders_ok c'"
    using assms channel_ok_step senders_ok_step by (auto simp: coll_ok_def)
  have "preachable (api_proc (co_api c')) \<and> stores_ok (co_api c') \<and> \<not> co_panicked c'"
    using assms
  proof (induction rule: cstep.induct)
    case (process_done c m nenv loc now env p)
    then show ?case
      using preachable_psteps [OF psteps_ProcessRaw] by (auto simp: coll_ok_def process_log_def)
  next
    case (panic c m nenv loc now env)
    obtain p' where "ProcessRaw loc now nenv env (in_Raw m) (in_SourceIP m) (in_Transport m) (api_proc (co_api c)) = Some p'"
      using ProcessRaw_total by blast
    with panic show ?case by (simp add: process_log_def)
  next
    case (request c a)
    then show ?case using preachable_psteps [OF api_step_psteps] stores_ok_step by (auto simp: coll_ok_def)
  next
    case (forward c now net elapsed w)
    then show ?case using preachable.continued pstep.forwarded by (auto simp: coll_ok_def)
  qed (simp_all add: coll_ok_def)
  with ok show ?thesis by (simp add: coll_ok_def)
qed

lemma creachable_ok: "creachable c \<Longrightarrow> coll_ok c"
  by (induction rule: creachable.induct) (auto intro: coll_ok_start coll_ok_step)

end
