(* ===== verification/Collector_Runs.thy ===== *)
theory Collector_Runs
  imports Collector_Facts
begin

text \<open>
  Runs of the collector: the consumer can always empty the channel, a connection can always be read
  to its last complete line, and once the context is done the process can end.
\<close>

section \<open>Emptying the channel\<close>

abbreviation csteps :: "Collector \<Rightarrow> Collector \<Rightarrow> bool" where
  "csteps \<equiv> cstep\<^sup>*\<^sup>*"

lemma coll_ok_run: "csteps c c' \<Longrightarrow> coll_ok c \<Longrightarrow> coll_ok c'"
  by (induction rule: rtranclp_induct) (auto intro: coll_ok_step)

text \<open>What a run of the consumer alone leaves as it is.\<close>

definition same_outside :: "Collector \<Rightarrow> Collector \<Rightarrow> bool" where
  "same_outside c c' \<longleftrightarrow> co_done c' = co_done c \<and> co_udp c' = co_udp c \<and> co_tcp c' = co_tcp c \<and>
     co_conns c' = co_conns c \<and> co_http c' = co_http c \<and> h_sent c' = h_sent c \<and> h_udp c' = h_udp c"

lemma same_outside_refl: "same_outside c c"
  by (simp add: same_outside_def)

lemma same_outside_trans: "same_outside c c' \<Longrightarrow> same_outside c' c'' \<Longrightarrow> same_outside c c''"
  by (simp add: same_outside_def)

lemma finish_log:
  assumes "co_consumer c \<noteq> Consumer_Returned"
  obtains c' where "csteps c c'" "co_consumer c' = Idle" "co_incoming c' = co_incoming c" "same_outside c c'"
proof (cases "co_consumer c")
  case (Processing m)
  define nenv where "nenv = \<lparr>ne_id = '''', ne_clock = 0, ne_received = 0, ne_iter = id, ne_resolver = Some (api_sources (co_api c))\<rparr>"

  have "resolves_by (co_api c) nenv" by (simp add: resolves_by_def nenv_def)
  moreover obtain p where "process_log undefined 0 nenv undefined m c = Some p"
    unfolding process_log_def using ProcessRaw_total by blast
  ultimately have "cstep c (set_proc p (c\<lparr>co_consumer := Idle, h_processed := h_processed c @ [m]\<rparr>))"
    using Processing by (intro cstep.process_done)
  from r_into_rtranclp [of cstep, OF this] show thesis by (rule that) (simp_all add: same_outside_def)
qed (use that assms in \<open>auto simp: same_outside_def\<close>)

lemma drain_channel:
  assumes "co_consumer c \<noteq> Consumer_Returned"
  obtains c' where "csteps c c'" "co_consumer c' = Idle" "co_incoming c' = []" "same_outside c c'"
proof -
  have "\<exists>c'. csteps c c' \<and> co_consumer c' = Idle \<and> co_incoming c' = [] \<and> same_outside c c'"
    using assms
  proof (induction "co_incoming c" arbitrary: c)
    case Nil
    then show ?case using finish_log [of c] by metis
  next
    case (Cons m ms)
    obtain c1 where c1: "csteps c c1" "co_consumer c1 = Idle" "co_incoming c1 = m # ms" "same_outside c c1"
      using finish_log [OF Cons.prems] Cons.hyps(2) by metis
    define c2 where "c2 = c1\<lparr>co_incoming := ms, co_consumer := Processing m\<rparr>"
    have "cstep c1 c2" unfolding c2_def using c1 by (intro cstep.receive_log)
    moreover obtain c3 where c3: "csteps c2 c3 \<and> co_consumer c3 = Idle \<and> co_incoming c3 = [] \<and> same_outside c2 c3"
      using Cons.hyps(1) [of c2] by (auto simp: c2_def)
    moreover have "same_outside c1 c2" by (simp add: c2_def same_outside_def)
    ultimately show ?case
      using c1 by (meson rtranclp.rtrancl_into_rtrancl rtranclp_trans same_outside_trans)
  qed
  then show thesis using that by blast
qed

section \<open>Reading a connection\<close>

definition keeps_conn :: "nat \<Rightarrow> Collector \<Rightarrow> Collector \<Rightarrow> bool" where
  "keeps_conn i c c' \<longleftrightarrow> csteps c c' \<and> co_done c' = co_done c \<and> length (co_conns c') = length (co_conns c) \<and>
     cn_IP (co_conns c' ! i) = cn_IP (co_conns c ! i) \<and> h_bytes (co_conns c' ! i) = h_bytes (co_conns c ! i)"

definition conn_work :: "tcp_conn \<Rightarrow> nat" where
  "conn_work k = 3 * length (cn_pending k) + (case cn_phase k of Offering _ \<Rightarrow> 2 | Checking \<Rightarrow> 1 | _ \<Rightarrow> 0)"

definition at_rest :: "tcp_conn \<Rightarrow> bool" where
  "at_rest k \<longleftrightarrow> cn_phase k = Returned \<or> (cn_phase k = Reading \<and> ReadString (cn_pending k) = None)"

lemma conn_turn:
  assumes "coll_ok c" "\<not> co_done c" "i < length (co_conns c)" "\<not> at_rest (co_conns c ! i)"
  shows "\<exists>c'. keeps_conn i c c' \<and> conn_work (co_conns c' ! i) < conn_work (co_conns c ! i)"
proof -
  let ?k = "co_conns c ! i"
  have quiet: ?thesis if "conn_step (co_done c) ?k None k'" "cn_IP k' = cn_IP ?k" "h_bytes k' = h_bytes ?k"
    "conn_work k' < conn_work ?k" for k'
  proof -
    have "cstep c (deliver None (c\<lparr>co_conns := (co_conns c)[i := k']\<rparr>))"
      using assms(3) that(1) by (intro cstep.conn) (simp_all add: room_def)
    then show ?thesis
      using that assms(3)
      by (intro exI [of _ "deliver None (c\<lparr>co_conns := (co_conns c)[i := k']\<rparr>)"]) (auto simp: keeps_conn_def)
  qed
  show ?thesis
  proof (cases "cn_phase ?k")
    case Checking
    with assms(2) show ?thesis
      using conn_step.check [OF Checking, of "co_done c"]
      by (intro quiet [of "?k\<lparr>cn_phase := Reading\<rparr>"]) (simp_all add: conn_work_def)
  next
    case Reading
    then obtain line rest where r: "ReadString (cn_pending ?k) = Some (line, rest)"
      using assms(4) by (auto simp: at_rest_def)
    then have len: "length rest < length (cn_pending ?k)" using ReadString_Some [OF r] by auto
    show ?thesis
    proof (cases "TrimSpace line = ''''")
      case True
      with Reading len show ?thesis
        by (intro quiet [OF conn_step.read_blank [OF Reading r]]) (simp_all add: conn_work_def)
    next
      case False
      with Reading len show ?thesis
        by (intro quiet [OF conn_step.read_line [OF Reading r]]) (simp_all add: conn_work_def)
    qed
  next
    case (Offering m)
    have "co_consumer c \<noteq> Consumer_Returned" using assms(1,2) by (auto simp: coll_ok_def channel_ok_def)
    then obtain c1 where c1: "csteps c c1" "co_incoming c1 = []" "same_outside c c1" by (rule drain_channel)
    then have same: "co_conns c1 = co_conns c" "co_done c1 = co_done c" by (simp_all add: same_outside_def)
    define k' where "k' = ?k\<lparr>cn_phase := Checking, h_logs := h_logs ?k @ [m]\<rparr>"
    have "cstep c1 (deliver (Some m) (c1\<lparr>co_conns := (co_conns c1)[i := k']\<rparr>))"
    proof (rule cstep.conn)
      show "i < length (co_conns c1)" using assms(3) by (simp add: same)
      show "conn_step (co_done c1) (co_conns c1 ! i) (Some m) k'"
        unfolding k'_def same by (rule conn_step.send [OF Offering])
      show "room (Some m) c1" using c1(2) by (simp add: room_def incoming_size_def)
    qed
    with c1(1) have "csteps c (deliver (Some m) (c1\<lparr>co_conns := (co_conns c1)[i := k']\<rparr>))" by simp
    then show ?thesis
      using assms(3) Offering
      by (intro exI [of _ "deliver (Some m) (c1\<lparr>co_conns := (co_conns c1)[i := k']\<rparr>)"])
        (simp add: keeps_conn_def same k'_def conn_work_def)
  qed (use assms(4) in \<open>simp add: at_rest_def\<close>)
qed

lemma conn_read_out:
  assumes "coll_ok c" "\<not> co_done c" "i < length (co_conns c)"
  shows "\<exists>c'. keeps_conn i c c' \<and> at_rest (co_conns c' ! i)"
  using assms
proof (induction "conn_work (co_conns c ! i)" arbitrary: c rule: less_induct)
  case less
  show ?case
  proof (cases "at_rest (co_conns c ! i)")
    case True
    then show ?thesis by (intro exI [of _ c]) (simp add: keeps_conn_def)
  next
    case False
    then obtain c1 where c1: "keeps_conn i c c1" "conn_work (co_conns c1 ! i) < conn_work (co_conns c ! i)"
      using conn_turn less.prems by blast
    then have "coll_ok c1" "\<not> co_done c1" "i < length (co_conns c1)"
      using less.prems coll_ok_run by (auto simp: keeps_conn_def)
    from less.hyps [OF c1(2) this] obtain c2 where "keeps_conn i c1 c2" "at_rest (co_conns c2 ! i)" by blast
    with c1(1) show ?thesis by (intro exI [of _ c2]) (auto simp: keeps_conn_def)
  qed
qed

lemma at_rest_logs:
  assumes "conn_ok False k" "at_rest k" shows "h_logs k = handleTCPConn (cn_IP k) (h_bytes k)"
proof (cases "cn_phase k = Returned")
  case False
  with assms have p: "cn_phase k = Reading" "ReadString (cn_pending k) = None" by (auto simp: at_rest_def)
  with assms(1) obtain seen where "accounted k seen" by (auto simp: conn_ok_def)
  with p show ?thesis by (simp add: accounted_def offered_def handleTCPConn_unfinished)
qed (use assms(1) in \<open>simp add: conn_ok_def\<close>)

lemma all_lines_processed:
  assumes "coll_ok c" "\<not> co_done c" "i < length (co_conns c)"
  shows "\<exists>c'. csteps c c' \<and> \<not> co_done c' \<and> h_bytes (co_conns c' ! i) = h_bytes (co_conns c ! i) \<and>
    subseq (handleTCPConn (cn_IP (co_conns c ! i)) (h_bytes (co_conns c ! i))) (h_processed c')"
proof -
  obtain c1 where c1: "keeps_conn i c c1" "at_rest (co_conns c1 ! i)" using conn_read_out [OF assms] by blast
  then have ok: "coll_ok c1" "\<not> co_done c1" "i < length (co_conns c1)"
    using assms coll_ok_run by (auto simp: keeps_conn_def)
  then have k: "conn_ok False (co_conns c1 ! i)" "subseq (h_logs (co_conns c1 ! i)) (h_sent c1)"
    by (auto simp: coll_ok_def senders_ok_def)
  have "co_consumer c1 \<noteq> Consumer_Returned" using ok by (auto simp: coll_ok_def channel_ok_def)
  then obtain c2 where c2: "csteps c1 c2" "co_consumer c2 = Idle" "co_incoming c2 = []" "same_outside c1 c2"
    by (rule drain_channel)
  have "coll_ok c2" using coll_ok_run [OF c2(1) ok(1)] .
  then have "h_sent c2 = h_processed c2" using c2 by (simp add: coll_ok_def channel_ok_def)
  moreover have "h_logs (co_conns c1 ! i) = handleTCPConn (cn_IP (co_conns c ! i)) (h_bytes (co_conns c ! i))"
    using at_rest_logs [OF k(1) c1(2)] c1(1) by (simp add: keeps_conn_def)
  moreover have "csteps c c2" using c1(1) c2(1) by (auto simp: keeps_conn_def intro: rtranclp_trans)
  ultimately show ?thesis
    using k(2) c1(1) c2 ok by (intro exI [of _ c2]) (simp add: keeps_conn_def same_outside_def)
qed

section \<open>Ending\<close>

text \<open>After the context is done each of the four goroutines can return, whatever it is waiting for.\<close>

lemma consumer_can_return:
  assumes "co_done c"
  shows "\<exists>c'. csteps c c' \<and> co_consumer c' = Consumer_Returned \<and> co_incoming c' = co_incoming c \<and> same_outside c c'"
proof (cases "co_consumer c = Consumer_Returned")
  case False
  then obtain c1 where c1: "csteps c c1" "co_consumer c1 = Idle" "co_incoming c1 = co_incoming c" "same_outside c c1"
    by (rule finish_log)
  then have "cstep c1 (c1\<lparr>co_consumer := Consumer_Returned\<rparr>)"
    using assms by (intro cstep.consumer_returns) (auto simp: same_outside_def)
  with c1 show ?thesis
    by (intro exI [of _ "c1\<lparr>co_consumer := Consumer_Returned\<rparr>"]) (simp add: same_outside_def)
qed (auto intro: same_outside_refl)

lemma udp_can_return: "co_done c \<Longrightarrow> \<exists>r. csteps c (c\<lparr>co_udp := Udp_Returned r\<rparr>)"
proof (cases "co_udp c")
  case (Udp_Returned r)
  then have "c\<lparr>co_udp := Udp_Returned r\<rparr> = c" by simp
  then show ?thesis by (metis rtranclp.rtrancl_refl)
next
  case Receiving_Packet
  assume "co_done c"
  with Receiving_Packet have "udp_step (co_done c) (co_udp c) None (Udp_Returned None)"
    using udp_step.read_failed [of True False] by simp
  from cstep.udp [OF this] show ?thesis by (auto simp: room_def deliver_def intro!: exI [of _ None])
next
  case (Offering_Packet m)
  assume "co_done c"
  with Offering_Packet have "udp_step (co_done c) (co_udp c) None (Udp_Returned None)"
    using udp_step.drop_packet by simp
  from cstep.udp [OF this] show ?thesis by (auto simp: room_def deliver_def intro!: exI [of _ None])
qed

lemma tcp_can_return: "co_done c \<Longrightarrow> \<exists>r. csteps c (c\<lparr>co_tcp := Tcp_Returned r\<rparr>)"
proof (cases "co_tcp c")
  case (Tcp_Returned r)
  then have "c\<lparr>co_tcp := Tcp_Returned r\<rparr> = c" by simp
  then show ?thesis by (metis rtranclp.rtrancl_refl)
next
  case Accepting
  assume "co_done c"
  with Accepting have "accept_step (co_done c) (co_tcp c) None (Tcp_Returned None)"
    using accept_step.accept_failed [of True False] by simp
  from cstep.accepted [OF this] show ?thesis by (auto intro!: exI [of _ None])
qed

lemma http_can_return: "co_done c \<Longrightarrow> \<exists>h. h \<noteq> Serving \<and> csteps c (c\<lparr>co_http := h\<rparr>)"
proof (cases "co_http c = Serving")
  case True
  assume "co_done c"
  from cstep.shutdown [OF True this] show ?thesis by (auto intro!: exI [of _ Draining])
next
  case False
  moreover have "c\<lparr>co_http := co_http c\<rparr> = c" by simp
  ultimately show ?thesis by (metis rtranclp.rtrancl_refl)
qed

lemma can_exit: "\<exists>c'. csteps c c' \<and> exited c' \<and> co_incoming c' = co_incoming c"
proof -
  define c0 where "c0 = c\<lparr>co_done := True\<rparr>"
  have "csteps c c0" unfolding c0_def by (rule r_into_rtranclp) (rule cstep.signal)
  obtain c1 where c1: "csteps c0 c1" "co_consumer c1 = Consumer_Returned" "co_incoming c1 = co_incoming c0" "same_outside c0 c1"
    using consumer_can_return [of c0] by (auto simp: c0_def)
  have d: "co_done c1" using c1(4) by (simp add: same_outside_def c0_def)
  obtain r where r: "csteps c1 (c1\<lparr>co_udp := Udp_Returned r\<rparr>)" using udp_can_return [OF d] by blast
  obtain s where s: "csteps (c1\<lparr>co_udp := Udp_Returned r\<rparr>) (c1\<lparr>co_udp := Udp_Returned r, co_tcp := Tcp_Returned s\<rparr>)"
    using tcp_can_return [of "c1\<lparr>co_udp := Udp_Returned r\<rparr>"] d by auto
  obtain h where h: "h \<noteq> Serving" "csteps (c1\<lparr>co_udp := Udp_Returned r, co_tcp := Tcp_Returned s\<rparr>)
      (c1\<lparr>co_udp := Udp_Returned r, co_tcp := Tcp_Returned s, co_http := h\<rparr>)"
    using http_can_return [of "c1\<lparr>co_udp := Udp_Returned r, co_tcp := Tcp_Returned s\<rparr>"] d by auto
  have "csteps c (c1\<lparr>co_udp := Udp_Returned r, co_tcp := Tcp_Returned s, co_http := h\<rparr>)"
    using \<open>csteps c c0\<close> c1(1) r s h(2) by (meson rtranclp_trans)
  then show ?thesis
    using c1(2,3) d h(1)
    by (intro exI [of _ "c1\<lparr>co_udp := Udp_Returned r, co_tcp := Tcp_Returned s, co_http := h\<rparr>"])
      (simp add: exited_def c0_def)
qed

end
