(* ===== verification/Collector_Properties.thy ===== *)
theory Collector_Properties
  imports Collector_Runs
begin

text \<open>
  Properties of the running collector: what its channel keeps, what a connection delivers, what the
  stores behind the HTTP interface keep, that every received line can be processed, and how the
  process ends.
\<close>

section \<open>A running collector for the witnesses\<close>

definition probe_io :: start_io where
  "probe_io =
     \<lparr>io_source_mkdir = None, io_source_read = FileNotExist, io_source_write = Written,
      io_rule_mkdir = None, io_rule_read = FileNotExist, io_rule_write = Written,
      io_fwd_mkdir = None, io_fwd_read = FileNotExist, io_fwd_write = Written, io_events = None,
      io_listen_udp = None, io_listen_tcp = None, io_listen_http = None\<rparr>"

text \<open>As it starts, with its TCP connections; the one of a client that has sent one line, at each phase.\<close>

definition probe_running :: "tcp_conn list \<Rightarrow> Collector" where
  "probe_running conns =
     (case start_collector probe_config probe_io of Inr c \<Rightarrow> c\<lparr>co_conns := conns\<rparr>)"

definition probe_log :: IncomingLog where
  "probe_log = \<lparr>in_Raw = ''hi'', in_SourceIP = ''10.0.0.5'', in_Transport = ''tcp''\<rparr>"

definition probe_conn :: "string \<Rightarrow> conn_phase \<Rightarrow> IncomingLog list \<Rightarrow> tcp_conn" where
  "probe_conn pending ph logs =
     \<lparr>cn_IP = ''10.0.0.5'', cn_pending = pending, cn_ended = False, cn_phase = ph,
      h_bytes = ''hi'' @ [CHR 0x0A], h_logs = logs\<rparr>"

definition probe_received :: Collector where
  "probe_received = deliver (Some probe_log) (probe_running [probe_conn '''' Checking [probe_log]])"

lemma probe_started: "\<exists>a. start_collector probe_config probe_io = Inr (launch probe_io a)"
proof -
  have "\<exists>s. NewSourceStore None FileNotExist Written = Inr s"
    by (simp add: NewSourceStore_def SourceStore_loadOrInit_def SourceStore_persistLocked_def persist_def)
  moreover have "\<exists>s. NewRuleStore None FileNotExist Written = Inr s"
    by (simp add: NewRuleStore_def RuleStore_loadOrInit_def RuleStore_persistLocked_def persist_def)
  moreover have "\<exists>s. NewForwardingStore None FileNotExist Written = Inr s"
    by (simp add: NewForwardingStore_def ForwardingStore_loadOrInit_def ForwardingStore_persistLocked_def persist_def)
  ultimately show ?thesis by (auto simp: start_collector_def) (auto simp: probe_io_def)
qed

lemma same_tcp: "co_tcp c = t \<Longrightarrow> c\<lparr>co_tcp := t\<rparr> = c"
  by simp

lemma probe_running_fields [simp]:
  "co_done (probe_running k) = False" "co_incoming (probe_running k) = []" "co_consumer (probe_running k) = Idle"
  "co_tcp (probe_running k) = Accepting" "co_conns (probe_running k) = k" "h_sent (probe_running k) = []"
  "h_processed (probe_running k) = []" "h_udp (probe_running k) = []"
  "(probe_running k)\<lparr>co_conns := k'\<rparr> = probe_running k'"
  using probe_started by (auto simp: probe_running_def launch_def probe_io_def listen_tcp_def)

lemma probe_running_start: "creachable (probe_running [])"
proof -
  obtain a where a: "start_collector probe_config probe_io = Inr (launch probe_io a)" using probe_started by blast
  then have "probe_running [] = launch probe_io a" by (simp add: probe_running_def launch_def)
  with creachable.launched [OF a] show ?thesis by simp
qed

lemma probe_conn_moves:
  assumes "creachable (probe_running [k])" and "conn_step False k None k'" shows "creachable (probe_running [k'])"
proof -
  have "cstep (probe_running [k]) (deliver None ((probe_running [k])\<lparr>co_conns := (co_conns (probe_running [k]))[0 := k']\<rparr>))"
    using assms(2) by (intro cstep.conn) (simp_all add: room_def)
  moreover have "deliver None (probe_running [k']) = probe_running [k']" by (simp add: deliver_def)
  ultimately show ?thesis using creachable.stepped [OF assms(1)] by simp
qed

lemma probe_reading: "creachable (probe_running [probe_conn (''hi'' @ [CHR 0x0A]) Reading []])"
proof -
  have "cstep (probe_running []) ((probe_running [])\<lparr>co_tcp := Accepting,
      co_conns := co_conns (probe_running []) @ (case Some (new_conn ''10.0.0.5'') of None \<Rightarrow> [] | Some k \<Rightarrow> [k])\<rparr>)"
    by (intro cstep.accepted) (simp add: accept_step.accept)
  moreover have "(probe_running [])\<lparr>co_tcp := Accepting\<rparr> = probe_running []"
    by (rule same_tcp) simp
  ultimately have new: "creachable (probe_running [new_conn ''10.0.0.5''])"
    using creachable.stepped [OF probe_running_start] by simp
  have "conn_step False (new_conn ''10.0.0.5'') None (probe_conn (''hi'' @ [CHR 0x0A]) Checking [])"
    using conn_step.arrive [of "new_conn ''10.0.0.5''" False "''hi'' @ [CHR 0x0A]"]
    by (simp add: new_conn_def probe_conn_def)
  note arrived = probe_conn_moves [OF new this]
  have "conn_step False (probe_conn (''hi'' @ [CHR 0x0A]) Checking []) None (probe_conn (''hi'' @ [CHR 0x0A]) Reading [])"
    using conn_step.check [of "probe_conn (''hi'' @ [CHR 0x0A]) Checking []" False] by (simp add: probe_conn_def)
  from probe_conn_moves [OF arrived this] show ?thesis .
qed

lemma probe_received_reachable: "creachable probe_received"
proof -
  have "TrimSpace (''hi'' @ [CHR 0x0A]) = ''hi''" by code_simp
  then have "conn_step False (probe_conn (''hi'' @ [CHR 0x0A]) Reading []) None (probe_conn '''' (Offering probe_log) [])"
    using conn_step.read_line [of "probe_conn (''hi'' @ [CHR 0x0A]) Reading []" "''hi'' @ [CHR 0x0A]" "''''" False]
    by (simp add: probe_conn_def probe_log_def)
  from probe_conn_moves [OF probe_reading this]
  have o: "creachable (probe_running [probe_conn '''' (Offering probe_log) []])" .
  let ?c = "probe_running [probe_conn '''' (Offering probe_log) []]"
  have "conn_step False (probe_conn '''' (Offering probe_log) []) (Some probe_log) (probe_conn '''' Checking [probe_log])"
    using conn_step.send [of "probe_conn '''' (Offering probe_log) []" probe_log False] by (simp add: probe_conn_def)
  then have "cstep ?c (deliver (Some probe_log) (?c\<lparr>co_conns := (co_conns ?c)[0 := probe_conn '''' Checking [probe_log]]\<rparr>))"
    by (intro cstep.conn) (simp_all add: room_def incoming_size_def)
  with creachable.stepped [OF o] show ?thesis by (simp add: probe_received_def)
qed

section \<open>Properties\<close>

text \<open>C4: The channel between the listeners and the processor loses, invents and reorders nothing: in
  every state the running collector can reach, whatever requests, edits, workers and signals come in
  between, the logs put on the channel are those processed, then the one in hand, then those waiting,
  in this order; at most 2048 wait; each log comes from the UDP server or from one connection, and the
  logs of a connection keep their order; no log makes the collector panic.\<close>

theorem collector_processes_in_order:
  assumes "creachable c"
  shows "h_sent c = h_processed c @ in_hand (co_consumer c) @ co_incoming c \<and>
    length (co_incoming c) \<le> 2048 \<and>
    mset (h_sent c) = mset (h_udp c) + (\<Sum>k\<leftarrow>co_conns c. mset (h_logs k)) \<and>
    list_all (\<lambda>k. subseq (h_logs k) (h_sent c)) (co_conns c) \<and> \<not> co_panicked c"
  using creachable_ok [OF assms]
  unfolding coll_ok_def channel_ok_def senders_ok_def incoming_size_def list_all_iff by blast

theorem collector_processes_in_order_witness:
  "h_sent probe_received = [probe_log] \<and> co_incoming probe_received = [probe_log] \<and> \<not> co_panicked probe_received"
  using collector_processes_in_order [OF probe_received_reachable]
  by (simp add: probe_received_def deliver_def probe_conn_def)

text \<open>C15: A TCP connection delivers the lines of its stream: at every moment the logs it has put on the
  channel are the first of those the framing function makes of all bytes received so far, however they
  were split on the way; and when its goroutine has returned before the context was done, they are all.\<close>

theorem connection_delivers_its_lines:
  assumes "creachable c" and "k \<in> set (co_conns c)"
  shows "prefix (h_logs k) (handleTCPConn (cn_IP k) (h_bytes k)) \<and>
    (if cn_phase k = Returned \<and> \<not> co_done c then cn_ended k \<and> h_logs k = handleTCPConn (cn_IP k) (h_bytes k) else True)"
proof -
  have "conn_ok (co_done c) k" using creachable_ok [OF assms(1)] assms(2) by (auto simp: coll_ok_def senders_ok_def)
  then show ?thesis using conn_ok_prefix by (auto simp: conn_ok_def)
qed

theorem connection_delivers_its_lines_witness:
  "prefix [probe_log] (handleTCPConn ''10.0.0.5'' (''hi'' @ [CHR 0x0A]))"
  using connection_delivers_its_lines [OF probe_received_reachable, of "probe_conn '''' Checking [probe_log]"]
  by (simp add: probe_received_def probe_conn_def)

text \<open>C16: Every line received over TCP can be processed: from every state reached before the context is
  done the collector has a run after which all complete lines of a connection, in their order, have
  gone through the processor; no full channel, busy consumer or other client stops it.\<close>

theorem every_received_line_can_be_processed:
  assumes "creachable c" and "\<not> co_done c" and "i < length (co_conns c)"
  shows "\<exists>c'. csteps c c' \<and> \<not> co_done c' \<and> h_bytes (co_conns c' ! i) = h_bytes (co_conns c ! i) \<and>
    subseq (handleTCPConn (cn_IP (co_conns c ! i)) (h_bytes (co_conns c ! i))) (h_processed c')"
  by (rule all_lines_processed [OF creachable_ok [OF assms(1)] assms(2,3)])

theorem every_received_line_can_be_processed_witness:
  "\<exists>c'. csteps (probe_running [probe_conn (''hi'' @ [CHR 0x0A]) Reading []]) c' \<and> \<not> co_done c' \<and>
     subseq (handleTCPConn ''10.0.0.5'' (''hi'' @ [CHR 0x0A])) (h_processed c')"
  using every_received_line_can_be_processed [OF probe_reading, of 0] by (auto simp: probe_conn_def)

lemma returned_stays: "csteps c c' \<Longrightarrow> co_consumer c = Consumer_Returned \<Longrightarrow>
  co_consumer c' = Consumer_Returned \<and> h_processed c' = h_processed c"
proof (induction rule: rtranclp_induct)
  case (step y z)
  from step.hyps(2) step.IH [OF step.prems] show ?case by (cases rule: cstep.cases) simp_all
qed simp

text \<open>C32: The collector can always end, and what still waits in its channel then is lost: from every
  reachable state there is a run after which \<open>main\<close> returns while the logs that waited for the
  consumer still wait, and no later step processes any of them.\<close>

theorem collector_exit_abandons_waiting_logs:
  assumes "creachable c"
  shows "\<exists>c'. csteps c c' \<and> exited c' \<and> co_incoming c' = co_incoming c \<and> \<not> co_panicked c' \<and>
    (\<forall>c''. \<not> (csteps c' c'' \<and> h_processed c'' \<noteq> h_processed c'))"
proof -
  obtain c' where c': "csteps c c'" "exited c'" "co_incoming c' = co_incoming c" using can_exit by blast
  then have "\<not> co_panicked c'" using coll_ok_run [OF c'(1) creachable_ok [OF assms]] by (simp add: coll_ok_def)
  with c' show ?thesis using returned_stays [of c'] by (auto simp: exited_def)
qed

theorem collector_exit_abandons_waiting_logs_witness:
  "\<exists>c'. csteps probe_received c' \<and> exited c' \<and> co_incoming c' = [probe_log]"
  using collector_exit_abandons_waiting_logs [OF probe_received_reachable] by (auto simp: probe_received_def)

text \<open>C24: What the requests may change stays valid while the collector runs: in every reachable state
  the rules and the sources in the two stores are sanitised, the counters add up, the forwarding queue is within its capacity, and every stream client's buffer within its bound.\<close>

theorem collector_state_stays_valid:
  assumes "creachable c" and "pr_queue (api_proc (co_api c)) = Some q"
  shows "rules.well_formed (RuleStore_All (api_rules (co_api c))) \<and>
    srcs.well_formed (SourceStore_All (api_sources (co_api c))) \<and>
    stat_total (pr_stats (api_proc (co_api c))) =
      stat_storedCount (pr_stats (api_proc (co_api c))) + stat_droppedCount (pr_stats (api_proc (co_api c))) \<and>
    length (tasks q) \<le> cap q \<and>
    list_all (\<lambda>(i, ch). length ch \<le> stream_buffer) (hub_clients (pr_hub (api_proc (co_api c))))"
proof -
  have "stores_ok (co_api c)" "proc_ok (api_proc (co_api c))"
    using creachable_ok [OF assms(1)] preachable_ok by (auto simp: coll_ok_def)
  with proc_ok_accounts [OF this(2) assms(2)] show ?thesis by (simp add: stores_ok_def)
qed

theorem collector_state_stays_valid_witness:
  "rules.well_formed (RuleStore_All (api_rules (co_api probe_received)))"
proof -
  have "proc_ok (api_proc (co_api probe_received))"
    using creachable_ok [OF probe_received_reachable] preachable_ok by (auto simp: coll_ok_def)
  then obtain q where "pr_queue (api_proc (co_api probe_received)) = Some q" by (auto simp: proc_ok_def)
  with collector_state_stays_valid [OF probe_received_reachable] show ?thesis by blast
qed

end
