(* ===== verification/Config_Json.thy ===== *)
theory Config_Json
  imports Rules_Config Sources_Config Forwarding_Config Forwarder Go_Float_Text
begin

text \<open>
  The configuration as JSON: the struct tags of \<open>RuleConfig\<close>, \<open>SourceConfig\<close> and
  \<open>ForwardingConfig\<close> in \<open>internal/config\<close>, what \<open>json.MarshalIndent\<close> writes to their files,
  what \<open>json.Unmarshal\<close> makes of a file and \<open>json.NewDecoder(...).Decode\<close> of the body of a
  request. A value of the wrong type is an error, reported after the rest has been decoded; as
  every caller discards the result then, decoding stops at once with \<open>None\<close> here.
\<close>

section \<open>Encoding\<close>

datatype field_value = FStr string | FBool bool | FInt int | FFloat rat

text \<open>A float64: plain decimals, or an exponent without leading zeros for very small and large values.\<close>

definition json_exponent :: "int \<Rightarrow> string" where
  "json_exponent e = (if e < 0 then ''-'' else ''+'') @ Itoa (nat \<bar>e\<bar>)"

definition json_float :: "rat \<Rightarrow> string" where
  "json_float x =
     (let q = \<bar>x\<bar>; (ds, dp) = shortest_digits q
      in (if x < 0 then ''-'' else '''') @
         (if q \<noteq> 0 \<and> (q < pow10 (- 6) \<or> pow10 21 \<le> q)
          then take 1 ds @ (if length ds \<le> 1 then '''' else ''.'' @ drop 1 ds) @ ''e'' @ json_exponent (dp - 1)
          else float_f ds dp))"

definition encode_value :: "field_value \<Rightarrow> string" where
  "encode_value v =
     (case v of FStr s \<Rightarrow> quote_string s | FBool b \<Rightarrow> (if b then ''true'' else ''false'')
      | FInt i \<Rightarrow> Itoa_int i | FFloat q \<Rightarrow> json_float q)"

definition newline_indent :: "nat \<Rightarrow> string" where
  "newline_indent n = CHR 0x0A # replicate (2 * n) (CHR 0x20)"

definition encode_field :: "nat \<Rightarrow> string \<times> field_value \<Rightarrow> string" where
  "encode_field n = (\<lambda>(k, v). newline_indent n @ quote_string k @ '': '' @ encode_value v)"

text \<open>\<open>json.MarshalIndent\<close> of a struct at some depth, and of a slice of structs.\<close>

definition encode_struct :: "nat \<Rightarrow> (string \<times> field_value) list \<Rightarrow> string" where
  "encode_struct n fs = ''{'' @ Join (map (encode_field (Suc n)) fs) '','' @ newline_indent n @ ''}''"

definition encode_structs :: "(string \<times> field_value) list list \<Rightarrow> string" where
  "encode_structs xs =
     (if xs = [] then ''[]''
      else ''['' @ Join (map (\<lambda>fs. newline_indent 1 @ encode_struct 1 fs) xs) '','' @ newline_indent 0 @ '']'')"

text \<open>The fields in the order of the struct; \<open>show_in_ui\<close> is left out when the pointer is nil.\<close>

definition rule_fields :: "RuleConfig \<Rightarrow> (string \<times> field_value) list" where
  "rule_fields r =
     [(''id'', FStr (r_ID r)), (''enabled'', FBool (r_Enabled r)), (''source_type'', FStr (r_SourceType r)),
      (''asset'', FStr (r_Asset r)), (''category'', FStr (r_Category r)), (''severity'', FStr (r_Severity r)),
      (''operation'', FStr (r_Operation r)), (''event_type'', FStr (r_EventType r)),
      (''message_contains'', FStr (r_MessageContains r)), (''tag_key'', FStr (r_TagKey r)),
      (''tag_value'', FStr (r_TagValue r)), (''action'', FStr (r_Action r)),
      (''sample_rate'', FFloat (r_SampleRate r)), (''forward_to_dmz'', FBool (r_ForwardToDMZ r)),
      (''store_locally'', FBool (r_StoreLocally r))] @
     (case r_ShowInUI r of None \<Rightarrow> [] | Some b \<Rightarrow> [(''show_in_ui'', FBool b)]) @
     [(''dedup_window_seconds'', FInt (r_DedupWindowSeconds r)),
      (''rate_limit_per_second'', FInt (r_RateLimitPerSecond r)), (''notes'', FStr (r_Notes r))]"

definition source_fields :: "SourceConfig \<Rightarrow> (string \<times> field_value) list" where
  "source_fields s =
     [(''id'', FStr (s_ID s)), (''name'', FStr (s_Name s)), (''type'', FStr (s_Type s)), (''ip'', FStr (s_IP s)),
      (''protocol'', FStr (s_Protocol s)), (''impact'', FStr (s_Impact s)), (''zone'', FStr (s_Zone s)),
      (''enabled'', FBool (s_Enabled s)), (''forward_enabled'', FBool (s_ForwardEnabled s)),
      (''notes'', FStr (s_Notes s))]"

definition forwarding_fields :: "ForwardingConfig \<Rightarrow> (string \<times> field_value) list" where
  "forwarding_fields c =
     [(''dmz_collector_url'', FStr (fc_DMZCollectorURL c)), (''enabled'', FBool (fc_Enabled c)),
      (''forward_only_filtered_events'', FBool (fc_ForwardOnlyFiltered c)),
      (''forward_queue_status'', FStr (fc_ForwardQueueStatus c)),
      (''failed_forward_count'', FInt (fc_FailedForwardCount c)),
      (''successful_forward_count'', FInt (fc_SuccessfulForwardCount c)),
      (''last_successful_forward_time'', FStr (fc_LastSuccessfulForwardAt c)),
      (''last_failed_forward_time'', FStr (fc_LastFailedForwardAt c)),
      (''last_forward_attempt_at'', FStr (fc_LastForwardAttemptAt c)),
      (''last_forwarded_event_id'', FStr (fc_LastForwardedEventID c)),
      (''last_failed_event_id'', FStr (fc_LastFailedEventID c)), (''last_error'', FStr (fc_LastError c)),
      (''queued_count'', FInt (fc_QueuedCount c)), (''in_flight_count'', FInt (fc_InFlightCount c))]"

text \<open>The bytes each \<open>persistLocked\<close> writes.\<close>

definition rules_text :: "RuleConfig list \<Rightarrow> string" where
  "rules_text rs = encode_structs (map rule_fields rs)"

definition sources_text :: "SourceConfig list \<Rightarrow> string" where
  "sources_text xs = encode_structs (map source_fields xs)"

definition forwarding_text :: "ForwardingConfig \<Rightarrow> string" where
  "forwarding_text c = encode_struct 0 (forwarding_fields c)"

section \<open>Decoding\<close>

text \<open>A value for a field of a Go type: null leaves the field as it is.\<close>

definition typed :: "(json \<Rightarrow> 'v option) \<Rightarrow> ('v \<Rightarrow> 'a \<Rightarrow> 'a) \<Rightarrow> json \<Rightarrow> 'a \<Rightarrow> 'a option" where
  "typed pick upd v x = (case v of JNull \<Rightarrow> Some x | _ \<Rightarrow> map_option (\<lambda>y. upd y x) (pick v))"

definition as_string :: "json \<Rightarrow> string option" where
  "as_string v = (case v of JStr s \<Rightarrow> Some s | _ \<Rightarrow> None)"

definition as_bool :: "json \<Rightarrow> bool option" where
  "as_bool v = (case v of JBool b \<Rightarrow> Some b | _ \<Rightarrow> None)"

definition as_int :: "json \<Rightarrow> int option" where
  "as_int v = (case v of JNum lit \<Rightarrow> Atoi lit | _ \<Rightarrow> None)"

definition as_float :: "json \<Rightarrow> rat option" where
  "as_float v = (case v of JNum lit \<Rightarrow> map_option (\<lambda>(neg, q). if neg then - q else q) (parse_float lit) | _ \<Rightarrow> None)"

text \<open>Null sets a pointer to nil.\<close>

definition pointer :: "(json \<Rightarrow> 'v option) \<Rightarrow> ('v option \<Rightarrow> 'a \<Rightarrow> 'a) \<Rightarrow> json \<Rightarrow> 'a \<Rightarrow> 'a option" where
  "pointer pick upd v x = (case v of JNull \<Rightarrow> Some (upd None x) | _ \<Rightarrow> map_option (\<lambda>y. upd (Some y) x) (pick v))"

type_synonym 'a setter = "string \<Rightarrow> (json \<Rightarrow> 'a \<Rightarrow> 'a option) option"

definition rule_setter :: "RuleConfig setter" where
  "rule_setter k = map_of
     [(''id'', typed as_string (\<lambda>y r. r\<lparr>r_ID := y\<rparr>)), (''enabled'', typed as_bool (\<lambda>y r. r\<lparr>r_Enabled := y\<rparr>)),
      (''source_type'', typed as_string (\<lambda>y r. r\<lparr>r_SourceType := y\<rparr>)),
      (''asset'', typed as_string (\<lambda>y r. r\<lparr>r_Asset := y\<rparr>)),
      (''category'', typed as_string (\<lambda>y r. r\<lparr>r_Category := y\<rparr>)),
      (''severity'', typed as_string (\<lambda>y r. r\<lparr>r_Severity := y\<rparr>)),
      (''operation'', typed as_string (\<lambda>y r. r\<lparr>r_Operation := y\<rparr>)),
      (''event_type'', typed as_string (\<lambda>y r. r\<lparr>r_EventType := y\<rparr>)),
      (''message_contains'', typed as_string (\<lambda>y r. r\<lparr>r_MessageContains := y\<rparr>)),
      (''tag_key'', typed as_string (\<lambda>y r. r\<lparr>r_TagKey := y\<rparr>)),
      (''tag_value'', typed as_string (\<lambda>y r. r\<lparr>r_TagValue := y\<rparr>)),
      (''action'', typed as_string (\<lambda>y r. r\<lparr>r_Action := y\<rparr>)),
      (''sample_rate'', typed as_float (\<lambda>y r. r\<lparr>r_SampleRate := y\<rparr>)),
      (''forward_to_dmz'', typed as_bool (\<lambda>y r. r\<lparr>r_ForwardToDMZ := y\<rparr>)),
      (''store_locally'', typed as_bool (\<lambda>y r. r\<lparr>r_StoreLocally := y\<rparr>)),
      (''show_in_ui'', pointer as_bool (\<lambda>y r. r\<lparr>r_ShowInUI := y\<rparr>)),
      (''dedup_window_seconds'', typed as_int (\<lambda>y r. r\<lparr>r_DedupWindowSeconds := y\<rparr>)),
      (''rate_limit_per_second'', typed as_int (\<lambda>y r. r\<lparr>r_RateLimitPerSecond := y\<rparr>)),
      (''notes'', typed as_string (\<lambda>y r. r\<lparr>r_Notes := y\<rparr>))] k"

definition source_setter :: "SourceConfig setter" where
  "source_setter k = map_of
     [(''id'', typed as_string (\<lambda>y s. s\<lparr>s_ID := y\<rparr>)), (''name'', typed as_string (\<lambda>y s. s\<lparr>s_Name := y\<rparr>)),
      (''type'', typed as_string (\<lambda>y s. s\<lparr>s_Type := y\<rparr>)), (''ip'', typed as_string (\<lambda>y s. s\<lparr>s_IP := y\<rparr>)),
      (''protocol'', typed as_string (\<lambda>y s. s\<lparr>s_Protocol := y\<rparr>)),
      (''impact'', typed as_string (\<lambda>y s. s\<lparr>s_Impact := y\<rparr>)), (''zone'', typed as_string (\<lambda>y s. s\<lparr>s_Zone := y\<rparr>)),
      (''enabled'', typed as_bool (\<lambda>y s. s\<lparr>s_Enabled := y\<rparr>)),
      (''forward_enabled'', typed as_bool (\<lambda>y s. s\<lparr>s_ForwardEnabled := y\<rparr>)),
      (''notes'', typed as_string (\<lambda>y s. s\<lparr>s_Notes := y\<rparr>))] k"

definition forwarding_setter :: "ForwardingConfig setter" where
  "forwarding_setter k = map_of
     [(''dmz_collector_url'', typed as_string (\<lambda>y c. c\<lparr>fc_DMZCollectorURL := y\<rparr>)),
      (''enabled'', typed as_bool (\<lambda>y c. c\<lparr>fc_Enabled := y\<rparr>)),
      (''forward_only_filtered_events'', typed as_bool (\<lambda>y c. c\<lparr>fc_ForwardOnlyFiltered := y\<rparr>)),
      (''forward_queue_status'', typed as_string (\<lambda>y c. c\<lparr>fc_ForwardQueueStatus := y\<rparr>)),
      (''failed_forward_count'', typed as_int (\<lambda>y c. c\<lparr>fc_FailedForwardCount := y\<rparr>)),
      (''successful_forward_count'', typed as_int (\<lambda>y c. c\<lparr>fc_SuccessfulForwardCount := y\<rparr>)),
      (''last_successful_forward_time'', typed as_string (\<lambda>y c. c\<lparr>fc_LastSuccessfulForwardAt := y\<rparr>)),
      (''last_failed_forward_time'', typed as_string (\<lambda>y c. c\<lparr>fc_LastFailedForwardAt := y\<rparr>)),
      (''last_forward_attempt_at'', typed as_string (\<lambda>y c. c\<lparr>fc_LastForwardAttemptAt := y\<rparr>)),
      (''last_forwarded_event_id'', typed as_string (\<lambda>y c. c\<lparr>fc_LastForwardedEventID := y\<rparr>)),
      (''last_failed_event_id'', typed as_string (\<lambda>y c. c\<lparr>fc_LastFailedEventID := y\<rparr>)),
      (''last_error'', typed as_string (\<lambda>y c. c\<lparr>fc_LastError := y\<rparr>)),
      (''queued_count'', typed as_int (\<lambda>y c. c\<lparr>fc_QueuedCount := y\<rparr>)),
      (''in_flight_count'', typed as_int (\<lambda>y c. c\<lparr>fc_InFlightCount := y\<rparr>))] k"

fun decode_members :: "'a setter \<Rightarrow> (string \<times> json) list \<Rightarrow> 'a \<Rightarrow> 'a option" where
  "decode_members setter [] x = Some x"
| "decode_members setter ((k, v) # ms) x =
     (case setter (ToLower k) of
        None \<Rightarrow> decode_members setter ms x
      | Some f \<Rightarrow> Option.bind (f v x) (decode_members setter ms))"

definition decode_struct :: "'a setter \<Rightarrow> 'a \<Rightarrow> json \<Rightarrow> 'a option" where
  "decode_struct setter x v =
     (case v of JObj ms \<Rightarrow> decode_members setter ms x | JNull \<Rightarrow> Some x | _ \<Rightarrow> None)"

definition decode_slice :: "'a setter \<Rightarrow> 'a \<Rightarrow> json \<Rightarrow> 'a list option" where
  "decode_slice setter zero v =
     (case v of JArr vs \<Rightarrow> those (map (decode_struct setter zero) vs) | JNull \<Rightarrow> Some [] | _ \<Rightarrow> None)"

definition zero_rule :: RuleConfig where
  "zero_rule = \<lparr>r_ID = '''', r_Enabled = False, r_SourceType = '''', r_Asset = '''', r_Category = '''',
     r_Severity = '''', r_Operation = '''', r_EventType = '''', r_MessageContains = '''', r_TagKey = '''',
     r_TagValue = '''', r_Action = '''', r_SampleRate = 0, r_ForwardToDMZ = False, r_StoreLocally = False,
     r_ShowInUI = None, r_DedupWindowSeconds = 0, r_RateLimitPerSecond = 0, r_Notes = ''''\<rparr>"

definition zero_config_source :: SourceConfig where
  "zero_config_source = \<lparr>s_ID = '''', s_Name = '''', s_Type = '''', s_IP = '''', s_Protocol = '''',
     s_Impact = '''', s_Zone = '''', s_Enabled = False, s_ForwardEnabled = False, s_Notes = ''''\<rparr>"

definition decode_rules :: "json \<Rightarrow> RuleConfig list option" where
  "decode_rules = decode_slice rule_setter zero_rule"

definition decode_sources :: "json \<Rightarrow> SourceConfig list option" where
  "decode_sources = decode_slice source_setter zero_config_source"

definition decode_forwarding :: "json \<Rightarrow> ForwardingConfig option" where
  "decode_forwarding = decode_struct forwarding_setter zero_forwarding"

section \<open>Files and bodies\<close>

text \<open>What loading sees of the bytes of a file: \<open>json.Unmarshal\<close> takes the whole text as one value.\<close>

definition read_file :: "(json \<Rightarrow> 'a option) \<Rightarrow> string \<Rightarrow> string \<Rightarrow> 'a file_read" where
  "read_file decode err bytes =
     (if bytes = '''' then FileEmpty
      else (case Option.bind (json_parse bytes) decode of None \<Rightarrow> FileBadJSON err | Some x \<Rightarrow> FileDecoded x))"

text \<open>\<open>Decode\<close> takes the first value of the first megabyte and looks at nothing behind it.\<close>

definition first_value :: "string \<Rightarrow> json option" where
  "first_value s = map_option fst (jval (length s + 1) 10000 s)"

definition max_config_body :: nat where
  "max_config_body = 1048576"

definition decode_body :: "(json \<Rightarrow> 'a option) \<Rightarrow> string \<Rightarrow> 'a option" where
  "decode_body decode bytes = Option.bind (first_value (take max_config_body bytes)) decode"

end
