(* ===== verification/Requests.thy ===== *)
theory Requests
  imports Api_Config Config_Json
begin

text \<open>
  A request from its bytes to its answer: the routes of \<open>Run\<close> in \<open>internal/api/server.go\<close> and the
  decoding of the body each handler of \<open>internal/api/handlers.go\<close> starts with.
\<close>

text \<open>
  \<open>rq_Path\<close> is the path as the library has cleaned it. \<open>rq_Body\<close> holds the bytes of the body;
  \<open>None\<close> when reading it fails before they are complete.
\<close>

record request =
  rq_Method :: string
  rq_Path :: string
  rq_Params :: "string gomap"
  rq_Body :: "string option"

text \<open>What the surroundings answer to one request: clocks, identifiers, files and the network.\<close>

record http_env =
  he_loc :: location
  he_now :: int
  he_oob :: int
  he_norm :: norm_env
  he_new_id :: string
  he_ingest :: ingest_env
  he_post :: "nat \<Rightarrow> post_env"
  he_cap :: int
  he_read :: read_io
  he_repair :: repair_io
  he_net :: http_outcome
  he_elapsed :: int
  he_sources_write :: "SourceConfig list write_result"
  he_rules_write :: "RuleConfig list write_result"
  he_forwarding_write :: "ForwardingConfig write_result"
  he_sources_iter :: "sourceStats list \<Rightarrow> sourceStats list"
  he_summary_iter :: "(string \<times> int) list \<Rightarrow> (string \<times> int) list"

section \<open>Bodies\<close>

definition config_body :: "(json \<Rightarrow> 'a option) \<Rightarrow> request \<Rightarrow> 'a option" where
  "config_body decode r = Option.bind (rq_Body r) (decode_body decode)"

definition decode_source :: "json \<Rightarrow> SourceConfig option" where
  "decode_source = decode_struct source_setter zero_config_source"

definition decode_rule :: "json \<Rightarrow> RuleConfig option" where
  "decode_rule = decode_struct rule_setter zero_rule"

text \<open>The body of a rule test: an object with an event in it; its other members are ignored.\<close>

definition test_event_setter :: "event setter" where
  "test_event_setter k = map_of
     [(''event'', \<lambda>v e.
        (case v of
           JNull \<Rightarrow> Some e
         | JObj ms \<Rightarrow> (case fold decode_member ms (e, True) of (e, ok) \<Rightarrow> if ok then Some e else None)
         | _ \<Rightarrow> None))] k"

definition decode_test :: "json \<Rightarrow> event option" where
  "decode_test = decode_struct test_event_setter zero_event"

text \<open>A \<open>map[string]any\<close>: any object whose numbers are float64 values.\<close>

fun floats_ok :: "json \<Rightarrow> bool" where
  "floats_ok (JNum lit) = (parse_float lit \<noteq> None)"
| "floats_ok (JArr vs) = (\<forall>v \<in> set vs. floats_ok v)"
| "floats_ok (JObj ms) = (\<forall>m \<in> set ms. floats_ok (snd m))"
| "floats_ok _ = True"

definition decode_any :: "json \<Rightarrow> json option" where
  "decode_any v = (case v of JObj ms \<Rightarrow> if floats_ok v then Some v else None | JNull \<Rightarrow> Some v | _ \<Rightarrow> None)"

section \<open>Serving\<close>

text \<open>
  \<open>Streams\<close> is the event stream, whose session \<open>Event_Stream\<close> models, \<open>Asset\<close> the file server,
  \<open>Panics\<close> a handler that does not return: the library closes the connection.
\<close>

datatype served = Answer response | Streams | Asset | Panics

definition answer :: "API \<times> response \<Rightarrow> API \<times> served" where
  "answer x = (fst x, Answer (snd x))"

definition answer_or_panic :: "API \<Rightarrow> (API \<times> response) option \<Rightarrow> API \<times> served" where
  "answer_or_panic a x = (case x of None \<Rightarrow> (a, Panics) | Some y \<Rightarrow> answer y)"

definition serve_request :: "http_env \<Rightarrow> request \<Rightarrow> API \<Rightarrow> API \<times> served" where
  "serve_request h r a =
     (let meth = rq_Method r; path = rq_Path r; to = (\<lambda>n. route path = Some n)
      in if to ''handleHealth'' then answer (a, handleHealth a)
         else if to ''handleEvents'' then
           answer_or_panic a (handleEvents meth (he_cap h) (he_read h) (rq_Params r) (he_post h) (rq_Body r) a)
         else if to ''handleEventStream'' then (a, Streams)
         else if to ''handleStorageRepair'' then answer (handleStorageRepair meth (he_repair h) a)
         else if to ''handleSources'' then answer (a, handleSources (he_sources_iter h) a)
         else if to ''handleStats'' then answer (a, handleStats a)
         else if to ''handleStatsSummary'' then answer (a, handleStatsSummary (he_summary_iter h) a)
         else if to ''handleStatsTimeline'' then answer (a, handleStatsTimeline a)
         else if to ''handleFilterConfig'' then answer (a, handleFilterConfig meth (config_body decode_any r))
         else if to ''handleConfigSources'' then
           answer (handleConfigSources meth (config_body decode_sources r) (he_sources_write h) a)
         else if to ''handleConfigSourceByID'' then
           answer (handleConfigSourceByID meth path (config_body decode_source r) (he_sources_write h) a)
         else if to ''handleConfigRules'' then
           answer (handleConfigRules meth (config_body decode_rules r) (he_rules_write h) a)
         else if to ''handleConfigRuleByID'' then
           answer (handleConfigRuleByID meth path (config_body decode_rule r) (he_rules_write h) a)
         else if to ''handleConfigRulesTest'' then
           answer (handleConfigRulesTest meth (config_body decode_test r) (he_oob h) (he_now h) a)
         else if to ''handleConfigForwarding'' then
           answer (handleConfigForwarding meth (config_body decode_forwarding r) (he_forwarding_write h) a)
         else if to ''handleForwardingTest'' then
           answer (a, snd (handleForwardingTest meth (he_now h) (he_net h) (he_elapsed h) a))
         else if to ''handleForwardingTestPipeline'' then
           answer_or_panic a (handleForwardingTestPipeline meth (he_now h) (he_ingest h) a)
         else if to ''handleForwardingResetQueue'' then answer (handleForwardingResetQueue meth a)
         else if to ''handleTestEvent'' then
           answer_or_panic a (handleTestEvent (he_loc h) (he_now h) ((he_norm h)\<lparr>ne_resolver := Some (api_sources a)\<rparr>)
             (he_new_id h) (he_ingest h) (rq_Body r) a)
         else (a, Asset))"

end
