(* ===== verification/Request_Properties.thy ===== *)
theory Request_Properties
  imports Requests Api_Steps
begin

text \<open>
  What holds of every request, whatever its method, path and bytes: it is a run of the interface's
  steps, it is answered, and a refusal leaves no trace.
\<close>

text \<open>\<open>may_panic\<close> says whether the handler may fail to answer.\<close>

definition answered :: "bool \<Rightarrow> API \<Rightarrow> API \<times> served \<Rightarrow> bool" where
  "answered may_panic a x \<longleftrightarrow> api_step\<^sup>*\<^sup>* a (fst x) \<and>
     (case snd x of
        Answer y \<Rightarrow> fst y \<in> {200, 202, 400, 405, 500} \<and> (400 \<le> fst y \<and> fst y < 500 \<longrightarrow> fst x = a)
      | Panics \<Rightarrow> may_panic \<and> fst x = a | _ \<Rightarrow> fst x = a)"

lemma answered_answer:
  assumes "api_step a (fst x)" and "fst (snd x) \<in> {200, 202, 400, 405, 500}" and "client_error x \<Longrightarrow> fst x = a"
  shows "answered b a (answer x)"
  using assms by (auto simp: answered_def answer_def client_error_def intro: r_into_rtranclp)

lemma answered_read: "fst y \<in> {200, 202, 400, 405, 500} \<Longrightarrow> answered b a (answer (a, y))"
  by (auto simp: answered_def answer_def)

lemma answered_other: "s = Streams \<or> s = Asset \<Longrightarrow> answered b a (a, s)"
  by (auto simp: answered_def)

lemma answered_or_panic:
  assumes "x = None \<Longrightarrow> b" and "\<And>y. x = Some y \<Longrightarrow> answered b a (answer y)"
  shows "answered b a (answer_or_panic a x)"
  using assms by (cases x) (auto simp: answer_or_panic_def answered_def)

section \<open>Handler by handler\<close>

lemma answered_config_sources: "answered b a (answer (handleConfigSources meth srcs w a))"
proof (rule answered_answer)
  show "api_step a (fst (handleConfigSources meth srcs w a))" by (rule api_step.config_sources) (rule prod.collapse [symmetric])
  show "fst (snd (handleConfigSources meth srcs w a)) \<in> {200, 202, 400, 405, 500}"
    by (auto simp: handleConfigSources_def method_not_allowed_def split: option.split prod.split)
qed (rule refused_handleConfigSources)

lemma answered_config_source: "answered b a (answer (handleConfigSourceByID meth path src w a))"
proof (rule answered_answer)
  show "api_step a (fst (handleConfigSourceByID meth path src w a))"
    by (rule api_step.config_source) (rule prod.collapse [symmetric])
  show "fst (snd (handleConfigSourceByID meth path src w a)) \<in> {200, 202, 400, 405, 500}"
    by (auto simp: handleConfigSourceByID_def method_not_allowed_def Let_def split: option.split prod.split)
qed (rule refused_handleConfigSourceByID)

lemma answered_config_rules: "answered b a (answer (handleConfigRules meth rs w a))"
proof (rule answered_answer)
  show "api_step a (fst (handleConfigRules meth rs w a))" by (rule api_step.config_rules) (rule prod.collapse [symmetric])
  show "fst (snd (handleConfigRules meth rs w a)) \<in> {200, 202, 400, 405, 500}"
    by (auto simp: handleConfigRules_def method_not_allowed_def split: option.split prod.split)
qed (rule refused_handleConfigRules)

lemma answered_config_rule: "answered b a (answer (handleConfigRuleByID meth path one w a))"
proof (rule answered_answer)
  show "api_step a (fst (handleConfigRuleByID meth path one w a))"
    by (rule api_step.config_rule) (rule prod.collapse [symmetric])
  show "fst (snd (handleConfigRuleByID meth path one w a)) \<in> {200, 202, 400, 405, 500}"
    by (auto simp: handleConfigRuleByID_def method_not_allowed_def Let_def split: option.split prod.split)
qed (rule refused_handleConfigRuleByID)

lemma answered_rules_test: "answered b a (answer (handleConfigRulesTest meth evt oob now a))"
proof (rule answered_answer)
  show "api_step a (fst (handleConfigRulesTest meth evt oob now a))"
    by (rule api_step.rules_test) (rule prod.collapse [symmetric])
  show "fst (snd (handleConfigRulesTest meth evt oob now a)) \<in> {200, 202, 400, 405, 500}"
    by (auto simp: handleConfigRulesTest_def method_not_allowed_def split: option.split prod.split)
qed (rule refused_handleConfigRulesTest)

lemma answered_config_forwarding: "answered b a (answer (handleConfigForwarding meth cfg w a))"
proof (rule answered_answer)
  show "api_step a (fst (handleConfigForwarding meth cfg w a))"
    by (rule api_step.config_forwarding) (rule prod.collapse [symmetric])
  show "fst (snd (handleConfigForwarding meth cfg w a)) \<in> {200, 202, 400, 405, 500}"
    by (auto simp: handleConfigForwarding_def method_not_allowed_def split: option.split prod.split)
qed (rule refused_handleConfigForwarding)

lemma answered_reset_queue: "answered b a (answer (handleForwardingResetQueue meth a))"
proof (rule answered_answer)
  show "api_step a (fst (handleForwardingResetQueue meth a))" by (rule api_step.reset_queue) (rule prod.collapse [symmetric])
  show "fst (snd (handleForwardingResetQueue meth a)) \<in> {200, 202, 400, 405, 500}"
    by (auto simp: handleForwardingResetQueue_def method_not_allowed_def split: prod.split)
qed (rule refused_handleForwardingResetQueue)

lemma answered_repair: "answered b a (answer (handleStorageRepair meth io a))"
proof (rule answered_answer)
  show "api_step a (fst (handleStorageRepair meth io a))" by (rule api_step.repair) (rule prod.collapse [symmetric])
  show "fst (snd (handleStorageRepair meth io a)) \<in> {200, 202, 400, 405, 500}"
    by (auto simp: handleStorageRepair_def method_not_allowed_def split: option.split prod.split)
qed (rule refused_handleStorageRepair)

lemma never_None:
  "post_all env i zone es p \<noteq> None" "ingest ienv evt path p \<noteq> None" "ProcessRaw loc now nenv ienv raw ip transport p \<noteq> None"
  using post_all_total [of env i zone es p] ingest_total [of ienv evt path p]
    ProcessRaw_total [of loc now nenv ienv raw ip transport p] by auto

lemma handlePostEvents_total: "handlePostEvents env raw a \<noteq> None"
  by (simp add: handlePostEvents_def Let_def never_None split: option.split sum.split)

lemma answered_events:
  "answered (meth = ''GET'' \<and> max_cap < query_limit (events_query params)) a
     (answer_or_panic a (handleEvents meth max_cap io params env raw a))"
proof (rule answered_or_panic)
  assume "handleEvents meth max_cap io params env raw a = None"
  then show "meth = ''GET'' \<and> max_cap < query_limit (events_query params)"
    using handlePostEvents_total [of env raw a]
    by (auto simp: handleEvents_def handleGetEvents_def ReadFiltered_def split: if_splits option.splits sum.splits read_io.splits)
next
  fix y assume y: "handleEvents meth max_cap io params env raw a = Some y"
  show "answered (meth = ''GET'' \<and> max_cap < query_limit (events_query params)) a (answer y)"
  proof (rule answered_answer)
    show "api_step a (fst y)" using y by (cases y) (auto intro: api_step.events)
    show "fst (snd y) \<in> {200, 202, 400, 405, 500}" "client_error y \<Longrightarrow> fst y = a"
      using y
      by (auto simp: handleEvents_def handlePostEvents_def handleGetEvents_def method_not_allowed_def client_error_def Let_def
          split: if_splits option.splits sum.splits prod.splits)
  qed
qed


lemma answered_test_pipeline: "answered b a (answer_or_panic a (handleForwardingTestPipeline meth now ienv a))"
proof (rule answered_or_panic)
  assume "handleForwardingTestPipeline meth now ienv a = None"
  then show b
    by (simp add: handleForwardingTestPipeline_def ProcessNormalized_def Let_def never_None Option.bind_eq_None_conv split: if_splits)
next
  fix y assume y: "handleForwardingTestPipeline meth now ienv a = Some y"
  show "answered b a (answer y)"
  proof (rule answered_answer)
    show "api_step a (fst y)" using y by (cases y) (auto intro: api_step.test_pipeline)
    show "fst (snd y) \<in> {200, 202, 400, 405, 500}" "client_error y \<Longrightarrow> fst y = a"
      using y
      by (auto simp: handleForwardingTestPipeline_def method_not_allowed_def client_error_def Let_def
          Option.bind_eq_Some_conv split: if_splits)
  qed
qed

lemma answered_test_event:
  assumes "resolves_by a nenv"
  shows "answered b a (answer_or_panic a (handleTestEvent loc now nenv new_id ienv raw a))"
proof (rule answered_or_panic)
  have accept: "accept_test_event i e ev a \<noteq> None" for i e ev
    by (simp add: accept_test_event_def ProcessTestEvent_def Let_def never_None Option.bind_eq_None_conv)
  assume "handleTestEvent loc now nenv new_id ienv raw a = None"
  then show b
    by (simp add: handleTestEvent_def Let_def accept never_None Option.bind_eq_None_conv split: if_splits option.splits)
next
  fix y assume y: "handleTestEvent loc now nenv new_id ienv raw a = Some y"
  have accept: "fst (snd z) = 202" if "accept_test_event i e ev a = Some z" for i e ev z
    using that by (auto simp: accept_test_event_def Let_def Option.bind_eq_Some_conv)
  show "answered b a (answer y)"
  proof (rule answered_answer)
    show "api_step a (fst y)" using y assms by (cases y) (auto intro: api_step.test_event)
    show "fst (snd y) \<in> {200, 202, 400, 405, 500}" "client_error y \<Longrightarrow> fst y = a"
      using y accept
      by (auto simp: handleTestEvent_def client_error_def Let_def Option.bind_eq_Some_conv split: if_splits option.splits)
  qed
qed

lemma answered_reads:
  "answered b a (answer (a, handleHealth a))" "answered b a (answer (a, handleSources iter a))"
  "answered b a (answer (a, handleStats a))" "answered b a (answer (a, handleStatsSummary siter a))"
  "answered b a (answer (a, handleStatsTimeline a))" "answered b a (answer (a, handleFilterConfig meth payload))"
  "answered b a (answer (a, snd (handleForwardingTest meth now net elapsed a)))"
  by (rule answered_read;
      auto simp: handleHealth_def handleSources_def handleStats_def handleStatsSummary_def handleStatsTimeline_def
        handleFilterConfig_def handleForwardingTest_def method_not_allowed_def Let_def split: option.split http_outcome.split)+

section \<open>Any request\<close>

lemma route_pattern:
  assumes "route path = Some n" shows "\<exists>pat. (pat, n) \<in> set routes \<and> pattern_matches path pat"
proof -
  define hits where "hits = sort_key (\<lambda>(pat, h). - int (length pat)) (filter (\<lambda>(pat, h). pattern_matches path pat) routes)"
  obtain pat rest where "hits = (pat, n) # rest"
    using assms by (auto simp: route_def hits_def [symmetric] split: list.splits)
  then have "(pat, n) \<in> set hits" by simp
  then show ?thesis by (auto simp: hits_def)
qed

lemma route_events: "route path = Some ''handleEvents'' \<Longrightarrow> path = ''/events''"
  using route_pattern [of path "''handleEvents''"] by (auto simp: routes_def pattern_matches_def)

lemma serve_request_answered:
  "answered (rq_Method r = ''GET'' \<and> rq_Path r = ''/events'' \<and> he_cap h < query_limit (events_query (rq_Params r))) a
     (serve_request h r a)"
proof (cases "route (rq_Path r) = Some ''handleEvents''")
  case True
  then show ?thesis
    using answered_events [of "rq_Method r" "he_cap h" "rq_Params r" a] route_events [OF True]
    by (simp add: serve_request_def Let_def)
next
  case False
  have "resolves_by a ((he_norm h)\<lparr>ne_resolver := Some (api_sources a)\<rparr>)" by (simp add: resolves_by_def)
  note test = answered_test_event [OF this]
  show ?thesis
    unfolding serve_request_def Let_def using False
    by (simp add: answered_reads answered_other answered_repair answered_config_sources answered_config_source
        answered_config_rules answered_config_rule answered_rules_test answered_config_forwarding answered_test_pipeline
        answered_reset_queue test)
qed

text \<open>C20: Every request is answered, and a refused one leaves no trace: whatever the method, the path, the
  bytes of the body and the outcomes of file and network accesses, routing, decoding and handling a
  request is a run of the interface's steps and ends with a status of 200, 202, 400, 405 or 500; with
  a status from 400 to 499 nothing has changed. The one handler that can panic is the query of events,
  when the limit asked for is larger than what can be allocated, and it changes nothing.\<close>

theorem every_request_is_answered:
  "case serve_request h r a of (a', out) \<Rightarrow> api_step\<^sup>*\<^sup>* a a' \<and>
     (case out of
        Answer (n, b) \<Rightarrow> n \<in> {200, 202, 400, 405, 500} \<and> (if 400 \<le> n \<and> n < 500 then a' = a else True)
      | Panics \<Rightarrow> rq_Method r = ''GET'' \<and> rq_Path r = ''/events'' \<and> he_cap h < query_limit (events_query (rq_Params r)) \<and> a' = a
      | _ \<Rightarrow> a' = a)"
  using serve_request_answered [of r h a] by (auto simp: answered_def split: served.splits prod.splits)

end
