(* ===== verification/Config_Json_Facts.thy ===== *)
theory Config_Json_Facts
  imports Config_Json Go_Json_Fuel
begin

text \<open>
  What \<open>json.MarshalIndent\<close> writes for the configuration is read back: for any struct whose
  fields and setters agree, and for the rules, the sources and the forwarding settings.
\<close>

declare jval.simps [simp del] jarr.simps [simp del] jobj.simps [simp del]

section \<open>Numbers\<close>

definition delimiter :: "char \<Rightarrow> bool" where
  "delimiter c \<longleftrightarrow> c = CHR '','' \<or> c = CHR 0x0A"

lemma take_if_delimiter: "\<not> P c \<Longrightarrow> take_if P (s @ c # t) = map_prod id (\<lambda>r. r @ c # t) (take_if P s)"
  by (cases s) (simp_all add: take_if_def)

lemma digits_of_delimiter: "\<not> isDigit c \<Longrightarrow> digits_of (s @ c # t) = map_prod id (\<lambda>r. r @ c # t) (digits_of s)"
  by (induction s) (auto simp: digits_of_def)

text \<open>A number ends at a delimiter.\<close>

lemma jnum_delimiter:
  assumes "delimiter c"
  shows "jnum (s @ c # t) = map_option (map_prod id (\<lambda>r. r @ c # t)) (jnum s)"
proof -
  have c: "\<not> isDigit c" "c \<noteq> CHR ''-''" "c \<noteq> CHR ''+''" "c \<noteq> CHR ''.''" "c \<noteq> CHR ''e''" "c \<noteq> CHR ''E''" "c \<noteq> CHR ''0''"
    using assms by (auto simp: delimiter_def isDigit_def)
  have ip: "(case x @ c # t of d # u \<Rightarrow> if d = CHR ''0'' then ([d], u) else digits_of (x @ c # t) | [] \<Rightarrow> ([], x @ c # t)) =
      map_prod id (\<lambda>r. r @ c # t) (case x of d # u \<Rightarrow> if d = CHR ''0'' then ([d], u) else digits_of x | [] \<Rightarrow> ([], x))" for x
    using c(1,7) digits_of_delimiter [OF c(1), of x t] by (cases x) (simp_all add: digits_of_def)
  have fp: "(if b then ([], x @ c # t) else digits_of (x @ c # t)) = map_prod id (\<lambda>r. r @ c # t) (if b then ([], x) else digits_of x)" for b x
    by (simp add: digits_of_delimiter [OF c(1)])
  have es: "(if b then ([], x @ c # t) else take_if P (x @ c # t)) = map_prod id (\<lambda>r. r @ c # t) (if b then ([], x) else take_if P x)"
    if "\<not> P c" for b x P
    using take_if_delimiter [of P, OF that] by simp
  have m: "(case map_prod id f p of (a, b) \<Rightarrow> h a b) = (case p of (a, b) \<Rightarrow> h a (f b))"
    for f :: "string \<Rightarrow> string" and p :: "string \<times> string" and h :: "string \<Rightarrow> string \<Rightarrow> (string \<times> string) option"
    by (cases p) simp
  show ?thesis
    unfolding jnum_def Let_def
    by (simp add: take_if_delimiter c es ip fp m split: prod.split)
qed

lemma jnum_before:
  assumes "jnum s = Some (s, [])" and "delimiter c" shows "jnum (s @ c # t) = Some (s, c # t)"
  using jnum_delimiter [OF assms(2), of s t] assms(1) by simp

lemma Itoa_first: "0 < n \<Longrightarrow> hd (Itoa n) \<noteq> CHR ''0''"
proof (induction n rule: Itoa.induct)
  case (1 n)
  have ne: "Itoa (n div 10) \<noteq> []" using Itoa_digits by blast
  show ?case
  proof (cases "n < 10")
    case True
    then have "(of_char (char_of (48 + n) :: char) :: nat) = 48 + n" by simp
    moreover have "(of_char (CHR ''0'') :: nat) = 48" by simp
    ultimately have "char_of (48 + n) \<noteq> CHR ''0''" using 1(2) by (metis add_right_imp_eq add_0 neq0_conv add.commute)
    with True show ?thesis by (simp add: Itoa.simps [of n])
  next
    case False
    with 1 ne show ?thesis by (simp add: Itoa.simps [of n])
  qed
qed

lemma jnum_digits:
  assumes "list_all isDigit (c # s)" and "c = CHR ''0'' \<longrightarrow> s = []"
  shows "jnum (c # s) = Some (c # s, [])" "jnum (CHR ''-'' # c # s) = Some (CHR ''-'' # c # s, [])"
proof -
  have c: "isDigit c" "c \<noteq> CHR ''-''" using assms(1) by (auto simp: isDigit_def)
  have d: "digits_of (c # s) = (c # s, [])"
    using assms(1) by (simp add: digits_of_def list_all_iff)
  have ip: "(if c = CHR ''0'' then ([c], s) else digits_of (c # s)) = (c # s, [])" using assms(2) d by simp
  show "jnum (c # s) = Some (c # s, [])" "jnum (CHR ''-'' # c # s) = Some (CHR ''-'' # c # s, [])"
    by (simp_all add: jnum_def Let_def take_if_def c ip)
qed

lemma jnum_Itoa_int: "jnum (Itoa_int i) = Some (Itoa_int i, [])"
proof -
  have "\<exists>c s. Itoa n = c # s \<and> list_all isDigit (c # s) \<and> (c = CHR ''0'' \<longrightarrow> s = [])" for n
  proof (cases "n = 0")
    case True
    then show ?thesis using Itoa_digits [of 0] by (simp add: Itoa.simps [of 0])
  next
    case False
    then show ?thesis using Itoa_digits [of n] Itoa_first [of n] by (cases "Itoa n") auto
  qed
  from this [of "nat i"] this [of "nat (- i)"] show ?thesis
    using jnum_digits by (auto simp: Itoa_int_def)
qed

lemma Atoi_Itoa_int:
  assumes "- (2 ^ 63) \<le> i" and "i < 2 ^ 63" shows "Atoi (Itoa_int i) = Some i"
proof (cases "i < 0")
  case True
  then show ?thesis using assms Itoa_digits [of "nat (- i)"] by (simp add: Itoa_int_def Atoi_def Let_def)
next
  case False
  obtain c s where cs: "Itoa (nat i) = c # s" "isDigit c" using Itoa_digits [of "nat i"] by (cases "Itoa (nat i)") auto
  then have "c \<noteq> CHR ''-''" "c \<noteq> CHR ''+''" by (auto simp: isDigit_def)
  then show ?thesis using False assms cs Itoa_digits [of "nat i"] by (simp add: Itoa_int_def Atoi_def Let_def)
qed

section \<open>Values\<close>

fun value_json :: "field_value \<Rightarrow> json" where
  "value_json (FStr s) = JStr s"
| "value_json (FBool b) = JBool b"
| "value_json (FInt i) = JNum (Itoa_int i)"
| "value_json (FFloat q) = JNum (json_float q)"

fun readable :: "field_value \<Rightarrow> bool" where
  "readable (FStr s) = utf8 s"
| "readable (FFloat q) = (jnum (json_float q) = Some (json_float q, []))"
| "readable _ = True"

lemma number_first: "jnum (x # s) = Some r \<Longrightarrow> isDigit x \<or> x = CHR ''-''"
  by (auto simp: jnum_def Let_def take_if_def digits_of_def isDigit_def split: if_splits prod.splits)

lemma jval_number:
  assumes "jnum s = Some (s, [])" and "delimiter c"
  shows "jval (Suc n) d (s @ c # t) = Some (JNum s, c # t)"
proof -
  obtain x u where s: "s = x # u" using assms(1) by (cases s) (simp_all add: jnum_def take_if_def digits_of_def)
  then have x: "isDigit x \<or> x = CHR ''-''" using assms(1) number_first by blast
  then have "\<not> json_space x" "x \<noteq> CHR ''{''" "x \<noteq> CHR ''[''" "x \<noteq> CHR 0x22" "x \<noteq> CHR ''t''" "x \<noteq> CHR ''f''" "x \<noteq> CHR ''n''"
    by (auto simp: isDigit_def json_space_def)
  then show ?thesis
    using jnum_before [OF assms, of t] by (simp add: s jval.simps skip_ws_def HasPrefix_iff)
qed

lemma jval_value:
  assumes "readable v" and "delimiter c"
  shows "jval (Suc n) d (encode_value v @ c # t) = Some (value_json v, c # t)"
proof (cases v)
  case (FStr s)
  then show ?thesis using assms(1) jval_quote by (simp add: encode_value_def)
next
  case (FBool b)
  then show ?thesis by (cases b) (simp_all add: encode_value_def jval.simps skip_ws_def json_space_def HasPrefix_iff)
next
  case (FInt i)
  then show ?thesis using jval_number [OF jnum_Itoa_int assms(2)] by (simp add: encode_value_def)
next
  case (FFloat q)
  then show ?thesis using assms jval_number by (simp add: encode_value_def)
qed

section \<open>Structs and slices\<close>

lemma skip_ws_indent [simp]: "skip_ws (newline_indent m @ s) = skip_ws s"
proof -
  have "\<forall>c \<in> set (newline_indent m). json_space c" by (auto simp: newline_indent_def json_space_def)
  then show ?thesis by (simp add: skip_ws_def dropWhile_append)
qed

lemma parse_indent [simp]:
  "jval n d (newline_indent m @ s) = jval n d s" "jobj n d (newline_indent m @ s) = jobj n d s"
  "jarr n d (newline_indent m @ s) = jarr n d s"
proof -
  show v: "jval n d (newline_indent m @ s) = jval n d s" for n by (cases n) (simp_all add: jval.simps)
  show "jobj n d (newline_indent m @ s) = jobj n d s" by (cases n) (simp_all add: jobj.simps)
  show "jarr n d (newline_indent m @ s) = jarr n d s" by (cases n) (simp_all add: jarr.simps v)
qed

lemma jval_space: "jval n d (CHR 0x20 # s) = jval n d s"
  by (cases n) (simp_all add: jval.simps skip_ws_def json_space_def)

text \<open>One field, before a comma or before the end of the struct.\<close>

lemma jobj_field:
  assumes "utf8 k" and "jval n d s = Some (v, w)" and "skip_ws w = c # t"
  shows "c = CHR '','' \<Longrightarrow> jobj (Suc n) d (quote_string k @ CHR '':'' # s) =
      map_option (\<lambda>(ms, w). ((k, v) # ms, w)) (jobj n d t)"
    and "c = CHR ''}'' \<Longrightarrow> jobj (Suc n) d (quote_string k @ CHR '':'' # s) = Some ([(k, v)], t)"
  using assms by (simp_all add: jobj.simps quote_string_Cons jstr_escape_string)

abbreviation fields_json :: "(string \<times> field_value) list \<Rightarrow> (string \<times> json) list" where
  "fields_json fs \<equiv> map (\<lambda>(k, v). (k, value_json v)) fs"

definition readable_fields :: "(string \<times> field_value) list \<Rightarrow> bool" where
  "readable_fields fs \<longleftrightarrow> fs \<noteq> [] \<and> list_all (\<lambda>(k, v). utf8 k \<and> readable v) fs"

lemma delimiters: "delimiter (CHR '','')" "delimiter (CHR 0x0A)"
  by (simp_all add: delimiter_def)

lemma jobj_fields:
  assumes "list_all (\<lambda>(k, v). utf8 k \<and> readable v) fs" and "fs \<noteq> []" and "length fs < n"
  shows "jobj n d (Join (map (encode_field m) fs) '','' @ newline_indent j @ CHR ''}'' # t) = Some (fields_json fs, t)"
  using assms
proof (induction fs arbitrary: n)
  case (Cons f fs)
  obtain k v where f: "f = (k, v)" by (cases f)
  from Cons.prems obtain i where n: "n = Suc (Suc i)" by (cases n; cases "n - 1") auto
  have kv: "utf8 k" "readable v" using Cons.prems f by auto
  show ?case
  proof (cases fs)
    case Nil
    have "jval (Suc i) d (CHR 0x20 # encode_value v @ newline_indent j @ CHR ''}'' # t) =
        Some (value_json v, newline_indent j @ CHR ''}'' # t)"
      using jval_value [OF kv(2) delimiters(2), of i d] by (simp add: jval_space newline_indent_def)
    from jobj_field(2) [OF kv(1) this, of "CHR ''}''" t] show ?thesis
      by (simp add: Nil f n encode_field_def)
  next
    case (Cons f' fs')
    define rest where "rest = Join (map (encode_field m) fs) '','' @ newline_indent j @ CHR ''}'' # t"
    have ih: "jobj (Suc i) d rest = Some (fields_json fs, t)"
      unfolding rest_def using Cons.IH [of "Suc i"] Cons.prems n Cons by simp
    have "jval (Suc i) d (CHR 0x20 # encode_value v @ CHR '','' # rest) = Some (value_json v, CHR '','' # rest)"
      using jval_value [OF kv(2) delimiters(1)] by (simp add: jval_space)
    from jobj_field(1) [OF kv(1) this, of "CHR '',''" rest] ih show ?thesis
      by (simp add: Cons f n encode_field_def rest_def)
  qed
qed simp

lemma jval_struct:
  assumes "readable_fields fs" and "length fs < n" and "0 < d"
  shows "jval (Suc n) d (encode_struct m fs @ t) = Some (JObj (fields_json fs), t)"
proof -
  obtain k v gs where fs: "fs = (k, v) # gs" using assms(1) by (cases fs) (auto simp: readable_fields_def)
  define body where "body = Join (map (encode_field (Suc m)) fs) '','' @ newline_indent m @ CHR ''}'' # t"
  have "\<exists>w. body = newline_indent (Suc m) @ quote_string k @ w"
    by (cases gs) (simp_all add: body_def fs encode_field_def)
  then obtain w where "skip_ws body = CHR 0x22 # w" by (auto simp: quote_string_Cons)
  moreover have "jobj n (d - 1) body = Some (fields_json fs, t)"
    unfolding body_def using assms(1,2) by (intro jobj_fields) (auto simp: readable_fields_def)
  ultimately show ?thesis
    using assms(3) by (simp add: encode_struct_def jval.simps flip: body_def)
qed

lemma skip_ws_bracket [simp]: "skip_ws (CHR '']'' # t) = CHR '']'' # t"
  by (simp add: skip_ws_def json_space_def)

lemma jarr_structs:
  assumes "list_all readable_fields xs" and "xs \<noteq> []" and "list_all (\<lambda>fs. length fs < l) xs" and "length xs + l < n" and "0 < d"
  shows "jarr n d (Join (map (\<lambda>fs. newline_indent 1 @ encode_struct 1 fs) xs) '','' @ newline_indent 0 @ CHR '']'' # t) =
    Some (map (\<lambda>fs. JObj (fields_json fs)) xs, t)"
  using assms
proof (induction xs arbitrary: n)
  case (Cons x xs)
  from Cons.prems obtain i where n: "n = Suc (Suc i)" and i: "length x < i" "length xs + l < Suc i"
    by (cases n; cases "n - 1") auto
  have v: "jval (Suc i) d (encode_struct (Suc 0) x @ u) = Some (JObj (fields_json x), u)" for u
    using Cons.prems i by (intro jval_struct) simp_all
  show ?case
  proof (cases xs)
    case Nil
    then show ?thesis by (simp add: n jarr.simps v)
  next
    case (Cons y ys)
    define rest where "rest = Join (map (\<lambda>fs. newline_indent 1 @ encode_struct 1 fs) xs) '','' @ newline_indent 0 @ CHR '']'' # t"
    have "jarr (Suc i) d rest = Some (map (\<lambda>fs. JObj (fields_json fs)) xs, t)"
      unfolding rest_def using Cons.IH [of "Suc i"] Cons.prems i Cons by simp
    then show ?thesis by (simp add: Cons n jarr.simps v rest_def)
  qed
qed simp

lemma jval_structs:
  assumes "list_all readable_fields xs" and "1 < d"
  shows "\<exists>n. jval n d (encode_structs xs @ t) = Some (JArr (map (\<lambda>fs. JObj (fields_json fs)) xs), t)"
proof (cases "xs = []")
  case True
  have "jval (Suc 0) d (''[]'' @ t) = Some (JArr [], t)"
    using assms(2) by (simp add: jval.simps skip_ws_def json_space_def)
  with True show ?thesis by (auto simp: encode_structs_def)
next
  case False
  define l where "l = Suc (\<Sum>fs\<leftarrow>xs. length fs)"
  have l: "list_all (\<lambda>fs. length fs < l) xs" by (auto simp: l_def list_all_iff less_Suc_eq_le member_le_sum_list)
  define body where "body = Join (map (\<lambda>fs. newline_indent 1 @ encode_struct 1 fs) xs) '','' @ newline_indent 0 @ CHR '']'' # t"
  have "\<exists>w. body = newline_indent 1 @ CHR ''{'' # w"
    using False by (cases xs; cases "tl xs") (simp_all add: body_def encode_struct_def)
  then obtain w where w: "skip_ws body = CHR ''{'' # w" by auto
  have "jarr (Suc (length xs + l)) (d - 1) body = Some (map (\<lambda>fs. JObj (fields_json fs)) xs, t)"
    unfolding body_def using assms False l by (intro jarr_structs [where l = l]) simp_all
  moreover have "encode_structs xs @ t = CHR ''['' # body" using False by (simp add: encode_structs_def body_def)
  ultimately have "jval (Suc (Suc (length xs + l))) d (encode_structs xs @ t) =
      Some (JArr (map (\<lambda>fs. JObj (fields_json fs)) xs), t)"
    using assms(2) w by (simp add: jval.simps skip_ws_def [of "CHR ''['' # body"] json_space_def)
  then show ?thesis by blast
qed

section \<open>Reading back\<close>

text \<open>
  A struct whose fields and setters agree: what is promised for each type, and what follows for its
  file and for a body that holds it.
\<close>

locale struct_codec =
  fixes fields :: "'a \<Rightarrow> (string \<times> field_value) list"
    and setter :: "'a setter"
    and zero :: 'a
    and ok :: "'a \<Rightarrow> bool"
  assumes fields_readable: "ok x \<Longrightarrow> readable_fields (fields x)"
    and fields_decoded: "ok x \<Longrightarrow> decode_members setter (fields_json (fields x)) zero = Some x"
begin

lemma struct_decoded: "ok x \<Longrightarrow> decode_struct setter zero (JObj (fields_json (fields x))) = Some x"
  by (simp add: decode_struct_def fields_decoded)

lemma slice_decoded:
  "list_all ok xs \<Longrightarrow> decode_slice setter zero (JArr (map (\<lambda>fs. JObj (fields_json fs)) (map fields xs))) = Some xs"
  by (induction xs) (simp_all add: decode_slice_def struct_decoded comp_def)

lemma struct_parsed: "ok x \<Longrightarrow> \<exists>n. jval n 10000 (encode_struct 0 (fields x) @ t) = Some (JObj (fields_json (fields x)), t)"
  using jval_struct [OF fields_readable, of x "Suc (length (fields x))" 10000 0 t] by auto

lemma slice_parsed:
  "list_all ok xs \<Longrightarrow>
    \<exists>n. jval n 10000 (encode_structs (map fields xs) @ t) = Some (JArr (map (\<lambda>fs. JObj (fields_json fs)) (map fields xs)), t)"
  by (rule jval_structs) (auto simp: list_all_iff fields_readable)

lemma parsed_text:
  assumes "\<And>t. \<exists>n. jval n 10000 (s @ t) = Some (v, t)"
  shows "json_parse s = Some v" and "first_value (s @ t) = Some v"
proof -
  obtain n where "jval n 10000 s = Some (v, [])" using assms [of "[]"] by auto
  then show "json_parse s = Some v" by (rule json_parse_complete) simp
  obtain n where n: "jval n 10000 (s @ t) = Some (v, t)" using assms by blast
  have "jval (length (s @ t) + 1) 10000 (s @ t) = Some (v, t)" using json_fuel(1) [OF n] by simp
  then show "first_value (s @ t) = Some v" by (simp add: first_value_def)
qed

lemma struct_file: "ok x \<Longrightarrow> read_file (decode_struct setter zero) e (encode_struct 0 (fields x)) = FileDecoded x"
  using parsed_text(1) [OF struct_parsed] by (simp add: read_file_def encode_struct_def struct_decoded)

lemma slice_file: "list_all ok xs \<Longrightarrow> read_file (decode_slice setter zero) e (encode_structs (map fields xs)) = FileDecoded xs"
  using parsed_text(1) [OF slice_parsed] slice_decoded by (auto simp: read_file_def encode_structs_def split: if_splits)

text \<open>A body may hold anything behind the value, which is not looked at.\<close>

lemma struct_body:
  assumes "ok x" and "length (encode_struct 0 (fields x)) \<le> max_config_body"
  shows "decode_body (decode_struct setter zero) (encode_struct 0 (fields x) @ t) = Some x"
  using parsed_text(2) [OF struct_parsed] assms by (simp add: decode_body_def struct_decoded)

lemma slice_body:
  assumes "list_all ok xs" and "length (encode_structs (map fields xs)) \<le> max_config_body"
  shows "decode_body (decode_slice setter zero) (encode_structs (map fields xs) @ t) = Some xs"
  using parsed_text(2) [OF slice_parsed] slice_decoded assms by (simp add: decode_body_def)

end

end
