(* ===== verification/Config_Codecs.thy ===== *)
theory Config_Codecs
  imports Config_Json_Facts
begin

text \<open>
  The three types of the configuration as providers of \<open>struct_codec\<close>. What is readable is a value
  the program can hold: strings of UTF-8, counters of 64 bits and a rate whose text reads back, as
  that of every float64 does (\<open>strconv\<close> writes the shortest decimal that does).
\<close>

definition int64 :: "int \<Rightarrow> bool" where
  "int64 i \<longleftrightarrow> - (2 ^ 63) \<le> i \<and> i < 2 ^ 63"

definition float_reads_back :: "rat \<Rightarrow> bool" where
  "float_reads_back q \<longleftrightarrow> jnum (json_float q) = Some (json_float q, []) \<and> as_float (JNum (json_float q)) = Some q"

definition rule_readable :: "RuleConfig \<Rightarrow> bool" where
  "rule_readable r \<longleftrightarrow>
     list_all utf8 [r_ID r, r_SourceType r, r_Asset r, r_Category r, r_Severity r, r_Operation r, r_EventType r,
       r_MessageContains r, r_TagKey r, r_TagValue r, r_Action r, r_Notes r] \<and>
     float_reads_back (r_SampleRate r) \<and> int64 (r_DedupWindowSeconds r) \<and> int64 (r_RateLimitPerSecond r)"

definition source_readable :: "SourceConfig \<Rightarrow> bool" where
  "source_readable s \<longleftrightarrow>
     list_all utf8 [s_ID s, s_Name s, s_Type s, s_IP s, s_Protocol s, s_Impact s, s_Zone s, s_Notes s]"

definition forwarding_readable :: "ForwardingConfig \<Rightarrow> bool" where
  "forwarding_readable c \<longleftrightarrow>
     list_all utf8 [fc_DMZCollectorURL c, fc_ForwardQueueStatus c, fc_LastSuccessfulForwardAt c, fc_LastFailedForwardAt c,
       fc_LastForwardAttemptAt c, fc_LastForwardedEventID c, fc_LastFailedEventID c, fc_LastError c] \<and>
     list_all int64 [fc_FailedForwardCount c, fc_SuccessfulForwardCount c, fc_QueuedCount c, fc_InFlightCount c]"

lemma as_int_Itoa: "int64 i \<Longrightarrow> as_int (JNum (Itoa_int i)) = Some i"
  by (simp add: as_int_def int64_def Atoi_Itoa_int)

lemma typed_values:
  "typed as_string upd (JStr s) x = Some (upd s x)" "typed as_bool upd' (JBool b) x = Some (upd' b x)"
  "int64 i \<Longrightarrow> typed as_int upd'' (JNum (Itoa_int i)) x = Some (upd'' i x)"
  "as_float (JNum f) = Some q \<Longrightarrow> typed as_float upd''' (JNum f) x = Some (upd''' q x)"
  "pointer as_bool upd'''' (JBool b) x = Some (upd'''' (Some b) x)"
  by (simp_all add: typed_def pointer_def as_string_def as_bool_def as_int_Itoa)

lemma utf8_literal: "list_all (\<lambda>c. (of_char c :: int) < 128) s \<Longrightarrow> utf8 s"
  by (rule utf8_ascii)

section \<open>Names\<close>

lemma rule_setters:
  "rule_setter (ToLower ''id'') = Some (typed as_string (\<lambda>y r. r\<lparr>r_ID := y\<rparr>))"
  "rule_setter (ToLower ''enabled'') = Some (typed as_bool (\<lambda>y r. r\<lparr>r_Enabled := y\<rparr>))"
  "rule_setter (ToLower ''source_type'') = Some (typed as_string (\<lambda>y r. r\<lparr>r_SourceType := y\<rparr>))"
  "rule_setter (ToLower ''asset'') = Some (typed as_string (\<lambda>y r. r\<lparr>r_Asset := y\<rparr>))"
  "rule_setter (ToLower ''category'') = Some (typed as_string (\<lambda>y r. r\<lparr>r_Category := y\<rparr>))"
  "rule_setter (ToLower ''severity'') = Some (typed as_string (\<lambda>y r. r\<lparr>r_Severity := y\<rparr>))"
  "rule_setter (ToLower ''operation'') = Some (typed as_string (\<lambda>y r. r\<lparr>r_Operation := y\<rparr>))"
  "rule_setter (ToLower ''event_type'') = Some (typed as_string (\<lambda>y r. r\<lparr>r_EventType := y\<rparr>))"
  "rule_setter (ToLower ''message_contains'') = Some (typed as_string (\<lambda>y r. r\<lparr>r_MessageContains := y\<rparr>))"
  "rule_setter (ToLower ''tag_key'') = Some (typed as_string (\<lambda>y r. r\<lparr>r_TagKey := y\<rparr>))"
  "rule_setter (ToLower ''tag_value'') = Some (typed as_string (\<lambda>y r. r\<lparr>r_TagValue := y\<rparr>))"
  "rule_setter (ToLower ''action'') = Some (typed as_string (\<lambda>y r. r\<lparr>r_Action := y\<rparr>))"
  "rule_setter (ToLower ''sample_rate'') = Some (typed as_float (\<lambda>y r. r\<lparr>r_SampleRate := y\<rparr>))"
  "rule_setter (ToLower ''forward_to_dmz'') = Some (typed as_bool (\<lambda>y r. r\<lparr>r_ForwardToDMZ := y\<rparr>))"
  "rule_setter (ToLower ''store_locally'') = Some (typed as_bool (\<lambda>y r. r\<lparr>r_StoreLocally := y\<rparr>))"
  "rule_setter (ToLower ''show_in_ui'') = Some (pointer as_bool (\<lambda>y r. r\<lparr>r_ShowInUI := y\<rparr>))"
  "rule_setter (ToLower ''dedup_window_seconds'') = Some (typed as_int (\<lambda>y r. r\<lparr>r_DedupWindowSeconds := y\<rparr>))"
  "rule_setter (ToLower ''rate_limit_per_second'') = Some (typed as_int (\<lambda>y r. r\<lparr>r_RateLimitPerSecond := y\<rparr>))"
  "rule_setter (ToLower ''notes'') = Some (typed as_string (\<lambda>y r. r\<lparr>r_Notes := y\<rparr>))"
  by (simp_all add: rule_setter_def ToLower_def)

lemma source_setters:
  "source_setter (ToLower ''id'') = Some (typed as_string (\<lambda>y s. s\<lparr>s_ID := y\<rparr>))"
  "source_setter (ToLower ''name'') = Some (typed as_string (\<lambda>y s. s\<lparr>s_Name := y\<rparr>))"
  "source_setter (ToLower ''type'') = Some (typed as_string (\<lambda>y s. s\<lparr>s_Type := y\<rparr>))"
  "source_setter (ToLower ''ip'') = Some (typed as_string (\<lambda>y s. s\<lparr>s_IP := y\<rparr>))"
  "source_setter (ToLower ''protocol'') = Some (typed as_string (\<lambda>y s. s\<lparr>s_Protocol := y\<rparr>))"
  "source_setter (ToLower ''impact'') = Some (typed as_string (\<lambda>y s. s\<lparr>s_Impact := y\<rparr>))"
  "source_setter (ToLower ''zone'') = Some (typed as_string (\<lambda>y s. s\<lparr>s_Zone := y\<rparr>))"
  "source_setter (ToLower ''enabled'') = Some (typed as_bool (\<lambda>y s. s\<lparr>s_Enabled := y\<rparr>))"
  "source_setter (ToLower ''forward_enabled'') = Some (typed as_bool (\<lambda>y s. s\<lparr>s_ForwardEnabled := y\<rparr>))"
  "source_setter (ToLower ''notes'') = Some (typed as_string (\<lambda>y s. s\<lparr>s_Notes := y\<rparr>))"
  by (simp_all add: source_setter_def ToLower_def)

lemma forwarding_setters:
  "forwarding_setter (ToLower ''dmz_collector_url'') = Some (typed as_string (\<lambda>y c. c\<lparr>fc_DMZCollectorURL := y\<rparr>))"
  "forwarding_setter (ToLower ''enabled'') = Some (typed as_bool (\<lambda>y c. c\<lparr>fc_Enabled := y\<rparr>))"
  "forwarding_setter (ToLower ''forward_only_filtered_events'') = Some (typed as_bool (\<lambda>y c. c\<lparr>fc_ForwardOnlyFiltered := y\<rparr>))"
  "forwarding_setter (ToLower ''forward_queue_status'') = Some (typed as_string (\<lambda>y c. c\<lparr>fc_ForwardQueueStatus := y\<rparr>))"
  "forwarding_setter (ToLower ''failed_forward_count'') = Some (typed as_int (\<lambda>y c. c\<lparr>fc_FailedForwardCount := y\<rparr>))"
  "forwarding_setter (ToLower ''successful_forward_count'') = Some (typed as_int (\<lambda>y c. c\<lparr>fc_SuccessfulForwardCount := y\<rparr>))"
  "forwarding_setter (ToLower ''last_successful_forward_time'') = Some (typed as_string (\<lambda>y c. c\<lparr>fc_LastSuccessfulForwardAt := y\<rparr>))"
  "forwarding_setter (ToLower ''last_failed_forward_time'') = Some (typed as_string (\<lambda>y c. c\<lparr>fc_LastFailedForwardAt := y\<rparr>))"
  "forwarding_setter (ToLower ''last_forward_attempt_at'') = Some (typed as_string (\<lambda>y c. c\<lparr>fc_LastForwardAttemptAt := y\<rparr>))"
  "forwarding_setter (ToLower ''last_forwarded_event_id'') = Some (typed as_string (\<lambda>y c. c\<lparr>fc_LastForwardedEventID := y\<rparr>))"
  "forwarding_setter (ToLower ''last_failed_event_id'') = Some (typed as_string (\<lambda>y c. c\<lparr>fc_LastFailedEventID := y\<rparr>))"
  "forwarding_setter (ToLower ''last_error'') = Some (typed as_string (\<lambda>y c. c\<lparr>fc_LastError := y\<rparr>))"
  "forwarding_setter (ToLower ''queued_count'') = Some (typed as_int (\<lambda>y c. c\<lparr>fc_QueuedCount := y\<rparr>))"
  "forwarding_setter (ToLower ''in_flight_count'') = Some (typed as_int (\<lambda>y c. c\<lparr>fc_InFlightCount := y\<rparr>))"
  by (simp_all add: forwarding_setter_def ToLower_def)

section \<open>The providers\<close>

lemma rule_fields_readable: "rule_readable r \<Longrightarrow> readable_fields (rule_fields r)"
  by (auto simp: rule_readable_def readable_fields_def rule_fields_def float_reads_back_def utf8_literal split: option.split)

lemma rule_fields_decoded: "rule_readable r \<Longrightarrow> decode_members rule_setter (fields_json (rule_fields r)) zero_rule = Some r"
  by (cases "r_ShowInUI r")
    (simp_all add: rule_readable_def rule_fields_def float_reads_back_def rule_setters typed_values zero_rule_def)

lemma source_fields_readable: "source_readable s \<Longrightarrow> readable_fields (source_fields s)"
  by (auto simp: source_readable_def readable_fields_def source_fields_def utf8_literal)

lemma source_fields_decoded:
  "source_readable s \<Longrightarrow> decode_members source_setter (fields_json (source_fields s)) zero_config_source = Some s"
  by (simp add: source_readable_def source_fields_def source_setters typed_values zero_config_source_def)

lemma forwarding_fields_readable: "forwarding_readable c \<Longrightarrow> readable_fields (forwarding_fields c)"
  by (auto simp: forwarding_readable_def readable_fields_def forwarding_fields_def utf8_literal)

lemma forwarding_fields_decoded:
  "forwarding_readable c \<Longrightarrow> decode_members forwarding_setter (fields_json (forwarding_fields c)) zero_forwarding = Some c"
  by (simp add: forwarding_readable_def forwarding_fields_def forwarding_setters typed_values zero_forwarding_def)

interpretation rules_json: struct_codec rule_fields rule_setter zero_rule rule_readable
  by unfold_locales (fact rule_fields_readable rule_fields_decoded)+

interpretation sources_json: struct_codec source_fields source_setter zero_config_source source_readable
  by unfold_locales (fact source_fields_readable source_fields_decoded)+

interpretation forwarding_json: struct_codec forwarding_fields forwarding_setter zero_forwarding forwarding_readable
  by unfold_locales (fact forwarding_fields_readable forwarding_fields_decoded)+

section \<open>The default rates\<close>

lemma first_of_candidates:
  "first_candidate q [Suc 0..<18] = (case decimal_candidate q 1 of Some c \<Rightarrow> c | None \<Rightarrow> first_candidate q [2..<18])"
  "first_candidate q [2..<18] = (case decimal_candidate q 2 of Some c \<Rightarrow> c | None \<Rightarrow> first_candidate q [3..<18])"
proof -
  have "[Suc 0..<18] = 1 # [2..<18]" "[2..<18::nat] = 2 # [3..<18]" by (simp_all add: upt_rec)
  then show "first_candidate q [Suc 0..<18] = (case decimal_candidate q 1 of Some c \<Rightarrow> c | None \<Rightarrow> first_candidate q [2..<18])"
    "first_candidate q [2..<18] = (case decimal_candidate q 2 of Some c \<Rightarrow> c | None \<Rightarrow> first_candidate q [3..<18])"
    by (simp_all only: first_candidate.simps)
qed

lemma digit_chars:
  "(char_of (48::nat) :: char) = CHR ''0''" "(char_of (49::nat) :: char) = CHR ''1''" "(char_of (50::nat) :: char) = CHR ''2''"
  "(char_of (51::nat) :: char) = CHR ''3''" "(char_of (53::nat) :: char) = CHR ''5''"
  by code_simp+

lemma rate_floats:
  "f64 1 = Some 1" "f64 (1 / 50) = Some (5764607523034235 / 288230376151711744)"
  "f64 (1 / 20) = Some (3602879701896397 / 72057594037927936)" "f64 (1 / 10) = Some (3602879701896397 / 36028797018963968)"
  "f64 (1 / 5) = Some (3602879701896397 / 18014398509481984)" "f64 (1 / 4) = Some (1 / 4)"
  "f64 (3 / 10) = Some (5404319552844595 / 18014398509481984)"
  by (simp_all add: f64_eval)

lemma rate_exponents:
  "decimal_exponent 1 = 1" "decimal_exponent (5764607523034235 / 288230376151711744) = - 1"
  "decimal_exponent (3602879701896397 / 72057594037927936) = - 1" "decimal_exponent (3602879701896397 / 36028797018963968) = 0"
  "decimal_exponent (3602879701896397 / 18014398509481984) = 0" "decimal_exponent (1 / 4) = 0"
  "decimal_exponent (5404319552844595 / 18014398509481984) = 0"
  by (simp_all add: decimal_exponent_def eval_simps Itoa.simps)

lemma rate_candidates:
  "decimal_candidate 1 1 = Some (1, 0)" "decimal_candidate (5764607523034235 / 288230376151711744) 1 = Some (2, - 2)"
  "decimal_candidate (3602879701896397 / 72057594037927936) 1 = Some (5, - 2)"
  "decimal_candidate (3602879701896397 / 36028797018963968) 1 = Some (1, - 1)"
  "decimal_candidate (3602879701896397 / 18014398509481984) 1 = Some (2, - 1)"
  "decimal_candidate (1 / 4) 1 = None" "decimal_candidate (1 / 4) 2 = Some (25, - 2)"
  "decimal_candidate (5404319552844595 / 18014398509481984) 1 = Some (3, - 1)"
  by (simp_all add: decimal_candidate_def rate_exponents pow10_def rate_floats round_half_even_def eval_simps)

lemma rate_texts:
  "json_float 1 = ''1''" "json_float (5764607523034235 / 288230376151711744) = ''0.02''"
  "json_float (3602879701896397 / 72057594037927936) = ''0.05''" "json_float (3602879701896397 / 36028797018963968) = ''0.1''"
  "json_float (3602879701896397 / 18014398509481984) = ''0.2''" "json_float (1 / 4) = ''0.25''"
  "json_float (5404319552844595 / 18014398509481984) = ''0.3''"
  by (simp_all add: json_float_def shortest_digits_def first_of_candidates [unfolded One_nat_def]
      rate_candidates [unfolded One_nat_def] Let_def Itoa.simps [of "Suc 0"] Itoa.simps [of 2]
      Itoa.simps [of 3] Itoa.simps [of 5] Itoa.simps [of 25] pow10_def float_f_def zeros_def digit_chars)

lemma rate_literals:
  "jnum ''1'' = Some (''1'', [])" "jnum ''0.02'' = Some (''0.02'', [])" "jnum ''0.05'' = Some (''0.05'', [])"
  "jnum ''0.1'' = Some (''0.1'', [])" "jnum ''0.2'' = Some (''0.2'', [])" "jnum ''0.25'' = Some (''0.25'', [])"
  "jnum ''0.3'' = Some (''0.3'', [])"
  by (simp_all add: jnum_def Let_def take_if_def digits_of_def isDigit_def)

lemma rate_values:
  "literal_value ''1'' = 1" "literal_value ''0.02'' = 1 / 50" "literal_value ''0.05'' = 1 / 20" "literal_value ''0.1'' = 1 / 10"
  "literal_value ''0.2'' = 1 / 5" "literal_value ''0.25'' = 1 / 4" "literal_value ''0.3'' = 3 / 10"
  by (simp_all add: literal_value_def literal_sign_def digits_of_def isDigit_def take_if_def digit_val_def Let_def)

lemma default_rates_read_back:
  "float_reads_back 1" "float_reads_back (go_float (1 / 50))" "float_reads_back (go_float (1 / 20))"
  "float_reads_back (go_float (1 / 5))" "float_reads_back (go_float (1 / 10))" "float_reads_back (go_float (1 / 4))"
  "float_reads_back (go_float (3 / 10))"
  by (simp_all add: go_float_def rate_floats float_reads_back_def rate_texts rate_literals as_float_def parse_float_def
      rate_values literal_sign_def)

lemma default_rules_readable: "list_all rule_readable defaultRules"
  by (simp add: defaultRules_def base_rule_def rule_readable_def utf8_literal int64_def default_rates_read_back)

lemma default_sources_readable: "list_all source_readable defaultSources"
  by (simp add: defaultSources_def base_source_def source_readable_def utf8_literal)

end
