(* ===== verification/Restart.thy ===== *)
theory Restart
  imports Collector_Properties Config_Codecs Request_Properties
begin

text \<open>
  The configuration between two runs of the process: the bytes the stores have written are what the
  next start reads.
\<close>

text \<open>The files of a collector and its events as the next start finds them.\<close>

definition restart_io :: "string \<Rightarrow> Collector \<Rightarrow> start_io" where
  "restart_io e c =
     \<lparr>io_source_mkdir = None,
      io_source_read = (case st_disk (api_sources (co_api c)) of None \<Rightarrow> FileNotExist
        | Some xs \<Rightarrow> read_file decode_sources e (sources_text xs)),
      io_source_write = Written,
      io_rule_mkdir = None,
      io_rule_read = (case st_disk (api_rules (co_api c)) of None \<Rightarrow> FileNotExist
        | Some rs \<Rightarrow> read_file decode_rules e (rules_text rs)),
      io_rule_write = Written,
      io_fwd_mkdir = None,
      io_fwd_read = (case st_disk (pr_cfg (api_proc (co_api c))) of None \<Rightarrow> FileNotExist
        | Some s \<Rightarrow> read_file decode_forwarding e (forwarding_text s)),
      io_fwd_write = Written,
      io_events = pr_store (api_proc (co_api c)), io_listen_udp = None, io_listen_tcp = None, io_listen_http = None\<rparr>"

text \<open>A store whose last write succeeded.\<close>

definition saved :: "'a store \<Rightarrow> bool" where
  "saved s \<longleftrightarrow> st_disk s = Some (st_data s)"

lemma NewRuleStore_loaded:
  "NewRuleStore None (FileDecoded rs) Written =
     (let d = sanitizeRules (if rs = [] then defaultRules else rs) in Inr \<lparr>st_data = d, st_disk = Some d\<rparr>)"
  by (simp add: NewRuleStore_def RuleStore_loadOrInit_def RuleStore_persistLocked_def persist_def Let_def)

lemma NewSourceStore_loaded:
  "NewSourceStore None (FileDecoded xs) Written =
     (let d = sanitizeSources (if xs = [] then defaultSources else xs) in Inr \<lparr>st_data = d, st_disk = Some d\<rparr>)"
  by (simp add: NewSourceStore_def SourceStore_loadOrInit_def SourceStore_persistLocked_def persist_def Let_def)

lemma NewForwardingStore_loaded:
  "NewForwardingStore None (FileDecoded s) Written =
     (let d = (queue_status_ok s)\<lparr>fc_QueuedCount := 0, fc_InFlightCount := 0\<rparr> in Inr \<lparr>st_data = d, st_disk = Some d\<rparr>)"
  by (simp add: NewForwardingStore_def ForwardingStore_loadOrInit_def ForwardingStore_persistLocked_def persist_def Let_def)

lemma sanitize_fixed:
  "rules.well_formed rs \<Longrightarrow> sanitizeRules (if rs = [] then defaultRules else rs) = (if rs = [] then defaultRules else rs)"
  "srcs.well_formed xs \<Longrightarrow> sanitizeSources (if xs = [] then defaultSources else xs) = (if xs = [] then defaultSources else xs)"
  using rules.replace_fixed [of rs] rules.replace_fixed [OF default_rules_sanitized]
    srcs.replace_fixed [of xs] srcs.replace_fixed [OF default_sources_sanitized] by simp_all

section \<open>Properties\<close>

text \<open>C21: A restart keeps the configuration: when a collector that has run through anything is stopped after
  its stores were saved, the next start reads from the bytes of the three files the same rules, the
  same sources and the same forwarding settings and counters, the engine runs these rules, and the
  events are those of the file; except that a store that was emptied comes back with the defaults.\<close>

theorem restart_keeps_configuration:
  assumes "creachable c" and "saved (api_rules (co_api c))" and "saved (api_sources (co_api c))"
    and "saved (pr_cfg (api_proc (co_api c)))"
    and "list_all rule_readable (RuleStore_All (api_rules (co_api c)))"
    and "list_all source_readable (SourceStore_All (api_sources (co_api c)))"
    and "forwarding_readable (ForwardingStore_Get (pr_cfg (api_proc (co_api c))))"
  shows "\<exists>c'. start_collector cfg (restart_io e c) = Inr c' \<and>
    RuleStore_All (api_rules (co_api c')) =
      (if RuleStore_All (api_rules (co_api c)) = [] then defaultRules else RuleStore_All (api_rules (co_api c))) \<and>
    CurrentRules (api_proc (co_api c')) = RuleStore_All (api_rules (co_api c')) \<and>
    SourceStore_All (api_sources (co_api c')) =
      (if SourceStore_All (api_sources (co_api c)) = [] then defaultSources else SourceStore_All (api_sources (co_api c))) \<and>
    ForwardingStore_Get (pr_cfg (api_proc (co_api c'))) =
      (queue_status_ok (ForwardingStore_Get (pr_cfg (api_proc (co_api c)))))\<lparr>fc_QueuedCount := 0, fc_InFlightCount := 0\<rparr> \<and>
    pr_store (api_proc (co_api c')) = pr_store (api_proc (co_api c))"
proof -
  let ?r = "RuleStore_All (api_rules (co_api c))" and ?s = "SourceStore_All (api_sources (co_api c))"
    and ?f = "ForwardingStore_Get (pr_cfg (api_proc (co_api c)))"
  have well_formed: "rules.well_formed ?r" "srcs.well_formed ?s"
    using creachable_ok [OF assms(1)] by (auto simp: coll_ok_def stores_ok_def)
  have reads: "io_rule_read (restart_io e c) = FileDecoded ?r" "io_source_read (restart_io e c) = FileDecoded ?s"
    "io_fwd_read (restart_io e c) = FileDecoded ?f"
    using assms rules_json.slice_file sources_json.slice_file forwarding_json.struct_file
    by (simp_all add: restart_io_def saved_def RuleStore_All_def SourceStore_All_def ForwardingStore_Get_def rules_text_def
        sources_text_def forwarding_text_def decode_rules_def decode_sources_def decode_forwarding_def)
  have io: "io_rule_mkdir (restart_io e c) = None" "io_rule_write (restart_io e c) = Written"
    "io_source_mkdir (restart_io e c) = None" "io_source_write (restart_io e c) = Written"
    "io_fwd_mkdir (restart_io e c) = None" "io_fwd_write (restart_io e c) = Written"
    "io_events (restart_io e c) = pr_store (api_proc (co_api c))"
    by (simp_all add: restart_io_def)
  show ?thesis
    unfolding start_collector_def reads io NewRuleStore_loaded NewSourceStore_loaded NewForwardingStore_loaded
      sanitize_fixed(1) [OF well_formed(1)] sanitize_fixed(2) [OF well_formed(2)]
    by (simp add: Let_def launch_def New_API_def start_processor_def RuleStore_All_def SourceStore_All_def
        ForwardingStore_Get_def CurrentRules_def Rules_def SetRules_def)
qed

text \<open>The first start of the witnesses' collector, which finds no files.\<close>

definition probe_forwarding :: ForwardingConfig where
  "probe_forwarding = zero_forwarding\<lparr>fc_ForwardOnlyFiltered := True, fc_ForwardQueueStatus := ''ok''\<rparr>"

lemma probe_start_stores:
  "\<exists>a. probe_running [] = launch probe_io a \<and> api_rules a = \<lparr>st_data = defaultRules, st_disk = Some defaultRules\<rparr> \<and>
     api_sources a = \<lparr>st_data = defaultSources, st_disk = Some defaultSources\<rparr> \<and>
     pr_cfg (api_proc a) = \<lparr>st_data = probe_forwarding, st_disk = Some probe_forwarding\<rparr>"
proof -
  have "NewSourceStore None FileNotExist Written = Inr \<lparr>st_data = defaultSources, st_disk = Some defaultSources\<rparr>"
    by (simp add: NewSourceStore_def SourceStore_loadOrInit_def SourceStore_persistLocked_def persist_def)
  moreover have "NewRuleStore None FileNotExist Written = Inr \<lparr>st_data = defaultRules, st_disk = Some defaultRules\<rparr>"
    by (simp add: NewRuleStore_def RuleStore_loadOrInit_def RuleStore_persistLocked_def persist_def)
  moreover have "NewForwardingStore None FileNotExist Written = Inr \<lparr>st_data = probe_forwarding, st_disk = Some probe_forwarding\<rparr>"
    by (simp add: NewForwardingStore_def ForwardingStore_loadOrInit_def ForwardingStore_persistLocked_def persist_def probe_forwarding_def)
  moreover have "io_source_mkdir probe_io = None" "io_source_read probe_io = FileNotExist" "io_source_write probe_io = Written"
    "io_rule_mkdir probe_io = None" "io_rule_read probe_io = FileNotExist" "io_rule_write probe_io = Written"
    "io_fwd_mkdir probe_io = None" "io_fwd_read probe_io = FileNotExist" "io_fwd_write probe_io = Written"
    by (simp_all add: probe_io_def)
  ultimately show ?thesis
    by (simp add: probe_running_def start_collector_def launch_def New_API_def start_processor_def)
qed

theorem restart_keeps_configuration_witness:
  "\<exists>c'. start_collector probe_config (restart_io ''bad'' (probe_running [])) = Inr c' \<and>
     RuleStore_All (api_rules (co_api c')) = defaultRules \<and> SourceStore_All (api_sources (co_api c')) = defaultSources"
proof -
  obtain a where a: "probe_running [] = launch probe_io a" "api_rules a = \<lparr>st_data = defaultRules, st_disk = Some defaultRules\<rparr>"
    "api_sources a = \<lparr>st_data = defaultSources, st_disk = Some defaultSources\<rparr>"
    "pr_cfg (api_proc a) = \<lparr>st_data = probe_forwarding, st_disk = Some probe_forwarding\<rparr>"
    using probe_start_stores by blast
  then have api: "co_api (probe_running []) = a" by (simp add: launch_def)
  have f: "forwarding_readable probe_forwarding"
    by (simp add: probe_forwarding_def zero_forwarding_def forwarding_readable_def utf8_literal int64_def)
  have "defaultRules \<noteq> []" "defaultSources \<noteq> []" by (simp_all add: defaultRules_def defaultSources_def)
  then show ?thesis
    using restart_keeps_configuration [OF probe_running_start, of probe_config "''bad''"] default_rules_readable
      default_sources_readable f
    by (auto simp: api a(2-4) saved_def RuleStore_All_def SourceStore_All_def ForwardingStore_Get_def)
qed

end
