(* ===== verification/Spec2Isabelle.thy ===== *)
theory Spec2Isabelle
  imports Engine_Properties Forward_Queue_Facts Sources_Config Forwarding_Config Go_Regexp Go_Time_Facts
    Jsonl_Properties Stats Stream_Hub Syslog_Properties Syslog_Input Source_Facts Tag_Keys Filterlog_Properties
    Event_Id Processor_Properties Api_Properties Go_Json_Fuel Ingest_Steps Event_Stream Rule_Edits Collector_Properties
    Request_Properties Restart
begin

text \<open>
  A verification development for \<open>ot_collector\<close>, a collector of logs in an industrial network. Lines
  arrive over syslog (UDP or TCP) or events over HTTP; each is parsed, normalised to one event format,
  decided upon by a matrix of rules, appended to a file, shown to the clients of an event stream and
  handed to a queue that forwards it to a collector in the DMZ.

  \<^bold>\<open>The path of an event.\<close>
  \<open>syslog.Parse\<close> reads a line (\<open>Syslog_Parser\<close>, framed by the listeners of \<open>Syslog_Input\<close>);
  \<open>normalizer.FromParsed\<close> makes an event of it in one of three ways: from a JSON object
  (\<open>Telemetry\<close>), from a packet-filter record (\<open>Filterlog\<close>, with \<open>Go_Csv\<close>) or from the text
  (\<open>Opcua_Patterns\<close>), and \<open>normalizers.Apply\<close> runs the seven source-specific passes
  (\<open>Source_Normalizers\<close>); \<open>Normalizer\<close> is the composition. \<open>Processor.ingest\<close>
  (\<open>Processor\<close>) fills in defaults, asks the engine (\<open>Filter_Engine\<close>), writes the decision
  into the tags, and drops, stores (\<open>Jsonl_Store\<close>), counts (\<open>Stats\<close>), publishes
  (\<open>Stream_Hub\<close>) and enqueues (\<open>Forward_Queue\<close>) the event. A worker of the queue later sends it
  (\<open>Forwarder\<close>) and its result is counted. The HTTP handlers (\<open>Api\<close>, \<open>Api_Config\<close>), which
  \<open>Requests\<close> reaches from the path and the bytes of a request, read and change all of this, including the stores of rules, sources and forwarding settings
  (\<open>Rules_Config\<close>, \<open>Sources_Config\<close>, \<open>Forwarding_Config\<close> over \<open>Config_Store\<close>).
  \<open>main\<close> (\<open>Collector\<close>) opens the stores and runs the listeners (\<open>Listeners\<close>), the consumer of
  their channel and the HTTP server (\<open>Api_Steps\<close>) beside each other until the context is done.

  \<^bold>\<open>Theories and sources.\<close>
  \<^item> \<open>Prelude\<close>: Go maps and shared lemmas. \<open>Go_Strings\<close>, \<open>Go_Regexp\<close>, \<open>Go_Float\<close>,
    \<open>Go_Float_Text\<close>, \<open>Go_Time\<close>, \<open>Go_Json\<close>, \<open>Go_Json_Fuel\<close>, \<open>Go_Csv\<close>: what the program uses of Go's library.
  \<^item> \<open>Event\<close>, \<open>Event_Id\<close>: \<open>internal/event/model.go\<close>.
  \<^item> \<open>Syslog_Parser\<close>, \<open>Syslog_Input\<close>, \<open>Syslog_Properties\<close>, \<open>Listeners\<close>: \<open>internal/syslog\<close>.
  \<^item> \<open>Telemetry\<close>, \<open>Filterlog\<close>, \<open>Opcua_Patterns\<close>, \<open>Normalizer\<close>, \<open>Tag_Keys\<close>,
    \<open>Filterlog_Properties\<close>: \<open>internal/normalizer\<close>.
  \<^item> \<open>Source_Normalizers\<close>, \<open>Source_Facts\<close>: \<open>internal/normalizers\<close>.
  \<^item> \<open>Filter_Engine\<close>, \<open>Engine_Facts\<close>, \<open>Engine_Defaults\<close>, \<open>Engine_Properties\<close>: \<open>internal/filter\<close>.
  \<^item> \<open>Config_Store\<close>, \<open>Rules_Config\<close>, \<open>Sources_Config\<close>, \<open>Forwarding_Config\<close>, and their JSON in
    \<open>Config_Json\<close>, \<open>Config_Json_Facts\<close>, \<open>Config_Codecs\<close>:
    \<open>internal/config\<close> and \<open>internal/sources\<close>.
  \<^item> \<open>Forwarder\<close>, \<open>Forward_Queue\<close>, \<open>Forward_Queue_Facts\<close>: \<open>internal/forwarder\<close>.
  \<^item> \<open>Jsonl_Store\<close>, \<open>Jsonl_Facts\<close>, \<open>Jsonl_Properties\<close>: \<open>internal/storage\<close>.
  \<^item> \<open>Stats\<close>, \<open>Processor\<close>, \<open>Processor_Facts\<close>, \<open>Processor_Properties\<close>, \<open>Ingest_Steps\<close>,
    \<open>Collector\<close>, \<open>Collector_Facts\<close>, \<open>Collector_Runs\<close>, \<open>Collector_Properties\<close>: \<open>cmd/ot-collector\<close>.
  \<^item> \<open>Stream_Hub\<close>, \<open>Api\<close>, \<open>Api_Config\<close>, \<open>Api_Properties\<close>, \<open>Api_Steps\<close>, \<open>Event_Stream\<close>,
    \<open>Rule_Edits\<close>, \<open>Requests\<close>, \<open>Request_Properties\<close>: \<open>internal/api\<close>. \<open>Restart\<close>: two runs of the process.
\<close>

text \<open>
  \<^bold>\<open>Conventions of the model.\<close> A string is its list of bytes; case folding and white space are the
  ASCII ones. A Go map is an association list observed through its lookups; where the program
  ranges over a map, the order is an argument. The \<open>Tags\<close> of an event may be the nil map, and
  writing to it is a panic, the value \<open>None\<close>. An \<open>int\<close> is a HOL integer; the one product that can
  leave 64 bits, the duplicate window in nanoseconds, wraps (\<open>seconds_duration\<close>), \<open>time.Sub\<close>
  saturates, and a float conversion out of range gives an arbitrary argument \<open>oob\<close>. A float64 is the
  rational it denotes, rounded to nearest even after each operation. Clock readings, random
  identifiers, and the outcome of each file and network access are arguments, so every error branch is
  a branch of the model. Mutexes make the operations
  of a component atomic. What is not atomic is a transition system of its own: the queue, at the grain
  of its channel operations and atomic counters (\<open>qstep\<close>); ingestion, call by call of its
  components (\<open>istep\<close>); the edit of a rule, between the store and the engine (\<open>edit_turn\<close>); the
  session of a stream client (\<open>session_turn\<close>); a connection (\<open>conn_step\<close>). The running
  collector (\<open>cstep\<close>) interleaves the turns of its goroutines; there a processed log, a request and
  the sending of one task are single steps, which the finer systems refine or supplement. Fields whose
  names begin with \<open>h_\<close> record history and decide nothing.

  \<^bold>\<open>Bounds and recursion.\<close> The JSON and CSV readers and the matcher of regular expressions recurse
  on the text they still have; where the recursion is not structural the bound is the length of that
  text (for JSON, \<open>Go_Json_Fuel\<close> proves that what any fuel can parse is parsed with one unit for each
  byte). Every definition is total, and a panic or an error is a value; that no line makes the collector
  panic is a property of \<open>Processor_Properties\<close>.

  \<^bold>\<open>Interfaces.\<close>
  \<^item> \<open>map_store\<close> (\<open>Prelude\<close>): lookup after insert and delete, provided by the Go maps.
  \<^item> \<open>config_store\<close> (\<open>Config_Store\<close>): what the stores of rules and of sources share, provided by both.
  \<^item> \<open>keyed_gate\<close> (\<open>Engine_Facts\<close>): a gate with one state per key, provided by the rate limiter, the
    duplicate window and the sampler.
  \<^item> \<open>record_codec\<close> (\<open>Jsonl_Facts\<close>): records written on lines and read back, provided by the JSON
    codec of events.
  \<^item> \<open>struct_codec\<close> (\<open>Config_Json_Facts\<close>): structs whose written fields and setters agree, provided by
    the rules, the sources and the forwarding settings.

  \<^bold>\<open>What the properties show.\<close>
  \<^item> Engine: \<open>Evaluate\<close> refines the first-match specification; the rate limiter, duplicate window and
    sampler admit exactly what their rule says; under the default matrix security and critical
    events are always stored and forwarded and only named noise can be dropped.
  \<^item> Queue: over all interleavings tasks are conserved, bounded and never sent stale; every task can
    be finished; a shutdown leaves the waiting ones behind.
  \<^item> Store: an appended event is read back; a query returns the last matches; a repair keeps every
    query's answer, is idempotent and changes nothing when it fails; a short write costs the next event.
  \<^item> Parsing and normalisation: a well-formed RFC 5424 line is read back field by field;
    normalisation is total and keeps the evidence; no secret becomes a tag; a blocked or
    rejected packet to a critical port becomes a security event.
  \<^item> Processor: run alone an ingestion computes \<open>ingest\<close>; however ingestions are interleaved, the
    counters, the queue and the stream agree with what happened, and only events the rules decided to
    forward are queued.
  \<^item> Collector: its channel loses and reorders nothing; a connection delivers the lines of its stream;
    every received line can be processed; its stores stay valid; it can always end, and what waits in
    the channel then is lost.
  \<^item> Restart: the files the stores write are read back by the next start as the same configuration,
    except that an emptied store gets the defaults back.
  \<^item> Interface: every request is answered whatever its bytes; a batch is accepted as a whole or rejected
    as a whole; a refused request changes nothing; an edited rule is in force at once, unless another edit runs at the same time; a stream
    client reads back what was published, in order.

  \<^bold>\<open>Not modelled.\<close> The sockets and the HTTP library: which bytes, errors and requests they give are
  inputs of the steps. Response headers, the file server and the log output carry no state. \<open>Path()\<close> only
  returns a constant. The web interface and the deployment files hold no program logic of this language.
\<close>

end
